(* ===== verification/Prelude.thy ===== *)
theory Prelude
  imports
    Main
    "HOL-Library.State_Monad"
    "HOL-Library.Sublist"
    "HOL-Library.Word"
begin

section \<open>Prelude: Go calls as state transformers with an outcome\<close>

text \<open>
  What every component of the development shares.

  A Go function of the controller reads and writes a state (the API server, a database
  server, the object a pointer refers to) and returns a value or an error, or it panics.
  The model of such a function is a program of HOL-Library's state monad whose result is an
  \<open>outcome\<close>: \<open>Ok\<close> of the value (the error returned is nil), \<open>Err\<close> of the error
  returned, or \<open>Panic\<close> of a run-time panic, which no branch of the code below handles.

  Errors keep what the code looks at: the text of \<open>err.Error()\<close>, the chain of wrapped
  errors that \<open>fmt.Errorf\<close> builds with \<open>%w\<close>, and the kind of the error at the end of
  the chain, which \<open>errors.As\<close>, \<open>errors.Is\<close> and \<open>apierrors.IsNotFound\<close> inspect.

  \<open>post m s Q\<close> says that running \<open>m\<close> from \<open>s\<close> ends with a result and a state that
  satisfy \<open>Q\<close>; its rules in the collection \<open>post_rules\<close> push it through the control
  flow, so a proof about a handler is the composition of the facts about its calls.
\<close>

named_theorems post_rules "rules that push post through the control flow of a program"

subsection \<open>Errors\<close>

text \<open>
  The errors the code distinguishes. \<open>PlainError\<close> is an error made by \<open>errors.New\<close> or
  by \<open>fmt.Errorf\<close> without \<open>%w\<close>, or one of a library that no branch looks into.
\<close>

datatype error_kind =
    PlainError
  | ApiNotFound
  | SqlErrNoRows
  | MongoErrNoDocuments
  | MySQLError nat
  | PqError string

datatype go_error = BaseError error_kind string | Wrapped string go_error

text \<open>\<open>errors.New(text)\<close>, and \<open>fmt.Errorf\<close> with no \<open>%w\<close> verb.\<close>

definition errors_New :: "string \<Rightarrow> go_error" where
  "errors_New text = BaseError PlainError text"

text \<open>
  \<open>fmt.Errorf(prefix + "%w", err)\<close>: in every use of the code the verb \<open>%w\<close> ends the
  format, so the text is the prefix followed by the text of the wrapped error.
\<close>

definition Errorf_w :: "string \<Rightarrow> go_error \<Rightarrow> go_error" where
  "Errorf_w pre err = Wrapped pre err"

fun Error :: "go_error \<Rightarrow> string" where
  "Error (BaseError k text) = text"
| "Error (Wrapped pre err) = pre @ Error err"

text \<open>The kind of the error at the end of the chain, which \<open>errors.As\<close> and \<open>errors.Is\<close> reach.\<close>

fun root_kind :: "go_error \<Rightarrow> error_kind" where
  "root_kind (BaseError k text) = k"
| "root_kind (Wrapped pre err) = root_kind err"

text \<open>
  A comparison \<open>err == sql.ErrNoRows\<close> or a type assertion \<open>err.(*pq.Error)\<close> looks at
  the error itself, not at the chain.
\<close>

fun own_kind :: "go_error \<Rightarrow> error_kind option" where
  "own_kind (BaseError k text) = Some k"
| "own_kind (Wrapped pre err) = None"

definition IsNotFound :: "go_error \<Rightarrow> bool" where
  "IsNotFound err \<longleftrightarrow> root_kind err = ApiNotFound"

lemma Errorf_w_simps [simp]:
  "Error (Errorf_w pre err) = pre @ Error err"
  "root_kind (Errorf_w pre err) = root_kind err"
  "own_kind (Errorf_w pre err) = None"
  by (simp_all add: Errorf_w_def)

lemma errors_New_simps [simp]:
  "Error (errors_New text) = text"
  "root_kind (errors_New text) = PlainError"
  "own_kind (errors_New text) = Some PlainError"
  by (simp_all add: errors_New_def)

lemma own_kind_root: "own_kind err = Some k \<Longrightarrow> root_kind err = k"
  by (cases err) auto

subsection \<open>Outcomes and programs\<close>

datatype 'a outcome = Ok 'a | Err go_error | Panic string

type_synonym ('s, 'a) go = "('s, 'a outcome) state"

definition ok :: "'a \<Rightarrow> ('s, 'a) go" where
  "ok x = State_Monad.return (Ok x)"

definition fail :: "go_error \<Rightarrow> ('s, 'a) go" where
  "fail err = State_Monad.return (Err err)"

definition panic :: "string \<Rightarrow> ('s, 'a) go" where
  "panic text = State_Monad.return (Panic text)"

text \<open>
  \<open>x, err := m(); if err != nil { h }; k\<close>: the handler \<open>h\<close> returns, so \<open>k\<close> runs only
  when the call returned no error. A panic of the call ends the program.
\<close>

definition go_try :: "('s, 'a) go \<Rightarrow> (go_error \<Rightarrow> ('s, 'b) go) \<Rightarrow> ('a \<Rightarrow> ('s, 'b) go) \<Rightarrow> ('s, 'b) go" where
  "go_try m h k =
     do {
       r \<leftarrow> m;
       (case r of Ok x \<Rightarrow> k x | Err err \<Rightarrow> h err | Panic text \<Rightarrow> panic text)
     }"

text \<open>
  \<open>err := m(); k(err)\<close> where the code looks at the error itself before it decides.
\<close>

definition go_result :: "('s, 'a) go \<Rightarrow> (go_error + 'a \<Rightarrow> ('s, 'b) go) \<Rightarrow> ('s, 'b) go" where
  "go_result m k = go_try m (\<lambda>err. k (Inl err)) (\<lambda>x. k (Inr x))"

definition get_state :: "('s, 's) state" where
  "get_state = State_Monad.get"

definition modify_state :: "('s \<Rightarrow> 's) \<Rightarrow> ('s, unit) state" where
  "modify_state f = State (\<lambda>s. ((), f s))"

text \<open>A program on a part of the state, given by its selector and its update.\<close>

definition on_part :: "('s \<Rightarrow> 'p) \<Rightarrow> (('p \<Rightarrow> 'p) \<Rightarrow> 's \<Rightarrow> 's) \<Rightarrow> ('p, 'a) state \<Rightarrow> ('s, 'a) state" where
  "on_part sel upd m = State (\<lambda>s. case run_state m (sel s) of (r, p) \<Rightarrow> (r, upd (\<lambda>_. p) s))"

lemma run_ok [simp]: "run_state (ok x) s = (Ok x, s)"
  by (simp add: ok_def)

lemma run_fail [simp]: "run_state (fail err) s = (Err err, s)"
  by (simp add: fail_def)

lemma run_panic [simp]: "run_state (panic text) s = (Panic text, s)"
  by (simp add: panic_def)

lemma run_get_state [simp]: "run_state get_state s = (s, s)"
  by (simp add: get_state_def)

lemma run_modify_state [simp]: "run_state (modify_state f) s = ((), f s)"
  by (simp add: modify_state_def)

lemma run_on_part [simp]:
  "run_state (on_part sel upd m) s = (case run_state m (sel s) of (r, p) \<Rightarrow> (r, upd (\<lambda>_. p) s))"
  by (simp add: on_part_def)

lemma run_go_try:
  "run_state (go_try m h k) s =
     (case run_state m s of
        (Ok x, t) \<Rightarrow> run_state (k x) t
      | (Err err, t) \<Rightarrow> run_state (h err) t
      | (Panic text, t) \<Rightarrow> (Panic text, t))"
  by (auto simp: go_try_def split: prod.splits outcome.splits)

text \<open>
  What a call did decides the run: the rules for a known first step, which evaluate a
  program call by call.
\<close>

lemma run_go_try_Ok: "run_state m s = (Ok x, t) \<Longrightarrow> run_state (go_try m h k) s = run_state (k x) t"
  by (simp add: run_go_try)

lemma run_go_try_Err: "run_state m s = (Err err, t) \<Longrightarrow> run_state (go_try m h k) s = run_state (h err) t"
  by (simp add: run_go_try)

lemma run_go_try_Panic: "run_state m s = (Panic text, t) \<Longrightarrow> run_state (go_try m h k) s = (Panic text, t)"
  by (simp add: run_go_try)

lemma run_bind_state: "run_state m s = (x, t) \<Longrightarrow> run_state (m \<bind> k) s = run_state (k x) t"
  by simp

lemmas run_steps = run_go_try_Ok run_go_try_Err run_go_try_Panic run_bind_state

lemma go_try_OkE:
  assumes "run_state (go_try m h k) s = (Ok y, t)"
  obtains (returned) x u where "run_state m s = (Ok x, u)" and "run_state (k x) u = (Ok y, t)"
    | (handled) err u where "run_state m s = (Err err, u)" and "run_state (h err) u = (Ok y, t)"
  using assms by (auto simp: run_go_try split: prod.splits outcome.splits)

lemma go_try_fail_OkE:
  assumes "run_state (go_try m (\<lambda>err. fail (f err)) k) s = (Ok y, t)"
  obtains x u where "run_state m s = (Ok x, u)" and "run_state (k x) u = (Ok y, t)"
  using assms by (auto simp: run_go_try split: prod.splits outcome.splits)

subsection \<open>Postconditions\<close>

definition post :: "('s, 'a) state \<Rightarrow> 's \<Rightarrow> ('a \<Rightarrow> 's \<Rightarrow> bool) \<Rightarrow> bool" where
  "post m s Q \<longleftrightarrow> (case run_state m s of (r, t) \<Rightarrow> Q r t)"

lemma postI: "(\<And>r t. run_state m s = (r, t) \<Longrightarrow> Q r t) \<Longrightarrow> post m s Q"
  by (auto simp: post_def)

lemma postD: "post m s Q \<Longrightarrow> run_state m s = (r, t) \<Longrightarrow> Q r t"
  by (auto simp: post_def)

lemma post_mono: "post m s Q \<Longrightarrow> (\<And>r t. Q r t \<Longrightarrow> R r t) \<Longrightarrow> post m s R"
  by (auto simp: post_def split: prod.splits)

lemma post_conj: "post m s Q \<Longrightarrow> post m s R \<Longrightarrow> post m s (\<lambda>r t. Q r t \<and> R r t)"
  by (auto simp: post_def split: prod.splits)

lemma post_ok [post_rules]: "post (ok x) s Q = Q (Ok x) s"
  by (simp add: post_def)

lemma post_fail [post_rules]: "post (fail err) s Q = Q (Err err) s"
  by (simp add: post_def)

lemma post_panic [post_rules]: "post (panic text) s Q = Q (Panic text) s"
  by (simp add: post_def)

lemma post_return [post_rules]: "post (State_Monad.return x) s Q = Q x s"
  by (simp add: post_def)

lemma post_get_state [post_rules]: "post get_state s Q = Q s s"
  by (simp add: post_def)

lemma post_modify_state [post_rules]: "post (modify_state f) s Q = Q () (f s)"
  by (simp add: post_def)

lemma post_bind [post_rules]: "post (m \<bind> k) s Q = post m s (\<lambda>x t. post (k x) t Q)"
  by (simp add: post_def split: prod.splits)

lemma post_go_try [post_rules]:
  "post (go_try m h k) s Q =
     post m s (\<lambda>r t. case r of Ok x \<Rightarrow> post (k x) t Q
                            | Err err \<Rightarrow> post (h err) t Q
                            | Panic text \<Rightarrow> Q (Panic text) t)"
  by (auto simp: post_def run_go_try split: prod.splits outcome.splits)

lemma post_on_part [post_rules]:
  "post (on_part sel upd m) s Q = post m (sel s) (\<lambda>r p. Q r (upd (\<lambda>_. p) s))"
  by (simp add: post_def split: prod.splits)

lemma post_if [post_rules]:
  "post (if b then m else n) s Q = (if b then post m s Q else post n s Q)"
  by simp

text \<open>A call whose postcondition is known carries the rest of the program.\<close>

lemma post_go_tryI:
  assumes "post m s R"
    and "\<And>x t. R (Ok x) t \<Longrightarrow> post (k x) t Q"
    and "\<And>err t. R (Err err) t \<Longrightarrow> post (h err) t Q"
    and "\<And>text t. R (Panic text) t \<Longrightarrow> Q (Panic text) t"
  shows "post (go_try m h k) s Q"
  unfolding post_go_try by (rule post_mono [OF assms(1)]) (auto simp: assms(2-4) split: outcome.split)

lemma post_bindI:
  assumes "post m s R" and "\<And>x t. R x t \<Longrightarrow> post (k x) t Q"
  shows "post (m \<bind> k) s Q"
  unfolding post_bind by (rule post_mono [OF assms(1)]) (rule assms(2))

subsection \<open>Programs that return without an error\<close>

text \<open>
  \<open>succeeds m s Q\<close>: running \<open>m\<close> from \<open>s\<close> returns a value with no error, and the value and
  the final state satisfy \<open>Q\<close>.
\<close>

definition succeeds :: "('s, 'a) go \<Rightarrow> 's \<Rightarrow> ('a \<Rightarrow> 's \<Rightarrow> bool) \<Rightarrow> bool" where
  "succeeds m s Q \<longleftrightarrow> post m s (\<lambda>r t. \<exists>x. r = Ok x \<and> Q x t)"

lemma succeeds_ok: "Q x s \<Longrightarrow> succeeds (ok x) s Q"
  by (simp add: succeeds_def post_rules)

lemma succeeds_go_try:
  assumes "succeeds m s R" and "\<And>x t. R x t \<Longrightarrow> succeeds (k x) t Q"
  shows "succeeds (go_try m h k) s Q"
  unfolding succeeds_def
  by (rule post_go_tryI [OF assms(1) [unfolded succeeds_def]]) (auto dest: assms(2) simp: succeeds_def)

lemma succeeds_go_try_Err:
  assumes "run_state m s = (Err err, t)" and "succeeds (h err) t Q"
  shows "succeeds (go_try m h k) s Q"
  using assms by (simp add: succeeds_def post_def run_go_try)

lemma succeeds_bind: "post m s (\<lambda>x t. succeeds (k x) t Q) \<Longrightarrow> succeeds (m \<bind> k) s Q"
  by (simp add: succeeds_def post_bind)

lemma succeeds_mono: "succeeds m s Q \<Longrightarrow> (\<And>x t. Q x t \<Longrightarrow> R x t) \<Longrightarrow> succeeds m s R"
  unfolding succeeds_def by (erule post_mono) blast

lemma succeedsE:
  assumes "succeeds m s Q"
  obtains x t where "run_state m s = (Ok x, t)" and "Q x t"
  using assms by (auto simp: succeeds_def post_def split: prod.splits)

subsection \<open>Programs that keep a relation between the states before and after\<close>

text \<open>
  \<open>preserves R m\<close>: every run of \<open>m\<close> ends in a state related to the one it started from,
  whatever it returns. For a preorder \<open>R\<close> this composes along the control flow.
\<close>

definition preserves :: "('s \<Rightarrow> 's \<Rightarrow> bool) \<Rightarrow> ('s, 'a) state \<Rightarrow> bool" where
  "preserves R m \<longleftrightarrow> (\<forall>s. post m s (\<lambda>_ t. R s t))"

definition preorder_rel :: "('s \<Rightarrow> 's \<Rightarrow> bool) \<Rightarrow> bool" where
  "preorder_rel R \<longleftrightarrow> reflp R \<and> transp R"

named_theorems preserves_rules "composition rules for preserves"

lemma preservesI: "(\<And>s r t. run_state m s = (r, t) \<Longrightarrow> R s t) \<Longrightarrow> preserves R m"
  by (auto simp: preserves_def post_def)

lemma preservesD: "preserves R m \<Longrightarrow> run_state m s = (r, t) \<Longrightarrow> R s t"
  by (auto simp: preserves_def post_def dest: spec [where x = s])

lemma preserves_post: "preserves R m \<Longrightarrow> (\<And>r t. R s t \<Longrightarrow> Q r t) \<Longrightarrow> post m s Q"
  unfolding preserves_def by (blast intro: post_mono)

lemma preserves_mono: "preserves R m \<Longrightarrow> (\<And>s t. R s t \<Longrightarrow> S s t) \<Longrightarrow> preserves S m"
  unfolding preserves_def by (blast intro: post_mono)

lemma preserves_return [preserves_rules]: "preorder_rel R \<Longrightarrow> preserves R (State_Monad.return x)"
  by (auto simp: preserves_def post_rules preorder_rel_def reflp_def)

lemma preserves_ok [preserves_rules]: "preorder_rel R \<Longrightarrow> preserves R (ok x)"
  by (auto simp: preserves_def post_rules preorder_rel_def reflp_def)

lemma preserves_fail [preserves_rules]: "preorder_rel R \<Longrightarrow> preserves R (fail err)"
  by (auto simp: preserves_def post_rules preorder_rel_def reflp_def)

lemma preserves_panic [preserves_rules]: "preorder_rel R \<Longrightarrow> preserves R (panic text)"
  by (auto simp: preserves_def post_rules preorder_rel_def reflp_def)

lemma preserves_get_state [preserves_rules]: "preorder_rel R \<Longrightarrow> preserves R get_state"
  by (auto simp: preserves_def post_rules preorder_rel_def reflp_def)

lemma preserves_bind [preserves_rules]:
  assumes "preorder_rel R" and "preserves R m" and "\<And>x. preserves R (k x)"
  shows "preserves R (m \<bind> k)"
  unfolding preserves_def
proof (intro allI post_bindI)
  fix s
  show "post m s (\<lambda>_ t. R s t)" using assms(2) by (simp add: preserves_def)
next
  fix s x t
  assume "R s t"
  moreover have "post (k x) t (\<lambda>_ u. R t u)" using assms(3) by (simp add: preserves_def)
  ultimately show "post (k x) t (\<lambda>_ u. R s u)"
    using assms(1) by (auto simp: preorder_rel_def elim: post_mono transpE)
qed

lemma preserves_go_try [preserves_rules]:
  assumes "preorder_rel R" and "preserves R m"
    and "\<And>err. preserves R (h err)" and "\<And>x. preserves R (k x)"
  shows "preserves R (go_try m h k)"
  unfolding go_try_def
  by (rule preserves_bind [OF assms(1,2)])
    (auto split: outcome.split intro: assms preserves_panic)

lemma preserves_go_result [preserves_rules]:
  assumes "preorder_rel R" and "preserves R m" and "\<And>x. preserves R (k x)"
  shows "preserves R (go_result m k)"
  unfolding go_result_def by (intro preserves_go_try assms)

lemma preserves_if [preserves_rules]:
  "(b \<Longrightarrow> preserves R m) \<Longrightarrow> (\<not> b \<Longrightarrow> preserves R n) \<Longrightarrow> preserves R (if b then m else n)"
  by simp

lemma preserves_case_prod [preserves_rules]:
  "(\<And>a b. p = (a, b) \<Longrightarrow> preserves R (f a b)) \<Longrightarrow> preserves R (case p of (a, b) \<Rightarrow> f a b)"
  by (cases p) simp

lemma preserves_case_option [preserves_rules]:
  "(x = None \<Longrightarrow> preserves R m) \<Longrightarrow> (\<And>a. x = Some a \<Longrightarrow> preserves R (f a)) \<Longrightarrow>
     preserves R (case x of None \<Rightarrow> m | Some a \<Rightarrow> f a)"
  by (cases x) simp_all

lemma preserves_case_sum [preserves_rules]:
  "(\<And>a. x = Inl a \<Longrightarrow> preserves R (f a)) \<Longrightarrow> (\<And>b. x = Inr b \<Longrightarrow> preserves R (g b)) \<Longrightarrow>
     preserves R (case x of Inl a \<Rightarrow> f a | Inr b \<Rightarrow> g b)"
  by (cases x) simp_all

subsection \<open>Programs whose returned value satisfies a property\<close>

text \<open>\<open>yields P m\<close>: whenever \<open>m\<close> returns with no error, the value satisfies \<open>P\<close>.\<close>

definition yields :: "('a \<Rightarrow> bool) \<Rightarrow> ('s, 'a) go \<Rightarrow> bool" where
  "yields P m \<longleftrightarrow> (\<forall>s. post m s (\<lambda>r _. \<forall>x. r = Ok x \<longrightarrow> P x))"

named_theorems yields_rules "composition rules for yields"

lemma yieldsD: "yields P m \<Longrightarrow> run_state m s = (Ok x, t) \<Longrightarrow> P x"
  by (auto simp: yields_def post_def dest: spec [where x = s])

lemma yields_post: "yields P m \<Longrightarrow> post m s (\<lambda>r _. \<forall>x. r = Ok x \<longrightarrow> P x)"
  by (simp add: yields_def)

lemma yields_ok [yields_rules]: "P x \<Longrightarrow> yields P (ok x)"
  by (simp add: yields_def post_rules)

lemma yields_fail [yields_rules]: "yields P (fail err)"
  by (simp add: yields_def post_rules)

lemma yields_panic [yields_rules]: "yields P (panic msg)"
  by (simp add: yields_def post_rules)

lemma yields_bind [yields_rules]: "(\<And>x. yields P (k x)) \<Longrightarrow> yields P (m \<bind> k)"
  by (simp add: yields_def post_rules) (simp add: post_def split: prod.splits)

lemma yields_go_try [yields_rules]:
  "(\<And>err. yields P (h err)) \<Longrightarrow> (\<And>x. yields P (k x)) \<Longrightarrow> yields P (go_try m h k)"
  unfolding go_try_def by (intro yields_bind) (auto split: outcome.split intro: yields_panic)

lemma yields_go_result [yields_rules]: "(\<And>x. yields P (k x)) \<Longrightarrow> yields P (go_result m k)"
  unfolding go_result_def by (intro yields_go_try)

lemma yields_if [yields_rules]:
  "(b \<Longrightarrow> yields P m) \<Longrightarrow> (\<not> b \<Longrightarrow> yields P n) \<Longrightarrow> yields P (if b then m else n)"
  by simp

end
