(* ===== verification/GoStrings.thy ===== *)
theory GoStrings
  imports Prelude
begin

section \<open>The functions on strings the controller uses\<close>

text \<open>
  A Go string is a sequence of bytes; here it is a \<open>string\<close>, whose characters are the
  bytes 0 to 255. Modelled: \<open>strings.Contains\<close>, \<open>strings.HasPrefix\<close>-like tests by
  \<open>prefix\<close>, \<open>strings.ReplaceAll\<close> of one byte by another, \<open>strings.ToUpper\<close> on ASCII,
  \<open>strings.Split\<close> at one byte, \<open>strings.Join\<close>, the verb \<open>%d\<close> and \<open>strconv.Atoi\<close>.

  The lemmas show that decimal conversion round trips for every 64-bit integer, that
  splitting and joining are inverse, and that the search for a substring is the library's
  \<open>sublist\<close>.
\<close>

subsection \<open>Searching, replacing, splitting\<close>

fun strings_Contains :: "string \<Rightarrow> string \<Rightarrow> bool" where
  "strings_Contains [] sub = (sub = [])"
| "strings_Contains (c # cs) sub = (prefix sub (c # cs) \<or> strings_Contains cs sub)"

lemma strings_Contains_iff: "strings_Contains s sub \<longleftrightarrow> sublist sub s"
proof (induction s)
  case (Cons c cs)
  then show ?case
    by (auto simp: sublist_Cons_right)
qed simp

lemma strings_Contains_append: "strings_Contains s sub \<Longrightarrow> strings_Contains (pre @ s @ suf) sub"
  by (auto simp: strings_Contains_iff sublist_def) (metis append_assoc)

definition strings_ReplaceAll :: "string \<Rightarrow> char \<Rightarrow> char \<Rightarrow> string" where
  "strings_ReplaceAll s old new = map (\<lambda>c. if c = old then new else c) s"

definition upper_char :: "char \<Rightarrow> char" where
  "upper_char c =
     (let n = (of_char c :: nat) in if 97 \<le> n \<and> n \<le> 122 then char_of (n - 32) else c)"

definition strings_ToUpper :: "string \<Rightarrow> string" where
  "strings_ToUpper s = map upper_char s"

lemma of_char_less [simp]: "(of_char c :: nat) < 256"
  using of_char_mod_256 [of c, where 'a = nat] by (metis mod_less_divisor zero_less_numeral)

lemma of_char_upper_char:
  "(of_char (upper_char c) :: nat) = (let n = of_char c in if 97 \<le> n \<and> n \<le> 122 then n - 32 else n)"
proof (cases "97 \<le> (of_char c :: nat) \<and> (of_char c :: nat) \<le> 122")
  case True
  then have "(of_char c - 32 :: nat) mod 256 = of_char c - 32" by (intro mod_less) linarith
  with True show ?thesis by (simp add: upper_char_def of_char_of)
next
  case False
  then show ?thesis by (auto simp: upper_char_def Let_def)
qed

lemma upper_char_idem [simp]: "upper_char (upper_char c) = upper_char c"
  unfolding upper_char_def [of "upper_char c"] of_char_upper_char Let_def by auto

lemma strings_ToUpper_idem [simp]: "strings_ToUpper (strings_ToUpper s) = strings_ToUpper s"
  by (simp add: strings_ToUpper_def)

text \<open>\<open>strings.Split(s, sep)\<close> for a separator of one byte: never the empty list.\<close>

fun strings_Split :: "string \<Rightarrow> char \<Rightarrow> string list" where
  "strings_Split [] sep = [[]]"
| "strings_Split (c # cs) sep =
     (if c = sep then [] # strings_Split cs sep
      else (case strings_Split cs sep of
              [] \<Rightarrow> [[c]]
            | part # parts \<Rightarrow> (c # part) # parts))"

fun strings_Join :: "string list \<Rightarrow> string \<Rightarrow> string" where
  "strings_Join [] sep = []"
| "strings_Join [part] sep = part"
| "strings_Join (part # next_part # parts) sep = part @ sep @ strings_Join (next_part # parts) sep"

lemma strings_Split_not_Nil [simp]: "strings_Split s sep \<noteq> []"
  by (induction s) (auto split: list.splits)

lemma strings_Join_Split: "strings_Join (strings_Split s sep) [sep] = s"
proof (induction s)
  case (Cons c cs)
  obtain part parts where "strings_Split cs sep = part # parts"
    by (cases "strings_Split cs sep") auto
  with Cons show ?case
    by (cases parts) auto
qed simp

lemma strings_Split_no_sep: "part \<in> set (strings_Split s sep) \<Longrightarrow> sep \<notin> set part"
proof (induction s arbitrary: part)
  case (Cons c cs)
  then show ?case
    by (cases "strings_Split cs sep") (auto split: if_splits)
qed simp

lemma strings_Join_empty: "strings_Join parts [] = concat parts"
  by (induction parts "[] :: string" rule: strings_Join.induct) auto

subsection \<open>Decimal conversion\<close>

definition digit_char :: "nat \<Rightarrow> char" where
  "digit_char d = ''0123456789'' ! d"

definition digit_val :: "char \<Rightarrow> nat option" where
  "digit_val c =
     (let n = (of_char c :: nat) in if 48 \<le> n \<and> n \<le> 57 then Some (n - 48) else None)"

lemma less_10_cases: "(d::nat) < 10 \<Longrightarrow> d = 0 \<or> d = 1 \<or> d = 2 \<or> d = 3 \<or> d = 4 \<or> d = 5 \<or> d = 6 \<or> d = 7 \<or> d = 8 \<or> d = 9"
  by arith

lemma digit_val_digit_char [simp]: "d < 10 \<Longrightarrow> digit_val (digit_char d) = Some d"
  using less_10_cases [of d] by (auto simp: digit_val_def digit_char_def)

lemma digit_val_bound: "digit_val c = Some d \<Longrightarrow> d < 10"
  by (auto simp: digit_val_def Let_def split: if_splits)

lemma digit_char_not_sign [simp]:
  "d < 10 \<Longrightarrow> digit_char d \<noteq> CHR ''-''" "d < 10 \<Longrightarrow> digit_char d \<noteq> CHR ''+''"
  using less_10_cases [of d] by (auto simp: digit_char_def)

fun show_nat :: "nat \<Rightarrow> string" where
  "show_nat n = (if n < 10 then [digit_char n] else show_nat (n div 10) @ [digit_char (n mod 10)])"

declare show_nat.simps [simp del]

text \<open>The verb \<open>%d\<close> of \<open>fmt.Sprintf\<close>.\<close>

definition fmt_d :: "int \<Rightarrow> string" where
  "fmt_d i = (if i < 0 then CHR ''-'' # show_nat (nat (- i)) else show_nat (nat i))"

text \<open>
  \<open>strconv.Atoi\<close>: an optional sign, then decimal digits, read left to right into an
  unsigned 64-bit value; a syntax error at the first byte that is no digit, a range error at
  the first digit that overflows 64 bits, and a range error at the end when the value is not
  an \<open>int\<close>. The error's text quotes the input; a byte outside ASCII is quoted as it is.
\<close>

datatype atoi_error = ErrSyntax | ErrRange

fun atoi_digits :: "string \<Rightarrow> nat \<Rightarrow> atoi_error + nat" where
  "atoi_digits [] n = Inr n"
| "atoi_digits (c # cs) n =
     (case digit_val c of
        None \<Rightarrow> Inl ErrSyntax
      | Some d \<Rightarrow> if 2 ^ 64 \<le> n * 10 + d then Inl ErrRange else atoi_digits cs (n * 10 + d))"

definition hex_digit :: "nat \<Rightarrow> char" where
  "hex_digit d = ''0123456789abcdef'' ! d"

definition quote_char :: "char \<Rightarrow> string" where
  "quote_char c =
     (let n = (of_char c :: nat); bs = char_of (92::nat) in
      if n = 34 \<or> n = 92 then [bs, c]
      else if n = 7 then bs # ''a'' else if n = 8 then bs # ''b''
      else if n = 9 then bs # ''t'' else if n = 10 then bs # ''n''
      else if n = 11 then bs # ''v'' else if n = 12 then bs # ''f''
      else if n = 13 then bs # ''r''
      else if n < 32 \<or> n = 127 then bs # CHR ''x'' # [hex_digit (n div 16), hex_digit (n mod 16)]
      else [c])"

definition strconv_Quote :: "string \<Rightarrow> string" where
  "strconv_Quote s = CHR 0x22 # concat (map quote_char s) @ [CHR 0x22]"

definition atoi_error_of :: "string \<Rightarrow> atoi_error \<Rightarrow> go_error" where
  "atoi_error_of s err =
     errors_New (''strconv.Atoi: parsing '' @ strconv_Quote s @ '': '' @
       (case err of ErrSyntax \<Rightarrow> ''invalid syntax'' | ErrRange \<Rightarrow> ''value out of range''))"

definition strip_sign :: "string \<Rightarrow> bool \<times> string" where
  "strip_sign s =
     (case s of
        [] \<Rightarrow> (False, [])
      | c # cs \<Rightarrow> if c = CHR ''-'' then (True, cs) else if c = CHR ''+'' then (False, cs) else (False, c # cs))"

definition strconv_Atoi :: "string \<Rightarrow> go_error + int" where
  "strconv_Atoi s =
     (case strip_sign s of (neg, digits) \<Rightarrow>
        if digits = [] then Inl (atoi_error_of s ErrSyntax)
        else (case atoi_digits digits 0 of
                Inl err \<Rightarrow> Inl (atoi_error_of s err)
              | Inr n \<Rightarrow>
                  if \<not> neg \<and> 2 ^ 63 \<le> n then Inl (atoi_error_of s ErrRange)
                  else if neg \<and> 2 ^ 63 < n then Inl (atoi_error_of s ErrRange)
                  else Inr (if neg then - int n else int n)))"

text \<open>The values of the Go type \<open>int\<close> on the 64-bit platforms the controller is built for.\<close>

definition int64 :: "int \<Rightarrow> bool" where
  "int64 i \<longleftrightarrow> - (2 ^ 63) \<le> i \<and> i < 2 ^ 63"

lemma show_nat_not_Nil [simp]: "show_nat n \<noteq> []"
  by (subst show_nat.simps) simp

lemma hd_show_nat: "\<exists>d < 10. hd (show_nat n) = digit_char d"
proof (induction n rule: show_nat.induct)
  case (1 n)
  show ?case
  proof (cases "n < 10")
    case True
    then show ?thesis by (subst show_nat.simps) auto
  next
    case False
    with "1.IH" show ?thesis by (subst show_nat.simps) (simp add: hd_append)
  qed
qed

lemma atoi_digits_append:
  "atoi_digits (xs @ ys) n = (case atoi_digits xs n of Inl err \<Rightarrow> Inl err | Inr m \<Rightarrow> atoi_digits ys m)"
  by (induction xs arbitrary: n) (auto split: option.splits)

lemma atoi_digits_show_nat: "n < 2 ^ 64 \<Longrightarrow> atoi_digits (show_nat n) 0 = Inr n"
proof (induction n rule: show_nat.induct)
  case (1 n)
  show ?case
  proof (cases "n < 10")
    case True
    then show ?thesis by (subst show_nat.simps) simp
  next
    case False
    from "1.prems" have "n div 10 < 2 ^ 64" by linarith
    with False "1.IH" have "atoi_digits (show_nat (n div 10)) 0 = Inr (n div 10)" by blast
    moreover have "n div 10 * 10 + n mod 10 = n" by simp
    ultimately show ?thesis
      using False "1.prems" by (subst show_nat.simps) (simp add: atoi_digits_append)
  qed
qed

lemma strip_sign_show_nat: "strip_sign (show_nat n) = (False, show_nat n)"
proof -
  obtain d where d: "d < 10" "hd (show_nat n) = digit_char d" using hd_show_nat by blast
  then obtain cs where "show_nat n = digit_char d # cs" by (cases "show_nat n") auto
  with d show ?thesis by (simp add: strip_sign_def)
qed

lemma strconv_Atoi_fmt_d: "int64 i \<Longrightarrow> strconv_Atoi (fmt_d i) = Inr i"
proof (cases "i < 0")
  case True
  moreover assume "int64 i"
  ultimately have "nat (- i) \<le> 2 ^ 63" by (simp add: int64_def)
  with True show ?thesis
    by (simp add: strconv_Atoi_def fmt_d_def strip_sign_def atoi_digits_show_nat)
next
  case False
  moreover assume "int64 i"
  ultimately have "nat i < 2 ^ 63" by (simp add: int64_def nat_less_iff)
  with False show ?thesis
    by (simp add: strconv_Atoi_def fmt_d_def strip_sign_show_nat atoi_digits_show_nat)
qed

lemma strconv_Atoi_int64: "strconv_Atoi s = Inr i \<Longrightarrow> int64 i"
  by (auto simp: strconv_Atoi_def int64_def split: prod.splits sum.splits if_splits)

end
