(* ===== verification/Conn.thy ===== *)
theory Conn
  imports GoStrings
begin

section \<open>Connections, database information and event reasons\<close>

text \<open>
  The small structs and functions the reconcilers share: \<open>reldbConn\<close> and \<open>getDSN\<close> of
  \<open>relationaldatabaseprovider_controller.go\<close>, \<open>dbInfo\<close>, \<open>getSecretData\<close> and
  \<open>dbInfoFromSeed\<close> of \<open>databaserequest_controller.go\<close>, \<open>errTypeToEventReason\<close> of
  \<open>metrics.go\<close> (the title caser of \<open>golang.org/x/text\<close> is an argument).

  The lemmas show that a data source name determines its connection when no field holds a
  separator, that a seed secret round trips, and which keys a secret has.
\<close>

subsection \<open>Data source names\<close>

record reldbConn =
  rcDbType :: string
  rcName :: string
  rcHostname :: string
  rcReplicaHostnames :: "string list"
  rcPassword :: string
  rcPort :: int
  rcUsername :: string
  rcEnabled :: bool

definition getDSN :: "reldbConn \<Rightarrow> bool \<Rightarrow> string" where
  "getDSN rc useDatabase =
     (if rcDbType rc = ''mysql'' then
        (let dsn = rcUsername rc @ '':'' @ rcPassword rc @ ''@tcp('' @ rcHostname rc @ '':'' @
               fmt_d (rcPort rc) @ '')/''
         in if useDatabase then dsn @ rcName rc else dsn)
      else if rcDbType rc = ''postgres'' then
        (let dsn = ''host='' @ rcHostname rc @ '' port='' @ fmt_d (rcPort rc) @ '' user='' @
               rcUsername rc @ '' password='' @ rcPassword rc @ '' sslmode=disable''
         in if useDatabase then dsn @ '' dbname='' @ rcName rc else dsn @ '' dbname='' @ ''postgres'')
      else [])"

text \<open>A part that ends before the first separator is determined by the whole.\<close>

lemma append_sep_eq:
  assumes "c \<notin> set a" and "c \<notin> set b"
  shows "a @ c # x = b @ c # y \<longleftrightarrow> a = b \<and> x = y"
proof
  assume eq: "a @ c # x = b @ c # y"
  have "takeWhile (\<lambda>z. z \<noteq> c) (a @ c # x) = a" using assms(1) by (subst takeWhile_append2) auto
  moreover have "takeWhile (\<lambda>z. z \<noteq> c) (b @ c # y) = b" using assms(2) by (subst takeWhile_append2) auto
  ultimately have "a = b" using eq by simp
  with eq show "a = b \<and> x = y" by simp
qed simp

definition sep_free :: "string \<Rightarrow> bool" where
  "sep_free s \<longleftrightarrow> (\<forall>c \<in> set s. c \<notin> set '': @()/'')"

lemma sep_freeD:
  assumes "sep_free s"
  shows "CHR '':'' \<notin> set s" "CHR '' '' \<notin> set s" "CHR ''@'' \<notin> set s" "CHR '')'' \<notin> set s"
  using assms by (auto simp: sep_free_def)

lemma digit_char_sep_free: "d < 10 \<Longrightarrow> sep_free [digit_char d]"
  using less_10_cases [of d] by (auto simp: digit_char_def sep_free_def)

lemma sep_free_append [simp]: "sep_free (a @ b) \<longleftrightarrow> sep_free a \<and> sep_free b"
  by (auto simp: sep_free_def)

lemma show_nat_sep_free: "sep_free (show_nat n)"
proof (induction n rule: show_nat.induct)
  case (1 n)
  then show ?case
    by (subst show_nat.simps) (simp add: digit_char_sep_free)
qed

lemma fmt_d_sep_free [simp]: "sep_free (fmt_d i)"
  using show_nat_sep_free by (simp add: fmt_d_def sep_free_def)

lemma fmt_d_inject: "int64 i \<Longrightarrow> int64 j \<Longrightarrow> fmt_d i = fmt_d j \<longleftrightarrow> i = j"
  using strconv_Atoi_fmt_d by (metis sum.inject(2))

definition clean_conn :: "reldbConn \<Rightarrow> bool" where
  "clean_conn rc \<longleftrightarrow> sep_free (rcUsername rc) \<and> sep_free (rcPassword rc) \<and> sep_free (rcHostname rc) \<and>
     int64 (rcPort rc)"

text \<open>The connections of one type whose data source names coincide reach the same server as the same user.\<close>

lemma getDSN_mysql_parts:
  assumes "clean_conn a" and "clean_conn b" and "rcDbType a = ''mysql''" and "rcDbType b = ''mysql''"
    and "getDSN a False = getDSN b False"
  shows "rcUsername a = rcUsername b \<and> rcPassword a = rcPassword b \<and> rcHostname a = rcHostname b \<and>
    rcPort a = rcPort b"
proof -
  have eq: "rcUsername a @ CHR '':'' # rcPassword a @ CHR ''@'' # ''tcp('' @ rcHostname a @ CHR '':'' # fmt_d (rcPort a) @ CHR '')'' # ''/''
      = rcUsername b @ CHR '':'' # rcPassword b @ CHR ''@'' # ''tcp('' @ rcHostname b @ CHR '':'' # fmt_d (rcPort b) @ CHR '')'' # ''/''"
    using assms(3-5) by (simp add: getDSN_def)
  note free = sep_freeD(1) sep_freeD(3) sep_freeD(4)
  have "rcUsername a = rcUsername b" and "rcPassword a @ CHR ''@'' # ''tcp('' @ rcHostname a @ CHR '':'' # fmt_d (rcPort a) @ CHR '')'' # ''/''
      = rcPassword b @ CHR ''@'' # ''tcp('' @ rcHostname b @ CHR '':'' # fmt_d (rcPort b) @ CHR '')'' # ''/''"
    using eq assms(1,2) free append_sep_eq [of "CHR '':''" "rcUsername a" "rcUsername b"]
    by (auto simp: clean_conn_def)
  moreover from this(2) have "rcPassword a = rcPassword b" and
    "rcHostname a @ CHR '':'' # fmt_d (rcPort a) @ CHR '')'' # ''/'' = rcHostname b @ CHR '':'' # fmt_d (rcPort b) @ CHR '')'' # ''/''"
    using assms(1,2) free append_sep_eq [of "CHR ''@''" "rcPassword a" "rcPassword b"]
    by (auto simp: clean_conn_def)
  moreover from this(2) have "rcHostname a = rcHostname b" and
    "fmt_d (rcPort a) @ CHR '')'' # ''/'' = fmt_d (rcPort b) @ CHR '')'' # ''/''"
    using assms(1,2) free append_sep_eq [of "CHR '':''" "rcHostname a" "rcHostname b"]
    by (auto simp: clean_conn_def)
  moreover from this(2) assms(1,2) have "rcPort a = rcPort b"
    by (simp add: clean_conn_def fmt_d_inject)
  ultimately show ?thesis by blast
qed

lemma getDSN_postgres_parts:
  assumes "clean_conn a" and "clean_conn b" and "rcDbType a = ''postgres''" and "rcDbType b = ''postgres''"
    and "getDSN a False = getDSN b False"
  shows "rcUsername a = rcUsername b \<and> rcPassword a = rcPassword b \<and> rcHostname a = rcHostname b \<and>
    rcPort a = rcPort b"
proof -
  let ?tail = "\<lambda>c. CHR '' '' # ''sslmode=disable dbname=postgres''"
  let ?pass = "\<lambda>c. rcPassword c @ ?tail c"
  let ?user = "\<lambda>c. rcUsername c @ CHR '' '' # ''password='' @ ?pass c"
  let ?port = "\<lambda>c. fmt_d (rcPort c) @ CHR '' '' # ''user='' @ ?user c"
  let ?host = "\<lambda>c. rcHostname c @ CHR '' '' # ''port='' @ ?port c"
  note free = sep_freeD(2)
  have "?host a = ?host b" using assms(3-5) by (simp add: getDSN_def)
  then have host: "rcHostname a = rcHostname b" and "?port a = ?port b"
    using assms(1,2) free append_sep_eq [of "CHR '' ''" "rcHostname a" "rcHostname b"]
    by (auto simp: clean_conn_def)
  from this(2) have port: "fmt_d (rcPort a) = fmt_d (rcPort b)" and "?user a = ?user b"
    using free append_sep_eq [of "CHR '' ''" "fmt_d (rcPort a)" "fmt_d (rcPort b)"] by auto
  from this(2) have user: "rcUsername a = rcUsername b" and "?pass a = ?pass b"
    using assms(1,2) free append_sep_eq [of "CHR '' ''" "rcUsername a" "rcUsername b"]
    by (auto simp: clean_conn_def)
  from this(2) have "rcPassword a = rcPassword b"
    using assms(1,2) free append_sep_eq [of "CHR '' ''" "rcPassword a" "rcPassword b"]
    by (auto simp: clean_conn_def)
  moreover from port assms(1,2) have "rcPort a = rcPort b"
    by (simp add: clean_conn_def fmt_d_inject)
  ultimately show ?thesis using host user by blast
qed

subsection \<open>Database information\<close>

record dbInfo =
  diDatabase :: string
  diHostName :: string
  diUserName :: string
  diPassword :: string
  diPort :: int

text \<open>\<open>dbInfo{}\<close>.\<close>

definition dbInfo_zero :: dbInfo where
  "dbInfo_zero = \<lparr>diDatabase = [], diHostName = [], diUserName = [], diPassword = [], diPort = 0\<rparr>"

text \<open>The keys of one map literal differ, so their order does not matter.\<close>

definition getSecretData :: "dbInfo \<Rightarrow> string \<Rightarrow> string \<Rightarrow> string \<rightharpoonup> string" where
  "getSecretData m n serviceName =
     (let name = strings_ToUpper (strings_ReplaceAll n CHR ''-'' CHR ''_'') in
      [strings_ToUpper name @ ''_USERNAME'' \<mapsto> diUserName m,
       strings_ToUpper name @ ''_PASSWORD'' \<mapsto> diPassword m,
       strings_ToUpper name @ ''_DATABASE'' \<mapsto> diDatabase m,
       strings_ToUpper name @ ''_HOST'' \<mapsto> serviceName,
       strings_ToUpper name @ ''_PORT'' \<mapsto> fmt_d (diPort m)])"

definition dbInfoFromSeed :: "(string \<rightharpoonup> string) \<Rightarrow> go_error + dbInfo" where
  "dbInfoFromSeed data =
     (let info = dbInfo_zero in
      case data ''database'' of
        None \<Rightarrow> Inl (errors_New ''missing database key in seed secret'')
      | Some val \<Rightarrow>
     (let info = info\<lparr>diDatabase := val\<rparr> in
      case data ''hostname'' of
        None \<Rightarrow> Inl (errors_New ''missing hostname key in seed secret'')
      | Some val \<Rightarrow>
     (let info = info\<lparr>diHostName := val\<rparr> in
      case data ''username'' of
        None \<Rightarrow> Inl (errors_New ''missing username key in seed secret'')
      | Some val \<Rightarrow>
     (let info = info\<lparr>diUserName := val\<rparr> in
      case data ''password'' of
        None \<Rightarrow> Inl (errors_New ''missing password key in seed secret'')
      | Some val \<Rightarrow>
     (let info = info\<lparr>diPassword := val\<rparr> in
      case data ''port'' of
        None \<Rightarrow> Inl (errors_New ''missing port key in seed secret'')
      | Some val \<Rightarrow>
          (case strconv_Atoi val of
             Inl err \<Rightarrow> Inl (Errorf_w ''failed to convert port to int: '' err)
           | Inr port \<Rightarrow> Inr (info\<lparr>diPort := port\<rparr>)))))))"

text \<open>The seed secret that describes given database information.\<close>

definition seed_data :: "dbInfo \<Rightarrow> string \<rightharpoonup> string" where
  "seed_data info =
     [''database'' \<mapsto> diDatabase info, ''hostname'' \<mapsto> diHostName info, ''username'' \<mapsto> diUserName info,
      ''password'' \<mapsto> diPassword info, ''port'' \<mapsto> fmt_d (diPort info)]"

lemma dbInfoFromSeed_iff:
  "dbInfoFromSeed data = Inr info \<longleftrightarrow>
     data ''database'' = Some (diDatabase info) \<and> data ''hostname'' = Some (diHostName info) \<and>
     data ''username'' = Some (diUserName info) \<and> data ''password'' = Some (diPassword info) \<and>
     (\<exists>val. data ''port'' = Some val \<and> strconv_Atoi val = Inr (diPort info))"
proof -
  have eta: "\<lparr>diDatabase = a, diHostName = b, diUserName = c, diPassword = d, diPort = e\<rparr> = info \<longleftrightarrow>
      a = diDatabase info \<and> b = diHostName info \<and> c = diUserName info \<and> d = diPassword info \<and> e = diPort info"
    for a b c d e by (cases info) auto
  show ?thesis
    by (auto simp: dbInfoFromSeed_def Let_def dbInfo_zero_def eta split: option.split sum.split)
qed

lemma secret_key: "strings_ToUpper (strings_ToUpper s) = strings_ToUpper s"
  by simp

definition secret_prefix :: "string \<Rightarrow> string" where
  "secret_prefix n = strings_ToUpper (strings_ReplaceAll n CHR ''-'' CHR ''_'')"

lemma getSecretData_lookup:
  "getSecretData m n serviceName (secret_prefix n @ ''_USERNAME'') = Some (diUserName m)"
  "getSecretData m n serviceName (secret_prefix n @ ''_PASSWORD'') = Some (diPassword m)"
  "getSecretData m n serviceName (secret_prefix n @ ''_DATABASE'') = Some (diDatabase m)"
  "getSecretData m n serviceName (secret_prefix n @ ''_HOST'') = Some serviceName"
  "getSecretData m n serviceName (secret_prefix n @ ''_PORT'') = Some (fmt_d (diPort m))"
  "dom (getSecretData m n serviceName) =
     (\<lambda>k. secret_prefix n @ k) ` {''_USERNAME'', ''_PASSWORD'', ''_DATABASE'', ''_HOST'', ''_PORT''}"
  by (auto simp: getSecretData_def secret_prefix_def Let_def)

lemma getSecretData_inject:
  assumes "getSecretData m n s = getSecretData m' n s'" and "int64 (diPort m)" and "int64 (diPort m')"
  shows "diUserName m = diUserName m' \<and> diPassword m = diPassword m' \<and> diDatabase m = diDatabase m' \<and>
    s = s' \<and> diPort m = diPort m'"
  using getSecretData_lookup [of m n s] getSecretData_lookup [of m' n s'] assms
  by (metis fmt_d_inject option.inject)

subsection \<open>Event reasons\<close>

definition errTypeToEventReason :: "(string \<Rightarrow> string) \<Rightarrow> string \<Rightarrow> string" where
  "errTypeToEventReason title errType =
     (let parts = strings_Split errType CHR ''-'' in strings_Join (map title parts) [])"

lemma errTypeToEventReason_concat:
  "errTypeToEventReason title errType = concat (map title (strings_Split errType CHR ''-''))"
  by (simp add: errTypeToEventReason_def strings_Join_empty)

end
