(* ===== verification/ConnProps.thy ===== *)
theory ConnProps
  imports Conn
begin

section \<open>Properties of data source names, seed secrets and secrets\<close>

text \<open>
  What the shared functions of \<open>Conn\<close> encode can be read back: the server from a data source
  name, the database from a seed secret, the credentials from the secret of a request.
\<close>

lemma mysql_dsn_no_space:
  "clean_conn a \<Longrightarrow> rcDbType a = ''mysql'' \<Longrightarrow> CHR '' '' \<notin> set (getDSN a False)"
  using sep_freeD(2) [OF fmt_d_sep_free [of "rcPort a"]]
  by (auto simp: getDSN_def clean_conn_def dest: sep_freeD(2))

lemma postgres_dsn_space: "rcDbType a = ''postgres'' \<Longrightarrow> CHR '' '' \<in> set (getDSN a False)"
  by (simp add: getDSN_def)

definition demo_dsn_conn :: "string \<Rightarrow> int \<Rightarrow> reldbConn" where
  "demo_dsn_conn dbType port =
     \<lparr>rcDbType = dbType, rcName = ''primary'', rcHostname = ''db.host'', rcReplicaHostnames = [],
      rcPassword = ''secret'', rcPort = port, rcUsername = ''root'', rcEnabled = True\<rparr>"



text \<open>
  C38: reading a seed secret is the inverse of writing one: a secret that holds the five entries
  of a database, whatever else it holds, is read as that database.
\<close>

theorem seed_secret_roundtrip:
  assumes "seed_data info \<subseteq>\<^sub>m data" and "int64 (diPort info)"
  shows "dbInfoFromSeed data = Inr info"
proof -
  have "data k = seed_data info k" if "k \<in> dom (seed_data info)" for k
    using assms(1) that by (simp add: map_le_def)
  then have "data ''database'' = Some (diDatabase info)" "data ''hostname'' = Some (diHostName info)"
    "data ''username'' = Some (diUserName info)" "data ''password'' = Some (diPassword info)"
    "data ''port'' = Some (fmt_d (diPort info))"
    by (simp_all add: seed_data_def)
  with strconv_Atoi_fmt_d [OF assms(2)] show ?thesis by (simp add: dbInfoFromSeed_iff)
qed

definition demo_dbInfo :: dbInfo where
  "demo_dbInfo = \<lparr>diDatabase = ''db1'', diHostName = ''db.host'', diUserName = ''user1'', diPassword = ''pw'', diPort = 3306\<rparr>"

theorem seed_secret_roundtrip_witness:
  "dbInfoFromSeed ((seed_data demo_dbInfo)(''note'' \<mapsto> ''seed'')) = Inr demo_dbInfo"
  by (rule seed_secret_roundtrip) (auto simp: seed_data_def demo_dbInfo_def map_le_def int64_def)

text \<open>
  C39: the secret of a request has five entries, with the name of the database in upper case as
  prefix, and the credentials, the host and the port can be read back from them.
\<close>

theorem secret_data_roundtrip:
  assumes "int64 (diPort info)"
  shows "(let data = getSecretData info name serviceName; key = (\<lambda>k. secret_prefix name @ k) in
    data (key ''_USERNAME'') = Some (diUserName info) \<and> data (key ''_PASSWORD'') = Some (diPassword info) \<and>
    data (key ''_DATABASE'') = Some (diDatabase info) \<and> data (key ''_HOST'') = Some serviceName \<and>
    map_option strconv_Atoi (data (key ''_PORT'')) = Some (Inr (diPort info)) \<and>
    card (dom data) = 5)"
proof -
  have "card (dom (getSecretData info name serviceName)) = 5"
    unfolding getSecretData_lookup(6) by (subst card_image) (auto intro: inj_onI)
  with strconv_Atoi_fmt_d [OF assms] show ?thesis
    by (simp add: Let_def getSecretData_lookup)
qed

theorem secret_data_roundtrip_witness:
  "getSecretData demo_dbInfo ''my-db'' ''my-db'' ''MY_DB_USERNAME'' = Some ''user1''"
proof -
  have "secret_prefix ''my-db'' = ''MY_DB''"
    by code_simp
  with secret_data_roundtrip [of demo_dbInfo "''my-db''" "''my-db''"] show ?thesis
    by (simp add: Let_def demo_dbInfo_def int64_def)
qed

end
