(* ===== verification/ApiTypes.thy ===== *)
theory ApiTypes
  imports Prelude
begin

section \<open>The custom resources (api/v1alpha1)\<close>

text \<open>
  The structs of \<open>api/v1alpha1/*_types.go\<close> as records, a pointer field that may be nil as
  an \<open>option\<close>, with the predicates that the \<open>kubebuilder:validation\<close> markers put on them.
  A record's fields carry a prefix, because the structs share field names.

  Of the Kubernetes types only the fields the controller reads or writes are here:
  \<open>metav1.ObjectMeta\<close>, \<open>metav1.Condition\<close>, \<open>v1.SecretReference\<close>, \<open>v1.ObjectReference\<close>,
  \<open>v1.Secret\<close>, \<open>v1.Service\<close>. A \<open>metav1.Time\<close> is the number of nanoseconds since Go's
  zero time, so \<open>IsZero\<close> is equality with 0. Go maps are HOL maps.
\<close>

subsection \<open>Kubernetes types\<close>

record NamespacedName =
  nnName :: string
  nnNamespace :: string

type_synonym Time = int

definition Time_IsZero :: "Time \<Rightarrow> bool" where
  "Time_IsZero t \<longleftrightarrow> t = 0"

record ObjectMeta =
  metaName :: string
  metaNamespace :: string
  metaUID :: string
  metaResourceVersion :: string
  metaGeneration :: int
  metaDeletionTimestamp :: "Time option"
  metaFinalizers :: "string list"
  metaLabels :: "string \<rightharpoonup> string"

record Condition =
  condType :: string
  condStatus :: string
  condReason :: string
  condMessage :: string

text \<open>\<open>metav1.ConditionTrue\<close> and \<open>metav1.ConditionFalse\<close>.\<close>

definition ConditionTrue :: string where
  "ConditionTrue = ''True''"

definition ConditionFalse :: string where
  "ConditionFalse = ''False''"

record SecretReference =
  refName :: string
  refNamespace :: string

record ObjectReference =
  objKind :: string
  objName :: string
  objUID :: string
  objResourceVersion :: string

record Secret =
  secretMeta :: ObjectMeta
  secretData :: "string \<rightharpoonup> string"

record Service =
  svcMeta :: ObjectMeta
  svcType :: string
  svcExternalName :: string

subsection \<open>DatabaseRequest\<close>

record AdditionalUser =
  auType :: string
  auName :: string

record DatabaseConnectionReference =
  dcrDatabaseObjectReference :: ObjectReference
  dcrName :: string

record DatabaseRequestSpec =
  specName :: string
  specSelector :: string
  specType :: string
  specSeed :: "SecretReference option"
  specAdditionalUsers :: "AdditionalUser list"
  specDatabaseConnectionReference :: "DatabaseConnectionReference option"
  specDropDatabaseOnDelete :: bool
  specForcedReconcilation :: "Time option"

record DatabaseInfo =
  infoUsername :: string
  infoDatabasename :: string

record DatabaseRequestStatus =
  statusConditions :: "Condition list"
  statusObservedGeneration :: int
  statusObservedDatabaseConnectionReference :: "DatabaseConnectionReference option"
  statusDatabaseInfo :: "DatabaseInfo option"

record DatabaseRequest =
  drMeta :: ObjectMeta
  drSpec :: DatabaseRequestSpec
  drStatus :: DatabaseRequestStatus

text \<open>The zero values of Go, such as \<open>&crdv1alpha1.DatabaseRequest{}\<close>.\<close>

definition ObjectMeta_zero :: ObjectMeta where
  "ObjectMeta_zero =
     \<lparr>metaName = [], metaNamespace = [], metaUID = [], metaResourceVersion = [],
      metaGeneration = 0, metaDeletionTimestamp = None, metaFinalizers = [],
      metaLabels = Map.empty\<rparr>"

definition DatabaseRequest_zero :: DatabaseRequest where
  "DatabaseRequest_zero =
     \<lparr>drMeta = ObjectMeta_zero,
      drSpec =
        \<lparr>specName = [], specSelector = [], specType = [], specSeed = None,
         specAdditionalUsers = [], specDatabaseConnectionReference = None,
         specDropDatabaseOnDelete = False, specForcedReconcilation = None\<rparr>,
      drStatus =
        \<lparr>statusConditions = [], statusObservedGeneration = 0,
         statusObservedDatabaseConnectionReference = None, statusDatabaseInfo = None\<rparr>\<rparr>"

text \<open>The markers of \<open>DatabaseRequestSpec\<close>: the type is one of an enumeration.\<close>

definition DatabaseRequestSpec_valid :: "DatabaseRequestSpec \<Rightarrow> bool" where
  "DatabaseRequestSpec_valid spec \<longleftrightarrow>
     specType spec \<in> {''mysql'', ''mariadb'', ''postgres'', ''mongodb''} \<and>
     list_all (\<lambda>u. auType u \<in> {''read-only'', ''read-write''}) (specAdditionalUsers spec)"

subsection \<open>Connection status\<close>

record ConnectionStatus =
  csName :: string
  csHostname :: string
  csDatabaseVersion :: string
  csEnabled :: bool
  csStatus :: string

subsection \<open>RelationalDatabaseProvider\<close>

record Connection =
  connName :: string
  connHostname :: string
  connReplicaHostnames :: "string list"
  connPasswordSecretRef :: SecretReference
  connPort :: int
  connUsername :: string
  connEnabled :: bool

record RelationalDatabaseProviderSpec =
  rdpType :: string
  rdpSelector :: string
  rdpConnections :: "Connection list"

record RelationalDatabaseProviderStatus =
  rdpConditions :: "Condition list"
  rdpConnectionStatus :: "ConnectionStatus list"
  rdpObservedGeneration :: int

record RelationalDatabaseProvider =
  rdpKind :: string
  rdpMeta :: ObjectMeta
  rdpSpec :: RelationalDatabaseProviderSpec
  rdpStatus :: RelationalDatabaseProviderStatus

definition RelationalDatabaseProvider_zero :: RelationalDatabaseProvider where
  "RelationalDatabaseProvider_zero =
     \<lparr>rdpKind = [], rdpMeta = ObjectMeta_zero,
      rdpSpec = \<lparr>rdpType = [], rdpSelector = [], rdpConnections = []\<rparr>,
      rdpStatus = \<lparr>rdpConditions = [], rdpConnectionStatus = [], rdpObservedGeneration = 0\<rparr>\<rparr>"

definition Connection_valid :: "Connection \<Rightarrow> bool" where
  "Connection_valid c \<longleftrightarrow> 1 \<le> connPort c \<and> connPort c \<le> 65535"

definition RelationalDatabaseProviderSpec_valid :: "RelationalDatabaseProviderSpec \<Rightarrow> bool" where
  "RelationalDatabaseProviderSpec_valid spec \<longleftrightarrow>
     rdpType spec \<in> {''mysql'', ''postgres''} \<and>
     rdpConnections spec \<noteq> [] \<and> list_all Connection_valid (rdpConnections spec)"

subsection \<open>MongoDBProvider\<close>

record MongoDBAuth =
  authMechanism :: string
  authSource :: string
  authTLS :: bool

record MongoDBConnection =
  mcName :: string
  mcHostname :: string
  mcReplicaHostnames :: "string list"
  mcPasswordSecretRef :: SecretReference
  mcPort :: int
  mcUsername :: string
  mcAuth :: MongoDBAuth
  mcEnabled :: bool

record MongoDBProviderSpec =
  mdpSelector :: string
  mdpConnections :: "MongoDBConnection list"

record MongoDBProviderStatus =
  mdpConditions :: "Condition list"
  mdpConnectionStatus :: "ConnectionStatus list"
  mdpObservedGeneration :: int

record MongoDBProvider =
  mdpMeta :: ObjectMeta
  mdpSpec :: MongoDBProviderSpec
  mdpStatus :: MongoDBProviderStatus

definition MongoDBProvider_zero :: MongoDBProvider where
  "MongoDBProvider_zero =
     \<lparr>mdpMeta = ObjectMeta_zero, mdpSpec = \<lparr>mdpSelector = [], mdpConnections = []\<rparr>,
      mdpStatus = \<lparr>mdpConditions = [], mdpConnectionStatus = [], mdpObservedGeneration = 0\<rparr>\<rparr>"

text \<open>The object that an \<open>ObjectMeta\<close> with only a name and a namespace stands for.\<close>

definition ObjectMeta_of :: "string \<Rightarrow> string \<Rightarrow> (string \<rightharpoonup> string) \<Rightarrow> ObjectMeta" where
  "ObjectMeta_of n ns labels =
     ObjectMeta_zero\<lparr>metaName := n, metaNamespace := ns, metaLabels := labels\<rparr>"

end
