(* ===== verification/RelDBInterface.thy ===== *)
theory RelDBInterface
  imports GoStrings
begin

section \<open>The interface of the relational database client\<close>

text \<open>
  \<open>RelationalDatabaseInterface\<close> of \<open>internal/database/database.go\<close>: the methods the
  reconcilers call, as a record of programs over the state \<open>'s\<close> of whatever implements it.
  The arguments keep the order of the methods, without the context. \<open>GetConnection\<close> is left
  out: no caller uses it through the interface. \<open>RelationalDatabaseMock\<close> of
  \<open>internal/database/mock.go\<close> is an implementation with no state.

  The locale \<open>credential_store\<close> is what a reconciler relies on: which name and namespace has
  which credentials, seen through the abstraction \<open>creds\<close>, under an invariant of the
  implementation's state. It is interpreted for the mock here and for the SQL implementation
  in \<open>MemSQL\<close>.
\<close>

record RelationalDatabaseInfo =
  Username :: string
  Password :: string
  Dbname :: string

lemma info_eta [simp]:
  "\<lparr>Username = Username info, Password = Password info, Dbname = Dbname info\<rparr> = info"
  by simp

text \<open>
  The results an implementation can return next to an error are not modelled: the callers
  drop the value when the error is not nil.
\<close>

record 's RelationalDatabaseInterface =
  rdiPing :: "string \<Rightarrow> string \<Rightarrow> ('s, unit) go"
  rdiVersion :: "string \<Rightarrow> string \<Rightarrow> ('s, string) go"
  rdiLoad :: "string \<Rightarrow> string \<Rightarrow> ('s, 64 word) go"
  rdiInitialize :: "string \<Rightarrow> string \<Rightarrow> ('s, unit) go"
  rdiCreateDatabase ::
    "string \<Rightarrow> string \<Rightarrow> string \<Rightarrow> string \<Rightarrow> string \<Rightarrow> ('s, RelationalDatabaseInfo) go"
  rdiDropDatabase :: "string \<Rightarrow> string \<Rightarrow> string \<Rightarrow> string \<Rightarrow> ('s, unit) go"
  rdiGetDatabaseInfo ::
    "string \<Rightarrow> string \<Rightarrow> string \<Rightarrow> string \<Rightarrow> ('s, RelationalDatabaseInfo) go"
  rdiSetDatabaseInfo ::
    "string \<Rightarrow> string \<Rightarrow> string \<Rightarrow> string \<Rightarrow> RelationalDatabaseInfo \<Rightarrow> ('s, unit) go"

subsection \<open>The mock\<close>

definition mock_info :: RelationalDatabaseInfo where
  "mock_info = \<lparr>Username = ''user'', Password = ''pass'', Dbname = ''db''\<rparr>"

definition RelationalDatabaseMock :: "'s RelationalDatabaseInterface" where
  "RelationalDatabaseMock =
     \<lparr>rdiPing = (\<lambda>dsn kind. ok ()),
      rdiVersion = (\<lambda>dsn kind. ok ''5.7.34''),
      rdiLoad = (\<lambda>dsn kind. ok 10),
      rdiInitialize = (\<lambda>dsn kind. ok ()),
      rdiCreateDatabase = (\<lambda>dsn name namespace kind username. ok mock_info),
      rdiDropDatabase = (\<lambda>dsn name namespace kind. ok ()),
      rdiGetDatabaseInfo = (\<lambda>dsn name namespace kind. ok mock_info),
      rdiSetDatabaseInfo = (\<lambda>dsn name namespace kind info. ok ())\<rparr>"

subsection \<open>What a reconciler relies on\<close>

text \<open>
  One call of a client: any method, on any data source, whatever it returns. \<open>ok_name\<close> says
  which namespaces and provider users the client passes, \<open>ok_info\<close> which credentials.
\<close>

inductive client_step ::
    "'s RelationalDatabaseInterface \<Rightarrow> (string \<Rightarrow> bool) \<Rightarrow> (RelationalDatabaseInfo \<Rightarrow> bool) \<Rightarrow>
      's \<Rightarrow> 's \<Rightarrow> bool"
  for db :: "'s RelationalDatabaseInterface" and ok_name :: "string \<Rightarrow> bool"
    and ok_info :: "RelationalDatabaseInfo \<Rightarrow> bool" where
  ping: "run_state (rdiPing db dsn dbType) s = (r, t) \<Longrightarrow> client_step db ok_name ok_info s t"
| version: "run_state (rdiVersion db dsn dbType) s = (r, t) \<Longrightarrow> client_step db ok_name ok_info s t"
| load: "run_state (rdiLoad db dsn dbType) s = (r, t) \<Longrightarrow> client_step db ok_name ok_info s t"
| initialize: "run_state (rdiInitialize db dsn dbType) s = (r, t) \<Longrightarrow> client_step db ok_name ok_info s t"
| create: "run_state (rdiCreateDatabase db dsn name namespace dbType user) s = (r, t) \<Longrightarrow>
     ok_name namespace \<Longrightarrow> ok_name user \<Longrightarrow> client_step db ok_name ok_info s t"
| drop: "run_state (rdiDropDatabase db dsn name namespace dbType) s = (r, t) \<Longrightarrow>
     ok_name namespace \<Longrightarrow> client_step db ok_name ok_info s t"
| get: "run_state (rdiGetDatabaseInfo db dsn name namespace dbType) s = (r, t) \<Longrightarrow>
     ok_name namespace \<Longrightarrow> client_step db ok_name ok_info s t"
| set: "run_state (rdiSetDatabaseInfo db dsn name namespace dbType info) s = (r, t) \<Longrightarrow>
     ok_info info \<Longrightarrow> client_step db ok_name ok_info s t"

abbreviation client_steps where
  "client_steps db ok_name ok_info \<equiv> (client_step db ok_name ok_info)\<^sup>*\<^sup>*"

text \<open>
  \<open>creds dsn s\<close> are the credentials that the database reached by \<open>dsn\<close> records in the
  state \<open>s\<close>; \<open>sinv\<close> is the invariant of the implementation's state. No call changes recorded
  credentials, whatever it returns; a successful \<open>CreateDatabase\<close> or \<open>GetDatabaseInfo\<close>
  returns the recorded ones.
\<close>

definition creds_kept ::
    "(string \<Rightarrow> 's \<Rightarrow> string \<times> string \<Rightarrow> RelationalDatabaseInfo option) \<Rightarrow> 's \<Rightarrow> 's \<Rightarrow> bool" where
  "creds_kept creds s t \<longleftrightarrow>
     (\<forall>dsn key info. creds dsn s key = Some info \<longrightarrow> creds dsn t key = Some info)"

lemma creds_keptD: "creds_kept creds s t \<Longrightarrow> creds dsn s key = Some info \<Longrightarrow> creds dsn t key = Some info"
  unfolding creds_kept_def by blast

locale credential_store =
  fixes db :: "'s RelationalDatabaseInterface"
    and creds :: "string \<Rightarrow> 's \<Rightarrow> string \<times> string \<Rightarrow> RelationalDatabaseInfo option"
    and sinv :: "'s \<Rightarrow> bool"
    and ok_name :: "string \<Rightarrow> bool"
    and ok_info :: "RelationalDatabaseInfo \<Rightarrow> bool"
  assumes step_law:
    "\<And>s t. client_step db ok_name ok_info s t \<Longrightarrow> sinv s \<Longrightarrow> sinv t \<and> creds_kept creds s t"
    and create_law:
    "\<And>s dsn name namespace dbType user info t.
     sinv s \<Longrightarrow> ok_name namespace \<Longrightarrow> ok_name user \<Longrightarrow>
     run_state (rdiCreateDatabase db dsn name namespace dbType user) s = (Ok info, t) \<Longrightarrow>
       creds dsn t (name, namespace) = Some info"
    and get_law:
    "\<And>s dsn name namespace dbType info t.
     sinv s \<Longrightarrow> ok_name namespace \<Longrightarrow>
     run_state (rdiGetDatabaseInfo db dsn name namespace dbType) s = (Ok info, t) \<Longrightarrow>
       creds dsn t (name, namespace) = Some info"
begin

lemma steps_law:
  assumes "client_steps db ok_name ok_info s t" and "sinv s"
  shows "sinv t \<and> creds_kept creds s t"
  using assms
proof (induction rule: rtranclp_induct)
  case base
  then show ?case by (simp add: creds_kept_def)
next
  case (step t u)
  then have "sinv t" and "creds_kept creds s t" by simp_all
  with step_law [OF step.hyps(2)] show ?case by (simp add: creds_kept_def)
qed

text \<open>Recorded credentials are those every later query or creation returns.\<close>

lemma recorded_get:
  assumes "sinv s" and "ok_name namespace" and "creds dsn s (name, namespace) = Some info"
    and get: "run_state (rdiGetDatabaseInfo db dsn name namespace dbType) s = (Ok info', t)"
  shows "info' = info"
proof -
  have "client_step db ok_name ok_info s t" using get assms(2) by (rule client_step.get)
  from step_law [OF this assms(1)] assms(3)
  have "creds dsn t (name, namespace) = Some info" by (simp add: creds_kept_def)
  with get_law [OF assms(1,2) get] show ?thesis by simp
qed

lemma recorded_create:
  assumes "sinv s" and "ok_name namespace" and "ok_name user" and "creds dsn s (name, namespace) = Some info"
    and create: "run_state (rdiCreateDatabase db dsn name namespace dbType user) s = (Ok info', t)"
  shows "info' = info"
proof -
  have "client_step db ok_name ok_info s t" using create assms(2,3) by (rule client_step.create)
  from step_law [OF this assms(1)] assms(4)
  have "creds dsn t (name, namespace) = Some info" by (simp add: creds_kept_def)
  with create_law [OF assms(1-3) create] show ?thesis by simp
qed

text \<open>
  What a creation handed out is what every later creation or query hands out, however the
  client was used in between, drops included.
\<close>

lemma created_recorded:
  assumes "sinv s" and "ok_name namespace" and "ok_name user"
    and create: "run_state (rdiCreateDatabase db dsn name namespace dbType user) s = (Ok info, t)"
    and "client_steps db ok_name ok_info t u"
  shows "sinv u \<and> creds dsn u (name, namespace) = Some info"
proof -
  have "client_step db ok_name ok_info s t" using create assms(2,3) by (rule client_step.create)
  from step_law [OF this assms(1)] have "sinv t" by simp
  with create_law [OF assms(1-3) create] steps_law [OF assms(5)] show ?thesis
    by (simp add: creds_kept_def)
qed

lemma created_then_get:
  assumes "sinv s" and "ok_name namespace" and "ok_name user"
    and "run_state (rdiCreateDatabase db dsn name namespace dbType user) s = (Ok info, t)"
    and "client_steps db ok_name ok_info t u"
    and "run_state (rdiGetDatabaseInfo db dsn name namespace dbType') u = (Ok info', v)"
  shows "info' = info"
  using created_recorded [OF assms(1-5)] recorded_get [OF _ assms(2) _ assms(6)] by blast

lemma created_then_created:
  assumes "sinv s" and "ok_name namespace" and "ok_name user" and "ok_name user'"
    and "run_state (rdiCreateDatabase db dsn name namespace dbType user) s = (Ok info, t)"
    and "client_steps db ok_name ok_info t u"
    and "run_state (rdiCreateDatabase db dsn name namespace dbType' user') u = (Ok info', v)"
  shows "info' = info"
  using created_recorded [OF assms(1-3,5,6)] recorded_create [OF _ assms(2,4) _ assms(7)] by blast

end

interpretation mock: credential_store
  "RelationalDatabaseMock :: 's RelationalDatabaseInterface"
  "\<lambda>dsn s key. Some mock_info" "\<lambda>s. True" "\<lambda>n. True" "\<lambda>info. True"
  by unfold_locales (auto simp: RelationalDatabaseMock_def creds_kept_def)

end
