(* ===== verification/Kube.thy ===== *)
theory Kube
  imports ApiTypes RelDBInterface
begin

section \<open>What the reconcilers call: the API server, the libraries, the metrics\<close>

text \<open>
  The packages behind the reconcilers are not part of the repository: the controller-runtime
  client, the condition and finalizer helpers, \<open>cmp.Diff\<close> and the title caser. They are
  parameters of the model: the record \<open>client\<close> of programs over the state of the cluster,
  and the record \<open>library\<close> of functions.

  A reconciler's state has the cluster, the state of the database client, the object that its
  pointer \<open>databaseRequest\<close> or \<open>instance\<close> refers to, and the metrics and events it has
  written so far. Two locales state what the API server promises and are used where a property
  needs it: \<open>cluster_frame\<close>, what each call may change, and its extension \<open>fresh_cluster\<close>,
  that a read returns what was written last.
\<close>

subsection \<open>The client\<close>

text \<open>
  An update writes the server's answer into the object it was given and may return an error,
  so it returns both. A created, updated or deleted secret or service is not used again after
  the call, so only the error matters.
\<close>

record 'w client =
  Get_DatabaseRequest :: "NamespacedName \<Rightarrow> ('w, DatabaseRequest) go"
  Update_DatabaseRequest :: "DatabaseRequest \<Rightarrow> ('w, DatabaseRequest \<times> go_error option) go"
  StatusUpdate_DatabaseRequest :: "DatabaseRequest \<Rightarrow> ('w, DatabaseRequest \<times> go_error option) go"
  Get_RelationalDatabaseProvider :: "NamespacedName \<Rightarrow> ('w, RelationalDatabaseProvider) go"
  List_RelationalDatabaseProvider :: "('w, RelationalDatabaseProvider list) go"
  Update_RelationalDatabaseProvider ::
    "RelationalDatabaseProvider \<Rightarrow> ('w, RelationalDatabaseProvider \<times> go_error option) go"
  StatusUpdate_RelationalDatabaseProvider ::
    "RelationalDatabaseProvider \<Rightarrow> ('w, RelationalDatabaseProvider \<times> go_error option) go"
  Get_MongoDBProvider :: "NamespacedName \<Rightarrow> ('w, MongoDBProvider) go"
  Update_MongoDBProvider :: "MongoDBProvider \<Rightarrow> ('w, MongoDBProvider \<times> go_error option) go"
  StatusUpdate_MongoDBProvider :: "MongoDBProvider \<Rightarrow> ('w, MongoDBProvider \<times> go_error option) go"
  Get_Secret :: "NamespacedName \<Rightarrow> ('w, Secret) go"
  Create_Secret :: "Secret \<Rightarrow> ('w, unit) go"
  Update_Secret :: "Secret \<Rightarrow> ('w, unit) go"
  Delete_Secret :: "NamespacedName \<Rightarrow> ('w, unit) go"
  Get_Service :: "NamespacedName \<Rightarrow> ('w, Service) go"
  Create_Service :: "Service \<Rightarrow> ('w, unit) go"
  Update_Service :: "Service \<Rightarrow> ('w, unit) go"
  Delete_Service :: "NamespacedName \<Rightarrow> ('w, unit) go"

text \<open>
  \<open>meta.SetStatusCondition\<close>, \<open>meta.RemoveStatusCondition\<close>, \<open>meta.IsStatusConditionTrue\<close>,
  \<open>controllerutil.ContainsFinalizer\<close>, \<open>AddFinalizer\<close> and \<open>RemoveFinalizer\<close>, the English title caser and
  \<open>cmp.Diff\<close> on secret data. The helpers that change a slice return it with their result.
\<close>

record library =
  SetStatusCondition :: "Condition list \<Rightarrow> Condition \<Rightarrow> Condition list \<times> bool"
  RemoveStatusCondition :: "Condition list \<Rightarrow> string \<Rightarrow> Condition list \<times> bool"
  IsStatusConditionTrue :: "Condition list \<Rightarrow> string \<Rightarrow> bool"
  ContainsFinalizer :: "string list \<Rightarrow> string \<Rightarrow> bool"
  AddFinalizer :: "string list \<Rightarrow> string \<Rightarrow> string list \<times> bool"
  RemoveFinalizer :: "string list \<Rightarrow> string \<Rightarrow> string list \<times> bool"
  Title :: "string \<Rightarrow> string"
  Diff :: "(string \<rightharpoonup> string) \<Rightarrow> (string \<rightharpoonup> string) \<Rightarrow> string"

subsection \<open>Metrics and events\<close>

text \<open>
  A vector of metrics with its declared label names; a metric is selected by a map of labels
  (\<open>With\<close>) or by values in the declared order (\<open>WithLabelValues\<close>). Prometheus panics on
  labels that do not fit the declaration; \<open>fitting\<close> says that they do.
\<close>

record prom_vec =
  pvName :: string
  pvLabels :: "string list"

datatype labels = With "string \<rightharpoonup> string" | WithLabelValues "string list"

fun fitting :: "prom_vec \<Rightarrow> labels \<Rightarrow> bool" where
  "fitting v (With l) = (dom l = set (pvLabels v))"
| "fitting v (WithLabelValues vs) = (length vs = length (pvLabels v))"

text \<open>An event is recorded with its type, reason, action and note.\<close>

datatype effect =
    Inc prom_vec labels
  | Set prom_vec labels int
  | DeletePartialMatch prom_vec "string \<rightharpoonup> string"
  | Eventf string string string string

fun fitting_effect :: "effect \<Rightarrow> bool" where
  "fitting_effect (Inc v l) = fitting v l"
| "fitting_effect (Set v l n) = fitting v l"
| "fitting_effect (DeletePartialMatch v l) = True"
| "fitting_effect (Eventf t r a n) = True"

definition EventTypeNormal :: string where
  "EventTypeNormal = ''Normal''"

definition EventTypeWarning :: string where
  "EventTypeWarning = ''Warning''"

subsection \<open>The state of a reconciler\<close>

record ('w, 'd, 'o) rstate =
  cluster :: 'w
  dbs :: 'd
  obj :: 'o
  effects :: "effect list"

definition in_cluster :: "('w, 'a) state \<Rightarrow> (('w, 'd, 'o) rstate, 'a) state" where
  "in_cluster m = on_part cluster cluster_update m"

definition in_dbs :: "('d, 'a) state \<Rightarrow> (('w, 'd, 'o) rstate, 'a) state" where
  "in_dbs m = on_part dbs dbs_update m"

definition emit :: "effect \<Rightarrow> (('w, 'd, 'o) rstate, unit) go" where
  "emit e = State (\<lambda>s. (Ok (), s\<lparr>effects := effects s @ [e]\<rparr>))"

definition get_obj :: "(('w, 'd, 'o) rstate, 'o) go" where
  "get_obj = State (\<lambda>s. (Ok (obj s), s))"

definition set_obj :: "'o \<Rightarrow> (('w, 'd, 'o) rstate, unit) go" where
  "set_obj x = State (\<lambda>s. (Ok (), s\<lparr>obj := x\<rparr>))"

text \<open>An update call on the object the pointer refers to.\<close>

definition update_obj :: "('o \<Rightarrow> ('w, 'o \<times> go_error option) go) \<Rightarrow> (('w, 'd, 'o) rstate, unit) go" where
  "update_obj upd =
     go_try get_obj fail (\<lambda>x.
     go_try (in_cluster (upd x)) fail (\<lambda>(x', err).
     go_try (set_obj x') fail (\<lambda>_.
       (case err of None \<Rightarrow> ok () | Some e \<Rightarrow> fail e))))"

text \<open>
  A deferred ending of a program, such as the unlocking of a mutex, is left to the theory
  \<open>Locks\<close>. \<open>and_then m k\<close> is \<open>m; k\<close> for a call \<open>m\<close> that returns no error.
\<close>

definition and_then :: "('s, 'a) go \<Rightarrow> ('s, 'b) go \<Rightarrow> ('s, 'b) go" where
  "and_then m k = go_try m fail (\<lambda>_. k)"

text \<open>The program that goes on with the current value of the object.\<close>

definition with_obj :: "('o \<Rightarrow> (('w, 'd, 'o) rstate, 'a) go) \<Rightarrow> (('w, 'd, 'o) rstate, 'a) go" where
  "with_obj k = go_try get_obj fail k"

text \<open>Dereferencing a nil pointer, or calling a method of a nil interface.\<close>

definition nil_pointer :: "('s, 'a) go" where
  "nil_pointer = panic ''runtime error: invalid memory address or nil pointer dereference''"

text \<open>\<open>string(secret.Data["password"])\<close>: a missing key reads as the empty string.\<close>

definition secret_password :: "Secret \<Rightarrow> string" where
  "secret_password secret = (case secretData secret ''password'' of None \<Rightarrow> [] | Some p \<Rightarrow> p)"

definition secret_key_of :: "SecretReference \<Rightarrow> NamespacedName" where
  "secret_key_of ref = \<lparr>nnName = refName ref, nnNamespace = refNamespace ref\<rparr>"

text \<open>\<open>o.DeletionTimestamp != nil && !o.DeletionTimestamp.IsZero()\<close>, for a provider.\<close>

definition being_deleted :: "ObjectMeta \<Rightarrow> bool" where
  "being_deleted m \<longleftrightarrow> (case metaDeletionTimestamp m of None \<Rightarrow> False | Some t \<Rightarrow> \<not> Time_IsZero t)"

lemma run_emit [simp]: "run_state (emit e) s = (Ok (), s\<lparr>effects := effects s @ [e]\<rparr>)"
  by (simp add: emit_def)

lemma run_get_obj [simp]: "run_state get_obj s = (Ok (obj s), s)"
  by (simp add: get_obj_def)

lemma run_set_obj [simp]: "run_state (set_obj x) s = (Ok (), s\<lparr>obj := x\<rparr>)"
  by (simp add: set_obj_def)

lemma run_in_cluster [simp]:
  "run_state (in_cluster m) s = (case run_state m (cluster s) of (r, w) \<Rightarrow> (r, s\<lparr>cluster := w\<rparr>))"
  by (simp add: in_cluster_def split: prod.splits)

lemma run_in_dbs [simp]:
  "run_state (in_dbs m) s = (case run_state m (dbs s) of (r, d) \<Rightarrow> (r, s\<lparr>dbs := d\<rparr>))"
  by (simp add: in_dbs_def split: prod.splits)

lemma run_emit_then [simp]:
  "run_state (and_then (emit e) k) s = run_state k (s\<lparr>effects := effects s @ [e]\<rparr>)"
  "run_state (and_then (set_obj x) k) s = run_state k (s\<lparr>obj := x\<rparr>)"
  by (simp_all add: and_then_def run_go_try)

lemma run_get_obj_then [simp]: "run_state (go_try get_obj h k) s = run_state (k (obj s)) s"
  by (simp add: run_go_try)

lemma post_emit [post_rules]: "post (emit e) s Q = Q (Ok ()) (s\<lparr>effects := effects s @ [e]\<rparr>)"
  by (simp add: post_def)

lemma post_get_obj [post_rules]: "post get_obj s Q = Q (Ok (obj s)) s"
  by (simp add: post_def)

lemma post_set_obj [post_rules]: "post (set_obj x) s Q = Q (Ok ()) (s\<lparr>obj := x\<rparr>)"
  by (simp add: post_def)

lemma post_in_cluster [post_rules]:
  "post (in_cluster m) s Q = post m (cluster s) (\<lambda>r w. Q r (s\<lparr>cluster := w\<rparr>))"
  by (simp add: post_def split: prod.splits)

lemma post_in_dbs [post_rules]: "post (in_dbs m) s Q = post m (dbs s) (\<lambda>r d. Q r (s\<lparr>dbs := d\<rparr>))"
  by (simp add: post_def split: prod.splits)

lemma post_and_then [post_rules]:
  "post (and_then m k) s Q =
     post m s (\<lambda>r t. case r of Ok x \<Rightarrow> post k t Q
                            | Err err \<Rightarrow> Q (Err err) t
                            | Panic text \<Rightarrow> Q (Panic text) t)"
  by (simp add: and_then_def post_go_try post_fail cong: outcome.case_cong)

text \<open>A call leaves the parts of the state alone that it does not work on.\<close>

lemma preserves_in_cluster:
  "(\<And>s w r. run_state m (cluster s) = (r, w) \<Longrightarrow> R s (s\<lparr>cluster := w\<rparr>)) \<Longrightarrow> preserves R (in_cluster m)"
  by (rule preservesI) (auto split: prod.splits)

lemma preserves_in_dbs:
  "(\<And>s d r. run_state m (dbs s) = (r, d) \<Longrightarrow> R s (s\<lparr>dbs := d\<rparr>)) \<Longrightarrow> preserves R (in_dbs m)"
  by (rule preservesI) (auto split: prod.splits)

lemma preserves_emit: "(\<And>s. R s (s\<lparr>effects := effects s @ [e]\<rparr>)) \<Longrightarrow> preserves R (emit e)"
  by (rule preservesI) auto

lemma preserves_get_obj: "preorder_rel R \<Longrightarrow> preserves R get_obj"
  by (rule preservesI) (auto simp: preorder_rel_def reflp_def)

lemma preserves_set_obj: "(\<And>s. R s (s\<lparr>obj := x\<rparr>)) \<Longrightarrow> preserves R (set_obj x)"
  by (rule preservesI) auto

lemma preserves_and_then [preserves_rules]:
  "preorder_rel R \<Longrightarrow> preserves R m \<Longrightarrow> preserves R k \<Longrightarrow> preserves R (and_then m k)"
  unfolding and_then_def by (intro preserves_rules)

lemma run_with_obj [simp]: "run_state (with_obj k) s = run_state (k (obj s)) s"
  by (simp add: with_obj_def)

lemma post_with_obj [post_rules]: "post (with_obj k) s Q = post (k (obj s)) s Q"
  by (simp add: post_def)

lemma preserves_with_obj [preserves_rules]:
  "(\<And>x. preserves R (k x)) \<Longrightarrow> preserves R (with_obj k)"
  by (auto simp: preserves_def post_rules)

lemma and_then_OkE:
  assumes "run_state (and_then m k) s = (Ok y, t)"
  obtains x u where "run_state m s = (Ok x, u)" and "run_state k u = (Ok y, t)"
  using assms unfolding and_then_def by (auto elim: go_try_fail_OkE [where f = "\<lambda>err. err"])

text \<open>Running an update call on the object.\<close>

lemma run_update_objD:
  assumes "run_state (update_obj upd) s = (r, t)"
  shows "\<exists>w x r'. t = s\<lparr>cluster := w, obj := x\<rparr> \<and> run_state (upd (obj s)) (cluster s) = (r', w) \<and>
    ((\<exists>e. r' = Ok (x, e)) \<or> x = obj s) \<and> (r = Ok () \<longrightarrow> r' = Ok (x, None))"
proof -
  obtain r' w where run: "run_state (upd (obj s)) (cluster s) = (r', w)" by fastforce
  have self: "s\<lparr>cluster := w\<rparr> = s\<lparr>cluster := w, obj := obj s\<rparr>" by simp
  show ?thesis
  proof (cases r')
    case (Ok p)
    obtain x e where "p = (x, e)" by fastforce
    with assms run Ok show ?thesis
      by (cases e) (auto simp: update_obj_def run_go_try)
  next
    case (Err err)
    with assms run self show ?thesis by (auto simp: update_obj_def run_go_try)
  next
    case (Panic msg)
    with assms run self show ?thesis by (auto simp: update_obj_def run_go_try)
  qed
qed

lemma run_update_obj_effects:
  "run_state (update_obj upd) s = (r, t) \<Longrightarrow> effects t = effects s \<and> dbs t = dbs s"
  by (auto dest: run_update_objD)

lemma update_obj_post: "post (update_obj upd) s (\<lambda>_ t. effects t = effects s \<and> dbs t = dbs s)"
  by (rule postI) (rule run_update_obj_effects)

subsection \<open>What a program has written\<close>

text \<open>\<open>fits\<close>: a program only adds metrics and events, with labels that fit their declarations.\<close>

definition fits :: "('w, 'd, 'o) rstate \<Rightarrow> ('w, 'd, 'o) rstate \<Rightarrow> bool" where
  "fits s t \<longleftrightarrow> (\<exists>es. effects t = effects s @ es \<and> list_all fitting_effect es)"

lemma preorder_fits [simp]: "preorder_rel fits"
proof -
  have "fits s u" if st: "fits s t" and tu: "fits t u" for s t u :: "('w, 'd, 'o) rstate"
  proof -
    from st tu obtain es es' where "effects t = effects s @ es" "list_all fitting_effect es"
      "effects u = effects t @ es'" "list_all fitting_effect es'"
      unfolding fits_def by blast
    then show ?thesis unfolding fits_def by (intro exI [of _ "es @ es'"]) simp
  qed
  moreover have "fits s s" for s :: "('w, 'd, 'o) rstate" by (simp add: fits_def)
  ultimately show ?thesis unfolding preorder_rel_def by (blast intro: reflpI transpI)
qed

named_theorems fits_rules "programs that write fitting metrics"

lemma fits_emit: "fitting_effect e \<Longrightarrow> preserves fits (emit e)"
  by (rule preserves_emit) (simp add: fits_def)

lemma fits_calls [fits_rules]:
  "preserves fits (in_cluster m)" "preserves fits (in_dbs m')" "preserves fits (update_obj upd)"
  "preserves fits (set_obj x)" "preserves fits nil_pointer"
  by (rule preservesI, force simp: fits_def nil_pointer_def dest: run_update_obj_effects split: prod.splits)+

lemma fits_emit_values [fits_rules]:
  "length vs = length (pvLabels v) \<Longrightarrow> preserves fits (emit (Inc v (WithLabelValues vs)))"
  "length vs = length (pvLabels v) \<Longrightarrow> preserves fits (emit (Set v (WithLabelValues vs) n))"
  by (rule fits_emit, simp)+

text \<open>The value of a gauge after some effects: that of the last \<open>Set\<close> of the vector.\<close>

fun gauge_from :: "prom_vec \<Rightarrow> int option \<Rightarrow> effect list \<Rightarrow> int option" where
  "gauge_from v g [] = g"
| "gauge_from v g (Set v' l n # es) = gauge_from v (if v' = v then Some n else g) es"
| "gauge_from v g (_ # es) = gauge_from v g es"

definition gauge :: "prom_vec \<Rightarrow> effect list \<Rightarrow> int option" where
  "gauge v es = gauge_from v None es"

lemma gauge_from_append: "gauge_from v g (es @ fs) = gauge_from v (gauge_from v g es) fs"
  by (induction v g es rule: gauge_from.induct) auto

lemma gauge_append [simp]: "gauge v (es @ fs) = gauge_from v (gauge v es) fs"
  by (simp add: gauge_def gauge_from_append)

subsection \<open>What the API server promises\<close>

text \<open>
  The part of the cluster the properties speak about: the data of the secrets, the external
  names of the services, the finalizers of the stored database requests (none, for a request
  that does not exist), and the relational database providers.
\<close>

record cluster_view =
  viewSecrets :: "NamespacedName \<rightharpoonup> (string \<rightharpoonup> string)"
  viewServices :: "NamespacedName \<rightharpoonup> string"
  viewFinalizers :: "NamespacedName \<Rightarrow> string list"
  viewProviders :: "RelationalDatabaseProvider list"

definition meta_key :: "ObjectMeta \<Rightarrow> NamespacedName" where
  "meta_key m = \<lparr>nnName = metaName m, nnNamespace = metaNamespace m\<rparr>"

definition keeps_view :: "('w \<Rightarrow> cluster_view) \<Rightarrow> ('w, 'a) state \<Rightarrow> bool" where
  "keeps_view view m \<longleftrightarrow> (\<forall>w r w'. run_state m w = (r, w') \<longrightarrow> view w' = view w)"

text \<open>A write that failed may have been carried out; one that succeeded was.\<close>

definition writes :: "('w \<Rightarrow> cluster_view) \<Rightarrow> (cluster_view \<Rightarrow> cluster_view) \<Rightarrow> ('w, unit) go \<Rightarrow> bool" where
  "writes view f m \<longleftrightarrow>
     (\<forall>w r w'. run_state m w = (r, w') \<longrightarrow>
        (view w' = view w \<or> view w' = f (view w)) \<and> (r = Ok () \<longrightarrow> view w' = f (view w)))"

lemma writesD:
  "writes view f m \<Longrightarrow> run_state m w = (r, w') \<Longrightarrow>
     (view w' = view w \<or> view w' = f (view w)) \<and> (r = Ok () \<longrightarrow> view w' = f (view w))"
  unfolding writes_def by blast

text \<open>
  The fields of a specification that the reconciler never changes, and the relation between
  requests that agree on them and on their name.
\<close>

definition core_spec :: "DatabaseRequestSpec \<Rightarrow> DatabaseRequestSpec" where
  "core_spec spec = spec\<lparr>specDatabaseConnectionReference := None, specSeed := None\<rparr>"

lemma core_spec_fields [simp]:
  "specName (core_spec spec) = specName spec" "specType (core_spec spec) = specType spec"
  "specSelector (core_spec spec) = specSelector spec"
  "core_spec (spec\<lparr>specDatabaseConnectionReference := ref\<rparr>) = core_spec spec"
  "core_spec (spec\<lparr>specSeed := sd\<rparr>) = core_spec spec"
  by (simp_all add: core_spec_def)

lemma core_spec_eqD:
  "core_spec a = core_spec b \<Longrightarrow> specName a = specName b \<and> specType a = specType b \<and> specSelector a = specSelector b"
  by (metis core_spec_fields(1-3))

definition same_core :: "DatabaseRequest \<Rightarrow> DatabaseRequest \<Rightarrow> bool" where
  "same_core a b \<longleftrightarrow> meta_key (drMeta b) = meta_key (drMeta a) \<and> core_spec (drSpec b) = core_spec (drSpec a)"

lemma same_core_refl [simp]: "same_core a a"
  by (simp add: same_core_def)

text \<open>
  The laws. The server refuses a stale object with a conflict and answers a successful update
  with the object it stores, so the object written back has the name and the specification
  of the one that was sent, as far as the reconciler leaves the specification alone.
\<close>

locale cluster_frame =
  fixes K :: "'w client" and view :: "'w \<Rightarrow> cluster_view"
  assumes reads:
    "keeps_view view (Get_DatabaseRequest K k)"
    "keeps_view view (Get_RelationalDatabaseProvider K k)"
    "keeps_view view (List_RelationalDatabaseProvider K)"
    "keeps_view view (Get_Secret K k)"
    "keeps_view view (Get_Service K k)"
    and status_update:
    "keeps_view view (StatusUpdate_DatabaseRequest K d)"
    and status_update_same:
    "\<And>w d e w'. run_state (StatusUpdate_DatabaseRequest K d) w = (Ok (d', e), w') \<Longrightarrow> same_core d d'"
    and update:
    "\<And>w r w'. run_state (Update_DatabaseRequest K d) w = (r, w') \<Longrightarrow>
       view w' = view w \<or>
       view w' = view w\<lparr>viewFinalizers := (viewFinalizers (view w))(meta_key (drMeta d) := metaFinalizers (drMeta d))\<rparr>"
    and update_same:
    "\<And>w e w'. run_state (Update_DatabaseRequest K d) w = (Ok (d', e), w') \<Longrightarrow>
       same_core d d' \<and> drSpec d' = drSpec d"
    and create_secret:
    "writes view (\<lambda>v. v\<lparr>viewSecrets := (viewSecrets v)(meta_key (secretMeta sec) \<mapsto> secretData sec)\<rparr>) (Create_Secret K sec)"
    and update_secret:
    "writes view (\<lambda>v. v\<lparr>viewSecrets := (viewSecrets v)(meta_key (secretMeta sec) \<mapsto> secretData sec)\<rparr>) (Update_Secret K sec)"
    and delete_secret:
    "writes view (\<lambda>v. v\<lparr>viewSecrets := (viewSecrets v)(k := None)\<rparr>) (Delete_Secret K k)"
    and create_service:
    "writes view (\<lambda>v. v\<lparr>viewServices := (viewServices v)(meta_key (svcMeta svc) \<mapsto> svcExternalName svc)\<rparr>) (Create_Service K svc)"
    and update_service:
    "writes view (\<lambda>v. v\<lparr>viewServices := (viewServices v)(meta_key (svcMeta svc) \<mapsto> svcExternalName svc)\<rparr>) (Update_Service K svc)"
    and delete_service:
    "writes view (\<lambda>v. v\<lparr>viewServices := (viewServices v)(k := None)\<rparr>) (Delete_Service K k)"
    and delete_missing:
    "\<And>w err w'. run_state (Delete_Secret K k) w = (Err err, w') \<Longrightarrow> IsNotFound err \<Longrightarrow> viewSecrets (view w') k = None"
    "\<And>w err w'. run_state (Delete_Service K k) w = (Err err, w') \<Longrightarrow> IsNotFound err \<Longrightarrow> viewServices (view w') k = None"
begin

text \<open>The calls of a reconciler that leave the view alone, as postconditions.\<close>

lemma quiet_call:
  assumes "keeps_view view m"
  shows "post (in_cluster m) s (\<lambda>r t. \<exists>w. t = s\<lparr>cluster := w\<rparr> \<and> view w = view (cluster s))"
  using assms by (auto simp: post_def keeps_view_def split: prod.splits)

lemma status_update_call:
  "post (update_obj (StatusUpdate_DatabaseRequest K)) s
     (\<lambda>r t. \<exists>w x. t = s\<lparr>cluster := w, obj := x\<rparr> \<and> view w = view (cluster s) \<and> same_core (obj s) x)"
proof (rule postI)
  fix r t
  assume "run_state (update_obj (StatusUpdate_DatabaseRequest K)) s = (r, t)"
  from run_update_objD [OF this] obtain w x r' where t: "t = s\<lparr>cluster := w, obj := x\<rparr>"
    and run: "run_state (StatusUpdate_DatabaseRequest K (obj s)) (cluster s) = (r', w)"
    and x: "(\<exists>e. r' = Ok (x, e)) \<or> x = obj s"
    by blast
  from run status_update [of "obj s"] have "view w = view (cluster s)" by (simp add: keeps_view_def)
  moreover from x run have "same_core (obj s) x" by (auto dest: status_update_same)
  ultimately show "\<exists>w x. t = s\<lparr>cluster := w, obj := x\<rparr> \<and> view w = view (cluster s) \<and> same_core (obj s) x"
    using t by blast
qed

lemma update_call:
  "post (update_obj (Update_DatabaseRequest K)) s
     (\<lambda>r t. \<exists>w x. t = s\<lparr>cluster := w, obj := x\<rparr> \<and> same_core (obj s) x \<and> drSpec x = drSpec (obj s) \<and>
        (view w = view (cluster s) \<or>
         view w = view (cluster s)\<lparr>viewFinalizers :=
           (viewFinalizers (view (cluster s)))(meta_key (drMeta (obj s)) := metaFinalizers (drMeta (obj s)))\<rparr>))"
proof (rule postI)
  fix r t
  assume "run_state (update_obj (Update_DatabaseRequest K)) s = (r, t)"
  from run_update_objD [OF this] obtain w x r' where t: "t = s\<lparr>cluster := w, obj := x\<rparr>"
    and run: "run_state (Update_DatabaseRequest K (obj s)) (cluster s) = (r', w)"
    and x: "(\<exists>e. r' = Ok (x, e)) \<or> x = obj s"
    by blast
  from x run have "same_core (obj s) x \<and> drSpec x = drSpec (obj s)" by (auto dest: update_same)
  with t update [OF run] show "\<exists>w x. t = s\<lparr>cluster := w, obj := x\<rparr> \<and> same_core (obj s) x \<and> drSpec x = drSpec (obj s) \<and>
      (view w = view (cluster s) \<or>
       view w = view (cluster s)\<lparr>viewFinalizers :=
         (viewFinalizers (view (cluster s)))(meta_key (drMeta (obj s)) := metaFinalizers (drMeta (obj s)))\<rparr>)"
    by blast
qed

end

text \<open>Reads that see the last write.\<close>

locale fresh_cluster = cluster_frame K view
  for K :: "'w client" and view :: "'w \<Rightarrow> cluster_view" +
  assumes fresh_secret:
    "\<And>w w'. run_state (Get_Secret K k) w = (Ok sec, w') \<Longrightarrow>
       viewSecrets (view w) k = Some (secretData sec) \<and> meta_key (secretMeta sec) = k"
    and fresh_service:
    "\<And>w w'. run_state (Get_Service K k) w = (Ok svc, w') \<Longrightarrow>
       viewServices (view w) k = Some (svcExternalName svc) \<and> meta_key (svcMeta svc) = k"
    and fresh_missing:
    "\<And>w err w'. run_state (Get_Secret K k) w = (Err err, w') \<Longrightarrow> IsNotFound err \<Longrightarrow> viewSecrets (view w) k = None"
    "\<And>w err w'. run_state (Get_Service K k) w = (Err err, w') \<Longrightarrow> IsNotFound err \<Longrightarrow> viewServices (view w) k = None"
    and fresh_providers:
    "\<And>w w'. run_state (List_RelationalDatabaseProvider K) w = (Ok ps, w') \<Longrightarrow> ps = viewProviders (view w)"

definition rdp_name :: "RelationalDatabaseProvider \<Rightarrow> string" where
  "rdp_name p = metaName (rdpMeta p)"

definition mdp_name :: "MongoDBProvider \<Rightarrow> string" where
  "mdp_name p = metaName (mdpMeta p)"

subsection \<open>A kind of object and its status\<close>

text \<open>
  What the API server promises for one kind of object with a status subresource, \<open>nm\<close> being
  the name and \<open>spec\<close>, \<open>gen\<close> and \<open>status\<close> parts of an object: a read returns what is stored,
  a successful update answers with an object of the same name and specification, and a
  successful status update stores the status sent and answers with what it stored, the name,
  specification and generation being those of the object that was sent (a stale object is
  refused).
\<close>

locale status_store =
  fixes get :: "NamespacedName \<Rightarrow> ('w, 'o) go"
    and upd stupd :: "'o \<Rightarrow> ('w, 'o \<times> go_error option) go"
    and nm :: "'o \<Rightarrow> string" and spec :: "'o \<Rightarrow> 'sp" and gen :: "'o \<Rightarrow> int" and status :: "'o \<Rightarrow> 'st"
    and stored :: "'w \<Rightarrow> string \<Rightarrow> 'o option"
  assumes get_stored:
    "\<And>w w'. run_state (get k) w = (Ok x, w') \<Longrightarrow> nm x = nnName k \<and> stored w (nnName k) = Some x"
    and upd_same:
    "\<And>w e w'. run_state (upd x) w = (Ok (x', e), w') \<Longrightarrow> nm x' = nm x \<and> spec x' = spec x"
    and stupd_same:
    "\<And>w e w'. run_state (stupd x) w = (Ok (x', e), w') \<Longrightarrow> nm x' = nm x \<and> spec x' = spec x \<and> gen x' = gen x"
    and stupd_stored:
    "\<And>w w'. run_state (stupd x) w = (Ok (x', None), w') \<Longrightarrow>
       stored w' (nm x') = Some x' \<and> status x' = status x"
begin

lemma stupd_done:
  assumes "run_state (stupd x) w = (Ok (x', None), w')"
  shows "nm x' = nm x \<and> spec x' = spec x \<and> gen x' = gen x \<and> stored w' (nm x) = Some x' \<and> status x' = status x"
  using stupd_same [OF assms] stupd_stored [OF assms] by auto

lemma upd_call:
  "post (update_obj upd) s (\<lambda>r t. nm (obj t) = nm (obj s) \<and> spec (obj t) = spec (obj s))"
  by (rule postI, drule run_update_objD) (auto dest: upd_same)

lemma stupd_call:
  "post (update_obj stupd) s (\<lambda>r t.
     nm (obj t) = nm (obj s) \<and> spec (obj t) = spec (obj s) \<and> gen (obj t) = gen (obj s) \<and>
     (r = Ok () \<longrightarrow> stored (cluster t) (nm (obj s)) = Some (obj t) \<and> status (obj t) = status (obj s)))"
  by (rule postI, drule run_update_objD) (auto dest: stupd_done stupd_same)

end

end
