(* ===== verification/DbRequest.thy ===== *)
theory DbRequest
  imports Kube Conn
begin

section \<open>The DatabaseRequest reconciler (internal/controller/databaserequest_controller.go)\<close>

text \<open>
  \<open>Reconcile\<close> and everything it calls, on the state of \<open>Kube\<close>: the object that
  \<open>databaseRequest\<close> points to is the field \<open>obj\<close>, read again wherever the code reads it
  after a call that may have replaced it. \<open>ctrl.Result{}\<close> is the only result the code
  returns, so a reconciliation returns the unit value or an error.

  A nil \<open>*dbInfo\<close> is \<open>None\<close> and reading a field of it is a panic. The connection reference is
  compared by value where the code compares pointers: the branch only assigns one to the other.
  Log output is not modelled; the lock around \<open>Reconcile\<close> is in the theory \<open>Locks\<close>.
\<close>

definition databaseRequestFinalizer :: string where
  "databaseRequestFinalizer = ''databaserequest.crd.lagoon.sh/finalizer''"

definition ErrInvalidDatabaseType :: go_error where
  "ErrInvalidDatabaseType = errors_New ''invalid database type''"

definition promDatabaseRequestReconcileCounter :: prom_vec where
  "promDatabaseRequestReconcileCounter =
     \<lparr>pvName = ''databaserequest_reconcile_total'', pvLabels = [''name'', ''namespace'']\<rparr>"

definition promDatabaseRequestReconcileErrorCounter :: prom_vec where
  "promDatabaseRequestReconcileErrorCounter =
     \<lparr>pvName = ''databaserequest_reconcile_error_total'',
      pvLabels = [''name'', ''namespace'', ''selector'', ''type'', ''username'', ''databasename'', ''error'']\<rparr>"

definition promDatabaseRequestReconcileStatus :: prom_vec where
  "promDatabaseRequestReconcileStatus =
     \<lparr>pvName = ''databaserequest_reconcile_status'',
      pvLabels = [''name'', ''namespace'', ''selector'', ''type'', ''username'', ''databasename'']\<rparr>"

definition mysqlType :: string where
  "mysqlType = ''mysql''"

definition postgresType :: string where
  "postgresType = ''postgres''"

definition mongodbType :: string where
  "mongodbType = ''mongodb''"

record ('w, 'd) DatabaseRequestReconciler =
  Client :: "'w client"
  RelationalDatabaseClient :: "'d RelationalDatabaseInterface"

type_synonym ('w, 'd) request_state = "('w, 'd, DatabaseRequest) rstate"

text \<open>Assignments to fields of \<open>databaseRequest.Spec\<close> and \<open>databaseRequest.Status\<close>.\<close>

definition set_spec ::
    "(DatabaseRequestSpec \<Rightarrow> DatabaseRequestSpec) \<Rightarrow> (('w, 'd) request_state, unit) go" where
  "set_spec f = with_obj (\<lambda>o1. set_obj (o1\<lparr>drSpec := f (drSpec o1)\<rparr>))"

definition set_status ::
    "(DatabaseRequestStatus \<Rightarrow> DatabaseRequestStatus) \<Rightarrow> (('w, 'd) request_state, unit) go" where
  "set_status f = with_obj (\<lambda>o1. set_obj (o1\<lparr>drStatus := f (drStatus o1)\<rparr>))"

text \<open>\<open>meta.SetStatusCondition(&databaseRequest.Status.Conditions, c)\<close>: whether it changed them.\<close>

definition set_condition :: "library \<Rightarrow> Condition \<Rightarrow> (('w, 'd) request_state, bool) go" where
  "set_condition L c =
     with_obj (\<lambda>o1.
       case SetStatusCondition L (statusConditions (drStatus o1)) c of
         (conditions, changed) \<Rightarrow>
           and_then (set_status (statusConditions_update (\<lambda>_. conditions))) (ok changed))"

definition promLabels :: "DatabaseRequest \<Rightarrow> string \<Rightarrow> (string \<rightharpoonup> string)" where
  "promLabels databaseRequest withError =
     (let (username, databaseName) =
            (case statusDatabaseInfo (drStatus databaseRequest) of
               None \<Rightarrow> ([], [])
             | Some i \<Rightarrow> (infoUsername i, infoDatabasename i));
          labels =
            [''name'' \<mapsto> metaName (drMeta databaseRequest),
             ''namespace'' \<mapsto> metaNamespace (drMeta databaseRequest),
             ''selector'' \<mapsto> specSelector (drSpec databaseRequest),
             ''type'' \<mapsto> specType (drSpec databaseRequest),
             ''username'' \<mapsto> username,
             ''databasename'' \<mapsto> databaseName]
      in if withError \<noteq> [] then labels(''error'' \<mapsto> withError) else labels)"

definition handleError ::
    "library \<Rightarrow> ('w, 'd) DatabaseRequestReconciler \<Rightarrow> string \<Rightarrow> go_error \<Rightarrow> bool \<Rightarrow>
      (('w, 'd) request_state, unit) go" where
  "handleError L r promErr err ignoreError =
     with_obj (\<lambda>databaseRequest.
     and_then (emit (Inc promDatabaseRequestReconcileErrorCounter (With (promLabels databaseRequest promErr))))
     (and_then (emit (Set promDatabaseRequestReconcileStatus (With (promLabels databaseRequest [])) 0))
     (and_then (emit (Eventf EventTypeWarning ''ReconcileError'' (Error err) (Error err)))
     (and_then (set_condition L
        \<lparr>condType = ''Ready'', condStatus = ConditionFalse,
         condReason = errTypeToEventReason (Title L) promErr, condMessage = Error err\<rparr>)
     (and_then (set_condition L
        \<lparr>condType = ''Error'', condStatus = ConditionTrue, condReason = ''ReconcileFailed'',
         condMessage = ''An error occurred during reconciliation: '' @ Error err\<rparr>)
     (let finish = (if ignoreError then ok () else fail err) in
      go_try (update_obj (StatusUpdate_DatabaseRequest (Client r)))
        (\<lambda>_. with_obj (\<lambda>o2.
           and_then (emit (Inc promDatabaseRequestReconcileErrorCounter
                             (With (promLabels o2 ''update-status''))))
             finish))
        (\<lambda>_. finish)))))))"

definition errIsInvalidCredentials :: "go_error \<Rightarrow> bool" where
  "errIsInvalidCredentials err = strings_Contains (Error err) ''invalid credentials''"

definition errIsDatabaseDoesNotExist :: "go_error \<Rightarrow> bool" where
  "errIsDatabaseDoesNotExist err = strings_Contains (Error err) ''database does not exist''"

subsection \<open>Services and secrets\<close>

definition new_service :: "DatabaseRequest \<Rightarrow> string \<Rightarrow> Service" where
  "new_service databaseRequest hostName =
     \<lparr>svcMeta = ObjectMeta_of (specName (drSpec databaseRequest)) (metaNamespace (drMeta databaseRequest))
        [''dbaas.lagoon.sh/service'' \<mapsto> ''true'',
         ''app.kubernetes.io/instance'' \<mapsto> metaName (drMeta databaseRequest)],
      svcType = ''ExternalName'', svcExternalName = hostName\<rparr>"

definition handleService ::
    "('w, 'd) DatabaseRequestReconciler \<Rightarrow> dbInfo option \<Rightarrow> (('w, 'd) request_state, bool) go" where
  "handleService r info =
     with_obj (\<lambda>databaseRequest.
       let serviceName = specName (drSpec databaseRequest) in
       go_try (in_cluster (Get_Service (Client r)
                 \<lparr>nnName = serviceName, nnNamespace = metaNamespace (drMeta databaseRequest)\<rparr>))
         (\<lambda>err.
            if IsNotFound err then
              and_then (emit (Eventf ''Normal'' ''CreateService'' ''Creating service'' ''Creating service''))
              (case info of
                 None \<Rightarrow> nil_pointer
               | Some i \<Rightarrow>
                   go_try (in_cluster (Create_Service (Client r) (new_service databaseRequest (diHostName i))))
                     (\<lambda>err. fail (Errorf_w (''failed to create service '' @ serviceName @ '': '') err))
                     (\<lambda>_. ok False))
            else fail (Errorf_w (''failed to get service '' @ serviceName @ '': '') err))
         (\<lambda>service.
            case info of
              None \<Rightarrow> nil_pointer
            | Some i \<Rightarrow>
                if svcExternalName service \<noteq> diHostName i then
                  and_then (emit (Eventf ''Normal'' ''UpdateService'' ''Updating service'' ''Updating service''))
                  (go_try (in_cluster (Update_Service (Client r) (service\<lparr>svcExternalName := diHostName i\<rparr>)))
                     (\<lambda>err. fail (Errorf_w (''failed to update service '' @ serviceName @ '': '') err))
                     (\<lambda>_. ok True))
                else ok False))"

definition new_secret :: "DatabaseRequest \<Rightarrow> (string \<rightharpoonup> string) \<Rightarrow> Secret" where
  "new_secret databaseRequest data =
     \<lparr>secretMeta = ObjectMeta_of (metaName (drMeta databaseRequest)) (metaNamespace (drMeta databaseRequest))
        [''dbaas.lagoon.sh/secret'' \<mapsto> ''true'',
         ''app.kubernetes.io/instance'' \<mapsto> metaName (drMeta databaseRequest)],
      secretData = data\<rparr>"

definition handleSecret ::
    "library \<Rightarrow> ('w, 'd) DatabaseRequestReconciler \<Rightarrow> dbInfo option \<Rightarrow> (('w, 'd) request_state, bool) go" where
  "handleSecret L r info =
     with_obj (\<lambda>databaseRequest.
       let n = metaName (drMeta databaseRequest);
           serviceName = specName (drSpec databaseRequest);
           data = (\<lambda>i. getSecretData i (specName (drSpec databaseRequest)) serviceName) in
       go_try (in_cluster (Get_Secret (Client r)
                 \<lparr>nnName = n, nnNamespace = metaNamespace (drMeta databaseRequest)\<rparr>))
         (\<lambda>err.
            if IsNotFound err then
              and_then (emit (Eventf ''Normal'' ''CreateSecret'' ''Creating secret'' ''Creating secret''))
              (case info of
                 None \<Rightarrow> nil_pointer
               | Some i \<Rightarrow>
                   go_try (in_cluster (Create_Secret (Client r) (new_secret databaseRequest (data i))))
                     (\<lambda>err. fail (Errorf_w (''failed to create secret '' @ n @ '': '') err))
                     (\<lambda>_. ok False))
            else fail (Errorf_w (''failed to get secret '' @ n @ '': '') err))
         (\<lambda>secret.
            case info of
              None \<Rightarrow> nil_pointer
            | Some i \<Rightarrow>
                if Diff L (secretData secret) (data i) \<noteq> [] then
                  and_then (emit (Eventf ''Normal'' ''UpdateSecret'' ''Updating secret'' ''Updating secret''))
                  (go_try (in_cluster (Update_Secret (Client r) (secret\<lparr>secretData := data i\<rparr>)))
                     (\<lambda>err. fail (Errorf_w (''failed to update secret '' @ n @ '', '') err))
                     (\<lambda>_. ok True))
                else ok False))"

subsection \<open>Finding a provider\<close>

text \<open>The \<open>reldbConn\<close> built from a connection of a provider and its password.\<close>

definition conn_of :: "string \<Rightarrow> Connection \<Rightarrow> string \<Rightarrow> reldbConn" where
  "conn_of dbType c password =
     \<lparr>rcDbType = dbType, rcName = connName c, rcHostname = connHostname c, rcReplicaHostnames = [],
      rcPassword = password, rcPort = connPort c, rcUsername = connUsername c, rcEnabled = False\<rparr>"

text \<open>\<open>int(^uint(0) >> 1)\<close>.\<close>

definition max_load :: "64 word" where
  "max_load = drop_bit 1 (- 1)"

text \<open>The three variables of the search: \<open>load\<close>, \<open>provider\<close> and \<open>connName\<close>.\<close>

type_synonym find_state = "64 word \<times> RelationalDatabaseProvider option \<times> string"

fun find_in_connections ::
    "('w, 'd) DatabaseRequestReconciler \<Rightarrow> string \<Rightarrow> RelationalDatabaseProvider \<Rightarrow> Connection list \<Rightarrow>
      find_state \<Rightarrow> (('w, 'd) request_state, find_state) go" where
  "find_in_connections r dbType dbProvider [] found = ok found"
| "find_in_connections r dbType dbProvider (dbConnection # dbConnections) found =
     (if connEnabled dbConnection then
        go_try (in_cluster (Get_Secret (Client r) (secret_key_of (connPasswordSecretRef dbConnection))))
          (\<lambda>err. fail (Errorf_w (dbType @ '' db find provider failed to get connection password from secret: '') err))
          (\<lambda>secret.
             let password = secret_password secret in
             if password = [] then
               fail (errors_New (dbType @ '' db find provider failed due to empty password''))
             else
               go_try (in_dbs (rdiLoad (RelationalDatabaseClient r)
                         (getDSN (conn_of dbType dbConnection password) False) dbType))
                 (\<lambda>err. fail (Errorf_w (dbType @ '' db find provider failed to get load: '') err))
                 (\<lambda>dbLoad.
                    find_in_connections r dbType dbProvider dbConnections
                      (if dbLoad <s fst found then (dbLoad, Some dbProvider, connName dbConnection)
                       else found)))
      else find_in_connections r dbType dbProvider dbConnections found)"

fun find_in_providers ::
    "('w, 'd) DatabaseRequestReconciler \<Rightarrow> string \<Rightarrow> string \<Rightarrow> RelationalDatabaseProvider list \<Rightarrow>
      find_state \<Rightarrow> (('w, 'd) request_state, find_state) go" where
  "find_in_providers r selector dbType [] found = ok found"
| "find_in_providers r selector dbType (dbProvider # dbProviders) found =
     (if rdpSelector (rdpSpec dbProvider) = selector \<and> rdpType (rdpSpec dbProvider) = dbType then
        go_try (find_in_connections r dbType dbProvider (rdpConnections (rdpSpec dbProvider)) found) fail
          (find_in_providers r selector dbType dbProviders)
      else find_in_providers r selector dbType dbProviders found)"

definition findRelationalDatabaseProvider ::
    "('w, 'd) DatabaseRequestReconciler \<Rightarrow>
      (('w, 'd) request_state, RelationalDatabaseProvider \<times> string) go" where
  "findRelationalDatabaseProvider r =
     with_obj (\<lambda>databaseRequest.
       let dbType = specType (drSpec databaseRequest) in
       go_try (in_cluster (List_RelationalDatabaseProvider (Client r)))
         (\<lambda>err. fail (Errorf_w (dbType @ '' db find provider failed to list database providers: '') err))
         (\<lambda>dbProviders.
            go_try (find_in_providers r (specSelector (drSpec databaseRequest)) dbType dbProviders
                      (max_load, None, []))
              fail
              (\<lambda>(load, provider, connName).
                 case provider of
                   None \<Rightarrow> fail (errors_New (dbType @ '' db find provider failed due to provider not found''))
                 | Some p \<Rightarrow> ok (p, connName))))"

subsection \<open>Operations on the relational database\<close>

definition op_drop :: string where
  "op_drop = ''drop''"

definition op_create :: string where
  "op_create = ''create''"

definition op_info :: string where
  "op_info = ''info''"

text \<open>The prefix \<open>"%s db operation %s"\<close> of the errors.\<close>

definition op_text :: "DatabaseRequest \<Rightarrow> string \<Rightarrow> string" where
  "op_text databaseRequest operation = specType (drSpec databaseRequest) @ '' db operation '' @ operation"

definition operation_provider ::
    "('w, 'd) DatabaseRequestReconciler \<Rightarrow> string \<Rightarrow>
      (('w, 'd) request_state, RelationalDatabaseProvider \<times> string) go" where
  "operation_provider r operation =
     with_obj (\<lambda>databaseRequest.
       if operation = op_create then
         go_try (findRelationalDatabaseProvider r)
           (\<lambda>err. fail (Errorf_w (op_text databaseRequest operation @ '' failed to find database provider: '') err))
           ok
       else
         (case specDatabaseConnectionReference (drSpec databaseRequest) of
            None \<Rightarrow> fail (errors_New (op_text databaseRequest operation @
                      '' failed due to missing database connection reference''))
          | Some ref \<Rightarrow>
              go_try (in_cluster (Get_RelationalDatabaseProvider (Client r)
                        \<lparr>nnName = objName (dcrDatabaseObjectReference ref), nnNamespace = []\<rparr>))
                (\<lambda>err. fail (Errorf_w (op_text databaseRequest operation @ '' failed to get database provider: '') err))
                (\<lambda>databaseProvider. ok (databaseProvider, dcrName ref))))"

text \<open>The loop does not stop at the first match: the last connection of the name is the one used.\<close>

fun last_connection :: "string \<Rightarrow> Connection list \<Rightarrow> Connection option \<Rightarrow> Connection option" where
  "last_connection n [] connection = connection"
| "last_connection n (c # cs) connection =
     last_connection n cs (if connName c = n then Some c else connection)"

definition connection_reference :: "RelationalDatabaseProvider \<Rightarrow> Connection \<Rightarrow> DatabaseConnectionReference" where
  "connection_reference p c =
     \<lparr>dcrDatabaseObjectReference =
        \<lparr>objKind = rdpKind p, objName = metaName (rdpMeta p), objUID = metaUID (rdpMeta p),
         objResourceVersion = metaResourceVersion (rdpMeta p)\<rparr>,
      dcrName = connName c\<rparr>"

definition operation_create ::
    "('w, 'd) DatabaseRequestReconciler \<Rightarrow> RelationalDatabaseProvider \<Rightarrow> Connection \<Rightarrow> reldbConn \<Rightarrow>
      (('w, 'd) request_state, unit) go" where
  "operation_create r databaseProvider connection conn =
     with_obj (\<lambda>databaseRequest.
       go_try (in_dbs (rdiCreateDatabase (RelationalDatabaseClient r) (getDSN conn False)
                 (metaName (drMeta databaseRequest)) (metaNamespace (drMeta databaseRequest))
                 (specType (drSpec databaseRequest)) (rcUsername conn)))
         (\<lambda>err. fail (Errorf_w (op_text databaseRequest op_create @ '' failed: '') err))
         (\<lambda>info.
            let dbRef = connection_reference databaseProvider connection in
            and_then (set_status (\<lambda>st. st\<lparr>statusObservedDatabaseConnectionReference := Some dbRef,
                statusDatabaseInfo := Some \<lparr>infoUsername = Username info, infoDatabasename = Dbname info\<rparr>\<rparr>))
            (go_try (update_obj (StatusUpdate_DatabaseRequest (Client r)))
               (\<lambda>err. with_obj (\<lambda>o2. fail (Errorf_w (op_text o2 op_create @ '' failed to update database request: '') err)))
               (\<lambda>_. set_spec (specDatabaseConnectionReference_update (\<lambda>_. Some dbRef))))))"

definition operation_drop ::
    "('w, 'd) DatabaseRequestReconciler \<Rightarrow> reldbConn \<Rightarrow> (('w, 'd) request_state, unit) go" where
  "operation_drop r conn =
     with_obj (\<lambda>databaseRequest.
       go_try (in_dbs (rdiDropDatabase (RelationalDatabaseClient r) (getDSN conn False)
                 (metaName (drMeta databaseRequest)) (metaNamespace (drMeta databaseRequest))
                 (specType (drSpec databaseRequest))))
         (\<lambda>err. fail (Errorf_w (specType (drSpec databaseRequest) @ '' db opration '' @ op_drop @ '' failed: '') err))
         (\<lambda>_.
            and_then (set_status (statusObservedDatabaseConnectionReference_update (\<lambda>_. None)))
            (go_try (update_obj (StatusUpdate_DatabaseRequest (Client r)))
               (\<lambda>err. with_obj (\<lambda>o2. fail (Errorf_w (op_text o2 op_drop @ '' failed to update database request: '') err)))
               (\<lambda>_. set_spec (specDatabaseConnectionReference_update (\<lambda>_. None))))))"

text \<open>The information operation returns what \<open>databaseInfo\<close> points to when it is done.\<close>

definition operation_info ::
    "('w, 'd) DatabaseRequestReconciler \<Rightarrow> reldbConn \<Rightarrow> dbInfo option \<Rightarrow>
      (('w, 'd) request_state, dbInfo option) go" where
  "operation_info r conn databaseInfo =
     with_obj (\<lambda>databaseRequest.
       case databaseInfo of
         None \<Rightarrow> fail (errors_New (op_text databaseRequest op_info @ '' failed due to missing dbInfo''))
       | Some i \<Rightarrow>
           go_try (in_dbs (rdiGetDatabaseInfo (RelationalDatabaseClient r) (getDSN conn False)
                     (metaName (drMeta databaseRequest)) (metaNamespace (drMeta databaseRequest))
                     (specType (drSpec databaseRequest))))
             (\<lambda>err. fail (Errorf_w (op_text databaseRequest op_info @ '' failed to get database information: '') err))
             (\<lambda>info. ok (Some (i\<lparr>diUserName := Username info, diPassword := Password info,
                diDatabase := Dbname info, diHostName := rcHostname conn, diPort := rcPort conn\<rparr>))))"

definition perform_operation ::
    "('w, 'd) DatabaseRequestReconciler \<Rightarrow> string \<Rightarrow> RelationalDatabaseProvider \<Rightarrow> Connection \<Rightarrow>
      reldbConn \<Rightarrow> dbInfo option \<Rightarrow> (('w, 'd) request_state, dbInfo option) go" where
  "perform_operation r operation databaseProvider connection conn databaseInfo =
     (if operation = op_create then
        and_then (operation_create r databaseProvider connection conn) (ok databaseInfo)
      else if operation = op_drop then and_then (operation_drop r conn) (ok databaseInfo)
      else if operation = op_info then operation_info r conn databaseInfo
      else with_obj (\<lambda>databaseRequest.
        fail (errors_New (op_text databaseRequest operation @ '' failed due to invalid operation''))))"

definition relationalDatabaseOperation ::
    "('w, 'd) DatabaseRequestReconciler \<Rightarrow> string \<Rightarrow> dbInfo option \<Rightarrow>
      (('w, 'd) request_state, dbInfo option) go" where
  "relationalDatabaseOperation r operation databaseInfo =
     go_try (operation_provider r operation) fail (\<lambda>(databaseProvider, connectionName).
     with_obj (\<lambda>databaseRequest.
       case last_connection connectionName (rdpConnections (rdpSpec databaseProvider)) None of
         None \<Rightarrow> fail (errors_New (op_text databaseRequest operation @ '' failed to find database connection''))
       | Some connection \<Rightarrow>
           go_try (in_cluster (Get_Secret (Client r) (secret_key_of (connPasswordSecretRef connection))))
             (\<lambda>err. fail (Errorf_w (op_text databaseRequest operation @
                '' failed to get connection password from secret: '') err))
             (\<lambda>secret.
                let password = secret_password secret in
                if password = [] then
                  fail (errors_New (op_text databaseRequest operation @ '' failed due to empty password''))
                else
                  perform_operation r operation databaseProvider connection
                    (conn_of (specType (drSpec databaseRequest)) connection password) databaseInfo)))"

definition relDBDeletion :: "('w, 'd) DatabaseRequestReconciler \<Rightarrow> (('w, 'd) request_state, unit) go" where
  "relDBDeletion r =
     with_obj (\<lambda>databaseRequest.
       case specDatabaseConnectionReference (drSpec databaseRequest) of
         None \<Rightarrow> fail (errors_New ''relational db drop failed due to connection reference is missing'')
       | Some _ \<Rightarrow> and_then (relationalDatabaseOperation r op_drop None) (ok ()))"

definition relDBInfo :: "('w, 'd) DatabaseRequestReconciler \<Rightarrow> (('w, 'd) request_state, dbInfo option) go" where
  "relDBInfo r =
     go_try (relationalDatabaseOperation r op_info (Some dbInfo_zero))
       (\<lambda>err. fail (Errorf_w ''relational db info failed: '' err)) ok"

definition createDatabase :: "('w, 'd) DatabaseRequestReconciler \<Rightarrow> (('w, 'd) request_state, unit) go" where
  "createDatabase r =
     with_obj (\<lambda>databaseRequest.
       let dbType = specType (drSpec databaseRequest) in
       if dbType = mysqlType \<or> dbType = postgresType then
         go_try (relationalDatabaseOperation r op_create None)
           (\<lambda>err. with_obj (\<lambda>o2. fail (Errorf_w (specType (drSpec o2) @ '' db creation failed: '') err)))
           (\<lambda>_. with_obj (\<lambda>o2.
              case specDatabaseConnectionReference (drSpec o2) of
                None \<Rightarrow> fail (errors_New (specType (drSpec o2) @
                          '' db creation failed due to missing database connection reference''))
              | Some _ \<Rightarrow>
                  (case statusDatabaseInfo (drStatus o2) of
                     None \<Rightarrow> fail (errors_New (specType (drSpec o2) @
                               '' db creation failed due to missing database info''))
                   | Some _ \<Rightarrow> ok ())))
       else if dbType = mongodbType then ok ()
       else fail (Errorf_w ''failed to create database: '' ErrInvalidDatabaseType))"

subsection \<open>Seeds\<close>

definition seedDatabase ::
    "('w, 'd) DatabaseRequestReconciler \<Rightarrow> SecretReference \<Rightarrow> (('w, 'd) request_state, dbInfo) go" where
  "seedDatabase r seed =
     go_try (in_cluster (Get_Secret (Client r) (secret_key_of seed)))
       (\<lambda>err. fail (Errorf_w (''failed to get seed secret '' @ refName seed @ '': '') err))
       (\<lambda>secret. case dbInfoFromSeed (secretData secret) of Inl err \<Rightarrow> fail err | Inr info \<Rightarrow> ok info)"

definition relDBTestSeedConnection ::
    "('w, 'd) DatabaseRequestReconciler \<Rightarrow> dbInfo \<Rightarrow> string \<Rightarrow> (('w, 'd) request_state, unit) go" where
  "relDBTestSeedConnection r dbi dbType =
     (let conn = \<lparr>rcDbType = dbType, rcName = diDatabase dbi, rcHostname = diHostName dbi,
                  rcReplicaHostnames = [], rcPassword = diPassword dbi, rcPort = diPort dbi,
                  rcUsername = diUserName dbi, rcEnabled = False\<rparr> in
      go_try (in_dbs (rdiPing (RelationalDatabaseClient r) (getDSN conn True) dbType))
        (\<lambda>err. fail (Errorf_w ''relational database test connection failed: '' err)) ok)"

record seedDatabaseInfo =
  sdiDbInfo :: dbInfo
  sdiConn :: reldbConn
  sdiDatabaseProviderRef :: DatabaseConnectionReference

text \<open>The two nested loops: every match replaces the connection and the reference.\<close>

type_synonym seed_match = "(Connection \<times> DatabaseConnectionReference) option"

fun seed_in_connections ::
    "dbInfo \<Rightarrow> RelationalDatabaseProvider \<Rightarrow> Connection list \<Rightarrow> seed_match \<Rightarrow> seed_match" where
  "seed_in_connections info dbProvider [] found = found"
| "seed_in_connections info dbProvider (dbConnection # dbConnections) found =
     seed_in_connections info dbProvider dbConnections
       (if connEnabled dbConnection \<and> connHostname dbConnection = diHostName info \<and>
           connPort dbConnection = diPort info
        then Some (dbConnection, connection_reference dbProvider dbConnection) else found)"

fun seed_in_providers ::
    "dbInfo \<Rightarrow> string \<Rightarrow> string \<Rightarrow> RelationalDatabaseProvider list \<Rightarrow> seed_match \<Rightarrow> seed_match" where
  "seed_in_providers info selector dbType [] found = found"
| "seed_in_providers info selector dbType (dbProvider # dbProviders) found =
     seed_in_providers info selector dbType dbProviders
       (if rdpSelector (rdpSpec dbProvider) = selector \<and> rdpType (rdpSpec dbProvider) = dbType
        then seed_in_connections info dbProvider (rdpConnections (rdpSpec dbProvider)) found else found)"

definition relationalDatabaseInfoFromSeed ::
    "('w, 'd) DatabaseRequestReconciler \<Rightarrow> SecretReference \<Rightarrow> string \<Rightarrow> string \<Rightarrow>
      (('w, 'd) request_state, seedDatabaseInfo) go" where
  "relationalDatabaseInfoFromSeed r seed dbType selector =
     go_try (seedDatabase r seed)
       (\<lambda>err. fail (Errorf_w (dbType @ '' db find connection from seed failed to get seed database: '') err))
       (\<lambda>info.
     go_try (relDBTestSeedConnection r info dbType)
       (\<lambda>err. fail (Errorf_w (dbType @ '' db find connection from seed failed to test connection: '') err))
       (\<lambda>_.
     go_try (in_cluster (List_RelationalDatabaseProvider (Client r)))
       (\<lambda>err. fail (Errorf_w (dbType @ '' db find connection from seed failed to list database providers: '') err))
       (\<lambda>dbProviders.
     case seed_in_providers info selector dbType dbProviders None of
       None \<Rightarrow> fail (errors_New (dbType @ '' db find connection from seed failed due to provider not found''))
     | Some (connection, databaseProviderRef) \<Rightarrow>
         go_try (in_cluster (Get_Secret (Client r) (secret_key_of (connPasswordSecretRef connection))))
           (\<lambda>err. fail (Errorf_w (dbType @
              '' db find connection from seed failed to get connection password from secret: '') err))
           (\<lambda>secret.
              let password = secret_password secret in
              if password = [] then
                fail (errors_New (dbType @ '' db find connection from seed failed due to empty password''))
              else ok \<lparr>sdiDbInfo = info, sdiConn = conn_of dbType connection password,
                       sdiDatabaseProviderRef = databaseProviderRef\<rparr>))))"

definition seed_credentials :: "dbInfo \<Rightarrow> RelationalDatabaseInfo" where
  "seed_credentials info =
     \<lparr>Username = diUserName info, Password = diPassword info, Dbname = diDatabase info\<rparr>"

definition handleSeed :: "('w, 'd) DatabaseRequestReconciler \<Rightarrow> (('w, 'd) request_state, seedDatabaseInfo) go" where
  "handleSeed r =
     with_obj (\<lambda>databaseRequest.
       case specSeed (drSpec databaseRequest) of
         None \<Rightarrow> nil_pointer
       | Some seed \<Rightarrow>
           go_try (relationalDatabaseInfoFromSeed r seed (specType (drSpec databaseRequest))
                     (specSelector (drSpec databaseRequest))) fail
             (\<lambda>seedInfo.
                and_then (in_dbs (rdiSetDatabaseInfo (RelationalDatabaseClient r) (getDSN (sdiConn seedInfo) False)
                    (metaName (drMeta databaseRequest)) (metaNamespace (drMeta databaseRequest))
                    (specType (drSpec databaseRequest)) (seed_credentials (sdiDbInfo seedInfo))))
                (and_then (in_cluster (Delete_Secret (Client r) (secret_key_of seed)))
                (ok seedInfo))))"

subsection \<open>Deletion\<close>

text \<open>Deleting the objects of a request, its finalizer last.\<close>

definition finish_delete ::
    "library \<Rightarrow> ('w, 'd) DatabaseRequestReconciler \<Rightarrow> (('w, 'd) request_state, unit) go" where
  "finish_delete L r =
     with_obj (\<lambda>databaseRequest.
       let n = metaName (drMeta databaseRequest); ns = metaNamespace (drMeta databaseRequest) in
       and_then (emit (Eventf EventTypeNormal ''DeletedDatabase''
          (''Deleted database '' @ ns @ ''/'' @ n) (''Deleted database '' @ ns @ ''/'' @ n)))
       (and_then (emit (DeletePartialMatch promDatabaseRequestReconcileStatus
          [''name'' \<mapsto> n, ''namespace'' \<mapsto> ns]))
       (ok ())))"

definition delete_finalizer ::
    "library \<Rightarrow> ('w, 'd) DatabaseRequestReconciler \<Rightarrow> (('w, 'd) request_state, unit) go" where
  "delete_finalizer L r =
     with_obj (\<lambda>databaseRequest.
       case RemoveFinalizer L (metaFinalizers (drMeta databaseRequest)) databaseRequestFinalizer of
         (finalizers, removed) \<Rightarrow>
           and_then (set_obj (databaseRequest\<lparr>drMeta := (drMeta databaseRequest)\<lparr>metaFinalizers := finalizers\<rparr>\<rparr>))
           (if removed then
              go_try (update_obj (Update_DatabaseRequest (Client r)))
                (\<lambda>err. handleError L r ''remove-finalizer'' err False)
                (\<lambda>_. finish_delete L r)
            else finish_delete L r))"

definition delete_secret ::
    "library \<Rightarrow> ('w, 'd) DatabaseRequestReconciler \<Rightarrow> (('w, 'd) request_state, unit) go" where
  "delete_secret L r =
     with_obj (\<lambda>databaseRequest.
       go_try (in_cluster (Delete_Secret (Client r)
                 \<lparr>nnName = metaName (drMeta databaseRequest), nnNamespace = metaNamespace (drMeta databaseRequest)\<rparr>))
         (\<lambda>err. if \<not> IsNotFound err then handleError L r ''delete-secret'' err False else delete_finalizer L r)
         (\<lambda>_. delete_finalizer L r))"

definition delete_service ::
    "library \<Rightarrow> ('w, 'd) DatabaseRequestReconciler \<Rightarrow> (('w, 'd) request_state, unit) go" where
  "delete_service L r =
     with_obj (\<lambda>databaseRequest.
       go_try (in_cluster (Delete_Service (Client r)
                 \<lparr>nnName = specName (drSpec databaseRequest), nnNamespace = metaNamespace (drMeta databaseRequest)\<rparr>))
         (\<lambda>err. if \<not> IsNotFound err then handleError L r ''delete-service'' err False else delete_secret L r)
         (\<lambda>_. delete_secret L r))"

definition deleteDatabase ::
    "library \<Rightarrow> ('w, 'd) DatabaseRequestReconciler \<Rightarrow> (('w, 'd) request_state, unit) go" where
  "deleteDatabase L r =
     with_obj (\<lambda>databaseRequest.
       if specSeed (drSpec databaseRequest) = None \<and> specDropDatabaseOnDelete (drSpec databaseRequest) then
         (let dbType = specType (drSpec databaseRequest) in
          if dbType = mysqlType \<or> dbType = postgresType then
            go_try (relDBDeletion r)
              (\<lambda>err. with_obj (\<lambda>o2. handleError L r (specType (drSpec o2) @ ''-drop'') err False))
              (\<lambda>_. delete_service L r)
          else if dbType = mongodbType then delete_service L r
          else handleError L r ''invalid-database-type'' ErrInvalidDatabaseType False)
       else delete_service L r)"

subsection \<open>Reconcile\<close>

text \<open>The end of a reconciliation, once the object is written: conditions and an event.\<close>

definition set_ready ::
    "library \<Rightarrow> ('w, 'd) DatabaseRequestReconciler \<Rightarrow> string \<Rightarrow> string \<Rightarrow> string \<Rightarrow> string \<Rightarrow>
      (('w, 'd) request_state, unit) go" where
  "set_ready L r reason msg event note =
     go_try (set_condition L
         \<lparr>condType = ''Ready'', condStatus = ConditionTrue, condReason = reason, condMessage = msg\<rparr>) fail
       (\<lambda>changed.
          let recorded = and_then (emit (Eventf ''Normal'' event note note)) (ok ()) in
          if changed then
            go_try (update_obj (StatusUpdate_DatabaseRequest (Client r)))
              (\<lambda>err. handleError L r ''update-status'' err False)
              (\<lambda>_. recorded)
          else recorded)"

definition finish_reconcile ::
    "library \<Rightarrow> ('w, 'd) DatabaseRequestReconciler \<Rightarrow> bool \<Rightarrow> bool \<Rightarrow> (('w, 'd) request_state, unit) go" where
  "finish_reconcile L r serviceChanged secretChanged =
     with_obj (\<lambda>databaseRequest.
     and_then (emit (Set promDatabaseRequestReconcileStatus (With (promLabels databaseRequest [])) 1))
     (and_then (set_status (statusObservedGeneration_update (\<lambda>_. metaGeneration (drMeta databaseRequest))))
     (go_try (update_obj (Update_DatabaseRequest (Client r)))
        (\<lambda>err. with_obj (\<lambda>o2.
           and_then (emit (Inc promDatabaseRequestReconcileErrorCounter (With (promLabels o2 ''cr-update''))))
             (fail err)))
        (\<lambda>_.
           and_then (set_status (\<lambda>st. st\<lparr>statusConditions :=
             fst (RemoveStatusCondition L (statusConditions st) ''Error'')\<rparr>))
           (if serviceChanged \<or> secretChanged then
              set_ready L r ''DatabaseRequestChanged'' ''The database request has been changed''
                ''DatabaseRequestUpdated'' ''The database request has been updated''
            else
              set_ready L r ''DatabaseRequestCreated'' ''The database request has been created''
                ''DatabaseRequestUnchanged'' ''The database request has been created'')))))"

definition provide_access ::
    "library \<Rightarrow> ('w, 'd) DatabaseRequestReconciler \<Rightarrow> dbInfo option \<Rightarrow> (('w, 'd) request_state, unit) go" where
  "provide_access L r info =
     go_try (handleService r info)
       (\<lambda>err. handleError L r ''handle-service'' err False)
       (\<lambda>serviceChanged.
     go_try (handleSecret L r info)
       (\<lambda>err. handleError L r ''handle-secret'' err False)
       (\<lambda>secretChanged. finish_reconcile L r serviceChanged secretChanged))"

definition reconcile_seed ::
    "library \<Rightarrow> ('w, 'd) DatabaseRequestReconciler \<Rightarrow> (('w, 'd) request_state, unit) go" where
  "reconcile_seed L r =
     go_try (handleSeed r)
       (\<lambda>err. if errIsInvalidCredentials err \<or> errIsDatabaseDoesNotExist err
              then handleError L r ''invalid-seed'' err True
              else handleError L r ''handle-seed'' err False)
       (\<lambda>seedInfo.
          and_then (set_spec (specDatabaseConnectionReference_update (\<lambda>_. Some (sdiDatabaseProviderRef seedInfo))))
          (and_then (with_obj (\<lambda>o1. set_status (statusObservedDatabaseConnectionReference_update
             (\<lambda>_. specDatabaseConnectionReference (drSpec o1)))))
          (and_then (set_spec (specSeed_update (\<lambda>_. None)))
          (provide_access L r (Some (sdiDbInfo seedInfo))))))"

text \<open>The connection reference is set: record it in the status and get the information of the database.\<close>

definition reconcile_existing ::
    "library \<Rightarrow> ('w, 'd) DatabaseRequestReconciler \<Rightarrow> (('w, 'd) request_state, unit) go" where
  "reconcile_existing L r =
     and_then (with_obj (\<lambda>o1.
        if statusObservedDatabaseConnectionReference (drStatus o1) \<noteq> specDatabaseConnectionReference (drSpec o1)
        then set_status (statusObservedDatabaseConnectionReference_update
               (\<lambda>_. specDatabaseConnectionReference (drSpec o1)))
        else ok ()))
     (with_obj (\<lambda>databaseRequest.
        let dbType = specType (drSpec databaseRequest) in
        if dbType = mysqlType \<or> dbType = postgresType then
          go_try (relDBInfo r)
            (\<lambda>err. with_obj (\<lambda>o2. handleError L r (''get-'' @ specType (drSpec o2) @ ''-database-info'') err False))
            (provide_access L r)
        else provide_access L r None))"

definition reconcile_unseeded ::
    "library \<Rightarrow> ('w, 'd) DatabaseRequestReconciler \<Rightarrow> (('w, 'd) request_state, unit) go" where
  "reconcile_unseeded L r =
     with_obj (\<lambda>databaseRequest.
       if specDatabaseConnectionReference (drSpec databaseRequest) = None then
         go_try (createDatabase r)
           (\<lambda>err. handleError L r ''create-database'' err False)
           (\<lambda>_. with_obj (\<lambda>o2.
              if specDatabaseConnectionReference (drSpec o2) = None then
                handleError L r ''missing-connection-reference''
                  (errors_New ''missing database connection reference'') False
              else reconcile_existing L r))
       else reconcile_existing L r)"

definition up_to_date :: "library \<Rightarrow> DatabaseRequest \<Rightarrow> bool" where
  "up_to_date L databaseRequest \<longleftrightarrow>
     statusConditions (drStatus databaseRequest) \<noteq> [] \<and>
     IsStatusConditionTrue L (statusConditions (drStatus databaseRequest)) ''Ready'' \<and>
     statusObservedGeneration (drStatus databaseRequest) \<ge> metaGeneration (drMeta databaseRequest)"

definition reconcile_spec ::
    "library \<Rightarrow> ('w, 'd) DatabaseRequestReconciler \<Rightarrow> (('w, 'd) request_state, unit) go" where
  "reconcile_spec L r =
     with_obj (\<lambda>databaseRequest.
       if up_to_date L databaseRequest then
         and_then (emit (Eventf EventTypeNormal ''ReconcileSkipped''
            ''No updates to reconcile'' ''No updates to reconcile'')) (ok ())
       else if specSeed (drSpec databaseRequest) \<noteq> None then reconcile_seed L r
       else reconcile_unseeded L r)"

definition reconcile_active ::
    "library \<Rightarrow> ('w, 'd) DatabaseRequestReconciler \<Rightarrow> (('w, 'd) request_state, unit) go" where
  "reconcile_active L r =
     with_obj (\<lambda>databaseRequest.
       case AddFinalizer L (metaFinalizers (drMeta databaseRequest)) databaseRequestFinalizer of
         (finalizers, added) \<Rightarrow>
           and_then (set_obj (databaseRequest\<lparr>drMeta := (drMeta databaseRequest)\<lparr>metaFinalizers := finalizers\<rparr>\<rparr>))
           (if added then
              go_try (update_obj (Update_DatabaseRequest (Client r)))
                (\<lambda>err. handleError L r ''add-finalizer'' err False)
                (\<lambda>_. reconcile_spec L r)
            else reconcile_spec L r))"

definition deleting :: "DatabaseRequest \<Rightarrow> bool" where
  "deleting databaseRequest \<longleftrightarrow>
     (case metaDeletionTimestamp (drMeta databaseRequest) of None \<Rightarrow> False | Some t \<Rightarrow> \<not> Time_IsZero t)"

definition Reconcile ::
    "library \<Rightarrow> ('w, 'd) DatabaseRequestReconciler \<Rightarrow> NamespacedName \<Rightarrow> (('w, 'd) request_state, unit) go" where
  "Reconcile L r req =
     and_then (emit (Inc promDatabaseRequestReconcileCounter (WithLabelValues [nnName req, nnNamespace req])))
     (and_then (set_obj DatabaseRequest_zero)
     (go_try (in_cluster (Get_DatabaseRequest (Client r) req))
        (\<lambda>err.
           if \<not> IsNotFound err then
             and_then (emit (Inc promDatabaseRequestReconcileErrorCounter
                (WithLabelValues [nnName req, nnNamespace req, [], [], ''get-dbreq'', [], []])))
               (fail err)
           else ok ())
        (\<lambda>databaseRequest.
           and_then (set_obj databaseRequest)
           (if deleting databaseRequest then deleteDatabase L r else reconcile_active L r))))"

end
