(* ===== verification/DbRequestFacts.thy ===== *)
theory DbRequestFacts
  imports DbRequest
begin

section \<open>Facts about the DatabaseRequest reconciler\<close>

text \<open>
  What the calls of the reconciler change and what they return, as preorders that whole
  programs keep (\<open>quiet_step\<close>, \<open>frame_step\<close>), and what a successful operation on the database
  did. The facts that need the promises of the API server are in the locales of \<open>Kube\<close>.
\<close>

lemma run_set_spec [simp]:
  "run_state (set_spec f) s = (Ok (), s\<lparr>obj := (obj s)\<lparr>drSpec := f (drSpec (obj s))\<rparr>\<rparr>)"
  by (simp add: set_spec_def)

lemma run_set_status [simp]:
  "run_state (set_status f) s = (Ok (), s\<lparr>obj := (obj s)\<lparr>drStatus := f (drStatus (obj s))\<rparr>\<rparr>)"
  by (simp add: set_status_def)

lemma run_set_condition:
  "run_state (set_condition L c) s =
     (case SetStatusCondition L (statusConditions (drStatus (obj s))) c of
        (conditions, changed) \<Rightarrow>
          (Ok changed, s\<lparr>obj := (obj s)\<lparr>drStatus := (drStatus (obj s))\<lparr>statusConditions := conditions\<rparr>\<rparr>\<rparr>))"
  by (simp add: set_condition_def and_then_def run_go_try split: prod.splits)

subsection \<open>Preorders on the states of the reconciler\<close>

text \<open>
  \<open>quiet_step\<close>: neither the view of the cluster nor the databases change, and the object is the
  same request. \<open>frame_step\<close>: the view stays, and of the specification at most the connection
  reference and the seed change.
\<close>

definition quiet_step :: "('w \<Rightarrow> cluster_view) \<Rightarrow> ('w, 'd) request_state \<Rightarrow> ('w, 'd) request_state \<Rightarrow> bool" where
  "quiet_step view s t \<longleftrightarrow>
     view (cluster t) = view (cluster s) \<and> dbs t = dbs s \<and> same_core (obj s) (obj t)"

definition frame_step :: "('w \<Rightarrow> cluster_view) \<Rightarrow> ('w, 'd) request_state \<Rightarrow> ('w, 'd) request_state \<Rightarrow> bool" where
  "frame_step view s t \<longleftrightarrow> view (cluster t) = view (cluster s) \<and> same_core (obj s) (obj t)"

lemma preorder_quiet_step [simp]: "preorder_rel (quiet_step view)"
  by (auto simp: preorder_rel_def quiet_step_def same_core_def intro!: reflpI transpI)

lemma preorder_frame_step [simp]: "preorder_rel (frame_step view)"
  by (auto simp: preorder_rel_def frame_step_def same_core_def intro!: reflpI transpI)

lemma quiet_frame: "quiet_step view s t \<Longrightarrow> frame_step view s t"
  by (simp add: quiet_step_def frame_step_def)

lemma quiet_step_simps [simp]:
  "quiet_step view s (s\<lparr>effects := es\<rparr>)"
  "quiet_step view s (s\<lparr>obj := (obj s)\<lparr>drStatus := st\<rparr>\<rparr>)"
  by (simp_all add: quiet_step_def same_core_def)

named_theorems quiet_rules "programs that keep the view of the cluster and the databases"
named_theorems frame_rules "programs that keep the view of the cluster"

lemma quiet_local [quiet_rules]:
  "preserves (quiet_step view) (emit e)"
  "preserves (quiet_step view) (set_status f)"
  "preserves (quiet_step view) (set_condition L c)"
  by (rule preservesI; force simp: run_set_condition split: prod.splits)+

lemma quiet_nil_pointer [quiet_rules]: "preserves (quiet_step view) nil_pointer"
  unfolding nil_pointer_def by (intro preserves_rules preorder_quiet_step)

lemma frame_in_dbs [frame_rules]: "preserves (frame_step view) (in_dbs m)"
  by (rule preserves_in_dbs) (simp add: frame_step_def same_core_def)

lemma frame_set_reference [frame_rules]:
  "preserves (frame_step view) (set_spec (specDatabaseConnectionReference_update f))"
  "preserves (frame_step view) (set_spec (specSeed_update g))"
  by (rule preservesI; force simp: frame_step_def same_core_def core_spec_def)+

text \<open>A program that works on the cluster and the object only leaves the databases alone.\<close>

context cluster_frame
begin

lemma quiet_reads [quiet_rules]:
  "preserves (quiet_step view) (in_cluster (Get_RelationalDatabaseProvider K k))"
  "preserves (quiet_step view) (in_cluster (List_RelationalDatabaseProvider K))"
  "preserves (quiet_step view) (in_cluster (Get_Secret K k))"
  "preserves (quiet_step view) (in_cluster (Get_Service K k))"
  using reads by (auto intro!: preserves_in_cluster simp: quiet_step_def keeps_view_def)

lemma quiet_status_update [quiet_rules]:
  "preserves (quiet_step view) (update_obj (StatusUpdate_DatabaseRequest K))"
  unfolding preserves_def
  by (auto intro: post_mono [OF status_update_call] simp: quiet_step_def)

lemma quiet_handleError [quiet_rules]:
  "Client r = K \<Longrightarrow> preserves (quiet_step view) (handleError L r promErr err ignoreError)"
  unfolding handleError_def Let_def
  by (intro preserves_rules preorder_quiet_step) (simp_all add: quiet_rules)

lemmas frame_of_quiet = preserves_mono [OF _ quiet_frame]

lemma frame_calls [frame_rules]:
  assumes "K = Client r"
  shows "preserves (frame_step view) (in_cluster (Get_RelationalDatabaseProvider (Client r) k))"
    and "preserves (frame_step view) (in_cluster (List_RelationalDatabaseProvider (Client r)))"
    and "preserves (frame_step view) (in_cluster (Get_Secret (Client r) k))"
    and "preserves (frame_step view) (update_obj (StatusUpdate_DatabaseRequest (Client r)))"
  unfolding assms [symmetric]
  by (auto intro: frame_of_quiet [OF quiet_reads(1)] frame_of_quiet [OF quiet_reads(2)]
      frame_of_quiet [OF quiet_reads(3)] frame_of_quiet [OF quiet_status_update])

lemma frame_find_in_connections [frame_rules]:
  "Client r = K \<Longrightarrow> preserves (frame_step view) (find_in_connections r dbType p cs found)"
  by (induction cs arbitrary: found)
    (auto simp: Let_def intro!: preserves_rules frame_rules)

lemma frame_find_in_providers [frame_rules]:
  "Client r = K \<Longrightarrow> preserves (frame_step view) (find_in_providers r selector dbType ps found)"
  by (induction ps arbitrary: found) (auto intro!: preserves_rules frame_rules)

lemma frame_operation_provider [frame_rules]:
  "Client r = K \<Longrightarrow> preserves (frame_step view) (operation_provider r operation)"
  unfolding operation_provider_def findRelationalDatabaseProvider_def Let_def
  by (auto intro!: preserves_rules frame_rules
      split: option.split)

lemma frame_operations [frame_rules]:
  assumes "Client r = K"
  shows "preserves (frame_step view) (operation_create r p c conn)"
    and "preserves (frame_step view) (operation_drop r conn)"
    and "preserves (frame_step view) (operation_info r conn i)"
  unfolding operation_create_def operation_drop_def operation_info_def Let_def
  using assms
  by (auto intro!: preserves_rules frame_rules frame_of_quiet [OF quiet_local(2)]
      split: option.split)

lemma frame_relationalDatabaseOperation [frame_rules]:
  assumes "Client r = K"
  shows "preserves (frame_step view) (relationalDatabaseOperation r operation i)"
  unfolding relationalDatabaseOperation_def perform_operation_def Let_def
  using assms
  by (auto intro!: preserves_rules frame_rules split: option.split)

lemma frame_requests [frame_rules]:
  assumes "Client r = K"
  shows "preserves (frame_step view) (relDBDeletion r)"
    and "preserves (frame_step view) (relDBInfo r)"
    and "preserves (frame_step view) (createDatabase r)"
  unfolding relDBDeletion_def relDBInfo_def createDatabase_def Let_def
  using assms by (auto intro!: preserves_rules frame_rules split: option.split)

end

subsection \<open>What a successful operation did\<close>

lemma last_connection_name:
  "last_connection n cs found = Some c \<Longrightarrow> connName c = n \<or> found = Some c"
  by (induction cs arbitrary: found) (auto split: if_splits)

lemma last_connection_in:
  "last_connection n cs found = Some c \<Longrightarrow> c \<in> set cs \<or> found = Some c"
  by (induction cs arbitrary: found) (force split: if_splits)+

lemma op_names [simp]: "op_drop \<noteq> op_create" "op_info \<noteq> op_create" "op_info \<noteq> op_drop"
  by (simp_all add: op_drop_def op_create_def op_info_def)

lemma run_in_cluster_dbs:
  "run_state (in_cluster m) s = (r, t) \<Longrightarrow> dbs t = dbs s \<and> obj t = obj s \<and> effects t = effects s"
  by (auto split: prod.splits)

text \<open>
  The program of an operation once its connection is known: the operations on a request that
  has a reference go through the connection the reference names.
\<close>

lemma operation_via_connection:
  assumes "run_state (relationalDatabaseOperation r operation i) s = (Ok x, t)"
  obtains p n c pw u1 w where
    "run_state (operation_provider r operation) s = (Ok (p, n), u1)"
    "last_connection n (rdpConnections (rdpSpec p)) None = Some c" "connName c = n"
    "run_state (perform_operation r operation p c (conn_of (specType (drSpec (obj u1))) c pw) i) (u1\<lparr>cluster := w\<rparr>)
       = (Ok x, t)"
proof -
  from assms obtain p n u1 where prov: "run_state (operation_provider r operation) s = (Ok (p, n), u1)"
    and rest: "run_state (with_obj (\<lambda>databaseRequest.
       case last_connection n (rdpConnections (rdpSpec p)) None of
         None \<Rightarrow> fail (errors_New (op_text databaseRequest operation @ '' failed to find database connection''))
       | Some connection \<Rightarrow>
           go_try (in_cluster (Get_Secret (Client r) (secret_key_of (connPasswordSecretRef connection))))
             (\<lambda>err. fail (Errorf_w (op_text databaseRequest operation @
                '' failed to get connection password from secret: '') err))
             (\<lambda>secret.
                let password = secret_password secret in
                if password = [] then
                  fail (errors_New (op_text databaseRequest operation @ '' failed due to empty password''))
                else
                  perform_operation r operation p connection
                    (conn_of (specType (drSpec databaseRequest)) connection password) i))) u1
      = (Ok x, t)"
    unfolding relationalDatabaseOperation_def by (auto elim!: go_try_fail_OkE [where f = "\<lambda>err. err"])
  from rest obtain c where c: "last_connection n (rdpConnections (rdpSpec p)) None = Some c"
    by (cases "last_connection n (rdpConnections (rdpSpec p)) None") auto
  obtain rs w where get: "run_state (Get_Secret (Client r) (secret_key_of (connPasswordSecretRef c))) (cluster u1) = (rs, w)"
    by fastforce
  with rest c obtain secret where "rs = Ok secret" and "secret_password secret \<noteq> []"
    by (cases rs) (auto simp: run_go_try Let_def split: if_splits)
  with rest c get have "run_state (perform_operation r operation p c
      (conn_of (specType (drSpec (obj u1))) c (secret_password secret)) i) (u1\<lparr>cluster := w\<rparr>) = (Ok x, t)"
    by (simp add: run_go_try Let_def)
  moreover from last_connection_name [OF c] have "connName c = n" by simp
  ultimately show ?thesis using that [OF prov c] by blast
qed

lemma operation_provider_reference:
  assumes "run_state (operation_provider r operation) s = (Ok (p, n), t)" and "operation \<noteq> op_create"
  shows "dbs t = dbs s \<and> obj t = obj s \<and>
    (\<exists>ref. specDatabaseConnectionReference (drSpec (obj s)) = Some ref \<and> n = dcrName ref)"
  using assms
  by (auto simp: operation_provider_def run_go_try split: option.splits prod.splits outcome.splits)

text \<open>
  The databases went from one state to the other by a drop that returned no error, through the
  connection that the request's reference names.
\<close>

definition database_dropped ::
    "('w, 'd) DatabaseRequestReconciler \<Rightarrow> DatabaseRequest \<Rightarrow> 'd \<Rightarrow> 'd \<Rightarrow> bool" where
  "database_dropped r databaseRequest d d' \<longleftrightarrow>
     (\<exists>ref c pw.
        specDatabaseConnectionReference (drSpec databaseRequest) = Some ref \<and> connName c = dcrName ref \<and>
        run_state (rdiDropDatabase (RelationalDatabaseClient r)
            (getDSN (conn_of (specType (drSpec databaseRequest)) c pw) False)
            (metaName (drMeta databaseRequest)) (metaNamespace (drMeta databaseRequest))
            (specType (drSpec databaseRequest))) d
          = (Ok (), d'))"

lemma relDBDeletion_Ok:
  assumes "run_state (relDBDeletion r) s = (Ok (), t)"
  shows "database_dropped r (obj s) (dbs s) (dbs t)"
proof -
  from assms obtain x u where "run_state (relationalDatabaseOperation r op_drop None) s = (Ok x, u)" and "u = t"
    by (auto simp: relDBDeletion_def split: option.splits elim!: and_then_OkE)
  then have "run_state (relationalDatabaseOperation r op_drop None) s = (Ok x, t)" by simp
  then obtain p n c pw u1 w where
    prov: "run_state (operation_provider r op_drop) s = (Ok (p, n), u1)"
    and "last_connection n (rdpConnections (rdpSpec p)) None = Some c" and n: "connName c = n"
    and run: "run_state (perform_operation r op_drop p c (conn_of (specType (drSpec (obj u1))) c pw) None)
        (u1\<lparr>cluster := w\<rparr>) = (Ok x, t)"
    by (rule operation_via_connection)
  from operation_provider_reference [OF prov op_names(1)] n obtain ref where
    ref: "specDatabaseConnectionReference (drSpec (obj s)) = Some ref" "connName c = dcrName ref"
    and u1: "dbs u1 = dbs s" "obj u1 = obj s"
    by blast
  let ?drop = "rdiDropDatabase (RelationalDatabaseClient r)
        (getDSN (conn_of (specType (drSpec (obj s))) c pw) False)
        (metaName (drMeta (obj s))) (metaNamespace (drMeta (obj s))) (specType (drSpec (obj s)))"
  obtain rd d where d: "run_state ?drop (dbs s) = (rd, d)" by fastforce
  from run u1 d have "rd = Ok ()" and "dbs t = d"
    by (auto simp: perform_operation_def operation_drop_def run_go_try and_then_def
        split: outcome.splits prod.splits dest: run_update_obj_effects)
  with ref d show ?thesis unfolding database_dropped_def by blast
qed

subsection \<open>Deletion\<close>

text \<open>A delete call that found nothing to delete is as good as one that deleted.\<close>

definition gone :: "unit outcome \<Rightarrow> bool" where
  "gone r \<longleftrightarrow> r = Ok () \<or> (\<exists>err. r = Err err \<and> IsNotFound err)"

lemma gone_simps [simp]:
  "gone (Ok ())" "gone (Err err) = IsNotFound err" "\<not> gone (Panic msg)"
  by (simp_all add: gone_def)

context cluster_frame
begin

definition finalizers_of :: "('w, 'd) request_state \<Rightarrow> NamespacedName \<Rightarrow> string list" where
  "finalizers_of s = viewFinalizers (view (cluster s))"

lemma delete_secret_call:
  "post (in_cluster (Delete_Secret K k)) s
     (\<lambda>r t. obj t = obj s \<and> dbs t = dbs s \<and>
        viewServices (view (cluster t)) = viewServices (view (cluster s)) \<and>
        finalizers_of t = finalizers_of s \<and>
        (gone r \<longrightarrow> viewSecrets (view (cluster t)) k = None))"
proof (rule postI)
  fix r t
  assume "run_state (in_cluster (Delete_Secret K k)) s = (r, t)"
  then obtain w where run: "run_state (Delete_Secret K k) (cluster s) = (r, w)" and t: "t = s\<lparr>cluster := w\<rparr>"
    by (auto split: prod.splits)
  with delete_secret [of k] delete_missing(1) [of k "cluster s"] show "obj t = obj s \<and> dbs t = dbs s \<and>
      viewServices (view (cluster t)) = viewServices (view (cluster s)) \<and>
      finalizers_of t = finalizers_of s \<and>
      (gone r \<longrightarrow> viewSecrets (view (cluster t)) k = None)"
    unfolding writes_def gone_def finalizers_of_def by fastforce
qed

lemma delete_service_call:
  "post (in_cluster (Delete_Service K k)) s
     (\<lambda>r t. obj t = obj s \<and> dbs t = dbs s \<and>
        viewSecrets (view (cluster t)) = viewSecrets (view (cluster s)) \<and>
        finalizers_of t = finalizers_of s \<and>
        (gone r \<longrightarrow> viewServices (view (cluster t)) k = None))"
proof (rule postI)
  fix r t
  assume "run_state (in_cluster (Delete_Service K k)) s = (r, t)"
  then obtain w where run: "run_state (Delete_Service K k) (cluster s) = (r, w)" and t: "t = s\<lparr>cluster := w\<rparr>"
    by (auto split: prod.splits)
  with delete_service [of k] delete_missing(2) [of k "cluster s"] show "obj t = obj s \<and> dbs t = dbs s \<and>
      viewSecrets (view (cluster t)) = viewSecrets (view (cluster s)) \<and>
      finalizers_of t = finalizers_of s \<and>
      (gone r \<longrightarrow> viewServices (view (cluster t)) k = None)"
    unfolding writes_def gone_def finalizers_of_def by fastforce
qed

text \<open>Once the objects are gone, only the finalizers change.\<close>

definition only_finalizers :: "('w, 'd) request_state \<Rightarrow> ('w, 'd) request_state \<Rightarrow> bool" where
  "only_finalizers s t \<longleftrightarrow>
     viewSecrets (view (cluster t)) = viewSecrets (view (cluster s)) \<and>
     viewServices (view (cluster t)) = viewServices (view (cluster s)) \<and> dbs t = dbs s"

lemma preorder_only_finalizers: "preorder_rel only_finalizers"
  by (auto simp: preorder_rel_def only_finalizers_def intro!: reflpI transpI)

lemma only_finalizers_quiet: "preserves (quiet_step view) m \<Longrightarrow> preserves only_finalizers m"
  by (erule preserves_mono) (simp add: quiet_step_def only_finalizers_def)

lemma only_finalizers_update: "preserves only_finalizers (update_obj (Update_DatabaseRequest K))"
  unfolding preserves_def by (auto intro: post_mono [OF update_call] simp: only_finalizers_def)

lemma quiet_finish_delete: "preserves (quiet_step view) (finish_delete L r)"
  unfolding finish_delete_def Let_def
  by (intro preserves_rules preorder_quiet_step) (simp_all add: quiet_rules)

lemma delete_finalizer_step:
  assumes "Client r = K"
  shows "preserves only_finalizers (delete_finalizer L r)"
proof -
  have set: "preserves only_finalizers (set_obj x)" for x
    by (rule preserves_set_obj) (simp add: only_finalizers_def)
  show ?thesis
    unfolding delete_finalizer_def assms
    by (auto intro!: preserves_rules preorder_only_finalizers set only_finalizers_update
        only_finalizers_quiet [OF quiet_finish_delete] only_finalizers_quiet [OF quiet_handleError [OF assms]]
        split: prod.splits)
qed

lemma handleError_finalizers:
  "Client r = K \<Longrightarrow> post (handleError L r promErr err ignoreError) s (\<lambda>_ t. finalizers_of t = finalizers_of s \<and> dbs t = dbs s)"
  by (rule preserves_post [OF quiet_handleError]) (simp_all add: quiet_step_def finalizers_of_def)

lemma delete_secret_post:
  assumes "Client r = K"
  shows "post (delete_secret L r) s (\<lambda>_ t.
    viewServices (view (cluster t)) = viewServices (view (cluster s)) \<and> dbs t = dbs s \<and>
    (finalizers_of t \<noteq> finalizers_of s \<longrightarrow> viewSecrets (view (cluster t)) (meta_key (drMeta (obj s))) = None))"
    (is "post _ s ?Q")
proof -
  have finalizer: "post (delete_finalizer L r) t ?Q"
    if "viewServices (view (cluster t)) = viewServices (view (cluster s))" "dbs t = dbs s"
      "viewSecrets (view (cluster t)) (meta_key (drMeta (obj s))) = None" for t
    by (rule preserves_post [OF delete_finalizer_step [OF assms]]) (use that in \<open>simp add: only_finalizers_def\<close>)
  have failed: "post (handleError L r promErr err ignoreError) t ?Q"
    if "viewServices (view (cluster t)) = viewServices (view (cluster s))" "dbs t = dbs s"
      "finalizers_of t = finalizers_of s" for t promErr err ignoreError
    by (rule preserves_post [OF quiet_handleError [OF assms]])
      (use that in \<open>simp add: quiet_step_def finalizers_of_def\<close>)
  show ?thesis
    unfolding delete_secret_def post_with_obj assms meta_key_def [symmetric]
    by (rule post_go_tryI [OF delete_secret_call])
      (auto intro: finalizer failed)
qed

lemma delete_service_post:
  assumes "Client r = K"
  shows "post (delete_service L r) s (\<lambda>_ t. dbs t = dbs s \<and>
    (finalizers_of t \<noteq> finalizers_of s \<longrightarrow>
       viewSecrets (view (cluster t)) (meta_key (drMeta (obj s))) = None \<and>
       viewServices (view (cluster t))
         \<lparr>nnName = specName (drSpec (obj s)), nnNamespace = metaNamespace (drMeta (obj s))\<rparr> = None))"
    (is "post _ s ?Q")
proof -
  have secret: "post (delete_secret L r) t ?Q"
    if "dbs t = dbs s" "obj t = obj s" "finalizers_of t = finalizers_of s"
      "viewServices (view (cluster t))
         \<lparr>nnName = specName (drSpec (obj s)), nnNamespace = metaNamespace (drMeta (obj s))\<rparr> = None" for t
    by (rule post_mono [OF delete_secret_post [OF assms]]) (use that in simp)
  have failed: "post (handleError L r promErr err ignoreError) t ?Q"
    if "dbs t = dbs s" "finalizers_of t = finalizers_of s" for t promErr err ignoreError
    by (rule post_mono [OF handleError_finalizers [OF assms]]) (use that in simp)
  show ?thesis
    unfolding delete_service_def post_with_obj assms
    by (rule post_go_tryI [OF delete_service_call])
      (auto intro: secret failed)
qed

text \<open>
  The deletion of a request whose finalizer disappears has dropped the database, when it was
  to be dropped, and removed the service and the secret.
\<close>

lemma deleteDatabase_post:
  assumes "Client r = K"
  shows "post (deleteDatabase L r) s (\<lambda>_ t. finalizers_of t \<noteq> finalizers_of s \<longrightarrow>
     viewSecrets (view (cluster t)) (meta_key (drMeta (obj s))) = None \<and>
     viewServices (view (cluster t))
       \<lparr>nnName = specName (drSpec (obj s)), nnNamespace = metaNamespace (drMeta (obj s))\<rparr> = None \<and>
     (specSeed (drSpec (obj s)) = None \<and> specDropDatabaseOnDelete (drSpec (obj s)) \<longrightarrow>
        specType (drSpec (obj s)) = mongodbType \<or>
        database_dropped r (obj s) (dbs s) (dbs t)))"
    (is "post _ s ?Q")
proof -
  have failed: "post (handleError L r promErr err ignoreError) t ?Q"
    if "finalizers_of t = finalizers_of s" for t promErr err ignoreError
    by (rule post_mono [OF handleError_finalizers [OF assms]]) (use that in simp)
  have kept: "post (delete_service L r) s (\<lambda>_ t. finalizers_of t \<noteq> finalizers_of s \<longrightarrow>
     viewSecrets (view (cluster t)) (meta_key (drMeta (obj s))) = None \<and>
     viewServices (view (cluster t))
       \<lparr>nnName = specName (drSpec (obj s)), nnNamespace = metaNamespace (drMeta (obj s))\<rparr> = None)"
    by (rule post_mono [OF delete_service_post [OF assms]]) simp
  have drop: "post (relDBDeletion r) s (\<lambda>res t. finalizers_of t = finalizers_of s \<and> same_core (obj s) (obj t) \<and>
      run_state (relDBDeletion r) s = (res, t))"
    using frame_requests(1) [OF assms]
    by (auto intro!: postI dest: preservesD simp: frame_step_def finalizers_of_def)
  have after: "post (delete_service L r) t ?Q"
    if "finalizers_of t = finalizers_of s" "same_core (obj s) (obj t)" "run_state (relDBDeletion r) s = (Ok (), t)" for t
  proof (rule post_mono [OF delete_service_post [OF assms]])
    fix res u
    assume u: "dbs u = dbs t \<and> (finalizers_of u \<noteq> finalizers_of t \<longrightarrow>
       viewSecrets (view (cluster u)) (meta_key (drMeta (obj t))) = None \<and>
       viewServices (view (cluster u))
         \<lparr>nnName = specName (drSpec (obj t)), nnNamespace = metaNamespace (drMeta (obj t))\<rparr> = None)"
    have "meta_key (drMeta (obj t)) = meta_key (drMeta (obj s))" "specName (drSpec (obj t)) = specName (drSpec (obj s))"
      "metaNamespace (drMeta (obj t)) = metaNamespace (drMeta (obj s))"
      using that(2) by (auto simp: same_core_def meta_key_def dest: core_spec_eqD)
    with u that(1) relDBDeletion_Ok [OF that(3)] show "?Q res u" by simp
  qed
  let ?asked = "specSeed (drSpec (obj s)) = None \<and> specDropDatabaseOnDelete (drSpec (obj s))"
  let ?rel = "specType (drSpec (obj s)) = mysqlType \<or> specType (drSpec (obj s)) = postgresType"
  show ?thesis
  proof (cases ?asked)
    case asked: True
    show ?thesis
    proof (cases ?rel)
      case True
      show ?thesis
        unfolding deleteDatabase_def post_with_obj Let_def if_P [OF asked] if_P [OF True]
      proof (rule post_go_tryI [OF drop], goal_cases)
        case (1 x t)
        then show ?case by (intro after) simp_all
      next
        case (2 err t)
        then show ?case unfolding post_with_obj by (intro failed) simp
      qed simp
    next
      case False
      show ?thesis
      proof (cases "specType (drSpec (obj s)) = mongodbType")
        case mongo: True
        show ?thesis
          unfolding deleteDatabase_def post_with_obj Let_def if_P [OF asked] if_not_P [OF False] if_P [OF mongo]
          by (rule post_mono [OF kept]) (simp add: mongo)
      next
        case other: False
        show ?thesis
          unfolding deleteDatabase_def post_with_obj Let_def if_P [OF asked] if_not_P [OF False] if_not_P [OF other]
          by (rule failed) simp
      qed
    qed
  next
    case False
    show ?thesis
      unfolding deleteDatabase_def post_with_obj Let_def if_not_P [OF False]
      by (rule post_mono [OF kept]) (use False in blast)
  qed
qed

end

subsection \<open>Metrics\<close>

text \<open>
  Every metric the reconciler writes has the labels that its vector declares: a preorder that
  every program of the reconciler keeps, whatever the cluster and the databases do.
\<close>

lemma fits_sets [fits_rules]:
  "preserves fits (set_spec f)" "preserves fits (set_status g)" "preserves fits (set_condition L c)"
  by (rule preservesI, force simp: fits_def run_set_condition split: prod.splits)+

lemma dom_promLabels:
  "dom (promLabels d withError) =
     set (pvLabels promDatabaseRequestReconcileStatus) \<union> (if withError \<noteq> [] then {''error''} else {})"
  by (auto simp: promLabels_def promDatabaseRequestReconcileStatus_def split: option.split)

lemma promLabels_fit [simp]:
  "fitting promDatabaseRequestReconcileStatus (With (promLabels d []))"
  "e \<noteq> [] \<Longrightarrow> fitting promDatabaseRequestReconcileErrorCounter (With (promLabels d e))"
  by (auto simp: dom_promLabels promDatabaseRequestReconcileStatus_def
      promDatabaseRequestReconcileErrorCounter_def)

lemma counters_fit:
  "fitting promDatabaseRequestReconcileCounter (WithLabelValues [x1, x2])"
  "fitting promDatabaseRequestReconcileErrorCounter (WithLabelValues [x1, x2, x3, x4, x5, x6, x7])"
  by (simp_all add: promDatabaseRequestReconcileCounter_def promDatabaseRequestReconcileErrorCounter_def)

lemma fits_prom [fits_rules]:
  "e \<noteq> [] \<Longrightarrow> preserves fits (emit (Inc promDatabaseRequestReconcileErrorCounter (With (promLabels d e))))"
  "preserves fits (emit (Set promDatabaseRequestReconcileStatus (With (promLabels d [])) n))"
  "preserves fits (emit (DeletePartialMatch v l))"
  "preserves fits (emit (Eventf t r a m))"
  "preserves fits (emit (Inc promDatabaseRequestReconcileCounter (WithLabelValues [x1, x2])))"
  "preserves fits (emit (Inc promDatabaseRequestReconcileErrorCounter
     (WithLabelValues [x1, x2, x3, x4, x5, x6, x7])))"
  by (rule fits_emit, simp only: fitting_effect.simps promLabels_fit counters_fit simp_thms)+

lemma fits_handleError [fits_rules]:
  "promErr \<noteq> [] \<Longrightarrow> preserves fits (handleError L r promErr err ignoreError)"
  unfolding handleError_def Let_def
  by (intro preserves_rules preorder_fits fits_rules) simp_all

lemma fits_find_in_connections [fits_rules]: "preserves fits (find_in_connections r dbType p cs found)"
  by (induction cs arbitrary: found) (auto simp: Let_def intro!: preserves_rules fits_rules)

lemma fits_find_in_providers [fits_rules]: "preserves fits (find_in_providers r selector dbType ps found)"
  by (induction ps arbitrary: found) (auto intro!: preserves_rules fits_rules)

lemma fits_operation [fits_rules]: "preserves fits (relationalDatabaseOperation r operation i)"
  unfolding relationalDatabaseOperation_def operation_provider_def findRelationalDatabaseProvider_def
    perform_operation_def operation_create_def operation_drop_def operation_info_def Let_def
  by (intro preserves_rules fits_rules preorder_fits)

lemma fits_requests [fits_rules]:
  "preserves fits (relDBDeletion r)" "preserves fits (relDBInfo r)" "preserves fits (createDatabase r)"
  unfolding relDBDeletion_def relDBInfo_def createDatabase_def Let_def
  by (intro preserves_rules fits_rules preorder_fits)+

lemma fits_handleSeed [fits_rules]: "preserves fits (handleSeed r)"
  unfolding handleSeed_def relationalDatabaseInfoFromSeed_def seedDatabase_def relDBTestSeedConnection_def Let_def
  by (intro preserves_rules fits_rules preorder_fits)

lemma fits_deletion [fits_rules]: "preserves fits (delete_service L r)"
  unfolding delete_service_def delete_secret_def delete_finalizer_def finish_delete_def Let_def
  by (intro preserves_rules fits_rules preorder_fits) simp_all

lemma fits_deleteDatabase [fits_rules]: "preserves fits (deleteDatabase L r)"
  unfolding deleteDatabase_def Let_def
  by (intro preserves_rules fits_rules preorder_fits) simp_all

lemma fits_provide_access [fits_rules]: "preserves fits (provide_access L r i)"
  unfolding provide_access_def handleService_def handleSecret_def finish_reconcile_def set_ready_def Let_def
  by (intro preserves_rules fits_rules preorder_fits) simp_all

lemma fits_reconcile_active [fits_rules]: "preserves fits (reconcile_active L r)"
  unfolding reconcile_active_def reconcile_spec_def reconcile_seed_def reconcile_unseeded_def
    reconcile_existing_def Let_def
  by (intro preserves_rules fits_rules preorder_fits) simp_all

lemma fits_Reconcile: "preserves fits (Reconcile L r req)"
  unfolding Reconcile_def
  by (intro preserves_rules fits_rules preorder_fits)

end
