(* ===== verification/FindProvider.thy ===== *)
theory FindProvider
  imports DbRequestFacts
begin

section \<open>The choice of a provider\<close>

text \<open>
  \<open>findRelationalDatabaseProvider\<close> against its specification: among the enabled connections of
  the providers with the selector and the type of the request, in the order of the list, it
  takes the first one of the smallest load. The loads are those that the database client
  returned during the search, one for every candidate.
\<close>

type_synonym candidate = "RelationalDatabaseProvider \<times> Connection"

definition connection_candidates :: "RelationalDatabaseProvider \<Rightarrow> Connection list \<Rightarrow> candidate list" where
  "connection_candidates p cs = map (Pair p) (filter connEnabled cs)"

definition candidates :: "string \<Rightarrow> string \<Rightarrow> RelationalDatabaseProvider list \<Rightarrow> candidate list" where
  "candidates selector dbType ps =
     concat (map (\<lambda>p. connection_candidates p (rdpConnections (rdpSpec p)))
       (filter (\<lambda>p. rdpSelector (rdpSpec p) = selector \<and> rdpType (rdpSpec p) = dbType) ps))"

text \<open>The client reported the load for the connection.\<close>

definition observed_load ::
    "('w, 'd) DatabaseRequestReconciler \<Rightarrow> string \<Rightarrow> candidate \<Rightarrow> 64 word \<Rightarrow> bool" where
  "observed_load r dbType cand l \<longleftrightarrow>
     (\<exists>pw d d'. run_state (rdiLoad (RelationalDatabaseClient r)
         (getDSN (conn_of dbType (snd cand) pw) False) dbType) d = (Ok l, d'))"

definition better :: "find_state \<Rightarrow> candidate \<times> 64 word \<Rightarrow> find_state" where
  "better found x =
     (if snd x <s fst found then (snd x, Some (fst (fst x)), connName (snd (fst x))) else found)"

definition pick :: "find_state \<Rightarrow> (candidate \<times> 64 word) list \<Rightarrow> find_state" where
  "pick = foldl better"

lemma pick_simps [simp]:
  "pick found [] = found" "pick found (x # xs) = pick (better found x) xs"
  "pick found (xs @ ys) = pick (pick found xs) ys"
  by (simp_all add: pick_def)

text \<open>The picked candidate is the first of the smallest load, or there was none below the start.\<close>

definition first_least :: "(candidate \<times> 64 word) list \<Rightarrow> nat \<Rightarrow> bool" where
  "first_least xs i \<longleftrightarrow>
     i < length xs \<and> (\<forall>j < length xs. snd (xs ! i) \<le>s snd (xs ! j)) \<and> (\<forall>j < i. snd (xs ! i) <s snd (xs ! j))"

lemma first_least_last:
  assumes "\<And>j. j < length xs \<Longrightarrow> snd x <s snd (xs ! j)"
  shows "first_least (xs @ [x]) (length xs)"
proof -
  have "snd x \<le>s snd (xs ! j)" if "j < length xs" for j
    using assms [OF that] by (simp add: word_sless_alt word_sle_eq)
  with assms show ?thesis
    unfolding first_least_def by (auto simp: nth_append less_Suc_eq)
qed

lemma pick_cases:
  "(pick found xs = found \<and> (\<forall>x \<in> set xs. \<not> snd x <s fst found)) \<or>
   (\<exists>i. first_least xs i \<and> snd (xs ! i) <s fst found \<and>
      pick found xs = (snd (xs ! i), Some (fst (fst (xs ! i))), connName (snd (fst (xs ! i)))))"
proof (induction xs rule: rev_induct)
  case Nil
  then show ?case by simp
next
  case (snoc x xs)
  from snoc.IH show ?case
  proof (elim disjE exE conjE)
    assume IH: "pick found xs = found" "\<forall>y \<in> set xs. \<not> snd y <s fst found"
    show ?thesis
    proof (cases "snd x <s fst found")
      case True
      have "snd x <s snd (xs ! j)" if "j < length xs" for j
        using True IH(2) that nth_mem [OF that] unfolding word_sless_alt by fastforce
      then have "first_least (xs @ [x]) (length xs)" by (rule first_least_last)
      with True IH(1) show ?thesis by (intro disjI2 exI [of _ "length xs"]) (simp add: better_def nth_append)
    next
      case False
      with IH show ?thesis by (simp add: better_def)
    qed
  next
    fix i
    assume IH: "first_least xs i" "snd (xs ! i) <s fst found"
      "pick found xs = (snd (xs ! i), Some (fst (fst (xs ! i))), connName (snd (fst (xs ! i))))"
    then have i: "i < length xs" by (simp add: first_least_def)
    show ?thesis
    proof (cases "snd x <s snd (xs ! i)")
      case True
      have "snd x <s snd (xs ! j)" if "j < length xs" for j
        using True IH(1) that unfolding first_least_def word_sless_alt word_sle_eq by force
      then have "first_least (xs @ [x]) (length xs)" by (rule first_least_last)
      moreover have "snd x <s fst found" using True IH(2) by (simp add: word_sless_alt)
      ultimately show ?thesis using True IH(3)
        by (intro disjI2 exI [of _ "length xs"]) (simp add: better_def nth_append)
    next
      case False
      then have "first_least (xs @ [x]) i"
        using IH(1) unfolding first_least_def by (auto simp: nth_append less_Suc_eq word_sless_alt word_sle_eq)
      with False IH i show ?thesis
        by (intro disjI2 exI [of _ i]) (simp add: better_def nth_append)
    qed
  qed
qed

text \<open>The loops compute the pick from the loads the client reports.\<close>

definition searched ::
    "('w, 'd) DatabaseRequestReconciler \<Rightarrow> string \<Rightarrow> candidate list \<Rightarrow> find_state \<Rightarrow> find_state \<Rightarrow> bool" where
  "searched r dbType cands found best \<longleftrightarrow>
     (\<exists>loads. list_all2 (observed_load r dbType) cands loads \<and> best = pick found (zip cands loads))"

lemma searched_Nil [simp]: "searched r dbType [] found best \<longleftrightarrow> best = found"
  by (simp add: searched_def)

lemma searched_Cons:
  assumes "observed_load r dbType c l" and "searched r dbType cs (better found (c, l)) best"
  shows "searched r dbType (c # cs) found best"
proof -
  from assms(2) obtain loads where "list_all2 (observed_load r dbType) cs loads"
    "best = pick (better found (c, l)) (zip cs loads)"
    by (auto simp: searched_def)
  with assms(1) show ?thesis unfolding searched_def by (intro exI [of _ "l # loads"]) simp
qed

lemma searched_append:
  assumes "searched r dbType cs found mid" and "searched r dbType ds mid best"
  shows "searched r dbType (cs @ ds) found best"
proof -
  from assms obtain l1 l2 where "list_all2 (observed_load r dbType) cs l1" "mid = pick found (zip cs l1)"
    "list_all2 (observed_load r dbType) ds l2" "best = pick mid (zip ds l2)"
    by (auto simp: searched_def)
  then show ?thesis unfolding searched_def
    by (intro exI [of _ "l1 @ l2"]) (simp add: list_all2_appendI list_all2_lengthD)
qed

lemma find_in_connections_searched:
  "run_state (find_in_connections r dbType p cs found) s = (Ok best, t) \<Longrightarrow>
     searched r dbType (connection_candidates p cs) found best"
proof (induction cs arbitrary: found s)
  case Nil
  then show ?case by (simp add: connection_candidates_def)
next
  case (Cons c cs)
  show ?case
  proof (cases "connEnabled c")
    case False
    with Cons show ?thesis by (simp add: connection_candidates_def)
  next
    case True
    obtain rs w where get: "run_state (Get_Secret (Client r) (secret_key_of (connPasswordSecretRef c))) (cluster s) = (rs, w)"
      by fastforce
    with Cons.prems True obtain secret where rs: "rs = Ok secret" "secret_password secret \<noteq> []"
      by (cases rs) (auto simp: Let_def run_go_try split: if_splits)
    obtain rl d' where load: "run_state (rdiLoad (RelationalDatabaseClient r)
         (getDSN (conn_of dbType c (secret_password secret)) False) dbType) (dbs s) = (rl, d')"
      by fastforce
    with Cons.prems True get rs obtain l where rl: "rl = Ok l"
      by (cases rl) (auto simp: Let_def run_go_try)
    from Cons.prems True get rs load rl have rest: "run_state (find_in_connections r dbType p cs
         (if l <s fst found then (l, Some p, connName c) else found)) (s\<lparr>cluster := w, dbs := d'\<rparr>) = (Ok best, t)"
      by (simp add: Let_def run_go_try)
    note load = load [unfolded rl]
    have "observed_load r dbType (p, c) l" using load by (auto simp: observed_load_def)
    moreover from Cons.IH [OF rest] have "searched r dbType (connection_candidates p cs) (better found ((p, c), l)) best"
      by (simp add: better_def split: if_splits)
    ultimately show ?thesis
      using True by (simp add: connection_candidates_def searched_Cons)
  qed
qed

lemma find_in_providers_searched:
  "run_state (find_in_providers r selector dbType ps found) s = (Ok best, t) \<Longrightarrow>
     searched r dbType (candidates selector dbType ps) found best"
proof (induction ps arbitrary: found s)
  case Nil
  then show ?case by (simp add: candidates_def)
next
  case (Cons p ps)
  show ?case
  proof (cases "rdpSelector (rdpSpec p) = selector \<and> rdpType (rdpSpec p) = dbType")
    case False
    with Cons show ?thesis by (auto simp: candidates_def split: if_splits)
  next
    case True
    with Cons.prems obtain mid u where conns:
      "run_state (find_in_connections r dbType p (rdpConnections (rdpSpec p)) found) s = (Ok mid, u)"
      and rest: "run_state (find_in_providers r selector dbType ps mid) u = (Ok best, t)"
      by (auto elim!: go_try_fail_OkE [where f = "\<lambda>err. err"])
    show ?thesis
      using searched_append [OF find_in_connections_searched [OF conns] Cons.IH [OF rest]] True
      by (simp add: candidates_def)
  qed
qed

lemma findRelationalDatabaseProvider_searched:
  assumes "run_state (findRelationalDatabaseProvider r) s = (Ok (p, n), t)"
  obtains ps w load where
    "run_state (List_RelationalDatabaseProvider (Client r)) (cluster s) = (Ok ps, w)"
    "searched r (specType (drSpec (obj s)))
       (candidates (specSelector (drSpec (obj s))) (specType (drSpec (obj s))) ps)
       (max_load, None, []) (load, Some p, n)"
proof -
  from assms obtain ps w load u where
    "run_state (List_RelationalDatabaseProvider (Client r)) (cluster s) = (Ok ps, w)"
    "run_state (find_in_providers r (specSelector (drSpec (obj s))) (specType (drSpec (obj s))) ps
       (max_load, None, [])) (s\<lparr>cluster := w\<rparr>) = (Ok (load, Some p, n), u)"
    by (auto simp: findRelationalDatabaseProvider_def Let_def run_go_try
        split: outcome.splits prod.splits option.splits)
  with find_in_providers_searched that show ?thesis by blast
qed

lemma searched_least:
  assumes "searched r dbType cands (max_load, None, []) (load, Some p, n)"
  shows "\<exists>loads i. list_all2 (observed_load r dbType) cands loads \<and> first_least (zip cands loads) i \<and>
    fst (cands ! i) = p \<and> connName (snd (cands ! i)) = n \<and> load = loads ! i \<and> i < length cands"
proof -
  from assms obtain loads where loads: "list_all2 (observed_load r dbType) cands loads"
    and pick: "(load, Some p, n) = pick (max_load, None, []) (zip cands loads)"
    by (auto simp: searched_def)
  from pick_cases [of "(max_load, None, [])" "zip cands loads"] pick obtain i where
    i: "first_least (zip cands loads) i"
      "(load, Some p, n) = (snd (zip cands loads ! i), Some (fst (fst (zip cands loads ! i))),
         connName (snd (fst (zip cands loads ! i))))"
    by auto
  from i(1) loads have "i < length cands" "i < length loads"
    by (auto simp: first_least_def)
  with i loads show ?thesis by (intro exI [of _ loads] exI [of _ i]) simp
qed

lemma candidates_in:
  "(p, c) \<in> set (candidates selector dbType ps) \<longleftrightarrow>
     p \<in> set ps \<and> rdpSelector (rdpSpec p) = selector \<and> rdpType (rdpSpec p) = dbType \<and>
     c \<in> set (rdpConnections (rdpSpec p)) \<and> connEnabled c"
  by (auto simp: candidates_def connection_candidates_def)

end
