(* ===== verification/Provisioning.thy ===== *)
theory Provisioning
  imports DbRequestFacts FindProvider
begin

section \<open>What a successful reconciliation provides\<close>

text \<open>
  The locale \<open>provisioning\<close> puts the promises of the API server and the contract of the
  database client together. In it, a reconciliation that returns no error has left a secret
  with the credentials that the database client records for the request, and a service that
  points at the host of their connection.
\<close>

definition service_key :: "DatabaseRequest \<Rightarrow> NamespacedName" where
  "service_key d = \<lparr>nnName = specName (drSpec d), nnNamespace = metaNamespace (drMeta d)\<rparr>"

definition access_data :: "DatabaseRequest \<Rightarrow> dbInfo \<Rightarrow> string \<rightharpoonup> string" where
  "access_data d i = getSecretData i (specName (drSpec d)) (specName (drSpec d))"

definition same_objects :: "('w \<Rightarrow> cluster_view) \<Rightarrow> ('w, 'd) request_state \<Rightarrow> ('w, 'd) request_state \<Rightarrow> bool" where
  "same_objects view s t \<longleftrightarrow>
     viewSecrets (view (cluster t)) = viewSecrets (view (cluster s)) \<and>
     viewServices (view (cluster t)) = viewServices (view (cluster s)) \<and>
     viewProviders (view (cluster t)) = viewProviders (view (cluster s)) \<and>
     same_core (obj s) (obj t)"

lemma same_core_keys:
  "same_core a b \<Longrightarrow> meta_key (drMeta b) = meta_key (drMeta a) \<and> service_key b = service_key a \<and>
     access_data b i = access_data a i \<and> specType (drSpec b) = specType (drSpec a) \<and>
     metaName (drMeta b) = metaName (drMeta a) \<and> metaNamespace (drMeta b) = metaNamespace (drMeta a)"
  by (auto simp: same_core_def meta_key_def service_key_def access_data_def dest: core_spec_eqD)

lemma handleError_never_Ok: "post (handleError L r promErr err False) s (\<lambda>res t. res \<noteq> Ok x)"
proof -
  have "yields (\<lambda>_. False) (handleError L r promErr err False :: (('a, 'b) request_state, unit) go)"
    unfolding handleError_def with_obj_def and_then_def Let_def
    by (intro yields_rules) simp_all
  then show ?thesis by (auto simp: yields_def elim: post_mono)
qed

context fresh_cluster
begin

lemma handleService_post:
  assumes "Client r = K"
  shows "post (handleService r (Some i)) s (\<lambda>res t. dbs t = dbs s \<and> obj t = obj s \<and>
    viewSecrets (view (cluster t)) = viewSecrets (view (cluster s)) \<and>
    (\<forall>changed. res = Ok changed \<longrightarrow> viewServices (view (cluster t)) (service_key (obj s)) = Some (diHostName i)))"
proof (rule postI, goal_cases)
  case (1 res t)
  obtain rs w where get: "run_state (Get_Service K (service_key (obj s))) (cluster s) = (rs, w)" by fastforce
  then have w: "view w = view (cluster s)" using reads(5) by (auto simp: keeps_view_def)
  show ?case
  proof (cases rs)
    case (Ok svc)
    with get fresh_service have svc: "viewServices (view (cluster s)) (service_key (obj s)) = Some (svcExternalName svc)"
      "meta_key (svcMeta svc) = service_key (obj s)" by auto
    obtain ru v where upd: "run_state (Update_Service K (svc\<lparr>svcExternalName := diHostName i\<rparr>)) w = (ru, v)" by fastforce
    from writesD [OF update_service upd] svc(2) w have v: "viewSecrets (view v) = viewSecrets (view (cluster s))"
      "ru = Ok () \<Longrightarrow> viewServices (view v) (service_key (obj s)) = Some (diHostName i)"
      by auto
    from 1 get Ok upd svc w v assms show ?thesis
      by (auto simp: handleService_def service_key_def Let_def run_go_try split: if_splits outcome.splits)
  next
    case (Err err)
    obtain rc v where crt: "run_state (Create_Service K (new_service (obj s) (diHostName i))) w = (rc, v)" by fastforce
    have key: "meta_key (svcMeta (new_service (obj s) (diHostName i))) = service_key (obj s)"
      "svcExternalName (new_service (obj s) (diHostName i)) = diHostName i"
      by (simp_all add: new_service_def ObjectMeta_of_def service_key_def meta_key_def)
    from writesD [OF create_service crt] key w have v: "viewSecrets (view v) = viewSecrets (view (cluster s))"
      "rc = Ok () \<Longrightarrow> viewServices (view v) (service_key (obj s)) = Some (diHostName i)"
      by auto
    from 1 get Err crt w v assms show ?thesis
      by (auto simp: handleService_def service_key_def Let_def run_go_try split: if_splits outcome.splits)
  next
    case (Panic msg)
    with 1 get w assms show ?thesis
      by (auto simp: handleService_def service_key_def Let_def run_go_try)
  qed
qed

lemma handleSecret_post:
  assumes "Client r = K" and diff: "\<And>a. Diff L a (access_data (obj s) i) = [] \<longleftrightarrow> a = access_data (obj s) i"
  shows "post (handleSecret L r (Some i)) s (\<lambda>res t. dbs t = dbs s \<and> obj t = obj s \<and>
    viewServices (view (cluster t)) = viewServices (view (cluster s)) \<and>
    (\<forall>changed. res = Ok changed \<longrightarrow>
       viewSecrets (view (cluster t)) (meta_key (drMeta (obj s))) = Some (access_data (obj s) i)))"
proof (rule postI, goal_cases)
  case (1 res t)
  let ?k = "meta_key (drMeta (obj s))"
  obtain rs w where get: "run_state (Get_Secret K ?k) (cluster s) = (rs, w)" by fastforce
  then have w: "view w = view (cluster s)" using reads(4) by (auto simp: keeps_view_def)
  show ?case
  proof (cases rs)
    case (Ok sec)
    with get fresh_secret have sec: "viewSecrets (view (cluster s)) ?k = Some (secretData sec)"
      "meta_key (secretMeta sec) = ?k" by auto
    obtain ru v where upd: "run_state (Update_Secret K (sec\<lparr>secretData := access_data (obj s) i\<rparr>)) w = (ru, v)"
      by fastforce
    from writesD [OF update_secret upd] sec(2) w have v:
      "viewServices (view v) = viewServices (view (cluster s))"
      "ru = Ok () \<Longrightarrow> viewSecrets (view v) ?k = Some (access_data (obj s) i)"
      by auto
    let ?events = "effects s @ [Eventf ''Normal'' ''UpdateSecret'' ''Updating secret'' ''Updating secret'']"
    have "run_state (handleSecret L r (Some i)) s =
        (if Diff L (secretData sec) (access_data (obj s) i) \<noteq> []
         then (case ru of Ok _ \<Rightarrow> Ok True
               | Err err \<Rightarrow> Err (Errorf_w (''failed to update secret '' @ metaName (drMeta (obj s)) @ '', '') err)
               | Panic msg \<Rightarrow> Panic msg, s\<lparr>cluster := v, effects := ?events\<rparr>)
         else (Ok False, s\<lparr>cluster := w\<rparr>))"
      using get Ok upd assms(1)
      by (simp add: handleSecret_def meta_key_def access_data_def Let_def run_go_try split: outcome.split)
    with 1 sec w v diff [of "secretData sec"] show ?thesis
      by (cases "secretData sec = access_data (obj s) i") (auto split: outcome.splits)
  next
    case (Err err)
    let ?new = "new_secret (obj s) (access_data (obj s) i)"
    obtain rc v where crt: "run_state (Create_Secret K ?new) w = (rc, v)" by fastforce
    have key: "meta_key (secretMeta ?new) = ?k" "secretData ?new = access_data (obj s) i"
      by (simp_all add: new_secret_def ObjectMeta_of_def meta_key_def)
    from writesD [OF create_secret crt] key w have v:
      "viewServices (view v) = viewServices (view (cluster s))"
      "rc = Ok () \<Longrightarrow> viewSecrets (view v) ?k = Some (access_data (obj s) i)"
      by auto
    from 1 get Err crt w v assms(1) show ?thesis
      by (auto simp: handleSecret_def meta_key_def access_data_def Let_def run_go_try split: if_splits outcome.splits)
  next
    case (Panic msg)
    with 1 get w assms(1) show ?thesis
      by (auto simp: handleSecret_def meta_key_def Let_def run_go_try)
  qed
qed

text \<open>The end of the reconciliation leaves secrets, services and databases alone.\<close>

definition closing :: "('w, 'd) request_state \<Rightarrow> ('w, 'd) request_state \<Rightarrow> bool" where
  "closing s t \<longleftrightarrow> same_objects view s t \<and> dbs t = dbs s"

lemma preorder_closing: "preorder_rel closing"
  by (auto simp: preorder_rel_def closing_def same_objects_def same_core_def intro!: reflpI transpI)

lemma closing_trans: "closing a b \<Longrightarrow> closing b c \<Longrightarrow> closing a c"
  by (simp add: closing_def same_objects_def same_core_def)

lemma closing_quiet: "preserves (quiet_step view) m \<Longrightarrow> preserves closing m"
  by (erule preserves_mono) (simp add: quiet_step_def closing_def same_objects_def)

lemma closing_update: "preserves closing (update_obj (Update_DatabaseRequest K))"
  unfolding preserves_def by (auto intro: post_mono [OF update_call] simp: closing_def same_objects_def)

lemma closing_calls:
  assumes "K = Client r"
  shows "preserves closing (update_obj (Update_DatabaseRequest (Client r)))"
    and "preserves closing (update_obj (StatusUpdate_DatabaseRequest (Client r)))"
    and "preserves closing (handleError L r promErr err ignoreError)"
  unfolding assms [symmetric]
  by (auto intro: closing_update closing_quiet [OF quiet_status_update]
      closing_quiet [OF quiet_handleError [OF assms [symmetric]]])

lemmas closing_local = quiet_local [THEN closing_quiet]

lemma finish_reconcile_closing:
  assumes "Client r = K"
  shows "preserves closing (finish_reconcile L r a b)"
  unfolding finish_reconcile_def set_ready_def Let_def
  using assms
  by (auto intro!: preserves_rules preorder_closing closing_local closing_calls)

lemma provide_access_post:
  assumes "Client r = K" and diff: "\<And>d a. Diff L a (access_data d i) = [] \<longleftrightarrow> a = access_data d i"
  shows "post (provide_access L r (Some i)) s (\<lambda>res t. res = Ok () \<longrightarrow> dbs t = dbs s \<and>
    viewSecrets (view (cluster t)) (meta_key (drMeta (obj s))) = Some (access_data (obj s) i) \<and>
    viewServices (view (cluster t)) (service_key (obj s)) = Some (diHostName i))"
    (is "post _ s ?Q")
proof -
  have failed: "post (handleError L r promErr err False) t ?Q" for t promErr err
    by (rule post_mono [OF handleError_never_Ok [of L r promErr err t "()"]]) simp
  have finish: "post (finish_reconcile L r a b) t ?Q"
    if "dbs t = dbs s" "viewSecrets (view (cluster t)) (meta_key (drMeta (obj s))) = Some (access_data (obj s) i)"
      "viewServices (view (cluster t)) (service_key (obj s)) = Some (diHostName i)" for a b t
    by (rule preserves_post [OF finish_reconcile_closing [OF assms(1)]])
      (use that in \<open>simp add: closing_def same_objects_def\<close>)
  have secret: "post (handleSecret L r (Some i)) t (\<lambda>res u. \<forall>changed. res = Ok changed \<longrightarrow> dbs u = dbs s \<and>
      viewSecrets (view (cluster u)) (meta_key (drMeta (obj s))) = Some (access_data (obj s) i) \<and>
      viewServices (view (cluster u)) (service_key (obj s)) = Some (diHostName i))"
    if "dbs t = dbs s" "obj t = obj s" "viewServices (view (cluster t)) (service_key (obj s)) = Some (diHostName i)" for t
    by (rule post_mono [OF handleSecret_post [OF assms(1) diff]]) (use that in simp)
  show ?thesis
    unfolding provide_access_def
  proof (rule post_go_tryI [OF handleService_post [OF assms(1)]], goal_cases)
    case (1 changed t)
    then show ?case
      by (intro post_go_tryI [OF secret]) (auto intro: finish failed)
  next
    case (2 err t)
    show ?case by (rule failed)
  qed simp
qed

end

subsection \<open>The whole reconciliation\<close>

text \<open>
  What a successful reconciliation of a request establishes, in the cluster \<open>w\<close> and the
  databases \<open>d\<close>: credentials recorded through a connection of the request's type are in the
  secret, and the service points at the host of that connection.
\<close>

definition provisioned ::
    "('w \<Rightarrow> cluster_view) \<Rightarrow> (string \<Rightarrow> 'd \<Rightarrow> string \<times> string \<Rightarrow> RelationalDatabaseInfo option) \<Rightarrow>
      DatabaseRequest \<Rightarrow> 'w \<Rightarrow> 'd \<Rightarrow> bool" where
  "provisioned view creds databaseRequest w d \<longleftrightarrow>
     (\<exists>c pw info.
        creds (getDSN (conn_of (specType (drSpec databaseRequest)) c pw) False) d
          (metaName (drMeta databaseRequest), metaNamespace (drMeta databaseRequest)) = Some info \<and>
        viewSecrets (view w) (meta_key (drMeta databaseRequest)) =
          Some (access_data databaseRequest
            \<lparr>diDatabase = Dbname info, diHostName = connHostname c, diUserName = Username info,
             diPassword = Password info, diPort = connPort c\<rparr>) \<and>
        viewServices (view w) (service_key databaseRequest) = Some (connHostname c))"

lemma provisioned_same_core: "same_core a b \<Longrightarrow> provisioned view creds b w d = provisioned view creds a w d"
  using same_core_keys [of a b] by (simp add: provisioned_def)

definition relational :: "DatabaseRequest \<Rightarrow> bool" where
  "relational d \<longleftrightarrow> specType (drSpec d) = mysqlType \<or> specType (drSpec d) = postgresType"

locale provisioning = fresh_cluster K view + credential_store db creds sinv ok_name ok_info
  for K :: "'w client" and view :: "'w \<Rightarrow> cluster_view"
    and db :: "'d RelationalDatabaseInterface"
    and creds :: "string \<Rightarrow> 'd \<Rightarrow> string \<times> string \<Rightarrow> RelationalDatabaseInfo option"
    and sinv :: "'d \<Rightarrow> bool" and ok_name :: "string \<Rightarrow> bool" and ok_info :: "RelationalDatabaseInfo \<Rightarrow> bool" +
  fixes L :: library
  assumes diff_law: "\<And>a d i. Diff L a (access_data d i) = [] \<longleftrightarrow> a = access_data d i"
begin

text \<open>The reconciler of the setting, and the states it can be started in.\<close>

definition rec :: "('w, 'd) DatabaseRequestReconciler" where
  "rec = \<lparr>Client = K, RelationalDatabaseClient = db\<rparr>"

lemma rec_simps [simp]: "Client rec = K" "RelationalDatabaseClient rec = db"
  by (simp_all add: rec_def)

definition good :: "DatabaseRequest \<Rightarrow> ('w, 'd) request_state \<Rightarrow> bool" where
  "good d s \<longleftrightarrow> sinv (dbs s) \<and> same_core d (obj s) \<and> ok_name (metaNamespace (drMeta d)) \<and>
     (\<forall>p \<in> set (viewProviders (view (cluster s))). \<forall>c \<in> set (rdpConnections (rdpSpec p)). ok_name (connUsername c))"

lemma good_frame: "good d s \<Longrightarrow> frame_step view s t \<Longrightarrow> sinv (dbs t) \<Longrightarrow> good d t"
  by (auto simp: good_def frame_step_def same_core_def)

lemma relDBInfo_post:
  assumes "good d s"
  shows "post (relDBInfo rec) s (\<lambda>res t. \<forall>x. res = Ok x \<longrightarrow> good d t \<and>
    (\<exists>c pw info. x = Some \<lparr>diDatabase = Dbname info, diHostName = connHostname c, diUserName = Username info,
        diPassword = Password info, diPort = connPort c\<rparr> \<and>
      creds (getDSN (conn_of (specType (drSpec d)) c pw) False) (dbs t)
        (metaName (drMeta d), metaNamespace (drMeta d)) = Some info))"
proof (rule postI, intro allI impI)
  fix res t x
  assume run: "run_state (relDBInfo rec) s = (res, t)" and res: "res = Ok x"
  have frame: "frame_step view s t"
    using frame_requests(2) [of rec] run by (auto dest: preservesD)
  from run res have "run_state (relationalDatabaseOperation rec op_info (Some dbInfo_zero)) s = (Ok x, t)"
    by (auto simp: relDBInfo_def elim!: go_try_fail_OkE)
  then obtain p n c pw u1 w where
    prov: "run_state (operation_provider rec op_info) s = (Ok (p, n), u1)"
    and "last_connection n (rdpConnections (rdpSpec p)) None = Some c" "connName c = n"
    and op: "run_state (perform_operation rec op_info p c (conn_of (specType (drSpec (obj u1))) c pw) (Some dbInfo_zero))
        (u1\<lparr>cluster := w\<rparr>) = (Ok x, t)"
    by (rule operation_via_connection)
  from operation_provider_reference [OF prov op_names(2)] have u1: "dbs u1 = dbs s" "obj u1 = obj s" by simp_all
  from assms have d: "specType (drSpec (obj s)) = specType (drSpec d)" "metaName (drMeta (obj s)) = metaName (drMeta d)"
    "metaNamespace (drMeta (obj s)) = metaNamespace (drMeta d)"
    using same_core_keys [of d "obj s"] by (simp_all add: good_def)
  let ?dsn = "getDSN (conn_of (specType (drSpec d)) c pw) False"
  from op u1 d obtain info where
    get: "run_state (rdiGetDatabaseInfo db ?dsn (metaName (drMeta d)) (metaNamespace (drMeta d)) (specType (drSpec d)))
      (dbs s) = (Ok info, dbs t)"
    and x: "x = Some \<lparr>diDatabase = Dbname info, diHostName = connHostname c, diUserName = Username info,
        diPassword = Password info, diPort = connPort c\<rparr>"
    by (auto simp: perform_operation_def operation_info_def dbInfo_zero_def conn_of_def run_go_try
        split: outcome.splits prod.splits)
  from assms have inv: "sinv (dbs s)" and ns: "ok_name (metaNamespace (drMeta d))" by (simp_all add: good_def)
  have "client_step db ok_name ok_info (dbs s) (dbs t)" using get ns by (rule client_step.get)
  from step_law [OF this inv] have "good d t" using assms frame good_frame by blast
  with get_law [OF inv ns get] x show "good d t \<and>
    (\<exists>c pw info. x = Some \<lparr>diDatabase = Dbname info, diHostName = connHostname c, diUserName = Username info,
        diPassword = Password info, diPort = connPort c\<rparr> \<and>
      creds (getDSN (conn_of (specType (drSpec d)) c pw) False) (dbs t)
        (metaName (drMeta d), metaNamespace (drMeta d)) = Some info)"
    by blast
qed

text \<open>The search for a provider only asks for loads; a creation uses a listed connection.\<close>

definition db_steps :: "('w, 'd) request_state \<Rightarrow> ('w, 'd) request_state \<Rightarrow> bool" where
  "db_steps s t \<longleftrightarrow> client_steps db ok_name ok_info (dbs s) (dbs t)"

lemma preorder_db_steps: "preorder_rel db_steps"
  by (auto simp: preorder_rel_def db_steps_def intro!: reflpI transpI intro: rtranclp_trans)

lemma db_steps_quiet: "preserves (quiet_step view) m \<Longrightarrow> preserves db_steps m"
  by (erule preserves_mono) (simp add: quiet_step_def db_steps_def)

lemma db_steps_load: "preserves db_steps (in_dbs (rdiLoad db dsn dbType))"
  by (rule preserves_in_dbs) (auto simp: db_steps_def intro: client_step.load)

lemma db_steps_find_in_connections: "preserves db_steps (find_in_connections rec dbType p cs found)"
  by (induction cs arbitrary: found)
    (auto simp: Let_def intro!: preserves_rules preorder_db_steps db_steps_load db_steps_quiet [OF quiet_reads(3)])

lemma db_steps_find_in_providers: "preserves db_steps (find_in_providers rec selector dbType ps found)"
  by (induction ps arbitrary: found)
    (auto intro!: preserves_rules preorder_db_steps db_steps_find_in_connections)

lemma db_steps_operation_provider: "preserves db_steps (operation_provider rec operation)"
  unfolding operation_provider_def findRelationalDatabaseProvider_def Let_def
  by (auto intro!: preserves_rules preorder_db_steps db_steps_find_in_providers db_steps_quiet [OF quiet_reads(1)]
      db_steps_quiet [OF quiet_reads(2)] split: option.split)

lemma good_db_steps: "good d s \<Longrightarrow> frame_step view s t \<Longrightarrow> db_steps s t \<Longrightarrow> good d t"
  using good_frame steps_law unfolding good_def db_steps_def by blast

lemma create_provider_listed:
  assumes "run_state (operation_provider rec op_create) s = (Ok (p, n), t)" and "good d s"
    and "c \<in> set (rdpConnections (rdpSpec p))"
  shows "ok_name (connUsername c)"
proof -
  from assms(1) have "run_state (findRelationalDatabaseProvider rec) s = (Ok (p, n), t)"
    by (auto simp: operation_provider_def elim!: go_try_fail_OkE)
  then obtain ps w load where
    ps: "run_state (List_RelationalDatabaseProvider K) (cluster s) = (Ok ps, w)"
    and search: "searched rec (specType (drSpec (obj s)))
       (candidates (specSelector (drSpec (obj s))) (specType (drSpec (obj s))) ps)
       (max_load, None, []) (load, Some p, n)"
    by (rule findRelationalDatabaseProvider_searched) simp
  from searched_least [OF search] obtain i where "fst (candidates (specSelector (drSpec (obj s))) (specType (drSpec (obj s))) ps ! i) = p"
    "i < length (candidates (specSelector (drSpec (obj s))) (specType (drSpec (obj s))) ps)"
    by blast
  then have "p \<in> set ps" by (metis candidates_in nth_mem prod.collapse)
  with fresh_providers [OF ps] assms(2,3) show ?thesis by (auto simp: good_def)
qed

lemma operation_create_good:
  assumes "run_state (relationalDatabaseOperation rec op_create i) s = (Ok x, t)" and "good d s"
  shows "good d t"
proof -
  from assms(1) obtain p n c pw u1 w where
    prov: "run_state (operation_provider rec op_create) s = (Ok (p, n), u1)"
    and c: "last_connection n (rdpConnections (rdpSpec p)) None = Some c" and "connName c = n"
    and op: "run_state (perform_operation rec op_create p c (conn_of (specType (drSpec (obj u1))) c pw) i)
        (u1\<lparr>cluster := w\<rparr>) = (Ok x, t)"
    by (rule operation_via_connection)
  have u1: "good d u1"
    using good_db_steps [OF assms(2)] frame_operation_provider [of rec op_create] db_steps_operation_provider [of op_create]
      prov by (auto dest: preservesD)
  from last_connection_in [OF c] have "ok_name (connUsername c)"
    using create_provider_listed [OF prov assms(2)] by simp
  moreover from op obtain info d' where
    "run_state (rdiCreateDatabase db (getDSN (conn_of (specType (drSpec (obj u1))) c pw) False)
       (metaName (drMeta (obj u1))) (metaNamespace (drMeta (obj u1))) (specType (drSpec (obj u1))) (connUsername c))
       (dbs u1) = (Ok info, d')" and "dbs t = d'"
    by (auto simp: perform_operation_def operation_create_def conn_of_def run_go_try and_then_def Let_def
        split: outcome.splits prod.splits dest!: run_update_obj_effects)
  moreover have "ok_name (metaNamespace (drMeta (obj u1)))"
    using u1 same_core_keys [of d "obj u1"] by (simp add: good_def)
  ultimately have "client_step db ok_name ok_info (dbs u1) (dbs t)" by (auto intro: client_step.create)
  from step_law [OF this] u1 have "sinv (dbs t)" by (simp add: good_def)
  with good_frame [OF assms(2)] frame_relationalDatabaseOperation [of rec op_create i] assms(1) show ?thesis
    by (auto dest: preservesD)
qed

lemma createDatabase_good:
  assumes "run_state (createDatabase rec) s = (Ok (), t)" and "good d s" and "relational d"
  shows "good d t"
proof -
  from assms(2,3) have "specType (drSpec (obj s)) = mysqlType \<or> specType (drSpec (obj s)) = postgresType"
    using same_core_keys [of d "obj s"] by (simp add: good_def relational_def)
  with assms(1) obtain x where "run_state (relationalDatabaseOperation rec op_create None) s = (Ok x, t)"
    by (auto simp: createDatabase_def Let_def run_go_try split: outcome.splits prod.splits option.splits)
  from operation_create_good [OF this assms(2)] show ?thesis .
qed

text \<open>The branches of \<open>Reconcile\<close> without a seed.\<close>

lemma failed_post: "post (handleError L rec promErr err False) s (\<lambda>res t. res = Ok () \<longrightarrow> Q t)"
  by (rule post_mono [OF handleError_never_Ok [of L rec promErr err s "()"]]) simp

lemma reconcile_existing_post:
  assumes "good d s" and "relational d"
  shows "post (reconcile_existing L rec) s (\<lambda>res t. res = Ok () \<longrightarrow> provisioned view creds d (cluster t) (dbs t))"
    (is "post _ s ?Q")
proof -
  have access: "post (provide_access L rec x) u ?Q"
    if u: "good d u" and x: "x = Some \<lparr>diDatabase = Dbname info, diHostName = connHostname c, diUserName = Username info,
        diPassword = Password info, diPort = connPort c\<rparr>"
      and "creds (getDSN (conn_of (specType (drSpec d)) c pw) False) (dbs u)
        (metaName (drMeta d), metaNamespace (drMeta d)) = Some info" for x c pw info u
    unfolding x
  proof (rule post_mono [OF provide_access_post [OF rec_simps(1) diff_law]], intro impI)
    fix res t
    let ?i = "\<lparr>diDatabase = Dbname info, diHostName = connHostname c, diUserName = Username info,
        diPassword = Password info, diPort = connPort c\<rparr>"
    assume "res = Ok () \<longrightarrow> dbs t = dbs u \<and>
       viewSecrets (view (cluster t)) (meta_key (drMeta (obj u))) = Some (access_data (obj u) ?i) \<and>
       viewServices (view (cluster t)) (service_key (obj u)) = Some (diHostName ?i)" and "res = Ok ()"
    with that same_core_keys [of d "obj u"] show "provisioned view creds d (cluster t) (dbs t)"
      unfolding provisioned_def good_def by (intro exI [of _ c] exI [of _ pw] exI [of _ info]) simp
  qed
  have info: "post (go_try (relDBInfo rec)
      (\<lambda>err. with_obj (\<lambda>o2. handleError L rec (''get-'' @ specType (drSpec o2) @ ''-database-info'') err False))
      (provide_access L rec)) u ?Q" if "good d u" for u
    by (rule post_go_tryI [OF relDBInfo_post [OF that]]) (auto simp: post_with_obj intro: access failed_post)
  have rel: "specType (drSpec (obj u)) = mysqlType \<or> specType (drSpec (obj u)) = postgresType" if "good d u" for u
    using that assms(2) same_core_keys [of d "obj u"] by (simp add: good_def relational_def)
  have ref: "post (with_obj (\<lambda>o1.
        if statusObservedDatabaseConnectionReference (drStatus o1) \<noteq> specDatabaseConnectionReference (drSpec o1)
        then set_status (statusObservedDatabaseConnectionReference_update (\<lambda>_. specDatabaseConnectionReference (drSpec o1)))
        else ok ())) s (\<lambda>res t. res = Ok () \<and> good d t)"
    using assms(1) by (simp add: post_def good_def same_core_def)
  show ?thesis
    unfolding reconcile_existing_def and_then_def
    by (rule post_go_tryI [OF ref]) (simp_all add: post_with_obj Let_def rel info del: append.simps)
qed

lemma reconcile_unseeded_post:
  assumes "good d s" and "relational d"
  shows "post (reconcile_unseeded L rec) s (\<lambda>res t. res = Ok () \<longrightarrow> provisioned view creds d (cluster t) (dbs t))"
    (is "post _ s ?Q")
proof -
  have create: "post (createDatabase rec) s (\<lambda>res t. res = Ok () \<longrightarrow> good d t)"
    using createDatabase_good [OF _ assms] by (auto intro: postI)
  have created: "post (go_try (createDatabase rec) (\<lambda>err. handleError L rec ''create-database'' err False)
      (\<lambda>_. with_obj (\<lambda>o2. if specDatabaseConnectionReference (drSpec o2) = None
         then handleError L rec ''missing-connection-reference'' (errors_New ''missing database connection reference'') False
         else reconcile_existing L rec))) s ?Q"
    by (rule post_go_tryI [OF create]) (auto simp: post_with_obj intro: failed_post reconcile_existing_post [OF _ assms(2)])
  show ?thesis
    unfolding reconcile_unseeded_def post_with_obj
    using created reconcile_existing_post [OF assms] by simp
qed

text \<open>
  A skipped reconciliation found the request up to date and touched no secret, service or
  database.
\<close>

definition skipped :: "('w, 'd) request_state \<Rightarrow> ('w, 'd) request_state \<Rightarrow> bool" where
  "skipped s t \<longleftrightarrow> up_to_date L (obj t) \<and> closing s t"

lemma reconcile_spec_post:
  assumes "good d s" and "relational d" and "specSeed (drSpec (obj s)) = None"
  shows "post (reconcile_spec L rec) s (\<lambda>res t. res = Ok () \<longrightarrow>
    provisioned view creds d (cluster t) (dbs t) \<or> skipped s t)"
proof (cases "up_to_date L (obj s)")
  case True
  then show ?thesis
    by (simp add: reconcile_spec_def post_def skipped_def closing_def same_objects_def and_then_def run_go_try)
next
  case False
  with assms(3) have eq: "post (reconcile_spec L rec) s Q = post (reconcile_unseeded L rec) s Q" for Q
    by (simp add: reconcile_spec_def post_with_obj)
  show ?thesis
    unfolding eq by (rule post_mono [OF reconcile_unseeded_post [OF assms(1,2)]]) simp
qed

lemma reconcile_active_post:
  assumes "good d s" and "relational d" and "specSeed (drSpec (obj s)) = None"
  shows "post (reconcile_active L rec) s (\<lambda>res t. res = Ok () \<longrightarrow>
    provisioned view creds d (cluster t) (dbs t) \<or> skipped s t)"
    (is "post _ s ?Q")
proof -
  obtain fs added where add: "AddFinalizer L (metaFinalizers (drMeta (obj s))) databaseRequestFinalizer = (fs, added)"
    by fastforce
  let ?u = "s\<lparr>obj := (obj s)\<lparr>drMeta := (drMeta (obj s))\<lparr>metaFinalizers := fs\<rparr>\<rparr>\<rparr>"
  have core: "same_core (obj s) (obj ?u)" by (simp add: same_core_def meta_key_def)
  have u: "good d ?u" using assms(1) core by (auto simp: good_def same_core_def)
  have spec: "post (reconcile_spec L rec) t ?Q" if "good d t" "specSeed (drSpec (obj t)) = None" "closing s t" for t
    by (rule post_mono [OF reconcile_spec_post [OF that(1) assms(2) that(2)]])
      (use closing_trans [OF that(3)] in \<open>auto simp: skipped_def\<close>)
  have "post (update_obj (Update_DatabaseRequest K)) ?u
      (\<lambda>res t. good d t \<and> specSeed (drSpec (obj t)) = None \<and> closing s t)"
    by (rule post_mono [OF update_call])
      (use u core assms(3) in \<open>auto simp: good_def closing_def same_objects_def same_core_def\<close>)
  then have "post (go_try (update_obj (Update_DatabaseRequest K))
      (\<lambda>err. handleError L rec ''add-finalizer'' err False) (\<lambda>_. reconcile_spec L rec)) ?u ?Q"
    by (rule post_go_tryI) (auto intro: spec failed_post)
  moreover have "post (reconcile_spec L rec) ?u ?Q"
    by (rule spec) (use u core assms(3) in \<open>auto simp: closing_def same_objects_def\<close>)
  ultimately show ?thesis
    using add by (simp add: reconcile_active_def post_def and_then_def run_go_try split: prod.splits)
qed

lemma Reconcile_post:
  assumes "run_state (Get_DatabaseRequest K req) (cluster s) = (Ok d, w)"
    and "\<not> deleting d" and "specSeed (drSpec d) = None" and "relational d"
    and "sinv (dbs s)" and "ok_name (metaNamespace (drMeta d))"
    and "\<forall>p \<in> set (viewProviders (view (cluster s))). \<forall>c \<in> set (rdpConnections (rdpSpec p)). ok_name (connUsername c)"
    and "run_state (Reconcile L rec req) s = (Ok (), t)"
  shows "provisioned view creds d (cluster t) (dbs t) \<or>
    (up_to_date L (obj t) \<and> dbs t = dbs s \<and>
     viewSecrets (view (cluster t)) = viewSecrets (view (cluster s)) \<and>
     viewServices (view (cluster t)) = viewServices (view (cluster s)))"
proof -
  from reads(1) [of req] assms(1) have w: "view w = view (cluster s)" by (simp add: keeps_view_def)
  define u where "u = s\<lparr>effects := effects s @
     [Inc promDatabaseRequestReconcileCounter (WithLabelValues [nnName req, nnNamespace req])], cluster := w, obj := d\<rparr>"
  have "good d u" using assms(5-7) w by (simp add: good_def u_def)
  moreover from assms(1,2,8) have "run_state (reconcile_active L rec) u = (Ok (), t)"
    by (simp add: Reconcile_def run_go_try and_then_def u_def)
  ultimately show ?thesis
    using postD [OF reconcile_active_post [of d u]] assms(3,4) w
    by (auto simp: u_def skipped_def closing_def same_objects_def)
qed

end

end
