(* ===== verification/MemCluster.thy ===== *)
theory MemCluster
  imports Kube Conn
begin

section \<open>A cluster held in memory\<close>

text \<open>
  An executable API server with the objects the reconcilers use, which satisfies the laws of
  \<open>fresh_cluster\<close>: reads return what is stored under the name, an update of a request keeps
  the stored status and deletion timestamp and bumps the generation when the specification changed, a status update
  keeps the stored specification and is refused with a conflict when it disagrees with the
  object sent, and a request that is being deleted disappears with its last finalizer. The
  providers are kept in the same way, under their names, and satisfy \<open>status_store\<close>. The
  witnesses run the reconciler on it, with the library functions of \<open>mem_library\<close>.
\<close>

record mem_cluster =
  mcRequests :: "NamespacedName \<rightharpoonup> DatabaseRequest"
  mcProviders :: "RelationalDatabaseProvider list"
  mcMongoProviders :: "MongoDBProvider list"
  mcSecrets :: "NamespacedName \<rightharpoonup> Secret"
  mcServices :: "NamespacedName \<rightharpoonup> Service"

definition mem_view :: "mem_cluster \<Rightarrow> cluster_view" where
  "mem_view w =
     \<lparr>viewSecrets = (\<lambda>k. map_option secretData (mcSecrets w k)),
      viewServices = (\<lambda>k. map_option svcExternalName (mcServices w k)),
      viewFinalizers = (\<lambda>k. case mcRequests w k of None \<Rightarrow> [] | Some d \<Rightarrow> metaFinalizers (drMeta d)),
      viewProviders = mcProviders w\<rparr>"

definition not_found :: go_error where
  "not_found = BaseError ApiNotFound ''not found''"

definition conflict :: go_error where
  "conflict = errors_New ''the object has been modified''"

lemma IsNotFound_simps [simp]: "IsNotFound not_found" "\<not> IsNotFound conflict"
  by (simp_all add: IsNotFound_def not_found_def conflict_def)

definition mem_lookup :: "('w \<Rightarrow> 'a option) \<Rightarrow> ('w, 'a) go" where
  "mem_lookup f = State (\<lambda>w. case f w of None \<Rightarrow> (Err not_found, w) | Some x \<Rightarrow> (Ok x, w))"

definition named_as :: "NamespacedName \<Rightarrow> ObjectMeta \<Rightarrow> ObjectMeta" where
  "named_as k m = m\<lparr>metaName := nnName k, metaNamespace := nnNamespace k\<rparr>"

lemma meta_key_named_as [simp]: "meta_key (named_as k m) = k"
  by (simp add: meta_key_def named_as_def)

definition mem_write :: "('w \<Rightarrow> bool) \<Rightarrow> ('w \<Rightarrow> 'w) \<Rightarrow> ('w, unit) go" where
  "mem_write found f = State (\<lambda>w. if found w then (Ok (), f w) else (Err not_found, w))"

definition mem_update_request :: "DatabaseRequest \<Rightarrow> (mem_cluster, DatabaseRequest \<times> go_error option) go" where
  "mem_update_request d =
     State (\<lambda>w.
       let k = meta_key (drMeta d) in
       case mcRequests w k of
         None \<Rightarrow> (Ok (d, Some not_found), w)
       | Some old \<Rightarrow>
           let g = metaGeneration (drMeta old);
               new = d\<lparr>drMeta := (drMeta d)\<lparr>metaGeneration := if drSpec d = drSpec old then g else g + 1,
                         metaDeletionTimestamp := metaDeletionTimestamp (drMeta old)\<rparr>,
                       drStatus := drStatus old\<rparr>
           in if metaDeletionTimestamp (drMeta old) \<noteq> None \<and> metaFinalizers (drMeta d) = []
              then (Ok (d, None), w\<lparr>mcRequests := (mcRequests w)(k := None)\<rparr>)
              else (Ok (new, None), w\<lparr>mcRequests := (mcRequests w)(k \<mapsto> new)\<rparr>))"

definition mem_status_update_request ::
    "DatabaseRequest \<Rightarrow> (mem_cluster, DatabaseRequest \<times> go_error option) go" where
  "mem_status_update_request d =
     State (\<lambda>w.
       let k = meta_key (drMeta d) in
       case mcRequests w k of
         None \<Rightarrow> (Ok (d, Some not_found), w)
       | Some old \<Rightarrow>
           let new = old\<lparr>drMeta := named_as k (drMeta old), drStatus := drStatus d\<rparr> in
           if core_spec (drSpec old) = core_spec (drSpec d)
           then (Ok (new, None), w\<lparr>mcRequests := (mcRequests w)(k \<mapsto> new)\<rparr>)
           else (Ok (d, Some conflict), w))"

text \<open>
  An update of an object that is kept in a list under its name: it is refused when there is
  none or when \<open>merge\<close>, which sees the stored object and the one sent, refuses it.
\<close>

definition mem_put ::
    "('o \<Rightarrow> string) \<Rightarrow> ('w \<Rightarrow> 'o list) \<Rightarrow> (('o list \<Rightarrow> 'o list) \<Rightarrow> 'w \<Rightarrow> 'w) \<Rightarrow> ('o \<Rightarrow> 'o \<Rightarrow> 'o option) \<Rightarrow>
      'o \<Rightarrow> ('w, 'o \<times> go_error option) go" where
  "mem_put nm sel put merge x =
     State (\<lambda>w. case find (\<lambda>q. nm q = nm x) (sel w) of
       None \<Rightarrow> (Ok (x, Some not_found), w)
     | Some old \<Rightarrow>
         (case merge old x of
            None \<Rightarrow> (Ok (x, Some conflict), w)
          | Some new \<Rightarrow> (Ok (new, None), put (map (\<lambda>q. if nm q = nm x then new else q)) w)))"

definition mem_update_provider ::
    "RelationalDatabaseProvider \<Rightarrow> (mem_cluster, RelationalDatabaseProvider \<times> go_error option) go" where
  "mem_update_provider = mem_put rdp_name mcProviders mcProviders_update
     (\<lambda>old p. Some (p\<lparr>rdpMeta := (rdpMeta p)\<lparr>metaGeneration :=
        metaGeneration (rdpMeta old) + (if rdpSpec p = rdpSpec old then 0 else 1)\<rparr>, rdpStatus := rdpStatus old\<rparr>))"

definition mem_status_update_provider ::
    "RelationalDatabaseProvider \<Rightarrow> (mem_cluster, RelationalDatabaseProvider \<times> go_error option) go" where
  "mem_status_update_provider = mem_put rdp_name mcProviders mcProviders_update
     (\<lambda>old p. if rdpSpec p = rdpSpec old \<and> rdpMeta p = rdpMeta old then Some (old\<lparr>rdpStatus := rdpStatus p\<rparr>) else None)"

definition mem_update_mongo :: "MongoDBProvider \<Rightarrow> (mem_cluster, MongoDBProvider \<times> go_error option) go" where
  "mem_update_mongo = mem_put mdp_name mcMongoProviders mcMongoProviders_update
     (\<lambda>old p. Some (p\<lparr>mdpMeta := (mdpMeta p)\<lparr>metaGeneration :=
        metaGeneration (mdpMeta old) + (if mdpSpec p = mdpSpec old then 0 else 1)\<rparr>, mdpStatus := mdpStatus old\<rparr>))"

definition mem_status_update_mongo :: "MongoDBProvider \<Rightarrow> (mem_cluster, MongoDBProvider \<times> go_error option) go" where
  "mem_status_update_mongo = mem_put mdp_name mcMongoProviders mcMongoProviders_update
     (\<lambda>old p. if mdpSpec p = mdpSpec old \<and> mdpMeta p = mdpMeta old then Some (old\<lparr>mdpStatus := mdpStatus p\<rparr>) else None)"

definition mem_client :: "mem_cluster client" where
  "mem_client =
     \<lparr>Get_DatabaseRequest = (\<lambda>k. mem_lookup (\<lambda>w. mcRequests w k)),
      Update_DatabaseRequest = mem_update_request,
      StatusUpdate_DatabaseRequest = mem_status_update_request,
      Get_RelationalDatabaseProvider =
        (\<lambda>k. mem_lookup (\<lambda>w. find (\<lambda>p. rdp_name p = nnName k) (mcProviders w))),
      List_RelationalDatabaseProvider = State (\<lambda>w. (Ok (mcProviders w), w)),
      Update_RelationalDatabaseProvider = mem_update_provider,
      StatusUpdate_RelationalDatabaseProvider = mem_status_update_provider,
      Get_MongoDBProvider =
        (\<lambda>k. mem_lookup (\<lambda>w. find (\<lambda>p. mdp_name p = nnName k) (mcMongoProviders w))),
      Update_MongoDBProvider = mem_update_mongo,
      StatusUpdate_MongoDBProvider = mem_status_update_mongo,
      Get_Secret = (\<lambda>k. mem_lookup (\<lambda>w. map_option (secretMeta_update (named_as k)) (mcSecrets w k))),
      Create_Secret = (\<lambda>s. mem_write (\<lambda>w. True)
        (\<lambda>w. w\<lparr>mcSecrets := (mcSecrets w)(meta_key (secretMeta s) \<mapsto> s)\<rparr>)),
      Update_Secret = (\<lambda>s. mem_write (\<lambda>w. mcSecrets w (meta_key (secretMeta s)) \<noteq> None)
        (\<lambda>w. w\<lparr>mcSecrets := (mcSecrets w)(meta_key (secretMeta s) \<mapsto> s)\<rparr>)),
      Delete_Secret = (\<lambda>k. mem_write (\<lambda>w. mcSecrets w k \<noteq> None) (\<lambda>w. w\<lparr>mcSecrets := (mcSecrets w)(k := None)\<rparr>)),
      Get_Service = (\<lambda>k. mem_lookup (\<lambda>w. map_option (svcMeta_update (named_as k)) (mcServices w k))),
      Create_Service = (\<lambda>s. mem_write (\<lambda>w. True)
        (\<lambda>w. w\<lparr>mcServices := (mcServices w)(meta_key (svcMeta s) \<mapsto> s)\<rparr>)),
      Update_Service = (\<lambda>s. mem_write (\<lambda>w. mcServices w (meta_key (svcMeta s)) \<noteq> None)
        (\<lambda>w. w\<lparr>mcServices := (mcServices w)(meta_key (svcMeta s) \<mapsto> s)\<rparr>)),
      Delete_Service = (\<lambda>k. mem_write (\<lambda>w. mcServices w k \<noteq> None) (\<lambda>w. w\<lparr>mcServices := (mcServices w)(k := None)\<rparr>))\<rparr>"

lemma mem_lookup_keeps: "keeps_view view (mem_lookup f)"
  by (auto simp: keeps_view_def mem_lookup_def split: option.splits)

lemma mem_write_writes:
  assumes "\<And>w. view (f w) = g (view w)"
  shows "writes view g (mem_write found f)"
  using assms by (auto simp: writes_def mem_write_def split: if_splits)

lemma run_mem_lookup:
  "run_state (mem_lookup f) w = (case f w of None \<Rightarrow> (Err not_found, w) | Some x \<Rightarrow> (Ok x, w))"
  by (simp add: mem_lookup_def)

lemma mem_update_request_view:
  assumes "run_state (mem_update_request d) w = (r, w')"
  shows "mem_view w' = mem_view w \<or>
    mem_view w' = mem_view w\<lparr>viewFinalizers :=
      (viewFinalizers (mem_view w))(meta_key (drMeta d) := metaFinalizers (drMeta d))\<rparr>"
  using assms
  by (auto simp: mem_update_request_def mem_view_def Let_def split: option.splits if_splits intro!: ext)

lemma mem_status_update_view:
  "keeps_view mem_view (mem_status_update_request d)"
  by (auto simp: keeps_view_def mem_status_update_request_def mem_view_def Let_def named_as_def
      split: option.splits if_splits intro!: ext)

interpretation memc: fresh_cluster mem_client mem_view
proof (unfold_locales, goal_cases)
  case (3)
  show ?case by (auto simp: mem_client_def keeps_view_def)
next
  case (6 d)
  show ?case by (simp add: mem_client_def mem_status_update_view)
next
  case (7 d d' w e w')
  then show ?case
    by (auto simp: mem_client_def mem_status_update_request_def Let_def same_core_def split: option.splits if_splits)
next
  case (8 d w r w')
  then show ?case using mem_update_request_view by (simp add: mem_client_def)
next
  case (9 d d' w e w')
  then show ?case
    by (auto simp: mem_client_def mem_update_request_def Let_def same_core_def meta_key_def split: option.splits if_splits)
next
  case (16 k w err w')
  then show ?case
    by (auto simp: mem_client_def mem_write_def mem_view_def split: if_splits)
next
  case (17 k w err w')
  then show ?case
    by (auto simp: mem_client_def mem_write_def mem_view_def split: if_splits)
next
  case (18 k sec w w')
  then show ?case
    by (auto simp: mem_client_def run_mem_lookup mem_view_def split: option.splits)
next
  case (19 k svc w w')
  then show ?case
    by (auto simp: mem_client_def run_mem_lookup mem_view_def split: option.splits)
next
  case (20 k w err w')
  then show ?case
    by (auto simp: mem_client_def run_mem_lookup mem_view_def split: option.splits)
next
  case (21 k w err w')
  then show ?case
    by (auto simp: mem_client_def run_mem_lookup mem_view_def split: option.splits)
next
  case (22 ps w w')
  then show ?case by (auto simp: mem_client_def mem_view_def)
qed (auto simp: mem_client_def mem_view_def fun_eq_iff intro!: mem_lookup_keeps mem_write_writes)

text \<open>The two kinds of providers are kept under their names, with their status apart.\<close>

lemma find_map_replace:
  "find (\<lambda>q. nm q = n) xs = Some old \<Longrightarrow> nm new = n \<Longrightarrow>
     find (\<lambda>q. nm q = n) (map (\<lambda>q. if nm q = n then new else q) xs) = Some new"
  by (induction xs) (auto split: if_splits)

lemma find_name: "find (\<lambda>q. nm q = n) xs = Some x \<Longrightarrow> nm x = n"
  by (induction xs) (auto split: if_splits)

lemma mem_putE:
  assumes "run_state (mem_put nm sel put merge x) w = (Ok (x', e), w')"
  obtains (refused) "x' = x" "e \<noteq> None"
    | (changed) old where "find (\<lambda>q. nm q = nm x) (sel w) = Some old" "merge old x = Some x'" "e = None"
        "w' = put (map (\<lambda>q. if nm q = nm x then x' else q)) w"
  using assms by (auto simp: mem_put_def split: option.splits)

interpretation mem_rdp: status_store "Get_RelationalDatabaseProvider mem_client"
  "Update_RelationalDatabaseProvider mem_client" "StatusUpdate_RelationalDatabaseProvider mem_client"
  rdp_name rdpSpec "\<lambda>p. metaGeneration (rdpMeta p)" rdpStatus
  "\<lambda>w n. find (\<lambda>p. rdp_name p = n) (mcProviders w)"
proof (unfold_locales, goal_cases)
  case (1 k x w w')
  then have "find (\<lambda>p. rdp_name p = nnName k) (mcProviders w) = Some x"
    by (simp add: mem_client_def run_mem_lookup split: option.splits)
  with find_name [of rdp_name, OF this] show ?case by simp
next
  case (2 x x' w e w')
  then have "run_state (mem_update_provider x) w = (Ok (x', e), w')" by (simp add: mem_client_def)
  then show ?case unfolding mem_update_provider_def
    by (cases rule: mem_putE) (auto simp: rdp_name_def)
next
  case (3 x x' w e w')
  then have "run_state (mem_status_update_provider x) w = (Ok (x', e), w')" by (simp add: mem_client_def)
  then show ?case unfolding mem_status_update_provider_def
    by (cases rule: mem_putE) (auto simp: rdp_name_def split: if_splits)
next
  case (4 x x' w w')
  then have "run_state (mem_status_update_provider x) w = (Ok (x', None), w')" by (simp add: mem_client_def)
  then show ?case unfolding mem_status_update_provider_def
  proof (cases rule: mem_putE)
    case (changed old)
    then have "rdp_name x' = rdp_name x" and "rdpStatus x' = rdpStatus x"
      by (auto simp: rdp_name_def split: if_splits)
    with changed find_map_replace [OF changed(1)] show ?thesis by simp
  qed simp
qed

interpretation mem_mdp: status_store "Get_MongoDBProvider mem_client"
  "Update_MongoDBProvider mem_client" "StatusUpdate_MongoDBProvider mem_client"
  mdp_name mdpSpec "\<lambda>p. metaGeneration (mdpMeta p)" mdpStatus
  "\<lambda>w n. find (\<lambda>p. mdp_name p = n) (mcMongoProviders w)"
proof (unfold_locales, goal_cases)
  case (1 k x w w')
  then have "find (\<lambda>p. mdp_name p = nnName k) (mcMongoProviders w) = Some x"
    by (simp add: mem_client_def run_mem_lookup split: option.splits)
  with find_name [of mdp_name, OF this] show ?case by simp
next
  case (2 x x' w e w')
  then have "run_state (mem_update_mongo x) w = (Ok (x', e), w')" by (simp add: mem_client_def)
  then show ?case unfolding mem_update_mongo_def
    by (cases rule: mem_putE) (auto simp: mdp_name_def)
next
  case (3 x x' w e w')
  then have "run_state (mem_status_update_mongo x) w = (Ok (x', e), w')" by (simp add: mem_client_def)
  then show ?case unfolding mem_status_update_mongo_def
    by (cases rule: mem_putE) (auto simp: mdp_name_def split: if_splits)
next
  case (4 x x' w w')
  then have "run_state (mem_status_update_mongo x) w = (Ok (x', None), w')" by (simp add: mem_client_def)
  then show ?case unfolding mem_status_update_mongo_def
  proof (cases rule: mem_putE)
    case (changed old)
    then have "mdp_name x' = mdp_name x" and "mdpStatus x' = mdpStatus x"
      by (auto simp: mdp_name_def split: if_splits)
    with changed find_map_replace [OF changed(1)] show ?thesis by simp
  qed simp
qed

text \<open>The calls of this client, one by one, for the evaluation of runs.\<close>

lemma mem_client_simps [simp]:
  "Get_DatabaseRequest mem_client k = mem_lookup (\<lambda>w. mcRequests w k)"
  "Update_DatabaseRequest mem_client = mem_update_request"
  "StatusUpdate_DatabaseRequest mem_client = mem_status_update_request"
  "Get_RelationalDatabaseProvider mem_client k =
     mem_lookup (\<lambda>w. find (\<lambda>p. rdp_name p = nnName k) (mcProviders w))"
  "run_state (List_RelationalDatabaseProvider mem_client) w = (Ok (mcProviders w), w)"
  "Update_RelationalDatabaseProvider mem_client = mem_update_provider"
  "StatusUpdate_RelationalDatabaseProvider mem_client = mem_status_update_provider"
  "Get_MongoDBProvider mem_client k =
     mem_lookup (\<lambda>w. find (\<lambda>p. mdp_name p = nnName k) (mcMongoProviders w))"
  "Update_MongoDBProvider mem_client = mem_update_mongo"
  "StatusUpdate_MongoDBProvider mem_client = mem_status_update_mongo"
  "Get_Secret mem_client k = mem_lookup (\<lambda>w. map_option (secretMeta_update (named_as k)) (mcSecrets w k))"
  "Create_Secret mem_client s =
     mem_write (\<lambda>w. True) (\<lambda>w. w\<lparr>mcSecrets := (mcSecrets w)(meta_key (secretMeta s) \<mapsto> s)\<rparr>)"
  "Update_Secret mem_client s =
     mem_write (\<lambda>w. mcSecrets w (meta_key (secretMeta s)) \<noteq> None)
       (\<lambda>w. w\<lparr>mcSecrets := (mcSecrets w)(meta_key (secretMeta s) \<mapsto> s)\<rparr>)"
  "Delete_Secret mem_client k =
     mem_write (\<lambda>w. mcSecrets w k \<noteq> None) (\<lambda>w. w\<lparr>mcSecrets := (mcSecrets w)(k := None)\<rparr>)"
  "Get_Service mem_client k = mem_lookup (\<lambda>w. map_option (svcMeta_update (named_as k)) (mcServices w k))"
  "Create_Service mem_client v =
     mem_write (\<lambda>w. True) (\<lambda>w. w\<lparr>mcServices := (mcServices w)(meta_key (svcMeta v) \<mapsto> v)\<rparr>)"
  "Update_Service mem_client v =
     mem_write (\<lambda>w. mcServices w (meta_key (svcMeta v)) \<noteq> None)
       (\<lambda>w. w\<lparr>mcServices := (mcServices w)(meta_key (svcMeta v) \<mapsto> v)\<rparr>)"
  "Delete_Service mem_client k =
     mem_write (\<lambda>w. mcServices w k \<noteq> None) (\<lambda>w. w\<lparr>mcServices := (mcServices w)(k := None)\<rparr>)"
  by (simp_all add: mem_client_def)

lemma run_mem_write:
  "run_state (mem_write found f) w = (if found w then (Ok (), f w) else (Err not_found, w))"
  by (simp add: mem_write_def)

subsection \<open>The library functions\<close>

text \<open>
  \<open>meta.SetStatusCondition\<close> replaces the condition of the type or appends it, and says whether
  anything changed; \<open>RemoveStatusCondition\<close> removes the conditions of a type; the finalizer
  helpers say whether they changed the list; the difference of equal data is empty.
\<close>

fun mem_set_condition :: "Condition list \<Rightarrow> Condition \<Rightarrow> Condition list \<times> bool" where
  "mem_set_condition [] c = ([c], True)"
| "mem_set_condition (x # xs) c =
     (if condType x = condType c then (c # xs, x \<noteq> c)
      else (case mem_set_condition xs c of (ys, changed) \<Rightarrow> (x # ys, changed)))"

definition mem_library :: library where
  "mem_library =
     \<lparr>SetStatusCondition = mem_set_condition,
      RemoveStatusCondition = (\<lambda>cs t. (filter (\<lambda>c. condType c \<noteq> t) cs, list_ex (\<lambda>c. condType c = t) cs)),
      IsStatusConditionTrue = (\<lambda>cs t. list_ex (\<lambda>c. condType c = t \<and> condStatus c = ConditionTrue) cs),
      ContainsFinalizer = (\<lambda>fs f. f \<in> set fs),
      AddFinalizer = (\<lambda>fs f. if f \<in> set fs then (fs, False) else (fs @ [f], True)),
      RemoveFinalizer = (\<lambda>fs f. (filter (\<lambda>x. x \<noteq> f) fs, f \<in> set fs)),
      Title = (\<lambda>s. case s of [] \<Rightarrow> [] | c # cs \<Rightarrow> upper_char c # cs),
      Diff = (\<lambda>a b. if a = b then [] else ''changed'')\<rparr>"

lemma mem_library_simps [simp]:
  "SetStatusCondition mem_library = mem_set_condition"
  "RemoveStatusCondition mem_library cs t =
     (filter (\<lambda>c. condType c \<noteq> t) cs, list_ex (\<lambda>c. condType c = t) cs)"
  "IsStatusConditionTrue mem_library cs t = list_ex (\<lambda>c. condType c = t \<and> condStatus c = ConditionTrue) cs"
  "ContainsFinalizer mem_library fs f = (f \<in> set fs)"
  "AddFinalizer mem_library fs f = (if f \<in> set fs then (fs, False) else (fs @ [f], True))"
  "RemoveFinalizer mem_library fs f = (filter (\<lambda>x. x \<noteq> f) fs, f \<in> set fs)"
  "Diff mem_library a b = (if a = b then [] else ''changed'')"
  by (simp_all add: mem_library_def)

end
