(* ===== verification/RelDB.thy ===== *)
theory RelDB
  imports RelDBInterface Complex_Main
begin

section \<open>The MySQL and PostgreSQL client (internal/database/database.go)\<close>

text \<open>
  \<open>RelationalDatabaseImpl\<close>: its connection cache and its methods, statement by statement, with
  the SQL text the code builds. The \<open>database/sql\<close> drivers and the servers behind them are
  not part of the repository, so they are a parameter: a record \<open>sql\<close> of programs over a
  server state \<open>'w\<close> (open a handle, ping, execute a statement with its arguments, query
  rows), and the source of the random numbers. The cache and the server state together are the
  state of the methods. Log output is not modelled.
\<close>

record ('db, 'w) sql =
  sql_Open :: "string \<Rightarrow> string \<Rightarrow> ('w, 'db) go"
  sql_PingContext :: "'db \<Rightarrow> ('w, unit) go"
  sql_Exec :: "'db \<Rightarrow> string \<Rightarrow> string list \<Rightarrow> ('w, unit) go"
  sql_Query_string :: "'db \<Rightarrow> string \<Rightarrow> string list \<Rightarrow> ('w, (go_error + string) list list) go"
  sql_Query_int :: "'db \<Rightarrow> string \<Rightarrow> string list \<Rightarrow> ('w, (go_error + int) list list) go"
  sql_Query_float :: "'db \<Rightarrow> string \<Rightarrow> string list \<Rightarrow> ('w, (go_error + rat) list list) go"
  rand_source :: "('w, nat) state"

text \<open>
  The three queries return every row of the result, each column as a value of the type it is
  scanned into, or as the error of that conversion (a NULL, say).
\<close>

record ('db, 'w) RelationalDatabaseImpl =
  connectionCache :: "string \<rightharpoonup> 'db"
  riServer :: 'w

definition New :: "'w \<Rightarrow> ('db, 'w) RelationalDatabaseImpl" where
  "New w = \<lparr>connectionCache = Map.empty, riServer = w\<rparr>"

definition on_server :: "('w, 'a) state \<Rightarrow> (('db, 'w) RelationalDatabaseImpl, 'a) state" where
  "on_server m = on_part riServer riServer_update m"

definition maxUsernameLength :: int where
  "maxUsernameLength = 16"

definition maxPasswordLength :: int where
  "maxPasswordLength = 24"

definition maxDatabaseNameLength :: int where
  "maxDatabaseNameLength = 63"

definition mysql :: string where
  "mysql = ''mysql''"

definition postgres :: string where
  "postgres = ''postgres''"

lemma mysql_neq_postgres [simp]: "mysql \<noteq> postgres" "postgres \<noteq> mysql"
  by (simp_all add: mysql_def postgres_def)

subsection \<open>Connections\<close>

definition GetConnection ::
    "('db, 'w) sql \<Rightarrow> string \<Rightarrow> string \<Rightarrow> (('db, 'w) RelationalDatabaseImpl, 'db) go" where
  "GetConnection sql dsn dbType =
     do {
       ri \<leftarrow> get_state;
       (case connectionCache ri dsn of
          Some db \<Rightarrow> ok db
        | None \<Rightarrow>
            go_try (on_server (sql_Open sql dbType dsn))
              (\<lambda>err. fail (Errorf_w (''failed to open '' @ dbType @ '' database: '') err))
              (\<lambda>db. do {
                 _ \<leftarrow> modify_state (connectionCache_update (\<lambda>cache. cache(dsn \<mapsto> db)));
                 ok db
               }))
     }"

text \<open>The error that \<open>Ping\<close> makes of what the driver returned.\<close>

definition ping_error :: "string \<Rightarrow> go_error \<Rightarrow> go_error" where
  "ping_error dbType err =
     (let credentials = Errorf_w (''failed to ping '' @ dbType @ '' database due to invalid credentials: '') err;
          no_database = Errorf_w (''failed to ping '' @ dbType @ '' database due to database does not exist: '') err;
          other = Errorf_w (''failed to ping '' @ dbType @ '' database: '') err
      in if dbType = mysql then
           (case root_kind err of
              MySQLError number \<Rightarrow>
                if number = 1044 \<or> number = 1045 then credentials
                else if number = 1049 then no_database
                else other
            | _ \<Rightarrow> other)
         else if dbType = postgres then
           (case root_kind err of
              PqError code \<Rightarrow>
                if code = ''28P01'' then credentials
                else if code = ''3D000'' then no_database
                else other
            | _ \<Rightarrow> other)
         else other)"

definition Ping ::
    "('db, 'w) sql \<Rightarrow> string \<Rightarrow> string \<Rightarrow> (('db, 'w) RelationalDatabaseImpl, unit) go" where
  "Ping sql dsn dbType =
     go_try (GetConnection sql dsn dbType)
       (\<lambda>err. fail (Errorf_w (''ping failed to open '' @ dbType @ '' database: '') err))
       (\<lambda>db. go_try (on_server (sql_PingContext sql db))
          (\<lambda>err. fail (ping_error dbType err))
          ok)"

text \<open>
  \<open>QueryRowContext(...).Scan(...)\<close> of \<open>database/sql\<close>: the first row of the result, whatever
  follows it, or \<open>sql.ErrNoRows\<close>; then as many columns as destinations, each converted.
\<close>

definition ErrNoRows :: go_error where
  "ErrNoRows = BaseError SqlErrNoRows ''sql: no rows in result set''"

fun convert_columns :: "(go_error + 'v) list \<Rightarrow> go_error + 'v list" where
  "convert_columns [] = Inr []"
| "convert_columns (Inl err # columns) = Inl err"
| "convert_columns (Inr v # columns) =
     (case convert_columns columns of Inl err \<Rightarrow> Inl err | Inr vs \<Rightarrow> Inr (v # vs))"

definition Scan :: "nat \<Rightarrow> (go_error + 'v) list \<Rightarrow> go_error + 'v list" where
  "Scan n row =
     (if length row \<noteq> n
      then Inl (errors_New (''sql: expected '' @ show_nat (length row) @
                  '' destination arguments in Scan, not '' @ show_nat n))
      else convert_columns row)"

definition scan_first_row :: "nat \<Rightarrow> (go_error + 'v) list list \<Rightarrow> ('s, 'v list) go" where
  "scan_first_row n rows =
     (case rows of
        [] \<Rightarrow> fail ErrNoRows
      | row # _ \<Rightarrow> (case Scan n row of Inl err \<Rightarrow> fail err | Inr columns \<Rightarrow> ok columns))"

definition query_row :: "('s, (go_error + 'v) list list) go \<Rightarrow> nat \<Rightarrow> ('s, 'v list) go" where
  "query_row query n = go_try query fail (scan_first_row n)"

definition select_version :: string where
  "select_version = ''SELECT VERSION()''"

definition mysql_select_load :: string where
  "mysql_select_load = ''SELECT data_length + index_length FROM information_schema.tables''"

definition postgres_select_load :: string where
  "postgres_select_load = ''SELECT pg_database_size(current_database())''"

definition Version ::
    "('db, 'w) sql \<Rightarrow> string \<Rightarrow> string \<Rightarrow> (('db, 'w) RelationalDatabaseImpl, string) go" where
  "Version sql dsn dbType =
     go_try (GetConnection sql dsn dbType)
       (\<lambda>err. fail (Errorf_w (''version failed to open '' @ dbType @ '' database: '') err))
       (\<lambda>db. go_try (query_row (on_server (sql_Query_string sql db select_version [])) 1)
          (\<lambda>err. fail (Errorf_w (''version failed to get '' @ dbType @ '' database version: '') err))
          (\<lambda>columns. ok (hd columns)))"

text \<open>
  The load in megabytes. The scanned \<open>float64\<close> is a rational number; dividing it by 1024 twice
  is exact, and the conversion to \<open>int\<close> truncates.
\<close>

definition truncate_rat :: "rat \<Rightarrow> int" where
  "truncate_rat x = (if x < 0 then \<lceil>x\<rceil> else \<lfloor>x\<rfloor>)"

definition load_MB :: "rat \<Rightarrow> 64 word" where
  "load_MB totalLoad = word_of_int (truncate_rat (totalLoad / 1024 / 1024))"

definition Load ::
    "('db, 'w) sql \<Rightarrow> string \<Rightarrow> string \<Rightarrow> (('db, 'w) RelationalDatabaseImpl, 64 word) go" where
  "Load sql dsn dbType =
     go_try (GetConnection sql dsn dbType)
       (\<lambda>err. fail (Errorf_w (''load failed to open '' @ dbType @ '' database: '') err))
       (\<lambda>db.
          let failed = (\<lambda>err. fail (Errorf_w (''load failed to get '' @ dbType @ '' database load: '') err))
          in if dbType = mysql then
               go_try (query_row (on_server (sql_Query_float sql db
                        mysql_select_load [])) 1)
                 failed (\<lambda>columns. ok (load_MB (hd columns)))
             else if dbType = postgres then
               go_try (query_row (on_server (sql_Query_float sql db
                        postgres_select_load [])) 1)
                 failed (\<lambda>columns. ok (load_MB (hd columns)))
             else fail (errors_New
                    (''load failed to get '' @ dbType @ '' database load: unsupported dbType'')))"

subsection \<open>Initialisation\<close>

definition text_lines :: "string list \<Rightarrow> string" where
  "text_lines ls = concat (map (\<lambda>l. CHR 0x0A # CHR 0x09 # CHR 0x09 # l) ls)"

definition mysql_create_users_table :: string where
  "mysql_create_users_table =
     text_lines
       [''CREATE TABLE IF NOT EXISTS users ('',
        CHR 0x09 # ''id INT AUTO_INCREMENT PRIMARY KEY,'',
        CHR 0x09 # ''name VARCHAR(255) NOT NULL,'',
        CHR 0x09 # ''namespace VARCHAR(255) NOT NULL,'',
        CHR 0x09 # ''username VARCHAR(16) NOT NULL UNIQUE,'',
        CHR 0x09 # ''password VARCHAR(255) NOT NULL,'',
        CHR 0x09 # ''dbname VARCHAR(255) NOT NULL UNIQUE,'',
        CHR 0x09 # ''CONSTRAINT unique_name_namespace UNIQUE (name, namespace)'',
        '') ENGINE=InnoDB'']"

definition postgres_create_users_table :: string where
  "postgres_create_users_table =
     text_lines
       [''CREATE TABLE IF NOT EXISTS dbaas_controller.users ('',
        CHR 0x09 # ''id SERIAL PRIMARY KEY,'',
        CHR 0x09 # ''name VARCHAR(255) NOT NULL,'',
        CHR 0x09 # ''namespace VARCHAR(255) NOT NULL,'',
        CHR 0x09 # ''username VARCHAR(16) NOT NULL UNIQUE,'',
        CHR 0x09 # ''password VARCHAR(255) NOT NULL,'',
        CHR 0x09 # ''dbname VARCHAR(255) NOT NULL UNIQUE,'',
        CHR 0x09 # ''CONSTRAINT unique_name_namespace UNIQUE (name, namespace)'',
        '')'']"

definition mysql_create_controller_database :: string where
  "mysql_create_controller_database = ''CREATE DATABASE IF NOT EXISTS dbaas_controller''"

definition postgres_create_schema :: string where
  "postgres_create_schema = ''CREATE SCHEMA IF NOT EXISTS dbaas_controller''"

definition use_dbaas_controller :: string where
  "use_dbaas_controller = ''USE dbaas_controller''"

text \<open>\<open>_, err = db.ExecContext(...); if err != nil { return Errorf }\<close>, then the rest.\<close>

definition exec_then ::
    "('db, 'w) sql \<Rightarrow> 'db \<Rightarrow> string \<Rightarrow> string list \<Rightarrow> string \<Rightarrow>
      (('db, 'w) RelationalDatabaseImpl, 'a) go \<Rightarrow> (('db, 'w) RelationalDatabaseImpl, 'a) go" where
  "exec_then sql db stmt args errtext rest =
     go_try (on_server (sql_Exec sql db stmt args))
       (\<lambda>err. fail (Errorf_w errtext err)) (\<lambda>_. rest)"

definition Initialize ::
    "('db, 'w) sql \<Rightarrow> string \<Rightarrow> string \<Rightarrow> (('db, 'w) RelationalDatabaseImpl, unit) go" where
  "Initialize sql dsn dbType =
     go_try (GetConnection sql dsn dbType)
       (\<lambda>err. fail (Errorf_w (''initialize failed to open '' @ dbType @ '' database: '') err))
       (\<lambda>db.
          if dbType = mysql then
            exec_then sql db mysql_create_controller_database []
              (''initialize failed to create '' @ dbType @ '' database: '')
            (exec_then sql db use_dbaas_controller []
              (''initialize failed to use '' @ dbType @ '' database: '')
            (exec_then sql db mysql_create_users_table []
              (''initialize failed to create '' @ dbType @ '' table: '')
            (ok ())))
          else if dbType = postgres then
            exec_then sql db postgres_create_schema []
              (''initialize failed to create '' @ dbType @ '' database: '')
            (exec_then sql db postgres_create_users_table []
              (''initialize failed to create '' @ dbType @ '' table: '')
            (ok ()))
          else fail (errors_New
                 (''initialize failed to initialize '' @ dbType @ '' database: unsupported dbType'')))"

subsection \<open>Random credentials\<close>

definition rand_chars :: string where
  "rand_chars = ''abcdefghijklmnopqrstuvwxyzABCDEFGHIJKLMNOPQRSTUVWXYZ0123456789''"

text \<open>\<open>rand.Intn(n)\<close> maps the next number of the source into \<open>[0, n)\<close>.\<close>

definition rand_Intn :: "('s, nat) state \<Rightarrow> nat \<Rightarrow> ('s, nat) state" where
  "rand_Intn source n = do { x \<leftarrow> source; State_Monad.return (x mod n) }"

fun random_bytes :: "('s, nat) state \<Rightarrow> nat \<Rightarrow> ('s, string) state" where
  "random_bytes source 0 = State_Monad.return []"
| "random_bytes source (Suc n) =
     do {
       i \<leftarrow> rand_Intn source (length rand_chars);
       cs \<leftarrow> random_bytes source n;
       State_Monad.return (rand_chars ! i # cs)
     }"

text \<open>\<open>make([]byte, length)\<close> panics when the length is negative.\<close>

definition generateRandomString :: "('s, nat) state \<Rightarrow> int \<Rightarrow> ('s, string) go" where
  "generateRandomString source n =
     (if n < 0 then panic ''runtime error: makeslice: len out of range''
      else do { s \<leftarrow> random_bytes source (nat n); ok s })"

definition createUserInfo :: "('s, nat) state \<Rightarrow> string \<Rightarrow> ('s, RelationalDatabaseInfo) go" where
  "createUserInfo source namespace =
     go_try (generateRandomString source maxUsernameLength) fail (\<lambda>username.
     go_try (generateRandomString source maxPasswordLength) fail (\<lambda>password.
       let dbnamePrefix = (if length namespace > 50 then take 50 namespace else namespace) in
       go_try (generateRandomString source (maxDatabaseNameLength - int (length dbnamePrefix) - 1)) fail
         (\<lambda>suffix.
            ok \<lparr>Username = username, Password = password,
                Dbname = dbnamePrefix @ ''_'' @ suffix\<rparr>)))"

subsection \<open>The users table\<close>

text \<open>The names under which the code knows the users table, and its statements.\<close>

definition mysql_select_user :: string where
  "mysql_select_user = ''SELECT username, password, dbname FROM users WHERE name = ? AND namespace = ?''"

definition mysql_insert_user :: string where
  "mysql_insert_user =
     ''INSERT INTO users (name, namespace, username, password, dbname) VALUES (?, ?, ?, ?, ?)''"

definition mysql_insert_ignore_user :: string where
  "mysql_insert_ignore_user =
     ''INSERT IGNORE INTO users (name, namespace, username, password, dbname) VALUES (?, ?, ?, ?, ?)''"

definition postgres_select_user :: string where
  "postgres_select_user =
     ''SELECT username, password, dbname FROM dbaas_controller.users WHERE name = $1 AND namespace = $2''"

definition postgres_insert_user :: string where
  "postgres_insert_user =
     ''INSERT INTO dbaas_controller.users (name, namespace, username, password, dbname) '' @
     ''VALUES ($1, $2, $3, $4, $5)''"

definition postgres_insert_nothing_user :: string where
  "postgres_insert_nothing_user =
     ''INSERT INTO dbaas_controller.users (name, namespace, username, password, dbname) '' @
     ''VALUES ($1, $2, $3, $4, $5) ON CONFLICT DO NOTHING''"

definition insert_args :: "string \<Rightarrow> string \<Rightarrow> RelationalDatabaseInfo \<Rightarrow> string list" where
  "insert_args name namespace info = [name, namespace, Username info, Password info, Dbname info]"

text \<open>The three scanned columns as credentials.\<close>

definition info_of_columns :: "string list \<Rightarrow> RelationalDatabaseInfo" where
  "info_of_columns columns =
     \<lparr>Username = columns ! 0, Password = columns ! 1, Dbname = columns ! 2\<rparr>"

definition databaseInfoMySQL ::
    "('db, 'w) sql \<Rightarrow> string \<Rightarrow> string \<Rightarrow> string \<Rightarrow>
      (('db, 'w) RelationalDatabaseImpl, RelationalDatabaseInfo) go" where
  "databaseInfoMySQL sql dsn name namespace =
     go_try (GetConnection sql dsn mysql)
       (\<lambda>err. fail (Errorf_w (''create database failed to open '' @ mysql @ '' database: '') err))
       (\<lambda>db.
          exec_then sql db use_dbaas_controller [] ''failed to select database: ''
          (go_try
             (query_row (on_server (sql_Query_string sql db mysql_select_user [name, namespace])) 3)
             (\<lambda>err.
                if own_kind err \<noteq> Some SqlErrNoRows
                then fail (Errorf_w (''failed '' @ mysql @ '' to query users table: '') err)
                else
                  go_try (createUserInfo (on_server (rand_source sql)) namespace) fail
                    (\<lambda>info.
                       exec_then sql db mysql_insert_user (insert_args name namespace info)
                         ''failed to insert user into users table: ''
                       (ok info)))
             (\<lambda>columns. ok (info_of_columns columns))))"

definition insertUserInfoIntoMysql ::
    "('db, 'w) sql \<Rightarrow> string \<Rightarrow> string \<Rightarrow> string \<Rightarrow> RelationalDatabaseInfo \<Rightarrow>
      (('db, 'w) RelationalDatabaseImpl, unit) go" where
  "insertUserInfoIntoMysql sql dsn name namespace info =
     go_try (GetConnection sql dsn mysql)
       (\<lambda>err. fail (Errorf_w (''set database info failed to open '' @ mysql @ '' database: '') err))
       (\<lambda>db.
          exec_then sql db use_dbaas_controller [] ''failed to select database: ''
          (exec_then sql db mysql_insert_ignore_user (insert_args name namespace info)
             ''failed to insert user into users table: ''
          (ok ())))"

definition databaseInfoPostgreSQL ::
    "('db, 'w) sql \<Rightarrow> string \<Rightarrow> string \<Rightarrow> string \<Rightarrow>
      (('db, 'w) RelationalDatabaseImpl, RelationalDatabaseInfo) go" where
  "databaseInfoPostgreSQL sql dsn name namespace =
     go_try (GetConnection sql dsn postgres)
       (\<lambda>err. fail (Errorf_w (''create database failed to open '' @ postgres @ '' database: '') err))
       (\<lambda>db.
          go_try
             (query_row (on_server (sql_Query_string sql db postgres_select_user [name, namespace])) 3)
             (\<lambda>err.
                if own_kind err \<noteq> Some SqlErrNoRows
                then fail (Errorf_w (''failed '' @ postgres @ '' to query users table: '') err)
                else
                  go_try (createUserInfo (on_server (rand_source sql)) namespace) fail
                    (\<lambda>info.
                       exec_then sql db postgres_insert_user (insert_args name namespace info)
                         ''failed to insert user into users table: ''
                       (ok info)))
             (\<lambda>columns. ok (info_of_columns columns)))"

definition insertUserInfoIntoPostgreSQL ::
    "('db, 'w) sql \<Rightarrow> string \<Rightarrow> string \<Rightarrow> string \<Rightarrow> RelationalDatabaseInfo \<Rightarrow>
      (('db, 'w) RelationalDatabaseImpl, unit) go" where
  "insertUserInfoIntoPostgreSQL sql dsn name namespace info =
     go_try (GetConnection sql dsn postgres)
       (\<lambda>err. fail (Errorf_w (''set database info failed to open '' @ postgres @ '' database: '') err))
       (\<lambda>db.
          exec_then sql db postgres_insert_nothing_user (insert_args name namespace info)
            ''failed to insert user into users table: ''
          (ok ()))"

definition GetDatabaseInfo ::
    "('db, 'w) sql \<Rightarrow> string \<Rightarrow> string \<Rightarrow> string \<Rightarrow> string \<Rightarrow>
      (('db, 'w) RelationalDatabaseImpl, RelationalDatabaseInfo) go" where
  "GetDatabaseInfo sql dsn name namespace dbType =
     (if dbType = mysql then databaseInfoMySQL sql dsn name namespace
      else if dbType = postgres then databaseInfoPostgreSQL sql dsn name namespace
      else fail (errors_New (''get database failed to get '' @ dbType @ '' database: unsupported dbType'')))"

definition SetDatabaseInfo ::
    "('db, 'w) sql \<Rightarrow> string \<Rightarrow> string \<Rightarrow> string \<Rightarrow> string \<Rightarrow> RelationalDatabaseInfo \<Rightarrow>
      (('db, 'w) RelationalDatabaseImpl, unit) go" where
  "SetDatabaseInfo sql dsn name namespace dbType info =
     (if dbType = mysql then insertUserInfoIntoMysql sql dsn name namespace info
      else if dbType = postgres then insertUserInfoIntoPostgreSQL sql dsn name namespace info
      else ok ())"

subsection \<open>Creating and dropping a database\<close>

text \<open>The statements, with the names the code formats into them.\<close>

definition mysql_create_database :: "string \<Rightarrow> string" where
  "mysql_create_database dbname = ''CREATE DATABASE IF NOT EXISTS `'' @ dbname @ ''`''"

definition mysql_create_user :: "string \<Rightarrow> string \<Rightarrow> string" where
  "mysql_create_user username password =
     ''CREATE USER IF NOT EXISTS '' @ [CHR 0x27] @ username @ [CHR 0x27] @ ''@'' @ [CHR 0x27] @ ''%'' @ [CHR 0x27] @
     '' IDENTIFIED BY '' @ [CHR 0x27] @ password @ [CHR 0x27]"

definition mysql_grant :: "string \<Rightarrow> string \<Rightarrow> string" where
  "mysql_grant dbname username =
     ''GRANT SELECT, INSERT, UPDATE, DELETE, CREATE, DROP, REFERENCES, '' @
     ''INDEX, ALTER, CREATE TEMPORARY TABLES, LOCK TABLES, '' @
     ''EXECUTE, CREATE VIEW, SHOW VIEW, CREATE ROUTINE, ALTER ROUTINE, EVENT, TRIGGER ON `'' @
     dbname @ ''`.* TO '' @ [CHR 0x27] @ username @ [CHR 0x27] @ ''@'' @ [CHR 0x27] @ ''%'' @ [CHR 0x27]"

definition flush_privileges :: string where
  "flush_privileges = ''FLUSH PRIVILEGES''"

definition mysql_drop_database :: "string \<Rightarrow> string" where
  "mysql_drop_database dbname = ''DROP DATABASE IF EXISTS `'' @ dbname @ ''`''"

definition mysql_drop_user :: "string \<Rightarrow> string" where
  "mysql_drop_user username =
     ''DROP USER IF EXISTS '' @ [CHR 0x27] @ username @ [CHR 0x27] @ ''@'' @ [CHR 0x27] @ ''%'' @ [CHR 0x27]"

definition postgres_select_role :: "string \<Rightarrow> string" where
  "postgres_select_role username =
     ''SELECT 1 FROM pg_roles WHERE rolname='' @ [CHR 0x27] @ username @ [CHR 0x27]"

definition postgres_create_user :: "string \<Rightarrow> string \<Rightarrow> string" where
  "postgres_create_user username password =
     ''CREATE USER '' @ [CHR 0x22] @ username @ [CHR 0x22] @ '' WITH ENCRYPTED PASSWORD '' @
     [CHR 0x27] @ password @ [CHR 0x27]"

definition postgres_grant :: "string \<Rightarrow> string \<Rightarrow> string" where
  "postgres_grant username providerUsername =
     ''GRANT '' @ [CHR 0x22] @ username @ [CHR 0x22] @ '' TO '' @
     [CHR 0x22] @ providerUsername @ [CHR 0x22] @ '';''"

definition postgres_create_database :: "string \<Rightarrow> string \<Rightarrow> string" where
  "postgres_create_database dbname username =
     ''CREATE DATABASE '' @ [CHR 0x22] @ dbname @ [CHR 0x22] @ '' OWNER '' @
     [CHR 0x22] @ username @ [CHR 0x22]"

definition postgres_disconnect :: "string \<Rightarrow> string" where
  "postgres_disconnect dbname =
     ''SELECT pg_terminate_backend(pg_stat_activity.pid) FROM pg_stat_activity '' @
     ''WHERE pg_stat_activity.datname = '' @ [CHR 0x27] @ dbname @ [CHR 0x27] @
     '' AND pid <> pg_backend_pid()''"

definition postgres_drop_database :: "string \<Rightarrow> string" where
  "postgres_drop_database dbname = ''DROP DATABASE IF EXISTS '' @ [CHR 0x22] @ dbname @ [CHR 0x22]"

definition postgres_drop_user :: "string \<Rightarrow> string" where
  "postgres_drop_user username = ''DROP USER IF EXISTS '' @ [CHR 0x22] @ username @ [CHR 0x22]"

definition create_postgres_owned ::
    "('db, 'w) sql \<Rightarrow> 'db \<Rightarrow> string \<Rightarrow> string \<Rightarrow> RelationalDatabaseInfo \<Rightarrow>
      (('db, 'w) RelationalDatabaseImpl, RelationalDatabaseInfo) go" where
  "create_postgres_owned sql db dbType providerUsername info =
     exec_then sql db (postgres_grant (Username info) providerUsername) []
       (''create '' @ dbType @ '' database error in grant user access to `'' @ Username info @ ''`: '')
     (go_try (on_server (sql_Exec sql db (postgres_create_database (Dbname info) (Username info)) []))
       (\<lambda>err.
          if own_kind err \<noteq> Some (PqError ''42P04'')
          then fail (Errorf_w (''create '' @ dbType @ '' database error in creating the database `'' @
                 Dbname info @ ''`: '') err)
          else ok info)
       (\<lambda>_. ok info))"

definition create_postgres_user ::
    "('db, 'w) sql \<Rightarrow> 'db \<Rightarrow> string \<Rightarrow> string \<Rightarrow> RelationalDatabaseInfo \<Rightarrow> int \<Rightarrow>
      (('db, 'w) RelationalDatabaseImpl, RelationalDatabaseInfo) go" where
  "create_postgres_user sql db dbType providerUsername info userExists =
     (if userExists = 0 then
        exec_then sql db (postgres_create_user (Username info) (Password info)) []
          (''create '' @ dbType @ '' database error in create user in database `'' @ Dbname info @ ''`: '')
        (create_postgres_owned sql db dbType providerUsername info)
      else create_postgres_owned sql db dbType providerUsername info)"

definition create_mysql_database ::
    "('db, 'w) sql \<Rightarrow> 'db \<Rightarrow> string \<Rightarrow> RelationalDatabaseInfo \<Rightarrow>
      (('db, 'w) RelationalDatabaseImpl, RelationalDatabaseInfo) go" where
  "create_mysql_database sql db dbType info =
     exec_then sql db (mysql_create_database (Dbname info)) []
       (''create '' @ dbType @ '' database error in creating the database `'' @ Dbname info @ ''`: '')
     (exec_then sql db (mysql_create_user (Username info) (Password info)) []
       (''create '' @ dbType @ '' database error creating user `'' @ Username info @ ''`: '')
     (exec_then sql db (mysql_grant (Dbname info) (Username info)) []
       (''create '' @ dbType @ '' database error granting privileges to user `'' @ Username info @
        ''` on database `'' @ Dbname info @ ''`: '')
     (exec_then sql db flush_privileges []
       (''create '' @ dbType @ '' database error flushing privileges: '')
     (ok info))))"

definition create_postgres_database ::
    "('db, 'w) sql \<Rightarrow> 'db \<Rightarrow> string \<Rightarrow> string \<Rightarrow> RelationalDatabaseInfo \<Rightarrow>
      (('db, 'w) RelationalDatabaseImpl, RelationalDatabaseInfo) go" where
  "create_postgres_database sql db dbType providerUsername info =
     go_result
       (query_row (on_server (sql_Query_int sql db (postgres_select_role (Username info)) [])) 1)
       (\<lambda>found.
          case found of
            Inl err \<Rightarrow>
              if own_kind err \<noteq> Some SqlErrNoRows
              then fail (Errorf_w (''create '' @ dbType @
                     '' database error in check if user exists in database `'' @ Dbname info @ ''`: '') err)
              else create_postgres_user sql db dbType providerUsername info 0
          | Inr columns \<Rightarrow> create_postgres_user sql db dbType providerUsername info (hd columns))"

definition CreateDatabase ::
    "('db, 'w) sql \<Rightarrow> string \<Rightarrow> string \<Rightarrow> string \<Rightarrow> string \<Rightarrow> string \<Rightarrow>
      (('db, 'w) RelationalDatabaseImpl, RelationalDatabaseInfo) go" where
  "CreateDatabase sql dsn name namespace dbType providerUsername =
     go_try (GetConnection sql dsn dbType)
       (\<lambda>err. fail (Errorf_w (''create database failed to open '' @ dbType @ '' database: '') err))
       (\<lambda>db.
          if dbType = mysql then
            go_try (databaseInfoMySQL sql dsn name namespace)
              (\<lambda>err. fail (Errorf_w (''create '' @ dbType @ '' database failed to get database info: '') err))
              (create_mysql_database sql db dbType)
          else if dbType = postgres then
            go_try (databaseInfoPostgreSQL sql dsn name namespace)
              (\<lambda>err. fail (Errorf_w (''create database failed to get '' @ dbType @ '' database info: '') err))
              (create_postgres_database sql db dbType providerUsername)
          else fail (errors_New
                 (''create database failed to create '' @ dbType @ '' database: unsupported dbType'')))"

definition DropDatabase ::
    "('db, 'w) sql \<Rightarrow> string \<Rightarrow> string \<Rightarrow> string \<Rightarrow> string \<Rightarrow>
      (('db, 'w) RelationalDatabaseImpl, unit) go" where
  "DropDatabase sql dsn name namespace dbType =
     go_try (GetConnection sql dsn dbType)
       (\<lambda>err. fail (Errorf_w (''drop database failed to open '' @ dbType @ '' database: '') err))
       (\<lambda>db.
          if dbType = mysql then
            go_try (databaseInfoMySQL sql dsn name namespace)
              (\<lambda>err. fail (Errorf_w ''drop database failed to get database info: '' err))
              (\<lambda>info.
                 exec_then sql db (mysql_drop_database (Dbname info)) []
                   (''drop database failed to drop '' @ dbType @ '' database: '')
                 (exec_then sql db (mysql_drop_user (Username info)) []
                   ''drop database failed to drop user: ''
                 (exec_then sql db flush_privileges []
                   ''drop database failed to flush privileges: ''
                 (ok ()))))
          else if dbType = postgres then
            go_try (databaseInfoPostgreSQL sql dsn name namespace)
              (\<lambda>err. fail (Errorf_w ''drop database failed to get database info: '' err))
              (\<lambda>info.
                 exec_then sql db (postgres_disconnect (Dbname info)) []
                   (''drop database failed to disconnect users from '' @ dbType @ '' database: '')
                 (exec_then sql db (postgres_drop_database (Dbname info)) []
                   (''drop database failed to drop '' @ dbType @ '' database: '')
                 (exec_then sql db (postgres_drop_user (Username info)) []
                   ''drop database failed to drop user: ''
                 (ok ()))))
          else fail (errors_New
                 (''drop database failed to drop '' @ dbType @ '' database: unsupported dbType'')))"

text \<open>\<open>*RelationalDatabaseImpl\<close> as the interface the reconcilers hold.\<close>

definition RelationalDatabaseImpl_interface ::
    "('db, 'w) sql \<Rightarrow> ('db, 'w) RelationalDatabaseImpl RelationalDatabaseInterface" where
  "RelationalDatabaseImpl_interface sql =
     \<lparr>rdiPing = Ping sql, rdiVersion = Version sql, rdiLoad = Load sql,
      rdiInitialize = Initialize sql, rdiCreateDatabase = CreateDatabase sql,
      rdiDropDatabase = DropDatabase sql, rdiGetDatabaseInfo = GetDatabaseInfo sql,
      rdiSetDatabaseInfo = SetDatabaseInfo sql\<rparr>"

end
