(* ===== verification/RelDBFacts.thy ===== *)
theory RelDBFacts
  imports RelDB
begin

section \<open>Facts about the SQL client that hold for every server\<close>

text \<open>
  What needs no assumption about the database server: the shape and the length of the
  generated credentials, the connection cache, the classification of ping errors, and the
  queries that read only the first row.
\<close>

subsection \<open>Generated credentials\<close>

definition alnum :: "char \<Rightarrow> bool" where
  "alnum c \<longleftrightarrow> c \<in> set rand_chars"

lemma length_rand_chars [simp]: "length rand_chars = 62"
  by (simp add: rand_chars_def)

lemma random_bytes_spec:
  "post (random_bytes source n) s (\<lambda>cs t. length cs = n \<and> list_all alnum cs)"
proof (induction n arbitrary: s)
  case 0
  show ?case by (simp add: post_rules)
next
  case (Suc n)
  have draw: "post (rand_Intn source (length rand_chars)) s (\<lambda>i t. alnum (rand_chars ! i))"
    by (auto simp: rand_Intn_def post_def alnum_def split: prod.splits)
  show ?case
    unfolding random_bytes.simps
    by (rule post_bindI [OF draw], rule post_bindI [OF Suc.IH]) (simp add: post_rules)
qed

lemma generateRandomString_spec:
  assumes "0 \<le> n"
  shows "post (generateRandomString source n) s
    (\<lambda>r t. \<exists>cs. r = Ok cs \<and> length cs = nat n \<and> list_all alnum cs)"
proof -
  have "post (random_bytes source (nat n)) s (\<lambda>cs t. length cs = nat n \<and> list_all alnum cs)"
    by (rule random_bytes_spec)
  then show ?thesis
    using assms by (auto simp: generateRandomString_def post_rules elim: post_mono)
qed

lemma generateRandomString_negative:
  "n < 0 \<Longrightarrow> run_state (generateRandomString source n) s =
     (Panic ''runtime error: makeslice: len out of range'', s)"
  by (simp add: generateRandomString_def)

definition db_prefix :: "string \<Rightarrow> string" where
  "db_prefix namespace = (if length namespace > 50 then take 50 namespace else namespace)"

lemma length_db_prefix: "length (db_prefix namespace) = min (length namespace) 50"
  by (auto simp: db_prefix_def)

definition generated_info :: "string \<Rightarrow> RelationalDatabaseInfo \<Rightarrow> bool" where
  "generated_info namespace info \<longleftrightarrow>
     length (Username info) = 16 \<and> list_all alnum (Username info) \<and>
     length (Password info) = 24 \<and> list_all alnum (Password info) \<and>
     length (Dbname info) = 63 \<and>
     (\<exists>suffix. Dbname info = db_prefix namespace @ ''_'' @ suffix \<and> list_all alnum suffix)"

lemma createUserInfo_spec:
  "post (createUserInfo source namespace) s
     (\<lambda>r t. \<exists>info. r = Ok info \<and> generated_info namespace info)"
proof -
  have random: "0 \<le> n \<Longrightarrow> post (generateRandomString source n) u
    (\<lambda>r t. \<exists>cs. r = Ok cs \<and> length cs = nat n \<and> list_all alnum cs)" for n u
    by (rule generateRandomString_spec)
  show ?thesis
    unfolding createUserInfo_def maxUsernameLength_def maxPasswordLength_def
      maxDatabaseNameLength_def Let_def db_prefix_def [symmetric]
    by (rule post_go_tryI [OF random], simp, rule post_go_tryI [OF random], simp,
        rule post_go_tryI [OF random])
      (auto simp: post_rules generated_info_def length_db_prefix nat_diff_distrib)
qed

subsection \<open>The connection cache\<close>

lemma GetConnection_cached:
  "connectionCache ri dsn = Some db \<Longrightarrow> run_state (GetConnection sql dsn dbType) ri = (Ok db, ri)"
  by (simp add: GetConnection_def)

lemma GetConnection_opens:
  assumes "connectionCache ri dsn = None"
    and "run_state (sql_Open sql dbType dsn) (riServer ri) = (Ok db, w)"
  shows "run_state (GetConnection sql dsn dbType) ri =
    (Ok db, ri\<lparr>connectionCache := (connectionCache ri)(dsn \<mapsto> db), riServer := w\<rparr>)"
  using assms by (simp add: GetConnection_def on_server_def run_go_try)

lemma GetConnection_Ok_cached:
  "run_state (GetConnection sql dsn dbType) ri = (Ok db, ri') \<Longrightarrow> connectionCache ri' dsn = Some db"
  by (auto simp: GetConnection_def on_server_def run_go_try split: option.splits prod.splits outcome.splits)

lemma GetConnection_not_Ok:
  assumes "run_state (GetConnection sql dsn dbType) ri = (r, ri')" and "\<nexists>db. r = Ok db"
  shows "connectionCache ri' = connectionCache ri"
  using assms
  by (auto simp: GetConnection_def on_server_def run_go_try split: option.splits prod.splits outcome.splits)

subsection \<open>Queries read the first row\<close>

lemma scan_first_row_Cons: "scan_first_row n (row # rows) = scan_first_row n [row]"
  by (simp add: scan_first_row_def)

lemma run_query_row:
  assumes "run_state query s = (Ok rows, t)"
  shows "run_state (query_row query n) s = run_state (scan_first_row n rows) t"
  using assms by (simp add: query_row_def run_go_try)

subsection \<open>The connection cache over all methods\<close>

text \<open>
  No method forgets or replaces a cached handle: a preorder on the states, which every
  program of this theory keeps.
\<close>

definition cache_grows :: "('db, 'w) RelationalDatabaseImpl \<Rightarrow> ('db, 'w) RelationalDatabaseImpl \<Rightarrow> bool" where
  "cache_grows ri ri' \<longleftrightarrow> connectionCache ri \<subseteq>\<^sub>m connectionCache ri'"

lemma preorder_cache_grows [simp]: "preorder_rel cache_grows"
  by (auto simp: preorder_rel_def cache_grows_def intro!: reflpI transpI intro: map_le_trans)

named_theorems cache_rules "programs that keep the cache"

lemma cache_on_server [cache_rules]: "preserves cache_grows (on_server m)"
  by (rule preservesI) (auto simp: on_server_def cache_grows_def split: prod.splits)

lemma cache_GetConnection [cache_rules]: "preserves cache_grows (GetConnection sql dsn dbType)"
proof (rule preservesI)
  fix ri ri' :: "('a, 'b) RelationalDatabaseImpl" and r
  assume "run_state (GetConnection sql dsn dbType) ri = (r, ri')"
  then show "cache_grows ri ri'"
    by (auto simp: GetConnection_def on_server_def run_go_try cache_grows_def map_le_def
        split: option.splits prod.splits outcome.splits)
qed

lemma cache_exec_then [cache_rules]:
  "preserves cache_grows rest \<Longrightarrow> preserves cache_grows (exec_then sql db q args errtext rest)"
  unfolding exec_then_def by (intro preserves_rules cache_rules preorder_cache_grows)

lemma cache_query_row [cache_rules]: "preserves cache_grows (query_row (on_server query) n)"
  unfolding query_row_def scan_first_row_def
  by (intro preserves_rules cache_rules preorder_cache_grows)
    (auto split: list.split sum.split intro: preserves_rules)

lemma cache_random_bytes: "preserves cache_grows (random_bytes (on_server source) n)"
  by (induction n)
    (auto simp: rand_Intn_def intro!: preserves_return preserves_bind cache_on_server)

lemma cache_createUserInfo [cache_rules]: "preserves cache_grows (createUserInfo (on_server source) namespace)"
  unfolding createUserInfo_def generateRandomString_def Let_def
  by (intro preserves_rules cache_random_bytes preorder_cache_grows)

lemma cache_databaseInfo [cache_rules]:
  "preserves cache_grows (databaseInfoMySQL sql dsn name namespace)"
  "preserves cache_grows (databaseInfoPostgreSQL sql dsn name namespace)"
  unfolding databaseInfoMySQL_def databaseInfoPostgreSQL_def
  by (intro preserves_rules cache_rules preorder_cache_grows)+

lemma cache_create_mysql [cache_rules]: "preserves cache_grows (create_mysql_database sql db dbType info)"
  unfolding create_mysql_database_def by (intro preserves_rules cache_rules preorder_cache_grows)

lemma cache_create_postgres [cache_rules]:
  "preserves cache_grows (create_postgres_database sql db dbType provider info)"
  unfolding create_postgres_database_def create_postgres_user_def create_postgres_owned_def
  by (intro preserves_rules cache_rules preorder_cache_grows)

lemma client_step_cache:
  assumes "client_step (RelationalDatabaseImpl_interface sql) ok_name ok_info ri ri'"
  shows "cache_grows ri ri'"
proof -
  have methods:
    "preserves cache_grows (Ping sql dsn dbType)" "preserves cache_grows (Version sql dsn dbType)"
    "preserves cache_grows (Load sql dsn dbType)" "preserves cache_grows (Initialize sql dsn dbType)"
    "preserves cache_grows (CreateDatabase sql dsn name namespace dbType user)"
    "preserves cache_grows (DropDatabase sql dsn name namespace dbType)"
    "preserves cache_grows (GetDatabaseInfo sql dsn name namespace dbType)"
    "preserves cache_grows (SetDatabaseInfo sql dsn name namespace dbType info)"
    for dsn dbType name namespace user info
    unfolding Ping_def Version_def Load_def Let_def Initialize_def CreateDatabase_def DropDatabase_def
      GetDatabaseInfo_def SetDatabaseInfo_def insertUserInfoIntoMysql_def insertUserInfoIntoPostgreSQL_def
    by (intro preserves_rules cache_rules preorder_cache_grows)+
  from assms show ?thesis
    by (cases rule: client_step.cases)
      (auto simp: RelationalDatabaseImpl_interface_def dest: methods [THEN preservesD])
qed

lemma client_steps_cache:
  "client_steps (RelationalDatabaseImpl_interface sql) ok_name ok_info ri ri' \<Longrightarrow> cache_grows ri ri'"
  by (induction rule: rtranclp_induct)
    (auto dest!: client_step_cache simp: cache_grows_def intro: map_le_trans)

lemma cache_grows_cached: "cache_grows ri ri' \<Longrightarrow> connectionCache ri dsn = Some db \<Longrightarrow> connectionCache ri' dsn = Some db"
  unfolding cache_grows_def map_le_def by (metis domI)

subsection \<open>Statements in sequence\<close>

text \<open>The statements run one after the other on the handle, each with no error.\<close>

fun executes :: "('db, 'w) sql \<Rightarrow> 'db \<Rightarrow> string list \<Rightarrow> 'w \<Rightarrow> 'w \<Rightarrow> bool" where
  "executes sql db [] w w' \<longleftrightarrow> w' = w"
| "executes sql db (q # qs) w w' \<longleftrightarrow>
     (\<exists>w1. run_state (sql_Exec sql db q []) w = (Ok (), w1) \<and> executes sql db qs w1 w')"

lemma exec_then_Ok_iff:
  "run_state (exec_then sql db q args errtext rest) ri = (Ok x, ri') \<longleftrightarrow>
     (\<exists>w. run_state (sql_Exec sql db q args) (riServer ri) = (Ok (), w) \<and>
        run_state rest (ri\<lparr>riServer := w\<rparr>) = (Ok x, ri'))"
  by (auto simp: exec_then_def on_server_def run_go_try split: prod.splits outcome.splits)

definition drop_statements :: "string \<Rightarrow> RelationalDatabaseInfo \<Rightarrow> string list" where
  "drop_statements dbType info =
     (if dbType = mysql
      then [mysql_drop_database (Dbname info), mysql_drop_user (Username info), flush_privileges]
      else [postgres_disconnect (Dbname info), postgres_drop_database (Dbname info),
            postgres_drop_user (Username info)])"

definition create_statements :: "RelationalDatabaseInfo \<Rightarrow> string list" where
  "create_statements info =
     [mysql_create_database (Dbname info), mysql_create_user (Username info) (Password info),
      mysql_grant (Dbname info) (Username info), flush_privileges]"

text \<open>
  A drop that succeeds found the credentials, with the handle of the data source, and then
  executed exactly the statements that remove what they name.
\<close>

lemma DropDatabase_Ok_executes:
  assumes "run_state (DropDatabase sql dsn name namespace dbType) ri = (Ok (), ri')"
  shows "dbType \<in> {mysql, postgres} \<and>
    (\<exists>ri1 db info ri2.
       run_state (GetConnection sql dsn dbType) ri = (Ok db, ri1) \<and>
       run_state (GetDatabaseInfo sql dsn name namespace dbType) ri1 = (Ok info, ri2) \<and>
       executes sql db (drop_statements dbType info) (riServer ri2) (riServer ri') \<and>
       ri' = ri2\<lparr>riServer := riServer ri'\<rparr>)"
  using assms unfolding DropDatabase_def
proof (rule go_try_fail_OkE)
  fix db ri1
  assume con: "run_state (GetConnection sql dsn dbType) ri = (Ok db, ri1)"
    and rest: "run_state (if dbType = mysql then
        go_try (databaseInfoMySQL sql dsn name namespace)
          (\<lambda>err. fail (Errorf_w ''drop database failed to get database info: '' err))
          (\<lambda>info. exec_then sql db (mysql_drop_database (Dbname info)) []
               (''drop database failed to drop '' @ dbType @ '' database: '')
             (exec_then sql db (mysql_drop_user (Username info)) [] ''drop database failed to drop user: ''
             (exec_then sql db flush_privileges [] ''drop database failed to flush privileges: '' (ok ()))))
      else if dbType = postgres then
        go_try (databaseInfoPostgreSQL sql dsn name namespace)
          (\<lambda>err. fail (Errorf_w ''drop database failed to get database info: '' err))
          (\<lambda>info. exec_then sql db (postgres_disconnect (Dbname info)) []
               (''drop database failed to disconnect users from '' @ dbType @ '' database: '')
             (exec_then sql db (postgres_drop_database (Dbname info)) []
               (''drop database failed to drop '' @ dbType @ '' database: '')
             (exec_then sql db (postgres_drop_user (Username info)) [] ''drop database failed to drop user: '' (ok ()))))
      else fail (errors_New (''drop database failed to drop '' @ dbType @ '' database: unsupported dbType''))) ri1
      = (Ok (), ri')"
  show ?thesis
  proof (cases "dbType = mysql")
    case True
    with rest obtain info ri2 where "run_state (databaseInfoMySQL sql dsn name namespace) ri1 = (Ok info, ri2)"
      and "executes sql db (drop_statements mysql info) (riServer ri2) (riServer ri')"
      and "ri' = ri2\<lparr>riServer := riServer ri'\<rparr>"
      by (auto simp: exec_then_Ok_iff drop_statements_def elim!: go_try_fail_OkE)
    with con True show ?thesis by (auto simp: GetDatabaseInfo_def)
  next
    case False
    with rest have pg: "dbType = postgres" by (auto split: if_splits)
    with rest obtain info ri2 where "run_state (databaseInfoPostgreSQL sql dsn name namespace) ri1 = (Ok info, ri2)"
      and "executes sql db (drop_statements postgres info) (riServer ri2) (riServer ri')"
      and "ri' = ri2\<lparr>riServer := riServer ri'\<rparr>"
      by (auto simp: exec_then_Ok_iff drop_statements_def elim!: go_try_fail_OkE)
    with con pg show ?thesis by (auto simp: GetDatabaseInfo_def)
  qed
qed

end
