(* ===== verification/SqlServer.thy ===== *)
theory SqlServer
  imports RelDBFacts
begin

section \<open>The credentials table behind the SQL client\<close>

text \<open>
  The laws of a MySQL or PostgreSQL server that the client relies on, as a locale over the
  parameter \<open>sql\<close>: \<open>users d w\<close> is the users table of the database that the data source name
  \<open>d\<close> reaches in the server state \<open>w\<close>, as a map from (name, namespace) to credentials. Two
  data source names may reach the same table, so a law about an insertion through one of them
  allows the row to appear under the others.

  A statement that fails may still have been executed (the connection broke before the
  answer came), so an insertion that returns an error either left the table alone or inserted
  its row.

  From the laws follow the facts about \<open>databaseInfoMySQL\<close> and \<open>databaseInfoPostgreSQL\<close>
  (get or create), and that the implementation is a \<open>credential_store\<close>: credentials, once
  recorded, never change. The statements the client formats names into are safe only when the
  names hold no quote, so the invariant says that every recorded name is made of letters,
  digits, underscores and hyphens.
\<close>

type_synonym users_table = "string \<times> string \<rightharpoonup> RelationalDatabaseInfo"

definition safe_char :: "char \<Rightarrow> bool" where
  "safe_char c \<longleftrightarrow> alnum c \<or> c = CHR ''_'' \<or> c = CHR ''-''"

definition safe_name :: "string \<Rightarrow> bool" where
  "safe_name s \<longleftrightarrow> list_all safe_char s"

definition safe_info :: "RelationalDatabaseInfo \<Rightarrow> bool" where
  "safe_info info \<longleftrightarrow>
     safe_name (Username info) \<and> safe_name (Password info) \<and> safe_name (Dbname info) \<and>
     Dbname info \<noteq> ''dbaas_controller''"

lemma safe_name_append [simp]: "safe_name (a @ b) \<longleftrightarrow> safe_name a \<and> safe_name b"
  by (simp add: safe_name_def)

lemma safe_name_Cons [simp]: "safe_name (c # cs) \<longleftrightarrow> safe_char c \<and> safe_name cs"
  by (simp add: safe_name_def)

lemma safe_char_underscore [simp]: "safe_char CHR ''_''"
  by (simp add: safe_char_def)

lemma alnum_safe_name: "list_all alnum s \<Longrightarrow> safe_name s"
  by (auto simp: safe_name_def safe_char_def list_all_iff)

lemma safe_name_db_prefix: "safe_name ns \<Longrightarrow> safe_name (db_prefix ns)"
  by (auto simp: db_prefix_def safe_name_def list_all_iff dest: in_set_takeD)

lemma generated_info_safe:
  assumes "generated_info namespace info" and "safe_name namespace"
  shows "safe_info info"
proof -
  from assms(1) have "length (Dbname info) = 63" by (simp add: generated_info_def)
  then have "Dbname info \<noteq> ''dbaas_controller''" by auto
  with assms show ?thesis
    by (auto simp: generated_info_def safe_info_def alnum_safe_name safe_name_db_prefix)
qed

text \<open>The statements, other than those on the users table, that the client executes on safe names.\<close>

inductive admin_statement :: "string \<Rightarrow> bool" where
  init_mysql: "admin_statement mysql_create_controller_database"
| init_mysql_table: "admin_statement mysql_create_users_table"
| init_postgres: "admin_statement postgres_create_schema"
| init_postgres_table: "admin_statement postgres_create_users_table"
| use: "admin_statement use_dbaas_controller"
| flush: "admin_statement flush_privileges"
| mysql_create: "safe_info info \<Longrightarrow> admin_statement (mysql_create_database (Dbname info))"
| mysql_user: "safe_info info \<Longrightarrow> admin_statement (mysql_create_user (Username info) (Password info))"
| mysql_grants: "safe_info info \<Longrightarrow> admin_statement (mysql_grant (Dbname info) (Username info))"
| mysql_drop: "safe_info info \<Longrightarrow> admin_statement (mysql_drop_database (Dbname info))"
| mysql_duser: "safe_info info \<Longrightarrow> admin_statement (mysql_drop_user (Username info))"
| pg_user: "safe_info info \<Longrightarrow> admin_statement (postgres_create_user (Username info) (Password info))"
| pg_grant: "safe_info info \<Longrightarrow> safe_name provider \<Longrightarrow>
     admin_statement (postgres_grant (Username info) provider)"
| pg_create: "safe_info info \<Longrightarrow> admin_statement (postgres_create_database (Dbname info) (Username info))"
| pg_disconnect: "safe_info info \<Longrightarrow> admin_statement (postgres_disconnect (Dbname info))"
| pg_drop: "safe_info info \<Longrightarrow> admin_statement (postgres_drop_database (Dbname info))"
| pg_duser: "safe_info info \<Longrightarrow> admin_statement (postgres_drop_user (Username info))"

definition inserted :: "users_table \<Rightarrow> users_table \<Rightarrow> string \<times> string \<Rightarrow> RelationalDatabaseInfo \<Rightarrow> bool" where
  "inserted tbl tbl' key info \<longleftrightarrow> tbl key = None \<and> tbl' = tbl(key \<mapsto> info)"

text \<open>A row that \<open>UNIQUE\<close> constraints of the table refuse next to the existing ones.\<close>

definition conflicts :: "users_table \<Rightarrow> string \<times> string \<Rightarrow> RelationalDatabaseInfo \<Rightarrow> bool" where
  "conflicts tbl key info \<longleftrightarrow>
     tbl key \<noteq> None \<or>
     (\<exists>other row. tbl other = Some row \<and> (Username row = Username info \<or> Dbname row = Dbname info))"

definition row_of :: "RelationalDatabaseInfo \<Rightarrow> (go_error + string) list" where
  "row_of info = [Inr (Username info), Inr (Password info), Inr (Dbname info)]"

lemma Scan_row_of [simp]: "Scan 3 (row_of info) = Inr [Username info, Password info, Dbname info]"
  by (simp add: Scan_def row_of_def)

lemma info_of_columns_row [simp]:
  "info_of_columns [Username info, Password info, Dbname info] = info"
  by (simp add: info_of_columns_def)

text \<open>
  The table seen through the state of the client, the invariant of that state, and the step
  every method takes: from a state in the invariant it reaches one in the invariant in which
  no recorded credentials have changed.
\<close>

definition impl_creds ::
    "(string \<Rightarrow> 'w \<Rightarrow> users_table) \<Rightarrow> string \<Rightarrow> ('db, 'w) RelationalDatabaseImpl \<Rightarrow> users_table" where
  "impl_creds users dsn ri = users dsn (riServer ri)"

definition store_inv ::
    "('db \<Rightarrow> string) \<Rightarrow> (string \<Rightarrow> 'w \<Rightarrow> users_table) \<Rightarrow> ('db, 'w) RelationalDatabaseImpl \<Rightarrow> bool" where
  "store_inv dsn_of users ri \<longleftrightarrow>
     (\<forall>dsn db. connectionCache ri dsn = Some db \<longrightarrow> dsn_of db = dsn) \<and>
     (\<forall>dsn key info. users dsn (riServer ri) key = Some info \<longrightarrow> safe_info info)"

definition grows ::
    "('db \<Rightarrow> string) \<Rightarrow> (string \<Rightarrow> 'w \<Rightarrow> users_table) \<Rightarrow>
      ('db, 'w) RelationalDatabaseImpl \<Rightarrow> ('db, 'w) RelationalDatabaseImpl \<Rightarrow> bool" where
  "grows dsn_of users ri ri' \<longleftrightarrow>
     (store_inv dsn_of users ri \<longrightarrow>
        store_inv dsn_of users ri' \<and>
        (\<forall>dsn key info. users dsn (riServer ri) key = Some info \<longrightarrow>
           users dsn (riServer ri') key = Some info))"

lemma preorder_grows [simp]: "preorder_rel (grows dsn_of users)"
  by (auto simp: preorder_rel_def grows_def intro!: reflpI transpI)

lemma grows_trans:
  "grows dsn_of users a b \<Longrightarrow> grows dsn_of users b c \<Longrightarrow> grows dsn_of users a c"
  by (auto simp: grows_def)

lemma grows_same_users:
  assumes "connectionCache ri' = connectionCache ri" and "\<And>d. users d (riServer ri') = users d (riServer ri)"
  shows "grows dsn_of users ri ri'"
  using assms by (simp add: grows_def store_inv_def)

lemma grows_inserted:
  assumes "connectionCache ri' = connectionCache ri"
    and "\<And>d. users d (riServer ri') = users d (riServer ri) \<or>
       inserted (users d (riServer ri)) (users d (riServer ri')) key info"
    and "safe_info info"
  shows "grows dsn_of users ri ri'"
proof -
  have kept: "users d (riServer ri') k = Some old" if "users d (riServer ri) k = Some old" for d k old
    using assms(2) [of d] that by (auto simp: inserted_def)
  have new: "users d (riServer ri) k = Some row \<or> row = info"
    if "users d (riServer ri') k = Some row" for d k row
    using assms(2) [of d] that by (auto simp: inserted_def split: if_splits)
  show ?thesis
    using assms(1,3) kept new by (fastforce simp: grows_def store_inv_def)
qed

text \<open>
  The specification of get or create: existing credentials are returned and the table stays;
  with none, fresh credentials of the documented lengths are recorded and returned.
\<close>

definition get_or_create ::
    "(string \<Rightarrow> 'w \<Rightarrow> users_table) \<Rightarrow> string \<Rightarrow> string \<Rightarrow> string \<Rightarrow> 'w \<Rightarrow>
      RelationalDatabaseInfo outcome \<Rightarrow> 'w \<Rightarrow> bool" where
  "get_or_create users dsn name namespace w r w' \<longleftrightarrow>
     (\<forall>info. r = Ok info \<longrightarrow>
        (case users dsn w (name, namespace) of
           Some old \<Rightarrow> info = old \<and> users dsn w' = users dsn w
         | None \<Rightarrow> generated_info namespace info \<and>
             users dsn w' = (users dsn w)((name, namespace) \<mapsto> info)))"

text \<open>The specification of recording given credentials: only a row without conflicts is added.\<close>

definition set_absent ::
    "(string \<Rightarrow> 'w \<Rightarrow> users_table) \<Rightarrow> string \<Rightarrow> string \<Rightarrow> string \<Rightarrow> RelationalDatabaseInfo \<Rightarrow> 'w \<Rightarrow>
      unit outcome \<Rightarrow> 'w \<Rightarrow> bool" where
  "set_absent users dsn name namespace info w r w' \<longleftrightarrow>
     (r = Ok () \<longrightarrow>
        (if conflicts (users dsn w) (name, namespace) info then users dsn w' = users dsn w
         else inserted (users dsn w) (users dsn w') (name, namespace) info))"

lemma set_absent_same_users:
  "set_absent users dsn name namespace info w r w' \<Longrightarrow> users dsn w = users dsn v \<Longrightarrow>
   set_absent users dsn name namespace info v r w'"
  unfolding set_absent_def by metis

lemma set_absent_not_Ok: "r \<noteq> Ok () \<Longrightarrow> set_absent users dsn name namespace info w r w'"
  by (simp add: set_absent_def)

lemma get_or_create_same_users:
  "get_or_create users dsn name namespace w r w' \<Longrightarrow> users dsn w = users dsn v \<Longrightarrow>
   users dsn w' = users dsn v' \<Longrightarrow> get_or_create users dsn name namespace v r v'"
  by (cases "users dsn v (name, namespace)") (auto simp: get_or_create_def)

lemma get_or_create_not_Ok:
  "(\<And>info. r \<noteq> Ok info) \<Longrightarrow> get_or_create users dsn name namespace w r w'"
  by (simp add: get_or_create_def)

lemma get_or_create_recorded:
  "get_or_create users dsn name namespace w (Ok info) w' \<Longrightarrow> users dsn w' (name, namespace) = Some info"
  by (auto simp: get_or_create_def split: option.splits)

locale sql_server =
  fixes sql :: "('db, 'w) sql"
    and dsn_of :: "'db \<Rightarrow> string"
    and users :: "string \<Rightarrow> 'w \<Rightarrow> users_table"
  assumes open_law:
    "\<And>dbType dsn w r w'. run_state (sql_Open sql dbType dsn) w = (r, w') \<Longrightarrow>
       (\<forall>d. users d w' = users d w) \<and> (\<forall>db. r = Ok db \<longrightarrow> dsn_of db = dsn)"
    and ping_law:
    "\<And>db w r w'. run_state (sql_PingContext sql db) w = (r, w') \<Longrightarrow> \<forall>d. users d w' = users d w"
    and select_law:
    "\<And>q db name namespace w r w'. q \<in> {mysql_select_user, postgres_select_user} \<Longrightarrow>
     run_state (sql_Query_string sql db q [name, namespace]) w = (r, w') \<Longrightarrow>
       (\<forall>d. users d w' = users d w) \<and>
       (\<forall>rows. r = Ok rows \<longrightarrow>
          rows = (case users (dsn_of db) w (name, namespace) of None \<Rightarrow> [] | Some info \<Rightarrow> [row_of info])) \<and>
       (\<forall>err. r = Err err \<longrightarrow> own_kind err \<noteq> Some SqlErrNoRows)"
    and insert_law:
    "\<And>q db name namespace info w r w'. q \<in> {mysql_insert_user, postgres_insert_user} \<Longrightarrow>
     run_state (sql_Exec sql db q (insert_args name namespace info)) w = (r, w') \<Longrightarrow>
       (\<forall>d. users d w' = users d w \<or> inserted (users d w) (users d w') (name, namespace) info) \<and>
       (r = Ok () \<longrightarrow> inserted (users (dsn_of db) w) (users (dsn_of db) w') (name, namespace) info)"
    and insert_ignore_law:
    "\<And>q db name namespace info w r w'.
     q \<in> {mysql_insert_ignore_user, postgres_insert_nothing_user} \<Longrightarrow>
     run_state (sql_Exec sql db q (insert_args name namespace info)) w = (r, w') \<Longrightarrow>
       (\<forall>d. users d w' = users d w \<or> inserted (users d w) (users d w') (name, namespace) info) \<and>
       (r = Ok () \<longrightarrow>
          (if conflicts (users (dsn_of db) w) (name, namespace) info
           then users (dsn_of db) w' = users (dsn_of db) w
           else inserted (users (dsn_of db) w) (users (dsn_of db) w') (name, namespace) info))"
    and admin_law:
    "\<And>q db w r w'. admin_statement q \<Longrightarrow> run_state (sql_Exec sql db q []) w = (r, w') \<Longrightarrow>
       \<forall>d. users d w' = users d w"
    and role_law:
    "\<And>db username w r w'. run_state (sql_Query_int sql db (postgres_select_role username) []) w = (r, w') \<Longrightarrow>
       \<forall>d. users d w' = users d w"
    and version_law:
    "\<And>db w r w'. run_state (sql_Query_string sql db select_version []) w = (r, w') \<Longrightarrow>
       \<forall>d. users d w' = users d w"
    and load_law:
    "\<And>q db w r w'. q \<in> {mysql_select_load, postgres_select_load} \<Longrightarrow>
     run_state (sql_Query_float sql db q []) w = (r, w') \<Longrightarrow> \<forall>d. users d w' = users d w"
    and random_law:
    "\<And>w n w'. run_state (rand_source sql) w = (n, w') \<Longrightarrow> \<forall>d. users d w' = users d w"
begin

text \<open>A call to the server that leaves the users tables alone is a step.\<close>

lemma on_server_grows:
  fixes m :: "('w, 'a) state"
  assumes "\<And>w r w'. run_state m w = (r, w') \<Longrightarrow> \<forall>d. users d w' = users d w"
  shows "preserves (grows dsn_of users) (on_server m)"
proof (rule preservesI)
  fix ri ri' :: "('db, 'w) RelationalDatabaseImpl" and r
  assume "run_state (on_server m) ri = (r, ri')"
  then obtain w where "run_state m (riServer ri) = (r, w)" and "ri' = ri\<lparr>riServer := w\<rparr>"
    by (auto simp: on_server_def split: prod.splits)
  with assms show "grows dsn_of users ri ri'"
    by (intro grows_same_users) auto
qed

lemma GetConnection_post:
  assumes "store_inv dsn_of users ri"
  shows "post (GetConnection sql dsn dbType) ri
    (\<lambda>r ri'. grows dsn_of users ri ri' \<and> store_inv dsn_of users ri' \<and>
       (\<forall>d. users d (riServer ri') = users d (riServer ri)) \<and> (\<forall>db. r = Ok db \<longrightarrow> dsn_of db = dsn))"
proof (rule postI)
  fix r ri'
  assume run: "run_state (GetConnection sql dsn dbType) ri = (r, ri')"
  show "grows dsn_of users ri ri' \<and> store_inv dsn_of users ri' \<and>
      (\<forall>d. users d (riServer ri') = users d (riServer ri)) \<and> (\<forall>db. r = Ok db \<longrightarrow> dsn_of db = dsn)"
  proof (cases "connectionCache ri dsn")
    case (Some db)
    with run assms show ?thesis
      by (auto simp: GetConnection_def store_inv_def grows_def)
  next
    case None
    obtain r0 w where op: "run_state (sql_Open sql dbType dsn) (riServer ri) = (r0, w)"
      by (cases "run_state (sql_Open sql dbType dsn) (riServer ri)")
    from open_law [OF op] have same: "\<And>d. users d w = users d (riServer ri)"
      and handle: "\<And>db. r0 = Ok db \<Longrightarrow> dsn_of db = dsn" by auto
    from run None op assms same handle show ?thesis
      by (cases r0) (auto simp: GetConnection_def on_server_def run_go_try store_inv_def grows_def split: if_splits)
  qed
qed

lemma exec_admin_grows:
  assumes "admin_statement q" and "preserves (grows dsn_of users) rest"
  shows "preserves (grows dsn_of users) (exec_then sql db q [] errtext rest)"
  unfolding exec_then_def
  by (intro preserves_go_try on_server_grows)
    (auto intro: preserves_rules assms(2) dest: admin_law [OF assms(1)])

lemma random_info_post:
  "post (createUserInfo (on_server (rand_source sql)) namespace) ri
     (\<lambda>r ri'. grows dsn_of users ri ri' \<and> (\<forall>d. users d (riServer ri') = users d (riServer ri)) \<and>
        (\<exists>info. r = Ok info \<and> generated_info namespace info))"
proof -
  let ?same = "\<lambda>ri ri' :: ('db, 'w) RelationalDatabaseImpl.
    connectionCache ri' = connectionCache ri \<and> (\<forall>d. users d (riServer ri') = users d (riServer ri))"
  have pre: "preorder_rel ?same" by (auto simp: preorder_rel_def intro!: reflpI transpI)
  have source: "preserves ?same (on_server (rand_source sql))"
    using random_law by (fastforce intro!: preservesI simp: on_server_def split: prod.splits)
  have bytes: "preserves ?same (random_bytes (on_server (rand_source sql)) n)" for n
    by (induction n) (auto simp: rand_Intn_def intro!: preserves_rules pre source)
  have str: "preserves ?same (generateRandomString (on_server (rand_source sql)) n)" for n
    by (auto simp: generateRandomString_def intro!: preserves_rules pre bytes)
  have "preserves ?same (createUserInfo (on_server (rand_source sql)) namespace)"
    unfolding createUserInfo_def Let_def by (intro preserves_rules pre str)
  then have "post (createUserInfo (on_server (rand_source sql)) namespace) ri (\<lambda>r ri'. ?same ri ri')"
    by (simp add: preserves_def)
  from post_conj [OF this createUserInfo_spec] show ?thesis
    by (rule post_mono) (auto intro: grows_same_users)
qed

lemma insert_post:
  assumes "q \<in> {mysql_insert_user, postgres_insert_user}" and "safe_info info"
  shows "post (on_server (sql_Exec sql db q (insert_args name namespace info))) ri
    (\<lambda>r ri'. grows dsn_of users ri ri' \<and>
       (r = Ok () \<longrightarrow> inserted (users (dsn_of db) (riServer ri)) (users (dsn_of db) (riServer ri')) (name, namespace) info))"
proof (rule postI)
  fix r ri'
  assume "run_state (on_server (sql_Exec sql db q (insert_args name namespace info))) ri = (r, ri')"
  then obtain w where "run_state (sql_Exec sql db q (insert_args name namespace info)) (riServer ri) = (r, w)"
    and ri': "ri' = ri\<lparr>riServer := w\<rparr>"
    by (auto simp: on_server_def split: prod.splits)
  from insert_law [OF assms(1) this(1)] ri' assms(2) show "grows dsn_of users ri ri' \<and>
      (r = Ok () \<longrightarrow> inserted (users (dsn_of db) (riServer ri)) (users (dsn_of db) (riServer ri')) (name, namespace) info)"
    by (auto intro!: grows_inserted [where key = "(name, namespace)" and info = info])
qed

lemma select_post:
  assumes "q \<in> {mysql_select_user, postgres_select_user}"
  shows "post (query_row (on_server (sql_Query_string sql db q [name, namespace])) 3) ri
    (\<lambda>r ri'. grows dsn_of users ri ri' \<and> (\<forall>d. users d (riServer ri') = users d (riServer ri)) \<and>
       (\<forall>columns. r = Ok columns \<longrightarrow>
          users (dsn_of db) (riServer ri) (name, namespace) = Some (info_of_columns columns)) \<and>
       (\<forall>err. r = Err err \<longrightarrow> own_kind err = Some SqlErrNoRows \<longrightarrow>
          users (dsn_of db) (riServer ri) (name, namespace) = None))"
proof -
  have "post (on_server (sql_Query_string sql db q [name, namespace])) ri
    (\<lambda>r ri'. grows dsn_of users ri ri' \<and> (\<forall>d. users d (riServer ri') = users d (riServer ri)) \<and>
       (\<forall>rows. r = Ok rows \<longrightarrow>
          rows = (case users (dsn_of db) (riServer ri) (name, namespace) of
                    None \<Rightarrow> [] | Some info \<Rightarrow> [row_of info])) \<and>
       (\<forall>err. r = Err err \<longrightarrow> own_kind err \<noteq> Some SqlErrNoRows))"
  proof (rule postI, goal_cases)
    case (1 r ri')
    then obtain w where "run_state (sql_Query_string sql db q [name, namespace]) (riServer ri) = (r, w)"
      and ri': "ri' = ri\<lparr>riServer := w\<rparr>"
      by (auto simp: on_server_def split: prod.splits)
    from select_law [OF assms this(1)] ri' show ?case
      by (auto intro!: grows_same_users)
  qed
  then show ?thesis
    unfolding query_row_def
    by (rule post_go_tryI)
      (auto simp: post_rules scan_first_row_def ErrNoRows_def split: option.splits)
qed

text \<open>Both flavours of the client run the same get or create once the connection is there.\<close>

lemma get_or_create_post:
  assumes "q \<in> {mysql_select_user, postgres_select_user}" and "ins \<in> {mysql_insert_user, postgres_insert_user}"
    and "store_inv dsn_of users ri" and "safe_name namespace"
  shows "post
    (go_try (query_row (on_server (sql_Query_string sql db q [name, namespace])) 3)
       (\<lambda>err. if own_kind err \<noteq> Some SqlErrNoRows then fail (wrap err)
              else go_try (createUserInfo (on_server (rand_source sql)) namespace) fail
                     (\<lambda>info. exec_then sql db ins (insert_args name namespace info) errtext (ok info)))
       (\<lambda>columns. ok (info_of_columns columns))) ri
    (\<lambda>r ri'. grows dsn_of users ri ri' \<and>
       get_or_create users (dsn_of db) name namespace (riServer ri) r (riServer ri'))"
    (is "post (go_try ?query ?handler ?found) ri ?Q")
proof (rule post_go_tryI [OF select_post [OF assms(1)]], goal_cases)
  case (1 columns t)
  then show ?case by (auto simp: post_rules get_or_create_def)
next
  case (2 err t)
  show ?case
  proof (cases "own_kind err = Some SqlErrNoRows")
    case False
    with 2 show ?thesis by (simp add: post_rules get_or_create_def)
  next
    case True
    with 2 have none: "users (dsn_of db) (riServer ri) (name, namespace) = None"
      and same: "\<And>d. users d (riServer t) = users d (riServer ri)" and g: "grows dsn_of users ri t"
      by auto
    have "post (go_try (createUserInfo (on_server (rand_source sql)) namespace) fail
        (\<lambda>info. exec_then sql db ins (insert_args name namespace info) errtext (ok info))) t ?Q"
    proof (rule post_go_tryI [OF random_info_post], goal_cases)
      case (1 info u)
      then have info: "generated_info namespace info" and u: "grows dsn_of users t u"
        and same_u: "\<And>d. users d (riServer u) = users d (riServer t)" by auto
      show ?case
        unfolding exec_then_def
      proof (rule post_go_tryI [OF insert_post [OF assms(2) generated_info_safe [OF info assms(4)]]], goal_cases)
        case (1 x v)
        then show ?case
          using none same same_u info grows_trans [OF grows_trans [OF g u]]
          by (auto simp: post_rules get_or_create_def inserted_def)
      qed (use grows_trans [OF grows_trans [OF g u]] in \<open>auto simp: post_rules get_or_create_def\<close>)
    qed auto
    with True show ?thesis by simp
  qed
next
  case (3 msg t)
  then show ?case by (simp add: get_or_create_def)
qed

lemma admin_post:
  assumes "admin_statement q"
  shows "post (on_server (sql_Exec sql db q [])) ri
    (\<lambda>r ri'. grows dsn_of users ri ri' \<and> (\<forall>d. users d (riServer ri') = users d (riServer ri)))"
proof (rule postI, goal_cases)
  case (1 r ri')
  then obtain w where "run_state (sql_Exec sql db q []) (riServer ri) = (r, w)" and ri': "ri' = ri\<lparr>riServer := w\<rparr>"
    by (auto simp: on_server_def split: prod.splits)
  from admin_law [OF assms this(1)] ri' show ?case
    by (auto intro!: grows_same_users)
qed

text \<open>
  A sequence of administrative statements leaves the tables alone; \<open>quiet\<close> programs are
  closed under it, and a quiet program after get or create keeps what that established.
\<close>

definition quiet :: "(('db, 'w) RelationalDatabaseImpl, 'a) state \<Rightarrow> bool" where
  "quiet m \<longleftrightarrow>
     preserves (\<lambda>ri ri'. grows dsn_of users ri ri' \<and>
       (\<forall>d. users d (riServer ri') = users d (riServer ri))) m"

lemma preorder_quiet:
  "preorder_rel (\<lambda>ri ri'. grows dsn_of users ri ri' \<and> (\<forall>d. users d (riServer ri') = users d (riServer ri)))"
  using preorder_grows [of dsn_of users] by (auto simp: preorder_rel_def reflp_def transp_def)

lemma quiet_ok: "quiet (ok x)" and quiet_fail: "quiet (fail err)"
  unfolding quiet_def by (intro preserves_rules preorder_quiet)+

lemma quiet_exec:
  assumes "admin_statement q" and "quiet rest"
  shows "quiet (exec_then sql db q [] errtext rest)"
  using assms admin_post [OF assms(1)]
  unfolding quiet_def exec_then_def
  by (intro preserves_rules preorder_quiet) (auto simp: preserves_def)

lemma quiet_role:
  "quiet (query_row (on_server (sql_Query_int sql db (postgres_select_role username) [])) n)"
proof -
  have "preserves (\<lambda>ri ri'. grows dsn_of users ri ri' \<and> (\<forall>d. users d (riServer ri') = users d (riServer ri)))
    (on_server (sql_Query_int sql db (postgres_select_role username) []))"
    using role_law
    by (fastforce intro!: preservesI grows_same_users simp: on_server_def split: prod.splits)
  then show ?thesis
    unfolding quiet_def query_row_def scan_first_row_def
    by (intro preserves_rules preorder_quiet)
      (auto split: list.split sum.split intro: preserves_rules preorder_quiet)
qed

lemma quiet_post:
  assumes "quiet m"
  shows "post m ri (\<lambda>r ri'. grows dsn_of users ri ri' \<and> (\<forall>d. users d (riServer ri') = users d (riServer ri)))"
  using assms by (simp add: quiet_def preserves_def)

lemma databaseInfoMySQL_post:
  assumes "store_inv dsn_of users ri" and "safe_name namespace"
  shows "post (databaseInfoMySQL sql dsn name namespace) ri
    (\<lambda>r ri'. grows dsn_of users ri ri' \<and>
       get_or_create users dsn name namespace (riServer ri) r (riServer ri'))"
    (is "post _ ri ?Q")
  unfolding databaseInfoMySQL_def
proof (rule post_go_tryI [OF GetConnection_post [OF assms(1)]], goal_cases)
  case (1 db t)
  then have t: "grows dsn_of users ri t" "store_inv dsn_of users t" "dsn_of db = dsn"
    and same: "\<And>d. users d (riServer t) = users d (riServer ri)" by auto
  show ?case
    unfolding exec_then_def [of sql db use_dbaas_controller]
  proof (rule post_go_tryI [OF admin_post [OF admin_statement.use]], goal_cases)
    case (1 x u)
    then have u: "store_inv dsn_of users u" "grows dsn_of users ri u"
      and same_u: "\<And>d. users d (riServer u) = users d (riServer ri)"
      using t same by (auto simp: grows_def)
    show ?case
      by (rule post_mono [OF get_or_create_post [OF _ _ u(1) assms(2)]])
        (use u(2) same_u t(3) in \<open>auto intro: grows_trans get_or_create_same_users\<close>)
  qed (use t grows_trans in \<open>auto simp: post_rules get_or_create_def\<close>)
qed (auto simp: post_rules get_or_create_def)

lemma databaseInfoPostgreSQL_post:
  assumes "store_inv dsn_of users ri" and "safe_name namespace"
  shows "post (databaseInfoPostgreSQL sql dsn name namespace) ri
    (\<lambda>r ri'. grows dsn_of users ri ri' \<and>
       get_or_create users dsn name namespace (riServer ri) r (riServer ri'))"
  unfolding databaseInfoPostgreSQL_def
proof (rule post_go_tryI [OF GetConnection_post [OF assms(1)]], goal_cases)
  case (1 db t)
  then have t: "grows dsn_of users ri t" "store_inv dsn_of users t" "dsn_of db = dsn"
    and same: "\<And>d. users d (riServer t) = users d (riServer ri)" by auto
  show ?case
    by (rule post_mono [OF get_or_create_post [OF _ _ t(2) assms(2)]])
      (use t same in \<open>auto intro: grows_trans get_or_create_same_users\<close>)
qed (auto simp: post_rules get_or_create_def)

lemma GetDatabaseInfo_post:
  assumes "store_inv dsn_of users ri" and "safe_name namespace"
  shows "post (GetDatabaseInfo sql dsn name namespace dbType) ri
    (\<lambda>r ri'. grows dsn_of users ri ri' \<and>
       get_or_create users dsn name namespace (riServer ri) r (riServer ri'))"
  using databaseInfoMySQL_post [OF assms] databaseInfoPostgreSQL_post [OF assms]
    preorder_grows [of dsn_of users]
  by (auto simp: GetDatabaseInfo_def post_rules get_or_create_def preorder_rel_def reflp_def)

text \<open>Creating and dropping: the administrative statements run on the recorded, safe names.\<close>

lemma create_mysql_quiet: "safe_info info \<Longrightarrow> quiet (create_mysql_database sql db dbType info)"
  unfolding create_mysql_database_def by (intro quiet_exec quiet_ok admin_statement.intros)

lemma create_mysql_value: "yields (\<lambda>i. i = info) (create_mysql_database sql db dbType info)"
  unfolding create_mysql_database_def exec_then_def by (intro yields_rules refl)

lemma quiet_go_result:
  assumes "quiet m" and "\<And>x. quiet (k x)"
  shows "quiet (go_result m k)"
  using assms unfolding quiet_def by (intro preserves_rules preorder_quiet)

lemma create_postgres_quiet:
  assumes "safe_info info" and "safe_name provider"
  shows "quiet (create_postgres_database sql db dbType provider info)"
proof -
  have create: "quiet (on_server (sql_Exec sql db (postgres_create_database (Dbname info) (Username info)) []))"
    using admin_post [OF pg_create [OF assms(1)]] by (auto simp: quiet_def preserves_def)
  have "quiet (create_postgres_owned sql db dbType provider info)"
    unfolding create_postgres_owned_def
    using create assms
    by (intro quiet_exec admin_statement.intros)
      (auto simp: quiet_def intro!: preserves_rules preorder_quiet)
  then have "quiet (create_postgres_user sql db dbType provider info n)" for n
    unfolding create_postgres_user_def
    using assms by (auto intro: quiet_exec admin_statement.intros)
  then show ?thesis
    unfolding create_postgres_database_def
    by (intro quiet_go_result quiet_role) (auto simp: quiet_fail split: sum.split)
qed

lemma create_postgres_value:
  "yields (\<lambda>i. i = info) (create_postgres_database sql db dbType provider info)"
proof -
  have "yields (\<lambda>i. i = info) (create_postgres_user sql db dbType provider info n)" for n
    unfolding create_postgres_user_def create_postgres_owned_def exec_then_def
    by (intro yields_rules refl)
  then show ?thesis
    unfolding create_postgres_database_def
    by (auto intro!: yields_rules split: sum.split)
qed

text \<open>Get or create, followed by a quiet program that returns the same credentials.\<close>

lemma then_quiet:
  assumes "grows dsn_of users ri t" and "get_or_create users dsn name namespace (riServer ri) (Ok info) (riServer t)"
    and "quiet m" and "yields (\<lambda>i. i = info) m"
  shows "post m t (\<lambda>r ri'. grows dsn_of users ri ri' \<and>
    get_or_create users dsn name namespace (riServer ri) r (riServer ri'))"
  by (rule post_mono [OF post_conj [OF quiet_post [OF assms(3)] yields_post [OF assms(4)]]])
    (use assms(1,2) in \<open>auto simp: get_or_create_def intro: grows_trans split: option.splits\<close>)

lemma info_safe_after:
  assumes "store_inv dsn_of users ri" and "grows dsn_of users ri t"
    and "get_or_create users dsn name namespace (riServer ri) (Ok info) (riServer t)"
  shows "safe_info info"
  using assms get_or_create_recorded [OF assms(3)] by (auto simp: grows_def store_inv_def)

lemma CreateDatabase_post:
  assumes "store_inv dsn_of users ri" and "safe_name namespace" and "safe_name provider"
  shows "post (CreateDatabase sql dsn name namespace dbType provider) ri
    (\<lambda>r ri'. grows dsn_of users ri ri' \<and>
       get_or_create users dsn name namespace (riServer ri) r (riServer ri'))"
  unfolding CreateDatabase_def
proof (rule post_go_tryI [OF GetConnection_post [OF assms(1)]], goal_cases)
  case (1 db t)
  then have t: "grows dsn_of users ri t" "store_inv dsn_of users t"
    and same: "\<And>d. users d (riServer t) = users d (riServer ri)" by auto
  have whole: "post (go_try m (\<lambda>err. fail (wrap err)) k) t
      (\<lambda>r ri'. grows dsn_of users ri ri' \<and>
         get_or_create users dsn name namespace (riServer ri) r (riServer ri'))"
    if m: "post m t (\<lambda>r ri'. grows dsn_of users t ri' \<and>
         get_or_create users dsn name namespace (riServer t) r (riServer ri'))"
      and k: "\<And>info. safe_info info \<Longrightarrow> quiet (k info)"
      and v: "\<And>info. yields (\<lambda>i. i = info) (k info)"
    for m :: "(('db, 'w) RelationalDatabaseImpl, RelationalDatabaseInfo) go" and wrap k
  proof (rule post_go_tryI [OF m], goal_cases)
    case (1 info u)
    then have g: "grows dsn_of users ri u"
      and gc: "get_or_create users dsn name namespace (riServer ri) (Ok info) (riServer u)"
      using t same by (auto intro: grows_trans get_or_create_same_users)
    from k [OF info_safe_after [OF assms(1) g gc]] show ?case
      by (rule then_quiet [OF g gc _ v])
  qed (use t in \<open>auto simp: post_rules get_or_create_not_Ok intro: grows_trans\<close>)
  show ?case
  proof (cases "dbType = mysql \<or> dbType = postgres")
    case True
    with t(2) assms(2,3) show ?thesis
      by (auto intro: whole databaseInfoMySQL_post databaseInfoPostgreSQL_post create_mysql_quiet
          create_mysql_value create_postgres_quiet create_postgres_value simp del: append.simps)
  next
    case False
    with t(1) show ?thesis by (simp add: post_rules get_or_create_not_Ok)
  qed
qed (auto simp: post_rules get_or_create_not_Ok)

lemma drop_statements_quiet:
  assumes "safe_info info"
  shows "quiet
      (exec_then sql db (mysql_drop_database (Dbname info)) [] e1
      (exec_then sql db (mysql_drop_user (Username info)) [] e2
      (exec_then sql db flush_privileges [] e3 (ok ()))))"
    and "quiet
      (exec_then sql db (postgres_disconnect (Dbname info)) [] e4
      (exec_then sql db (postgres_drop_database (Dbname info)) [] e5
      (exec_then sql db (postgres_drop_user (Username info)) [] e6 (ok ()))))"
  using assms by (auto intro: quiet_exec quiet_ok admin_statement.intros)

text \<open>
  Dropping looks the credentials up by the same get or create: the row stays, and where there
  was none a row is recorded.
\<close>

lemma DropDatabase_post:
  assumes "store_inv dsn_of users ri" and "safe_name namespace"
  shows "post (DropDatabase sql dsn name namespace dbType) ri
    (\<lambda>r ri'. grows dsn_of users ri ri' \<and>
       (r = Ok () \<longrightarrow> (\<exists>info. get_or_create users dsn name namespace (riServer ri) (Ok info) (riServer ri'))))"
  unfolding DropDatabase_def
proof (rule post_go_tryI [OF GetConnection_post [OF assms(1)]], goal_cases)
  case (1 db t)
  then have t: "grows dsn_of users ri t" "store_inv dsn_of users t"
    and same: "\<And>d. users d (riServer t) = users d (riServer ri)" by auto
  have whole: "post (go_try m (\<lambda>err. fail (wrap err)) k) t
      (\<lambda>r ri'. grows dsn_of users ri ri' \<and>
         (r = Ok () \<longrightarrow> (\<exists>info. get_or_create users dsn name namespace (riServer ri) (Ok info) (riServer ri'))))"
    if m: "post m t (\<lambda>r ri'. grows dsn_of users t ri' \<and>
         get_or_create users dsn name namespace (riServer t) r (riServer ri'))"
      and k: "\<And>info. safe_info info \<Longrightarrow> quiet (k info)"
    for m :: "(('db, 'w) RelationalDatabaseImpl, RelationalDatabaseInfo) go" and wrap
      and k :: "_ \<Rightarrow> (('db, 'w) RelationalDatabaseImpl, unit) go"
  proof (rule post_go_tryI [OF m], goal_cases)
    case (1 info u)
    then have g: "grows dsn_of users ri u"
      and gc: "get_or_create users dsn name namespace (riServer ri) (Ok info) (riServer u)"
      using t same by (auto intro: grows_trans get_or_create_same_users)
    from k [OF info_safe_after [OF assms(1) g gc]] show ?case
      by (rule post_mono [OF quiet_post]) (use g gc in \<open>auto intro: grows_trans intro!: exI [of _ info] elim: get_or_create_same_users\<close>)
  qed (use t in \<open>auto simp: post_rules intro: grows_trans\<close>)
  show ?case
  proof (cases "dbType = mysql \<or> dbType = postgres")
    case True
    with t(2) assms(2) show ?thesis
      by (auto intro: whole databaseInfoMySQL_post databaseInfoPostgreSQL_post drop_statements_quiet
          simp del: append.simps)
  next
    case False
    with t(1) show ?thesis by (simp add: post_rules)
  qed
qed (auto simp: post_rules)

text \<open>
  The operations that only look, or set the server up: after the connection they make calls
  that leave the users tables alone.
\<close>

lemma query_row_grows:
  assumes "\<And>w r w'. run_state query w = (r, w') \<Longrightarrow> \<forall>d. users d w' = users d w"
  shows "preserves (grows dsn_of users) (query_row (on_server query) n)"
  unfolding query_row_def scan_first_row_def using on_server_grows [OF assms]
  by (intro preserves_rules preorder_grows)
    (auto split: list.split sum.split intro: preserves_rules preorder_grows)

lemma connected_grows:
  assumes "store_inv dsn_of users ri" and "\<And>db. preserves (grows dsn_of users) (k db)"
  shows "post (go_try (GetConnection sql dsn dbType) (\<lambda>err. fail (f err)) k) ri (\<lambda>r ri'. grows dsn_of users ri ri')"
proof (rule post_go_tryI [OF GetConnection_post [OF assms(1)]], goal_cases)
  case (1 db t)
  from assms(2) have "post (k db) t (\<lambda>r ri'. grows dsn_of users t ri')" by (simp add: preserves_def)
  with 1 show ?case by (auto elim: post_mono intro: grows_trans)
qed (auto simp: post_rules)

lemma Ping_grows: "store_inv dsn_of users ri \<Longrightarrow> post (Ping sql dsn dbType) ri (\<lambda>r ri'. grows dsn_of users ri ri')"
  unfolding Ping_def
  by (rule connected_grows, assumption)
    (intro preserves_rules on_server_grows preorder_grows; erule ping_law)

lemma Version_grows: "store_inv dsn_of users ri \<Longrightarrow> post (Version sql dsn dbType) ri (\<lambda>r ri'. grows dsn_of users ri ri')"
  unfolding Version_def
  by (rule connected_grows, assumption)
    (intro preserves_rules query_row_grows preorder_grows; erule version_law)

lemma Load_grows: "store_inv dsn_of users ri \<Longrightarrow> post (Load sql dsn dbType) ri (\<lambda>r ri'. grows dsn_of users ri ri')"
  unfolding Load_def Let_def
  by (rule connected_grows, assumption)
    (intro preserves_rules query_row_grows preorder_grows; erule load_law [rotated]; simp)

lemma Initialize_grows:
  "store_inv dsn_of users ri \<Longrightarrow> post (Initialize sql dsn dbType) ri (\<lambda>r ri'. grows dsn_of users ri ri')"
proof -
  have admin: "admin_statement q \<Longrightarrow> preserves (grows dsn_of users) (on_server (sql_Exec sql db q []))" for q db
    using admin_law by (intro on_server_grows) blast
  show "store_inv dsn_of users ri \<Longrightarrow> ?thesis"
    unfolding Initialize_def exec_then_def
    by (rule connected_grows, assumption) (intro preserves_rules admin preorder_grows admin_statement.intros)
qed

lemma grows_store: "store_inv dsn_of users s \<Longrightarrow> grows dsn_of users s t \<Longrightarrow>
   store_inv dsn_of users t \<and> creds_kept (impl_creds users) s t"
  by (auto simp: grows_def creds_kept_def impl_creds_def)

text \<open>
  Recording given credentials: when a row of the table has the name and namespace, the
  username or the database name already, nothing is recorded and no error is returned.
\<close>

lemma insert_ignore_post:
  assumes "q \<in> {mysql_insert_ignore_user, postgres_insert_nothing_user}" and "safe_info info"
  shows "post (on_server (sql_Exec sql db q (insert_args name namespace info))) ri
    (\<lambda>r ri'. grows dsn_of users ri ri' \<and>
       set_absent users (dsn_of db) name namespace info (riServer ri) r (riServer ri'))"
proof (rule postI, goal_cases)
  case (1 r ri')
  then obtain w where "run_state (sql_Exec sql db q (insert_args name namespace info)) (riServer ri) = (r, w)"
    and ri': "ri' = ri\<lparr>riServer := w\<rparr>"
    by (auto simp: on_server_def split: prod.splits)
  note law = insert_ignore_law [OF assms(1) this(1)]
  have "grows dsn_of users ri ri'"
    by (rule grows_inserted [where key = "(name, namespace)" and info = info])
      (use law ri' assms(2) in auto)
  with law ri' show ?case by (simp add: set_absent_def)
qed

lemma SetDatabaseInfo_post:
  assumes "store_inv dsn_of users ri" and "safe_info info"
  shows "post (SetDatabaseInfo sql dsn name namespace dbType info) ri
    (\<lambda>r ri'. grows dsn_of users ri ri' \<and>
       (dbType = mysql \<or> dbType = postgres \<longrightarrow>
          set_absent users dsn name namespace info (riServer ri) r (riServer ri')))"
proof -
  let ?Q = "\<lambda>r ri'. grows dsn_of users ri ri' \<and>
    set_absent users dsn name namespace info (riServer ri) r (riServer ri')"
  have ins: "post (exec_then sql db q (insert_args name namespace info) errtext (ok ())) t ?Q"
    if "q \<in> {mysql_insert_ignore_user, postgres_insert_nothing_user}" and t: "grows dsn_of users ri t"
      "\<forall>d. users d (riServer t) = users d (riServer ri)" and db: "dsn_of db = dsn" for q db t errtext
    unfolding exec_then_def
    by (rule post_go_tryI [OF insert_ignore_post [OF that(1) assms(2)]])
      (use t db in \<open>auto simp: post_rules set_absent_not_Ok intro: grows_trans set_absent_same_users\<close>)
  have "post (insertUserInfoIntoMysql sql dsn name namespace info) ri ?Q"
    unfolding insertUserInfoIntoMysql_def
  proof (rule post_go_tryI [OF GetConnection_post [OF assms(1)]], goal_cases)
    case (1 db t)
    show ?case
      unfolding exec_then_def [of sql db use_dbaas_controller]
    proof (rule post_go_tryI [OF admin_post [OF admin_statement.use]], goal_cases)
      case (1 x u)
      with \<open>grows dsn_of users ri t \<and> _\<close> show ?case
        by (intro ins) (auto elim: grows_trans)
    qed (use 1 in \<open>auto simp: post_rules set_absent_not_Ok intro: grows_trans\<close>)
  qed (auto simp: post_rules set_absent_not_Ok)
  moreover have "post (insertUserInfoIntoPostgreSQL sql dsn name namespace info) ri ?Q"
    unfolding insertUserInfoIntoPostgreSQL_def
  proof (rule post_go_tryI [OF GetConnection_post [OF assms(1)]], goal_cases)
    case (1 db t)
    then show ?case by (intro ins) auto
  qed (auto simp: post_rules set_absent_not_Ok)
  moreover have "grows dsn_of users ri ri"
    using preorder_grows by (auto simp: preorder_rel_def reflp_def)
  ultimately show ?thesis
    by (auto simp: SetDatabaseInfo_def post_rules)
qed

text \<open>Every method is a step that keeps the invariant and the recorded credentials.\<close>

lemma client_step_grows:
  assumes "client_step (RelationalDatabaseImpl_interface sql) safe_name safe_info s t"
    and "store_inv dsn_of users s"
  shows "grows dsn_of users s t"
  using assms
proof (cases rule: client_step.cases)
  case (ping dsn dbType r)
  then show ?thesis
    using Ping_grows [OF assms(2)] by (auto simp: RelationalDatabaseImpl_interface_def dest: postD)
next
  case (version dsn dbType r)
  then show ?thesis
    using Version_grows [OF assms(2)] by (auto simp: RelationalDatabaseImpl_interface_def dest: postD)
next
  case (load dsn dbType r)
  then show ?thesis
    using Load_grows [OF assms(2)] by (auto simp: RelationalDatabaseImpl_interface_def dest: postD)
next
  case (initialize dsn dbType r)
  then show ?thesis
    using Initialize_grows [OF assms(2)] by (auto simp: RelationalDatabaseImpl_interface_def dest: postD)
next
  case (create dsn name namespace dbType user r)
  then show ?thesis
    using CreateDatabase_post [OF assms(2) create(2,3)]
    by (auto simp: RelationalDatabaseImpl_interface_def dest: postD)
next
  case (drop dsn name namespace dbType r)
  then show ?thesis
    using DropDatabase_post [OF assms(2) drop(2)]
    by (auto simp: RelationalDatabaseImpl_interface_def dest: postD)
next
  case (get dsn name namespace dbType r)
  then show ?thesis
    using GetDatabaseInfo_post [OF assms(2) get(2)]
    by (auto simp: RelationalDatabaseImpl_interface_def dest: postD)
next
  case (set dsn name namespace dbType info r)
  then show ?thesis
    using postD [OF SetDatabaseInfo_post [OF assms(2) set(2)]]
    by (simp add: RelationalDatabaseImpl_interface_def)
qed

end

text \<open>The implementation on any such server keeps the contract of the interface.\<close>

sublocale sql_server \<subseteq> store: credential_store
  "RelationalDatabaseImpl_interface sql" "impl_creds users" "store_inv dsn_of users" safe_name safe_info
proof (unfold_locales, goal_cases)
  case (1 s t)
  then show ?case using client_step_grows [OF 1] by (intro grows_store)
next
  case (2 s dsn name namespace dbType user info t)
  then have "run_state (CreateDatabase sql dsn name namespace dbType user) s = (Ok info, t)"
    by (simp add: RelationalDatabaseImpl_interface_def)
  from postD [OF CreateDatabase_post [OF 2(1-3)] this] show ?case
    by (auto simp: impl_creds_def dest: get_or_create_recorded)
next
  case (3 s dsn name namespace dbType info t)
  then have "run_state (GetDatabaseInfo sql dsn name namespace dbType) s = (Ok info, t)"
    by (simp add: RelationalDatabaseImpl_interface_def)
  from postD [OF GetDatabaseInfo_post [OF 3(1,2)] this] show ?case
    by (auto simp: impl_creds_def dest: get_or_create_recorded)
qed

context sql_server
begin

lemma is_credential_store:
  "credential_store (RelationalDatabaseImpl_interface sql) (impl_creds users) (store_inv dsn_of users) safe_name safe_info"
  by (rule store.credential_store_axioms)

end

end
