(* ===== verification/MemSQL.thy ===== *)
theory MemSQL
  imports SqlServer
begin

section \<open>A server held in memory\<close>

text \<open>
  An executable server that satisfies the laws of the locale \<open>sql_server\<close>: for every data
  source name a users table with the \<open>UNIQUE\<close> constraints of the statement that creates it,
  the databases and the accounts, and the log of the statements executed. It recognises the
  statements of the client and nothing more. It shows that the laws hold together, and
  witnesses run the client on it.
\<close>

record mem_db =
  memRows :: "((string \<times> string) \<times> RelationalDatabaseInfo) list"
  memDatabases :: "string list"
  memAccounts :: "string list"
  memLog :: "string list"
  memPing :: "go_error option"
  memSizes :: "rat list"

record mem_world =
  memServers :: "string \<Rightarrow> mem_db"
  memRandom :: nat

definition mem_db_empty :: mem_db where
  "mem_db_empty =
     \<lparr>memRows = [], memDatabases = [], memAccounts = [], memLog = [], memPing = None, memSizes = []\<rparr>"

definition mem_world_empty :: mem_world where
  "mem_world_empty = \<lparr>memServers = (\<lambda>d. mem_db_empty), memRandom = 0\<rparr>"

definition mem_conflicts :: "mem_db \<Rightarrow> string \<times> string \<Rightarrow> RelationalDatabaseInfo \<Rightarrow> bool" where
  "mem_conflicts s key info \<longleftrightarrow>
     list_ex (\<lambda>(k, _). k = key \<or>
       (case map_of (memRows s) k of
          None \<Rightarrow> False
        | Some row \<Rightarrow> Username row = Username info \<or> Dbname row = Dbname info)) (memRows s)"

definition mem_insert :: "mem_db \<Rightarrow> string \<times> string \<Rightarrow> RelationalDatabaseInfo \<Rightarrow> mem_db" where
  "mem_insert s key info = s\<lparr>memRows := (key, info) # memRows s\<rparr>"

text \<open>The name between the end of a prefix and a closing quote.\<close>

definition named_after :: "string \<Rightarrow> char \<Rightarrow> string \<Rightarrow> string option" where
  "named_after pre quote q =
     (if prefix pre q then Some (takeWhile (\<lambda>c. c \<noteq> quote) (drop (length pre) q)) else None)"

text \<open>What an administrative statement does to the databases and the accounts.\<close>

definition mem_add_database :: "mem_db \<Rightarrow> string \<Rightarrow> unit outcome \<times> mem_db" where
  "mem_add_database s d = (Ok (), s\<lparr>memDatabases := List.insert d (memDatabases s)\<rparr>)"

definition mem_new_database :: "mem_db \<Rightarrow> string \<Rightarrow> unit outcome \<times> mem_db" where
  "mem_new_database s d =
     (if d \<in> set (memDatabases s)
      then (Err (BaseError (PqError ''42P04'') ''pq: database already exists''), s)
      else mem_add_database s d)"

definition mem_drop_database :: "mem_db \<Rightarrow> string \<Rightarrow> unit outcome \<times> mem_db" where
  "mem_drop_database s d = (Ok (), s\<lparr>memDatabases := removeAll d (memDatabases s)\<rparr>)"

definition mem_add_account :: "mem_db \<Rightarrow> string \<Rightarrow> unit outcome \<times> mem_db" where
  "mem_add_account s u = (Ok (), s\<lparr>memAccounts := List.insert u (memAccounts s)\<rparr>)"

definition mem_drop_account :: "mem_db \<Rightarrow> string \<Rightarrow> unit outcome \<times> mem_db" where
  "mem_drop_account s u = (Ok (), s\<lparr>memAccounts := removeAll u (memAccounts s)\<rparr>)"

definition mem_actions :: "(string \<times> char \<times> (mem_db \<Rightarrow> string \<Rightarrow> unit outcome \<times> mem_db)) list" where
  "mem_actions =
     [(''CREATE DATABASE IF NOT EXISTS `'', CHR 0x60, mem_add_database),
      (''CREATE USER IF NOT EXISTS '' @ [CHR 0x27], CHR 0x27, mem_add_account),
      (''DROP DATABASE IF EXISTS `'', CHR 0x60, mem_drop_database),
      (''DROP USER IF EXISTS '' @ [CHR 0x27], CHR 0x27, mem_drop_account),
      (''CREATE DATABASE '' @ [CHR 0x22], CHR 0x22, mem_new_database),
      (''CREATE USER '' @ [CHR 0x22], CHR 0x22, mem_add_account),
      (''DROP DATABASE IF EXISTS '' @ [CHR 0x22], CHR 0x22, mem_drop_database),
      (''DROP USER IF EXISTS '' @ [CHR 0x22], CHR 0x22, mem_drop_account)]"

fun mem_run_actions ::
    "(string \<times> char \<times> (mem_db \<Rightarrow> string \<Rightarrow> unit outcome \<times> mem_db)) list \<Rightarrow>
      mem_db \<Rightarrow> string \<Rightarrow> unit outcome \<times> mem_db" where
  "mem_run_actions [] s q = (Ok (), s)"
| "mem_run_actions ((pre, quote, action) # actions) s q =
     (case named_after pre quote q of
        Some n \<Rightarrow> action s n
      | None \<Rightarrow> mem_run_actions actions s q)"

definition mem_exec_db :: "mem_db \<Rightarrow> string \<Rightarrow> string list \<Rightarrow> unit outcome \<times> mem_db" where
  "mem_exec_db s q args =
     (if q = mysql_insert_user \<or> q = postgres_insert_user then
        (case args of
           [name, namespace, username, password, dbname] \<Rightarrow>
             (let info = \<lparr>Username = username, Password = password, Dbname = dbname\<rparr> in
              if mem_conflicts s (name, namespace) info
              then (Err (BaseError (MySQLError 1062) ''Duplicate entry''), s)
              else (Ok (), mem_insert s (name, namespace) info))
         | _ \<Rightarrow> (Err (errors_New ''wrong number of arguments''), s))
      else if q = mysql_insert_ignore_user \<or> q = postgres_insert_nothing_user then
        (case args of
           [name, namespace, username, password, dbname] \<Rightarrow>
             (let info = \<lparr>Username = username, Password = password, Dbname = dbname\<rparr> in
              if mem_conflicts s (name, namespace) info then (Ok (), s)
              else (Ok (), mem_insert s (name, namespace) info))
         | _ \<Rightarrow> (Err (errors_New ''wrong number of arguments''), s))
      else mem_run_actions mem_actions s q)"

definition mem_exec :: "string \<Rightarrow> string \<Rightarrow> string list \<Rightarrow> (mem_world, unit) go" where
  "mem_exec d q args =
     State (\<lambda>w. case mem_exec_db (memServers w d) q args of
       (r, s) \<Rightarrow> (r, w\<lparr>memServers := (memServers w)(d := s\<lparr>memLog := memLog s @ [q]\<rparr>)\<rparr>))"

definition mem_query :: "string \<Rightarrow> string \<Rightarrow> string list \<Rightarrow> (mem_world, (go_error + string) list list) go" where
  "mem_query d q args =
     do {
       w \<leftarrow> get_state;
       (if q = mysql_select_user \<or> q = postgres_select_user then
          (case args of
             [name, namespace] \<Rightarrow>
               ok (case map_of (memRows (memServers w d)) (name, namespace) of
                     None \<Rightarrow> [] | Some info \<Rightarrow> [row_of info])
           | _ \<Rightarrow> fail (errors_New ''wrong number of arguments''))
        else ok [[Inr ''8.0.36'']])
     }"

definition mem_role :: "string \<Rightarrow> string \<Rightarrow> string list \<Rightarrow> (mem_world, (go_error + int) list list) go" where
  "mem_role d q args =
     do {
       w \<leftarrow> get_state;
       (case named_after (''SELECT 1 FROM pg_roles WHERE rolname='' @ [CHR 0x27]) CHR 0x27 q of
          None \<Rightarrow> ok []
        | Some u \<Rightarrow> ok (if u \<in> set (memAccounts (memServers w d)) then [[Inr 1]] else []))
     }"

definition mem_sizes :: "string \<Rightarrow> string \<Rightarrow> string list \<Rightarrow> (mem_world, (go_error + rat) list list) go" where
  "mem_sizes d q args =
     do { w \<leftarrow> get_state; ok (map (\<lambda>x. [Inr x]) (memSizes (memServers w d))) }"

definition mem_ping :: "string \<Rightarrow> (mem_world, unit) go" where
  "mem_ping d =
     do {
       w \<leftarrow> get_state;
       (case memPing (memServers w d) of None \<Rightarrow> ok () | Some err \<Rightarrow> fail err)
     }"

definition mem_random :: "(mem_world, nat) state" where
  "mem_random = State (\<lambda>w. (memRandom w, w\<lparr>memRandom := memRandom w + 7\<rparr>))"

text \<open>A connection handle is its data source name.\<close>

definition mem_sql :: "(string, mem_world) sql" where
  "mem_sql =
     \<lparr>sql_Open = (\<lambda>dbType dsn. ok dsn), sql_PingContext = mem_ping, sql_Exec = mem_exec,
      sql_Query_string = mem_query, sql_Query_int = mem_role, sql_Query_float = mem_sizes,
      rand_source = mem_random\<rparr>"

definition mem_users :: "string \<Rightarrow> mem_world \<Rightarrow> users_table" where
  "mem_users d w = map_of (memRows (memServers w d))"

lemma bex_dom_iff:
  "(\<exists>k \<in> dom m. k = key \<or> (case m k of None \<Rightarrow> False | Some row \<Rightarrow> Q row)) \<longleftrightarrow>
     (\<exists>k row. m k = Some row \<and> (k = key \<or> Q row))"
proof
  assume "\<exists>k \<in> dom m. k = key \<or> (case m k of None \<Rightarrow> False | Some row \<Rightarrow> Q row)"
  then obtain k row where "m k = Some row" "k = key \<or> (case m k of None \<Rightarrow> False | Some row \<Rightarrow> Q row)"
    by (blast dest: domD)
  then show "\<exists>k row. m k = Some row \<and> (k = key \<or> Q row)" by (intro exI) simp
next
  assume "\<exists>k row. m k = Some row \<and> (k = key \<or> Q row)"
  then obtain k row where "m k = Some row" "k = key \<or> Q row" by blast
  then show "\<exists>k \<in> dom m. k = key \<or> (case m k of None \<Rightarrow> False | Some row \<Rightarrow> Q row)"
    by (intro bexI [of _ k]) (simp_all add: domI)
qed

lemma mem_conflicts_iff:
  "mem_conflicts s key info \<longleftrightarrow>
     (\<exists>k row. map_of (memRows s) k = Some row \<and>
        (k = key \<or> Username row = Username info \<or> Dbname row = Dbname info))"
  unfolding bex_dom_iff [symmetric] dom_map_of_conv_image_fst
  by (simp add: mem_conflicts_def list_ex_iff split_beta)

lemma conflicts_mem: "conflicts (map_of (memRows s)) key info \<longleftrightarrow> mem_conflicts s key info"
  unfolding conflicts_def mem_conflicts_iff by blast

lemma mem_conflicts_none: "\<not> mem_conflicts s key info \<Longrightarrow> map_of (memRows s) key = None"
  by (simp flip: conflicts_mem add: conflicts_def)


text \<open>An administrative statement is none of those on the users table, and leaves its rows alone.\<close>

lemma admin_statement_not_insert:
  "admin_statement q \<Longrightarrow>
     q \<noteq> mysql_insert_user \<and> q \<noteq> postgres_insert_user \<and>
     q \<noteq> mysql_insert_ignore_user \<and> q \<noteq> postgres_insert_nothing_user"
  unfolding mysql_insert_user_def postgres_insert_user_def mysql_insert_ignore_user_def
    postgres_insert_nothing_user_def
  by (induction rule: admin_statement.induct)
    (simp_all add: mysql_create_controller_database_def mysql_create_users_table_def postgres_create_schema_def
      postgres_create_users_table_def text_lines_def use_dbaas_controller_def flush_privileges_def mysql_create_database_def
      mysql_create_user_def mysql_grant_def mysql_drop_database_def mysql_drop_user_def
      postgres_create_user_def postgres_grant_def postgres_create_database_def
      postgres_disconnect_def postgres_drop_database_def postgres_drop_user_def)

lemma insert_texts_distinct:
  "mysql_insert_user \<noteq> mysql_insert_ignore_user" "mysql_insert_user \<noteq> postgres_insert_nothing_user"
  "postgres_insert_user \<noteq> mysql_insert_ignore_user" "postgres_insert_user \<noteq> postgres_insert_nothing_user"
  by (simp_all add: mysql_insert_user_def mysql_insert_ignore_user_def postgres_insert_user_def
      postgres_insert_nothing_user_def)

lemma mem_run_actions_rows:
  assumes "\<And>pre quote action s n. (pre, quote, action) \<in> set actions \<Longrightarrow> memRows (snd (action s n)) = memRows s"
  shows "memRows (snd (mem_run_actions actions s q)) = memRows s"
  using assms
proof (induction actions s q rule: mem_run_actions.induct)
  case (2 pre quote action actions s q)
  have "memRows (snd (action s n)) = memRows s" for n by (rule "2.prems" [of pre quote]) simp
  moreover have "named_after pre quote q = None \<Longrightarrow> memRows (snd (mem_run_actions actions s q)) = memRows s"
    by (rule "2.IH") (auto intro: "2.prems")
  ultimately show ?case by (simp split: option.split)
qed simp

lemma mem_actions_rows: "memRows (snd (mem_run_actions mem_actions s q)) = memRows s"
  by (rule mem_run_actions_rows)
    (auto simp: mem_actions_def mem_add_database_def mem_new_database_def mem_drop_database_def
      mem_add_account_def mem_drop_account_def)

lemma mem_exec_other_rows:
  assumes "q \<notin> {mysql_insert_user, postgres_insert_user, mysql_insert_ignore_user, postgres_insert_nothing_user}"
    and "run_state (mem_exec d q args) w = (r, w')"
  shows "mem_users x w' = mem_users x w"
  using assms mem_actions_rows [of "memServers w d" q]
  by (auto simp: mem_exec_def mem_exec_db_def mem_users_def split: prod.splits)

lemma mem_users_insert:
  assumes "\<not> mem_conflicts (memServers w d) key info"
    and "w' = w\<lparr>memServers := (memServers w)(d := (mem_insert (memServers w d) key info)\<lparr>memLog := l\<rparr>)\<rparr>"
  shows "inserted (mem_users d w) (mem_users d w') key info"
    and "x \<noteq> d \<Longrightarrow> mem_users x w' = mem_users x w"
  using assms mem_conflicts_none [OF assms(1)]
  by (auto simp: mem_users_def inserted_def mem_insert_def)

lemma mem_insert_law:
  assumes "q \<in> {mysql_insert_user, postgres_insert_user}"
    and "run_state (mem_exec d q (insert_args name namespace info)) w = (r, w')"
  shows "(\<forall>x. mem_users x w' = mem_users x w \<or> inserted (mem_users x w) (mem_users x w') (name, namespace) info) \<and>
    (r = Ok () \<longrightarrow> inserted (mem_users d w) (mem_users d w') (name, namespace) info)"
proof (cases "mem_conflicts (memServers w d) (name, namespace) info")
  case True
  with assms have "r \<noteq> Ok ()" and "mem_users x w' = mem_users x w" for x
    by (auto simp: mem_exec_def mem_exec_db_def insert_args_def mem_users_def Let_def)
  then show ?thesis by simp
next
  case False
  with assms have w': "w' = w\<lparr>memServers := (memServers w)(d := (mem_insert (memServers w d) (name, namespace) info)
      \<lparr>memLog := memLog (memServers w d) @ [q]\<rparr>)\<rparr>"
    by (auto simp: mem_exec_def mem_exec_db_def insert_args_def mem_insert_def Let_def)
  with mem_users_insert [OF False w'] show ?thesis by metis
qed

lemma mem_insert_ignore_law:
  assumes "q \<in> {mysql_insert_ignore_user, postgres_insert_nothing_user}"
    and "run_state (mem_exec d q (insert_args name namespace info)) w = (r, w')"
  shows "(\<forall>x. mem_users x w' = mem_users x w \<or> inserted (mem_users x w) (mem_users x w') (name, namespace) info) \<and>
    (r = Ok () \<longrightarrow>
       (if conflicts (mem_users d w) (name, namespace) info then mem_users d w' = mem_users d w
        else inserted (mem_users d w) (mem_users d w') (name, namespace) info))"
proof (cases "mem_conflicts (memServers w d) (name, namespace) info")
  case True
  with assms have "mem_users x w' = mem_users x w" for x
    using insert_texts_distinct
    by (auto simp: mem_exec_def mem_exec_db_def insert_args_def mem_users_def Let_def)
  with True show ?thesis by (simp add: mem_users_def conflicts_mem)
next
  case False
  with assms have w': "w' = w\<lparr>memServers := (memServers w)(d := (mem_insert (memServers w d) (name, namespace) info)
      \<lparr>memLog := memLog (memServers w d) @ [q]\<rparr>)\<rparr>"
    using insert_texts_distinct
    by (auto simp: mem_exec_def mem_exec_db_def insert_args_def mem_insert_def Let_def)
  with mem_users_insert [OF False w'] False show ?thesis
    by (metis conflicts_mem mem_users_def)
qed

lemma mem_select_law:
  assumes "q \<in> {mysql_select_user, postgres_select_user}"
    and "run_state (mem_query d q [name, namespace]) w = (r, w')"
  shows "w' = w \<and>
    r = Ok (case mem_users d w (name, namespace) of None \<Rightarrow> [] | Some info \<Rightarrow> [row_of info])"
  using assms by (auto simp: mem_query_def mem_users_def)

interpretation mem: sql_server mem_sql "\<lambda>d. d" mem_users
proof (unfold_locales, goal_cases)
  case (1 dbType dsn w r w')
  then show ?case by (auto simp: mem_sql_def)
next
  case (2 db w r w')
  then show ?case by (auto simp: mem_sql_def mem_ping_def split: option.splits)
next
  case (3 q db name namespace w r w')
  then show ?case using mem_select_law [of q db name namespace w r w'] by (auto simp: mem_sql_def)
next
  case (4 q db name namespace info w r w')
  then show ?case using mem_insert_law [of q db name namespace info w r w'] by (simp add: mem_sql_def)
next
  case (5 q db name namespace info w r w')
  then show ?case using mem_insert_ignore_law [of q db name namespace info w r w'] by (simp add: mem_sql_def)
next
  case (6 q db w r w')
  with admin_statement_not_insert [OF 6(1)] show ?case
    using mem_exec_other_rows [of q db "[]" w r w'] by (simp add: mem_sql_def)
next
  case (7 db username w r w')
  then show ?case by (auto simp: mem_sql_def mem_role_def split: option.splits)
next
  case (8 db w r w')
  then show ?case
    by (auto simp: mem_sql_def mem_query_def split: list.splits if_splits)
next
  case (9 q db w r w')
  then show ?case by (auto simp: mem_sql_def mem_sizes_def)
next
  case (10 w n w')
  then show ?case by (auto simp: mem_sql_def mem_random_def mem_users_def)
qed

subsection \<open>The client on the server in memory\<close>

text \<open>
  Runs of the client on a server whose table of one data source is known: the connection is
  made, the statements succeed, and the table changes as recorded. They discharge the
  hypotheses of the properties at concrete inputs.
\<close>

definition mem_ready ::
    "string \<Rightarrow> ((string \<times> string) \<times> RelationalDatabaseInfo) list \<Rightarrow>
      (string, mem_world) RelationalDatabaseImpl \<Rightarrow> bool" where
  "mem_ready dsn rows ri \<longleftrightarrow>
     (connectionCache ri dsn = None \<or> connectionCache ri dsn = Some dsn) \<and>
     memRows (memServers (riServer ri) dsn) = rows"

definition mem_start :: "(string, mem_world) RelationalDatabaseImpl" where
  "mem_start = New mem_world_empty"

lemma mem_ready_start: "mem_ready dsn [] mem_start"
  by (simp add: mem_start_def mem_ready_def New_def mem_world_empty_def mem_db_empty_def)

lemma store_inv_start: "store_inv (\<lambda>d. d) mem_users mem_start"
  by (simp add: mem_start_def store_inv_def New_def mem_world_empty_def mem_users_def mem_db_empty_def)

lemma mem_users_start [simp]: "mem_users dsn (riServer mem_start) = Map.empty"
  by (simp add: mem_start_def New_def mem_world_empty_def mem_users_def mem_db_empty_def)

lemma mem_connect:
  "mem_ready dsn rows ri \<Longrightarrow>
     succeeds (GetConnection mem_sql dsn dbType) ri (\<lambda>db ri'. db = dsn \<and> mem_ready dsn rows ri')"
  by (auto simp: succeeds_def post_def GetConnection_def mem_ready_def mem_sql_def on_server_def run_go_try
      split: option.split)

definition mem_plain :: "string \<Rightarrow> bool" where
  "mem_plain q \<longleftrightarrow>
     q \<notin> {mysql_insert_user, postgres_insert_user, mysql_insert_ignore_user, postgres_insert_nothing_user} \<and>
     \<not> prefix (''CREATE DATABASE '' @ [CHR 0x22]) q"

lemma mem_plain_actions:
  assumes "mem_plain q"
  shows "fst (mem_run_actions mem_actions s q) = Ok ()"
  using assms
  by (simp add: mem_plain_def mem_actions_def named_after_def mem_add_database_def mem_drop_database_def
      mem_add_account_def mem_drop_account_def del: append.simps)

lemma mem_exec_plain:
  assumes "mem_plain q" and "mem_ready dsn rows ri"
  shows "succeeds (on_server (sql_Exec mem_sql dsn q [])) ri (\<lambda>_. mem_ready dsn rows)"
  using assms mem_plain_actions [OF assms(1), of "memServers (riServer ri) dsn"]
    mem_actions_rows [of "memServers (riServer ri) dsn" q]
  by (auto simp: succeeds_def post_def on_server_def mem_sql_def mem_exec_def mem_exec_db_def mem_plain_def
      mem_ready_def split: prod.splits)

lemma mem_exec_then:
  assumes "mem_plain q" and "mem_ready dsn rows ri"
    and "\<And>ri'. mem_ready dsn rows ri' \<Longrightarrow> succeeds rest ri' Q"
  shows "succeeds (exec_then mem_sql dsn q [] errtext rest) ri Q"
  unfolding exec_then_def by (rule succeeds_go_try [OF mem_exec_plain [OF assms(1,2)]]) (rule assms(3))

lemma mem_plain_statements:
  "mem_plain use_dbaas_controller" "mem_plain flush_privileges"
  "mem_plain (mysql_create_database n)" "mem_plain (mysql_create_user n p)" "mem_plain (mysql_grant n p)"
  "mem_plain (mysql_drop_database n)" "mem_plain (mysql_drop_user n)"
  by (simp_all add: mem_plain_def use_dbaas_controller_def flush_privileges_def mysql_create_database_def
      mysql_create_user_def mysql_grant_def mysql_drop_database_def mysql_drop_user_def
      mysql_insert_user_def mysql_insert_ignore_user_def postgres_insert_user_def
      postgres_insert_nothing_user_def)

lemma mem_select:
  assumes "mem_ready dsn rows ri" and "map_of rows (name, namespace) = Some info"
  shows "succeeds (query_row (on_server (sql_Query_string mem_sql dsn mysql_select_user [name, namespace])) 3) ri
    (\<lambda>columns ri'. columns = [Username info, Password info, Dbname info] \<and> mem_ready dsn rows ri')"
  using assms
  by (simp add: succeeds_def post_def query_row_def scan_first_row_def run_go_try on_server_def mem_sql_def
      mem_query_def mem_ready_def)

lemma mem_databaseInfo:
  assumes "mem_ready dsn rows ri" and "map_of rows (name, namespace) = Some info"
  shows "succeeds (databaseInfoMySQL mem_sql dsn name namespace) ri
    (\<lambda>i ri'. i = info \<and> mem_ready dsn rows ri')"
  unfolding databaseInfoMySQL_def
  by (rule succeeds_go_try [OF mem_connect [OF assms(1)]], clarify,
      rule mem_exec_then [OF mem_plain_statements(1)], assumption,
      rule succeeds_go_try [OF mem_select [OF _ assms(2)]], assumption)
    (auto intro: succeeds_ok)

lemma mem_random_rows: "preserves (\<lambda>ri ri'. mem_ready dsn rows ri \<longrightarrow> mem_ready dsn rows ri')
    (createUserInfo (on_server (rand_source mem_sql)) namespace)"
proof -
  let ?R = "\<lambda>ri ri'. mem_ready dsn rows ri \<longrightarrow> mem_ready dsn rows ri'"
  have R: "preorder_rel ?R" by (auto simp: preorder_rel_def reflp_def transp_def)
  have draw: "preserves ?R (on_server (rand_source mem_sql))"
    by (rule preservesI) (auto simp: on_server_def mem_sql_def mem_random_def mem_ready_def)
  have bytes: "preserves ?R (random_bytes (on_server (rand_source mem_sql)) n)" for n
    by (induction n) (auto simp: rand_Intn_def intro!: preserves_return [OF R] preserves_bind [OF R] draw)
  show ?thesis
    unfolding createUserInfo_def generateRandomString_def Let_def
    by (intro preserves_rules R bytes)
qed

lemma mem_fresh_info:
  assumes "mem_ready dsn rows ri"
  shows "succeeds (createUserInfo (on_server (rand_source mem_sql)) namespace) ri
    (\<lambda>info ri'. generated_info namespace info \<and> mem_ready dsn rows ri')"
proof -
  have "post (createUserInfo (on_server (rand_source mem_sql)) namespace) ri (\<lambda>_. mem_ready dsn rows)"
    using preservesD [OF mem_random_rows] assms by (intro postI) blast
  from post_conj [OF createUserInfo_spec this] show ?thesis
    unfolding succeeds_def by (rule post_mono) blast
qed

lemma mem_select_none:
  assumes "mem_ready dsn [] ri"
  shows "\<exists>ri'. run_state (query_row (on_server (sql_Query_string mem_sql dsn mysql_select_user [name, namespace])) 3) ri
    = (Err ErrNoRows, ri') \<and> mem_ready dsn [] ri'"
  using assms
  by (simp add: query_row_def scan_first_row_def run_go_try on_server_def mem_sql_def mem_query_def mem_ready_def)

lemma mem_insert_first:
  assumes "mem_ready dsn [] ri"
  shows "succeeds (on_server (sql_Exec mem_sql dsn mysql_insert_user (insert_args name namespace info))) ri
    (\<lambda>_. mem_ready dsn [((name, namespace), info)])"
  using assms
  by (simp add: succeeds_def post_def on_server_def mem_sql_def mem_exec_def mem_exec_db_def mem_ready_def
      insert_args_def mem_conflicts_def mem_insert_def Let_def)

lemma mem_databaseInfo_fresh:
  assumes "mem_ready dsn [] ri"
  shows "succeeds (databaseInfoMySQL mem_sql dsn name namespace) ri
    (\<lambda>info ri'. mem_ready dsn [((name, namespace), info)] ri')"
  unfolding databaseInfoMySQL_def
proof (rule succeeds_go_try [OF mem_connect [OF assms]], clarify,
    rule mem_exec_then [OF mem_plain_statements(1)], assumption)
  fix t u
  assume "mem_ready dsn [] u"
  with mem_select_none obtain v
    where select: "run_state (query_row (on_server (sql_Query_string mem_sql dsn mysql_select_user
        [name, namespace])) 3) u = (Err ErrNoRows, v)" and v: "mem_ready dsn [] v"
    by blast
  show "succeeds (go_try (query_row (on_server (sql_Query_string mem_sql dsn mysql_select_user [name, namespace])) 3)
      (\<lambda>err. if own_kind err \<noteq> Some SqlErrNoRows
         then fail (Errorf_w (''failed '' @ mysql @ '' to query users table: '') err)
         else go_try (createUserInfo (on_server (rand_source mem_sql)) namespace) fail
           (\<lambda>info. exec_then mem_sql dsn mysql_insert_user (insert_args name namespace info)
              ''failed to insert user into users table: '' (ok info)))
      (\<lambda>columns. ok (info_of_columns columns))) u
    (\<lambda>info ri'. mem_ready dsn [((name, namespace), info)] ri')"
    unfolding exec_then_def ErrNoRows_def
    by (rule succeeds_go_try_Err [OF select], simp add: ErrNoRows_def,
        rule succeeds_go_try [OF mem_fresh_info [OF v]],
        rule succeeds_go_try [OF mem_insert_first])
      (auto intro: succeeds_ok)
qed

lemma mem_create_mysql:
  assumes "mem_ready dsn rows ri"
  shows "succeeds (create_mysql_database mem_sql dsn mysql info) ri (\<lambda>i ri'. i = info \<and> mem_ready dsn rows ri')"
  unfolding create_mysql_database_def
  by (rule mem_exec_then [OF mem_plain_statements(3) assms],
      rule mem_exec_then [OF mem_plain_statements(4)], assumption,
      rule mem_exec_then [OF mem_plain_statements(5)], assumption,
      rule mem_exec_then [OF mem_plain_statements(2)], assumption)
    (auto intro: succeeds_ok)

text \<open>Creating on an empty table, creating again, asking, and dropping all succeed.\<close>

lemma mem_CreateDatabase_first:
  assumes "mem_ready dsn [] ri"
  shows "succeeds (CreateDatabase mem_sql dsn name namespace mysql user) ri
    (\<lambda>info ri'. mem_ready dsn [((name, namespace), info)] ri')"
  unfolding CreateDatabase_def
  by (rule succeeds_go_try [OF mem_connect [OF assms]], simp,
      rule succeeds_go_try [OF mem_databaseInfo_fresh], simp,
      rule succeeds_mono [OF mem_create_mysql]) auto

lemma mem_CreateDatabase_again:
  assumes "mem_ready dsn rows ri" and "map_of rows (name, namespace) = Some info"
  shows "succeeds (CreateDatabase mem_sql dsn name namespace mysql user) ri
    (\<lambda>i ri'. i = info \<and> mem_ready dsn rows ri')"
  unfolding CreateDatabase_def
  by (rule succeeds_go_try [OF mem_connect [OF assms(1)]], simp,
      rule succeeds_go_try [OF mem_databaseInfo [OF _ assms(2)]], simp)
    (auto intro: mem_create_mysql)

lemma mem_GetDatabaseInfo:
  assumes "mem_ready dsn rows ri" and "map_of rows (name, namespace) = Some info"
  shows "succeeds (GetDatabaseInfo mem_sql dsn name namespace mysql) ri
    (\<lambda>i ri'. i = info \<and> mem_ready dsn rows ri')"
  using mem_databaseInfo [OF assms] by (simp add: GetDatabaseInfo_def)

lemma mem_DropDatabase:
  assumes "mem_ready dsn rows ri" and "map_of rows (name, namespace) = Some info"
  shows "succeeds (DropDatabase mem_sql dsn name namespace mysql) ri (\<lambda>_. mem_ready dsn rows)"
  unfolding DropDatabase_def
  by (rule succeeds_go_try [OF mem_connect [OF assms(1)]], simp,
      rule succeeds_go_try [OF mem_databaseInfo [OF _ assms(2)]], simp, clarify,
      rule mem_exec_then [OF mem_plain_statements(6)], assumption,
      rule mem_exec_then [OF mem_plain_statements(7)], assumption,
      rule mem_exec_then [OF mem_plain_statements(2)], assumption)
    (auto intro: succeeds_ok)

end
