(* ===== verification/DbRequestProps.thy ===== *)
theory DbRequestProps
  imports Provisioning MemCluster MemSQL
begin

section \<open>Properties of the DatabaseRequest reconciler\<close>

text \<open>
  The properties of \<open>internal/controller/databaserequest_controller.go\<close>, over every cluster,
  database client and library that satisfy the laws named in the statements. The witnesses
  run the reconciler on the cluster in memory, with the mock of the repository or the SQL
  client on the server in memory.
\<close>

lemma mem_diff_law: "Diff mem_library a (access_data d i) = [] \<longleftrightarrow> a = access_data d i"
  by (simp add: mem_library_def)

interpretation prov: provisioning mem_client mem_view "RelationalDatabaseImpl_interface mem_sql"
  "impl_creds mem_users" "store_inv (\<lambda>d. d) mem_users" safe_name safe_info mem_library
  by (intro provisioning.intro provisioning_axioms.intro memc.fresh_cluster_axioms mem.is_credential_store mem_diff_law)

interpretation prov_mock: provisioning mem_client mem_view
  "RelationalDatabaseMock :: unit RelationalDatabaseInterface"
  "\<lambda>dsn s key. Some mock_info" "\<lambda>s. True" "\<lambda>n. True" "\<lambda>info. True" mem_library
  by (intro provisioning.intro provisioning_axioms.intro memc.fresh_cluster_axioms mock.credential_store_axioms mem_diff_law)

subsection \<open>A concrete request\<close>

definition demo_connection :: Connection where
  "demo_connection =
     \<lparr>connName = ''primary'', connHostname = ''db.host'', connReplicaHostnames = [],
      connPasswordSecretRef = \<lparr>refName = ''pw'', refNamespace = ''dbaas''\<rparr>, connPort = 3306,
      connUsername = ''root'', connEnabled = True\<rparr>"

definition demo_provider :: RelationalDatabaseProvider where
  "demo_provider = RelationalDatabaseProvider_zero
     \<lparr>rdpMeta := ObjectMeta_of ''prov'' [] Map.empty,
      rdpSpec := \<lparr>rdpType = ''mysql'', rdpSelector = ''dev'', rdpConnections = [demo_connection]\<rparr>\<rparr>"

definition demo_request :: DatabaseRequest where
  "demo_request = DatabaseRequest_zero
     \<lparr>drMeta := ObjectMeta_of ''app'' ''ns'' Map.empty,
      drSpec := (drSpec DatabaseRequest_zero)
        \<lparr>specName := ''my-db'', specSelector := ''dev'', specType := ''mysql''\<rparr>\<rparr>"

definition demo_key :: NamespacedName where
  "demo_key = \<lparr>nnName = ''app'', nnNamespace = ''ns''\<rparr>"

definition demo_secret :: Secret where
  "demo_secret = \<lparr>secretMeta = ObjectMeta_of ''pw'' ''dbaas'' Map.empty, secretData = [''password'' \<mapsto> ''secret'']\<rparr>"

definition demo_cluster :: "DatabaseRequest \<Rightarrow> mem_cluster" where
  "demo_cluster d =
     \<lparr>mcRequests = [demo_key \<mapsto> d], mcProviders = [demo_provider], mcMongoProviders = [],
      mcSecrets = [\<lparr>nnName = ''pw'', nnNamespace = ''dbaas''\<rparr> \<mapsto> demo_secret], mcServices = Map.empty\<rparr>"

definition demo_state :: "DatabaseRequest \<Rightarrow> (mem_cluster, unit) request_state" where
  "demo_state d = \<lparr>cluster = demo_cluster d, dbs = (), obj = DatabaseRequest_zero, effects = []\<rparr>"

definition demo_reconciler :: "(mem_cluster, unit) DatabaseRequestReconciler" where
  "demo_reconciler = \<lparr>Client = mem_client, RelationalDatabaseClient = RelationalDatabaseMock\<rparr>"

lemma demo_reconciler_simps [simp]:
  "Client demo_reconciler = mem_client" "RelationalDatabaseClient demo_reconciler = RelationalDatabaseMock"
  by (simp_all add: demo_reconciler_def)

lemma mock_simps [simp]:
  "rdiPing RelationalDatabaseMock dsn t = ok ()" "rdiLoad RelationalDatabaseMock dsn t = ok 10"
  "rdiCreateDatabase RelationalDatabaseMock dsn n ns t u = ok mock_info"
  "rdiDropDatabase RelationalDatabaseMock dsn n ns t = ok ()"
  "rdiGetDatabaseInfo RelationalDatabaseMock dsn n ns t = ok mock_info"
  "rdiSetDatabaseInfo RelationalDatabaseMock dsn n ns t i = ok ()"
  by (simp_all add: RelationalDatabaseMock_def)

lemmas demo_defs = demo_state_def demo_cluster_def demo_secret_def demo_key_def
  demo_request_def demo_provider_def demo_connection_def DatabaseRequest_zero_def ObjectMeta_zero_def
  ObjectMeta_of_def RelationalDatabaseProvider_zero_def

lemmas call_defs = run_go_try and_then_def run_mem_lookup run_mem_write mem_update_request_def
  mem_status_update_request_def update_obj_def run_set_condition meta_key_def named_as_def rdp_name_def

lemmas reconcile_defs = Reconcile_def reconcile_active_def reconcile_spec_def reconcile_unseeded_def
  reconcile_existing_def createDatabase_def relationalDatabaseOperation_def operation_provider_def
  findRelationalDatabaseProvider_def perform_operation_def operation_create_def operation_info_def
  relDBInfo_def provide_access_def handleService_def handleSecret_def finish_reconcile_def set_ready_def
  deleting_def up_to_date_def connection_reference_def secret_password_def secret_key_of_def

lemma demo_load: "10 <s max_load"
  by code_simp

subsection \<open>What a reconciliation provides\<close>

lemma demo_run: "fst (run_state (Reconcile mem_library demo_reconciler demo_key) (demo_state demo_request)) = Ok ()"
  by (simp add: demo_defs call_defs reconcile_defs Let_def mysqlType_def postgresType_def demo_load)

text \<open>
  C2: a reconciliation of an existing MySQL or PostgreSQL request that returns no error leaves
  the secret of the request holding credentials that the database client records for it, with
  the host and port of their connection, and its service pointing at that host; or it found
  the request up to date and changed no secret, service or database.
\<close>

theorem Reconcile_provides_access:
  assumes "provisioning K view db creds sinv ok_name ok_info L"
    and "run_state (Get_DatabaseRequest K req) (cluster s) = (Ok d, w)"
    and "\<not> deleting d" and "specSeed (drSpec d) = None" and "relational d"
    and "sinv (dbs s)" and "ok_name (metaNamespace (drMeta d))"
    and "\<forall>p \<in> set (viewProviders (view (cluster s))). \<forall>c \<in> set (rdpConnections (rdpSpec p)). ok_name (connUsername c)"
    and "run_state (Reconcile L \<lparr>Client = K, RelationalDatabaseClient = db\<rparr> req) s = (Ok (), t)"
  shows "provisioned view creds d (cluster t) (dbs t) \<or>
    (up_to_date L (obj t) \<and> dbs t = dbs s \<and>
     viewSecrets (view (cluster t)) = viewSecrets (view (cluster s)) \<and>
     viewServices (view (cluster t)) = viewServices (view (cluster s)))"
  using provisioning.Reconcile_post [OF assms(1,2)] assms(3-9)
  by (simp add: provisioning.rec_def [OF assms(1)])

theorem Reconcile_provides_access_witness:
  "\<exists>t. run_state (Reconcile mem_library \<lparr>Client = mem_client, RelationalDatabaseClient = RelationalDatabaseMock\<rparr> demo_key)
      (demo_state demo_request) = (Ok (), t) \<and>
    (provisioned mem_view (\<lambda>dsn s key. Some mock_info) demo_request (cluster t) (dbs t) \<or>
     (up_to_date mem_library (obj t) \<and> dbs t = () \<and>
      viewSecrets (mem_view (cluster t)) = viewSecrets (mem_view (demo_cluster demo_request)) \<and>
      viewServices (mem_view (cluster t)) = viewServices (mem_view (demo_cluster demo_request))))"
proof -
  obtain t where run: "run_state (Reconcile mem_library demo_reconciler demo_key) (demo_state demo_request) = (Ok (), t)"
    using demo_run by (metis prod.collapse)
  have get: "run_state (Get_DatabaseRequest mem_client demo_key) (cluster (demo_state demo_request))
      = (Ok demo_request, demo_cluster demo_request)"
    by (simp add: run_mem_lookup demo_state_def demo_cluster_def)
  from Reconcile_provides_access [OF prov_mock.provisioning_axioms get _ _ _ TrueI TrueI _
      run [unfolded demo_reconciler_def]] run show ?thesis
    by (simp add: demo_reconciler_def demo_state_def)
      (simp add: demo_request_def deleting_def relational_def DatabaseRequest_zero_def ObjectMeta_of_def
        ObjectMeta_zero_def mysqlType_def)
qed

subsection \<open>Deletion\<close>


definition demo_deleted :: DatabaseRequest where
  "demo_deleted = demo_request
     \<lparr>drMeta := (drMeta demo_request)\<lparr>metaDeletionTimestamp := Some 1, metaFinalizers := [databaseRequestFinalizer]\<rparr>,
      drSpec := (drSpec demo_request)\<lparr>specDropDatabaseOnDelete := True,
        specDatabaseConnectionReference := Some (connection_reference demo_provider demo_connection)\<rparr>\<rparr>"

lemmas delete_defs = Reconcile_def deleteDatabase_def delete_service_def delete_secret_def delete_finalizer_def
  finish_delete_def relDBDeletion_def relationalDatabaseOperation_def operation_provider_def perform_operation_def
  operation_drop_def deleting_def connection_reference_def secret_password_def secret_key_of_def Time_IsZero_def

lemma demo_delete_run:
  "fst (run_state (Reconcile mem_library demo_reconciler demo_key) (demo_state demo_deleted)) = Ok () \<and>
   viewFinalizers (mem_view (cluster (snd (run_state (Reconcile mem_library demo_reconciler demo_key)
     (demo_state demo_deleted))))) demo_key = []"
  by (simp add: demo_defs demo_deleted_def call_defs delete_defs Let_def mysqlType_def mem_view_def)


end
