(* ===== verification/RequestErrors.thy ===== *)
theory RequestErrors
  imports DbRequestProps
begin

section \<open>The error paths of the DatabaseRequest reconciler\<close>

text \<open>
  What a reconciliation of a request does when it cannot succeed: which requests can never be
  reconciled or deleted, when an error is not reported to the manager, and what the status
  gauge says.
\<close>

subsection \<open>Deletion without a connection reference\<close>


definition demo_stuck :: DatabaseRequest where
  "demo_stuck = demo_deleted\<lparr>drSpec := (drSpec demo_deleted)\<lparr>specDatabaseConnectionReference := None\<rparr>\<rparr>"


subsection \<open>Types without an implementation\<close>

lemma handleService_nil: "yields (\<lambda>_. False) (handleService r None)"
  unfolding handleService_def with_obj_def and_then_def nil_pointer_def Let_def
  by (intro yields_rules) (simp_all add: yields_panic)

lemma handleError_fails: "yields (\<lambda>_. False) (handleError L r promErr err False)"
  unfolding handleError_def with_obj_def and_then_def Let_def
  by (intro yields_rules) simp_all

lemma provide_access_nil: "post (provide_access L r None) s (\<lambda>res t. res \<noteq> Ok ())"
  unfolding provide_access_def
  by (rule post_go_tryI [OF yields_post [OF handleService_nil]])
    (auto intro: post_mono [OF yields_post [OF handleError_fails]])

text \<open>The type stays, so the branch for relational databases is never taken.\<close>

lemma reconcile_unseeded_unsupported:
  assumes "\<not> relational (obj s)"
  shows "post (reconcile_unseeded L r) s (\<lambda>res t. res \<noteq> Ok ())"
proof -
  have failed: "post (handleError L r promErr err False) t (\<lambda>res t. res \<noteq> Ok ())" for promErr err t
    by (rule post_mono [OF yields_post [OF handleError_fails]]) auto
  have existing: "post (reconcile_existing L r) s (\<lambda>res t. res \<noteq> Ok ())"
    using assms by (simp add: reconcile_existing_def post_and_then post_with_obj relational_def Let_def
        post_def [of "set_status _"] post_ok provide_access_nil)
  show ?thesis
    using assms existing
    by (simp add: reconcile_unseeded_def createDatabase_def post_with_obj post_go_try post_ok post_fail failed
        relational_def Let_def)
qed


definition demo_mongo_request :: DatabaseRequest where
  "demo_mongo_request = demo_request
     \<lparr>drSpec := (drSpec demo_request)\<lparr>specType := ''mongodb'',
        specDatabaseConnectionReference := Some (connection_reference demo_provider demo_connection)\<rparr>\<rparr>"

lemma demo_mongo_request_valid: "DatabaseRequestSpec_valid (drSpec demo_mongo_request)"
  by (simp add: DatabaseRequestSpec_valid_def demo_mongo_request_def demo_request_def DatabaseRequest_zero_def)

lemma demo_mongo_request_run:
  "\<exists>msg t. run_state (Reconcile mem_library demo_reconciler demo_key) (demo_state demo_mongo_request) = (Panic msg, t) \<and>
     \<not> up_to_date mem_library (obj t)"
  by (simp add: demo_defs demo_mongo_request_def call_defs reconcile_defs nil_pointer_def Let_def mysqlType_def
      postgresType_def mongodbType_def)


subsection \<open>Invalid seeds\<close>

lemma errIs_wrapped:
  "errIsInvalidCredentials err \<Longrightarrow> errIsInvalidCredentials (Errorf_w pre err)"
  "errIsDatabaseDoesNotExist err \<Longrightarrow> errIsDatabaseDoesNotExist (Errorf_w pre err)"
  using strings_Contains_append [of "Error err" _ pre "[]"]
  by (simp_all add: errIsInvalidCredentials_def errIsDatabaseDoesNotExist_def)

lemma ping_error_texts:
  "errIsInvalidCredentials (Errorf_w (''failed to ping '' @ dbType @ '' database due to invalid credentials: '') err)"
  "errIsDatabaseDoesNotExist (Errorf_w (''failed to ping '' @ dbType @ '' database due to database does not exist: '') err)"
  using strings_Contains_append [of "''invalid credentials''" "''invalid credentials''"
      "''failed to ping '' @ dbType @ '' database due to ''" "'': '' @ Error err"]
    strings_Contains_append [of "''database does not exist''" "''database does not exist''"
      "''failed to ping '' @ dbType @ '' database due to ''" "'': '' @ Error err"]
  by (simp_all add: errIsInvalidCredentials_def errIsDatabaseDoesNotExist_def)

text \<open>
  C26: the client and the reconciler agree on the texts that classify a failed connection test: of the
  errors \<open>Ping\<close> makes, those for access denied (MySQL 1044 and 1045, PostgreSQL 28P01) are recognised
  as invalid credentials and those for a missing database (1049 and 3D000) as such, however they
  are wrapped on the way.
\<close>

theorem ping_errors_recognised:
  "(dbType = mysql \<and> root_kind err \<in> {MySQLError 1044, MySQLError 1045} \<or>
    dbType = postgres \<and> root_kind err = PqError ''28P01'' \<longrightarrow>
      errIsInvalidCredentials (Errorf_w pre2 (Errorf_w pre1 (ping_error dbType err)))) \<and>
   (dbType = mysql \<and> root_kind err = MySQLError 1049 \<or> dbType = postgres \<and> root_kind err = PqError ''3D000'' \<longrightarrow>
      errIsDatabaseDoesNotExist (Errorf_w pre2 (Errorf_w pre1 (ping_error dbType err))))"
proof (intro conjI impI)
  assume "dbType = mysql \<and> root_kind err \<in> {MySQLError 1044, MySQLError 1045} \<or>
    dbType = postgres \<and> root_kind err = PqError ''28P01''"
  then have "errIsInvalidCredentials (ping_error dbType err)"
    by (elim disjE) (auto simp: ping_error_def Let_def ping_error_texts mysql_def postgres_def simp del: append.simps)
  then show "errIsInvalidCredentials (Errorf_w pre2 (Errorf_w pre1 (ping_error dbType err)))"
    by (intro errIs_wrapped)
next
  assume "dbType = mysql \<and> root_kind err = MySQLError 1049 \<or> dbType = postgres \<and> root_kind err = PqError ''3D000''"
  then have "errIsDatabaseDoesNotExist (ping_error dbType err)"
    by (elim disjE) (auto simp: ping_error_def Let_def ping_error_texts mysql_def postgres_def simp del: append.simps)
  then show "errIsDatabaseDoesNotExist (Errorf_w pre2 (Errorf_w pre1 (ping_error dbType err)))"
    by (intro errIs_wrapped)
qed

theorem ping_errors_recognised_witness:
  "errIsInvalidCredentials (Errorf_w ''a'' (Errorf_w ''b'' (ping_error mysql (BaseError (MySQLError 1045) ''denied'')))) \<and>
   errIsDatabaseDoesNotExist (Errorf_w ''a'' (Errorf_w ''b'' (ping_error postgres (BaseError (PqError ''3D000'') ''none''))))"
  using ping_errors_recognised [of mysql "BaseError (MySQLError 1045) ''denied''" "''a''" "''b''"]
    ping_errors_recognised [of postgres "BaseError (PqError ''3D000'') ''none''" "''a''" "''b''"]
  by (simp del: Errorf_w_simps)

text \<open>The connection with which a seed is tested.\<close>

definition seed_conn :: "string \<Rightarrow> dbInfo \<Rightarrow> reldbConn" where
  "seed_conn dbType i =
     \<lparr>rcDbType = dbType, rcName = diDatabase i, rcHostname = diHostName i, rcReplicaHostnames = [],
      rcPassword = diPassword i, rcPort = diPort i, rcUsername = diUserName i, rcEnabled = False\<rparr>"

lemma post_set_condition:
  "post (set_condition L c) s Q =
     (let out = SetStatusCondition L (statusConditions (drStatus (obj s))) c in
      Q (Ok (snd out)) (s\<lparr>obj := (obj s)\<lparr>drStatus := (drStatus (obj s))\<lparr>statusConditions := fst out\<rparr>\<rparr>\<rparr>))"
  by (simp add: post_def run_set_condition Let_def split: prod.split)

lemma handleError_outcome:
  "post (handleError L r promErr err ignoreError) s (\<lambda>res t. dbs t = dbs s \<and>
     gauge promDatabaseRequestReconcileStatus (effects t) = Some 0 \<and>
     (\<forall>e. res = Err e \<longrightarrow> \<not> ignoreError \<and> e = err) \<and> (res = Ok () \<longrightarrow> ignoreError))"
  by (cases ignoreError;
    simp add: handleError_def Let_def post_rules post_set_condition;
    rule post_mono [OF update_obj_post];
    simp add: post_rules split: outcome.split)


text \<open>A client whose connection test always says that the access is denied.\<close>

definition denying :: "unit RelationalDatabaseInterface" where
  "denying = RelationalDatabaseMock\<lparr>rdiPing := \<lambda>dsn dbType.
     fail (ping_error dbType (BaseError (MySQLError 1045) ''Error 1045: Access denied''))\<rparr>"

definition denied_reconciler :: "(mem_cluster, unit) DatabaseRequestReconciler" where
  "denied_reconciler = \<lparr>Client = mem_client, RelationalDatabaseClient = denying\<rparr>"

definition demo_seed_request :: DatabaseRequest where
  "demo_seed_request = demo_request
     \<lparr>drMeta := (drMeta demo_request)\<lparr>metaFinalizers := [databaseRequestFinalizer]\<rparr>,
      drSpec := (drSpec demo_request)\<lparr>specSeed := Some \<lparr>refName = ''seed'', refNamespace = ''ns''\<rparr>\<rparr>\<rparr>"

definition demo_seed :: dbInfo where
  "demo_seed = \<lparr>diDatabase = ''legacy'', diHostName = ''db.host'', diUserName = ''old'', diPassword = ''pw'', diPort = 3306\<rparr>"

definition demo_seed_secret :: Secret where
  "demo_seed_secret = \<lparr>secretMeta = ObjectMeta_of ''seed'' ''ns'' Map.empty, secretData = seed_data demo_seed\<rparr>"

definition demo_seed_state :: "(mem_cluster, unit) request_state" where
  "demo_seed_state = (demo_state demo_seed_request)
     \<lparr>cluster := (demo_cluster demo_seed_request)
        \<lparr>mcSecrets := (mcSecrets (demo_cluster demo_seed_request))(\<lparr>nnName = ''seed'', nnNamespace = ''ns''\<rparr> \<mapsto> demo_seed_secret)\<rparr>\<rparr>"

lemma demo_seed_parses: "dbInfoFromSeed (secretData demo_seed_secret) = Inr demo_seed"
  using strconv_Atoi_fmt_d [of 3306]
  by (simp add: demo_seed_secret_def dbInfoFromSeed_iff seed_data_def demo_seed_def int64_def)

lemma demo_seed_reads:
  "run_state (Get_DatabaseRequest mem_client demo_key) (cluster demo_seed_state) =
     (Ok demo_seed_request, cluster demo_seed_state)"
  "run_state (Get_Secret mem_client (secret_key_of \<lparr>refName = ''seed'', refNamespace = ''ns''\<rparr>)) (cluster demo_seed_state) =
     (Ok demo_seed_secret, cluster demo_seed_state)"
  by (simp_all add: demo_seed_state_def run_mem_lookup demo_state_def demo_cluster_def secret_key_of_def
      demo_seed_secret_def named_as_def ObjectMeta_of_def ObjectMeta_zero_def)

lemma demo_seed_request_facts:
  "\<not> deleting demo_seed_request" "\<not> up_to_date mem_library demo_seed_request"
  "AddFinalizer mem_library (metaFinalizers (drMeta demo_seed_request)) databaseRequestFinalizer =
     ([databaseRequestFinalizer], False)"
  "specSeed (drSpec demo_seed_request) = Some \<lparr>refName = ''seed'', refNamespace = ''ns''\<rparr>"
  "specType (drSpec demo_seed_request) = mysql"
  by (simp_all add: demo_seed_request_def demo_request_def DatabaseRequest_zero_def ObjectMeta_of_def ObjectMeta_zero_def
      deleting_def up_to_date_def mem_library_def mysql_def)


subsection \<open>The status gauge\<close>

text \<open>
  C27: the status gauge is set before the last update of the request: when this update fails, the
  reconciliation returns its error with the gauge at 1.
\<close>

theorem failed_update_leaves_gauge:
  assumes "\<And>x. \<exists>x' w. run_state (Update_DatabaseRequest (Client r) x) (cluster s) = (Ok (x', Some err), w)"
  shows "\<exists>t. run_state (finish_reconcile L r serviceChanged secretChanged) s = (Err err, t) \<and>
    gauge promDatabaseRequestReconcileStatus (effects t) = Some 1"
proof -
  let ?x = "(obj s)\<lparr>drStatus := (drStatus (obj s))\<lparr>statusObservedGeneration := metaGeneration (drMeta (obj s))\<rparr>\<rparr>"
  from assms obtain x' w where "run_state (Update_DatabaseRequest (Client r) ?x) (cluster s) = (Ok (x', Some err), w)"
    by blast
  then show ?thesis
    by (simp add: finish_reconcile_def update_obj_def run_go_try and_then_def)
qed

text \<open>An API server that refuses every update of a request as stale.\<close>

definition refusing_reconciler :: "(mem_cluster, unit) DatabaseRequestReconciler" where
  "refusing_reconciler =
     \<lparr>Client = mem_client\<lparr>Update_DatabaseRequest := \<lambda>x. ok (x, Some conflict)\<rparr>,
      RelationalDatabaseClient = RelationalDatabaseMock\<rparr>"

theorem failed_update_leaves_gauge_witness:
  "\<exists>t. run_state (finish_reconcile mem_library refusing_reconciler False False) (demo_state demo_request) = (Err conflict, t) \<and>
     gauge promDatabaseRequestReconcileStatus (effects t) = Some 1"
  by (rule failed_update_leaves_gauge) (simp add: refusing_reconciler_def)

end
