(* ===== verification/RequestProps.thy ===== *)
theory RequestProps
  imports RequestErrors
begin

section \<open>Choosing a provider, adopting a seed, leaving a request alone\<close>

text \<open>
  Properties of single steps of the DatabaseRequest reconciler: the provider of least load, the
  adoption of the database that a seed describes, and the reconciliation of a request that is up to date.
\<close>

subsection \<open>Requests that are up to date\<close>

text \<open>
  C19: a reconciliation of a request that is up to date and has its finalizer reads the request, counts itself,
  records one event and does nothing else: no other call is made to the API server or to a
  database, and no object is changed.
\<close>

theorem up_to_date_left_alone:
  assumes "run_state (Get_DatabaseRequest (Client r) req) (cluster s) = (Ok d, w)" and "\<not> deleting d"
    and "AddFinalizer L (metaFinalizers (drMeta d)) databaseRequestFinalizer = (metaFinalizers (drMeta d), False)"
    and "up_to_date L d"
  shows "run_state (Reconcile L r req) s = (Ok (), s\<lparr>cluster := w, obj := d, effects := effects s @
    [Inc promDatabaseRequestReconcileCounter (WithLabelValues [nnName req, nnNamespace req]),
     Eventf EventTypeNormal ''ReconcileSkipped'' ''No updates to reconcile'' ''No updates to reconcile'']\<rparr>)"
  using assms by (simp add: Reconcile_def reconcile_active_def reconcile_spec_def run_go_try and_then_def)

definition demo_ready_request :: DatabaseRequest where
  "demo_ready_request = demo_request
     \<lparr>drMeta := (drMeta demo_request)\<lparr>metaGeneration := 2, metaFinalizers := [databaseRequestFinalizer]\<rparr>,
      drStatus := (drStatus demo_request)
        \<lparr>statusConditions := [\<lparr>condType = ''Ready'', condStatus = ConditionTrue, condReason = ''DatabaseRequestCreated'',
            condMessage = ''The database request has been created''\<rparr>],
         statusObservedGeneration := 2\<rparr>\<rparr>"

theorem up_to_date_left_alone_witness:
  "fst (run_state (Reconcile mem_library demo_reconciler demo_key) (demo_state demo_ready_request)) = Ok () \<and>
   cluster (snd (run_state (Reconcile mem_library demo_reconciler demo_key) (demo_state demo_ready_request))) =
     demo_cluster demo_ready_request"
proof -
  have get: "run_state (Get_DatabaseRequest (Client demo_reconciler) demo_key) (cluster (demo_state demo_ready_request))
      = (Ok demo_ready_request, demo_cluster demo_ready_request)"
    by (simp add: run_mem_lookup demo_state_def demo_cluster_def)
  have d: "\<not> deleting demo_ready_request" "up_to_date mem_library demo_ready_request"
    "AddFinalizer mem_library (metaFinalizers (drMeta demo_ready_request)) databaseRequestFinalizer =
       (metaFinalizers (drMeta demo_ready_request), False)"
    by (simp_all add: demo_ready_request_def demo_request_def DatabaseRequest_zero_def ObjectMeta_of_def
        ObjectMeta_zero_def deleting_def up_to_date_def mem_library_def)
  show ?thesis by (simp add: up_to_date_left_alone [OF get d(1,3,2)])
qed

subsection \<open>The provider of least load\<close>

text \<open>
  C12: a new database goes to the connection of least load: when the search succeeds, the load
  of every enabled connection of every listed provider with the selector and the type of the
  request was asked for, and the provider and the connection returned are the first of the
  smallest load, compared as signed integers.
\<close>

theorem least_loaded_provider_found:
  assumes "run_state (findRelationalDatabaseProvider r) s = (Ok (p, n), t)"
  shows "\<exists>ps w loads i.
    run_state (List_RelationalDatabaseProvider (Client r)) (cluster s) = (Ok ps, w) \<and>
    (let cands = candidates (specSelector (drSpec (obj s))) (specType (drSpec (obj s))) ps in
     list_all2 (observed_load r (specType (drSpec (obj s)))) cands loads \<and> first_least (zip cands loads) i \<and>
     fst (cands ! i) = p \<and> connName (snd (cands ! i)) = n \<and> p \<in> set ps)"
proof -
  from assms obtain ps w load where
    ps: "run_state (List_RelationalDatabaseProvider (Client r)) (cluster s) = (Ok ps, w)"
    and search: "searched r (specType (drSpec (obj s)))
       (candidates (specSelector (drSpec (obj s))) (specType (drSpec (obj s))) ps)
       (max_load, None, []) (load, Some p, n)"
    by (rule findRelationalDatabaseProvider_searched)
  from searched_least [OF search] obtain loads i where
    i: "list_all2 (observed_load r (specType (drSpec (obj s))))
        (candidates (specSelector (drSpec (obj s))) (specType (drSpec (obj s))) ps) loads"
      "first_least (zip (candidates (specSelector (drSpec (obj s))) (specType (drSpec (obj s))) ps) loads) i"
      "fst (candidates (specSelector (drSpec (obj s))) (specType (drSpec (obj s))) ps ! i) = p"
      "connName (snd (candidates (specSelector (drSpec (obj s))) (specType (drSpec (obj s))) ps ! i)) = n"
      "i < length (candidates (specSelector (drSpec (obj s))) (specType (drSpec (obj s))) ps)"
    by blast
  from i(3,5) have "p \<in> set ps" by (metis candidates_in nth_mem prod.collapse)
  with ps i show ?thesis by (auto simp: Let_def)
qed

theorem least_loaded_provider_found_witness:
  "\<exists>t. run_state (findRelationalDatabaseProvider demo_reconciler) ((demo_state demo_request)\<lparr>obj := demo_request\<rparr>) =
       (Ok (demo_provider, ''primary''), t) \<and>
     (\<exists>loads i. first_least (zip (candidates ''dev'' ''mysql'' [demo_provider]) loads) i)"
proof -
  let ?s = "(demo_state demo_request)\<lparr>obj := demo_request\<rparr>"
  have "fst (run_state (findRelationalDatabaseProvider demo_reconciler) ?s) = Ok (demo_provider, ''primary'')"
    by (simp add: demo_defs call_defs findRelationalDatabaseProvider_def secret_password_def secret_key_of_def
        Let_def demo_load)
  then obtain t where run: "run_state (findRelationalDatabaseProvider demo_reconciler) ?s = (Ok (demo_provider, ''primary''), t)"
    by (metis prod.collapse)
  have spec: "specSelector (drSpec (obj ?s)) = ''dev''" "specType (drSpec (obj ?s)) = ''mysql''"
    "run_state (List_RelationalDatabaseProvider (Client demo_reconciler)) (cluster ?s) = (Ok [demo_provider], cluster ?s)"
    by (simp_all add: demo_request_def demo_state_def demo_cluster_def mem_client_def)
  from least_loaded_provider_found [OF run] run show ?thesis
    unfolding spec by (auto simp: Let_def)
qed

subsection \<open>Adopting a seed\<close>

lemma seed_in_connections_match:
  "seed_in_connections info p cs found = Some (c, ref) \<Longrightarrow>
     found = Some (c, ref) \<or> c \<in> set cs \<and> connEnabled c \<and> connHostname c = diHostName info \<and>
       connPort c = diPort info \<and> ref = connection_reference p c"
  by (induction cs arbitrary: found) (force split: if_splits)+

lemma seed_in_providers_match:
  "seed_in_providers info selector dbType ps found = Some (c, ref) \<Longrightarrow>
     found = Some (c, ref) \<or> (\<exists>p \<in> set ps. rdpSelector (rdpSpec p) = selector \<and> rdpType (rdpSpec p) = dbType \<and>
       c \<in> set (rdpConnections (rdpSpec p)) \<and> connEnabled c \<and> connHostname c = diHostName info \<and>
       connPort c = diPort info \<and> ref = connection_reference p c)"
proof (induction ps arbitrary: found)
  case (Cons p ps)
  then show ?case
    by (auto dest!: Cons.IH dest: seed_in_connections_match split: if_splits)
qed simp

text \<open>
  What the handling of a seed has done when it returns no error: read the database from the seed
  secret, tested it, found an enabled connection with its host and port, and recorded the
  credentials of the seed for the request through this connection.
\<close>

definition seed_adopted ::
    "cluster_view \<Rightarrow> 'd RelationalDatabaseInterface \<Rightarrow> DatabaseRequest \<Rightarrow> SecretReference \<Rightarrow> dbInfo \<Rightarrow>
      'd \<Rightarrow> 'd \<Rightarrow> bool" where
  "seed_adopted v db databaseRequest seed i d d2 \<longleftrightarrow>
     (\<exists>data p c pw d1.
        viewSecrets v (secret_key_of seed) = Some data \<and> dbInfoFromSeed data = Inr i \<and>
        run_state (rdiPing db (getDSN (seed_conn (specType (drSpec databaseRequest)) i) True)
          (specType (drSpec databaseRequest))) d = (Ok (), d1) \<and>
        p \<in> set (viewProviders v) \<and> rdpSelector (rdpSpec p) = specSelector (drSpec databaseRequest) \<and>
        rdpType (rdpSpec p) = specType (drSpec databaseRequest) \<and>
        c \<in> set (rdpConnections (rdpSpec p)) \<and> connEnabled c \<and> connHostname c = diHostName i \<and> connPort c = diPort i \<and>
        run_state (rdiSetDatabaseInfo db (getDSN (conn_of (specType (drSpec databaseRequest)) c pw) False)
          (metaName (drMeta databaseRequest)) (metaNamespace (drMeta databaseRequest))
          (specType (drSpec databaseRequest)) (seed_credentials i)) d1 = (Ok (), d2))"

lemma seed_adopted_same:
  assumes "seed_adopted v' db a seed i d d2" and "viewSecrets v' = viewSecrets v" and "viewProviders v' = viewProviders v"
    and "drSpec a = drSpec b" and "meta_key (drMeta a) = meta_key (drMeta b)"
  shows "seed_adopted v db b seed i d d2"
  using assms by (simp add: seed_adopted_def meta_key_def)

lemma relationalDatabaseInfoFromSeed_Ok:
  assumes "run_state (relationalDatabaseInfoFromSeed r seed dbType selector) s = (Ok si, t)"
  shows "\<exists>sec i d1 ps c ref pw out w1 w2 w3.
    run_state (Get_Secret (Client r) (secret_key_of seed)) (cluster s) = (Ok sec, w1) \<and>
    dbInfoFromSeed (secretData sec) = Inr i \<and>
    run_state (rdiPing (RelationalDatabaseClient r) (getDSN (seed_conn dbType i) True) dbType) (dbs s) = (Ok (), d1) \<and>
    run_state (List_RelationalDatabaseProvider (Client r)) w1 = (Ok ps, w2) \<and>
    seed_in_providers i selector dbType ps None = Some (c, ref) \<and>
    run_state (Get_Secret (Client r) (secret_key_of (connPasswordSecretRef c))) w2 = (out, w3) \<and>
    si = \<lparr>sdiDbInfo = i, sdiConn = conn_of dbType c pw, sdiDatabaseProviderRef = ref\<rparr> \<and>
    t = s\<lparr>cluster := w3, dbs := d1\<rparr>"
proof -
  note defs = relationalDatabaseInfoFromSeed_def seedDatabase_def relDBTestSeedConnection_def Let_def run_go_try
  obtain rs w1 where get: "run_state (Get_Secret (Client r) (secret_key_of seed)) (cluster s) = (rs, w1)" by fastforce
  with assms obtain sec where rs: "rs = Ok sec" by (cases rs) (auto simp: defs)
  with assms get obtain i where i: "dbInfoFromSeed (secretData sec) = Inr i"
    by (cases "dbInfoFromSeed (secretData sec)") (auto simp: defs)
  obtain rp d1 where ping: "run_state (rdiPing (RelationalDatabaseClient r) (getDSN (seed_conn dbType i) True) dbType) (dbs s) = (rp, d1)"
    by fastforce
  with assms get rs i have rp: "rp = Ok ()" by (cases rp) (auto simp: defs seed_conn_def)
  obtain rl w2 where list: "run_state (List_RelationalDatabaseProvider (Client r)) w1 = (rl, w2)" by fastforce
  with assms get rs i ping rp obtain ps where rl: "rl = Ok ps" by (cases rl) (auto simp: defs seed_conn_def)
  with assms get rs i ping rp list obtain c ref where found: "seed_in_providers i selector dbType ps None = Some (c, ref)"
    by (cases "seed_in_providers i selector dbType ps None") (auto simp: defs seed_conn_def)
  obtain out w3 where pw: "run_state (Get_Secret (Client r) (secret_key_of (connPasswordSecretRef c))) w2 = (out, w3)"
    by fastforce
  with assms get rs i ping rp list rl found obtain psec where out: "out = Ok psec"
    by (cases out) (auto simp: defs seed_conn_def)
  with assms get rs i ping rp list rl found pw have
    "si = \<lparr>sdiDbInfo = i, sdiConn = conn_of dbType c (secret_password psec), sdiDatabaseProviderRef = ref\<rparr>"
    "t = s\<lparr>cluster := w3, dbs := d1\<rparr>"
    by (auto simp: defs seed_conn_def split: if_splits)
  with get rs i ping rp list rl found pw show ?thesis by blast
qed

lemma handleSeed_calls:
  assumes "run_state (handleSeed r) s = (Ok si, t)" and "specSeed (drSpec (obj s)) = Some seed"
  obtains u out d2 w where
    "run_state (relationalDatabaseInfoFromSeed r seed (specType (drSpec (obj s))) (specSelector (drSpec (obj s)))) s = (Ok si, u)"
    "run_state (rdiSetDatabaseInfo (RelationalDatabaseClient r) (getDSN (sdiConn si) False)
      (metaName (drMeta (obj s))) (metaNamespace (drMeta (obj s))) (specType (drSpec (obj s)))
      (seed_credentials (sdiDbInfo si))) (dbs u) = (Ok (), d2)"
    "t = u\<lparr>dbs := d2, cluster := w\<rparr>"
proof -
  obtain out u where info: "run_state (relationalDatabaseInfoFromSeed r seed (specType (drSpec (obj s)))
      (specSelector (drSpec (obj s)))) s = (out, u)" by fastforce
  with assms obtain si' where out: "out = Ok si'" by (cases out) (auto simp: handleSeed_def run_go_try)
  obtain rs d2 where set: "run_state (rdiSetDatabaseInfo (RelationalDatabaseClient r) (getDSN (sdiConn si') False)
      (metaName (drMeta (obj s))) (metaNamespace (drMeta (obj s))) (specType (drSpec (obj s)))
      (seed_credentials (sdiDbInfo si'))) (dbs u) = (rs, d2)" by fastforce
  obtain rd w where del: "run_state (Delete_Secret (Client r) (secret_key_of seed)) (cluster u) = (rd, w)" by fastforce
  from assms info out set del have "rs = Ok ()" "si = si'" "t = u\<lparr>dbs := d2, cluster := w\<rparr>"
    by (auto simp: handleSeed_def run_go_try and_then_def split: outcome.splits)
  with info out set that show ?thesis by blast
qed

context fresh_cluster
begin

lemma handleSeed_Ok:
  assumes "run_state (handleSeed r) s = (Ok si, t)" and "Client r = K" and "specSeed (drSpec (obj s)) = Some seed"
  shows "seed_adopted (view (cluster s)) (RelationalDatabaseClient r) (obj s) seed (sdiDbInfo si) (dbs s) (dbs t) \<and> obj t = obj s"
proof -
  from assms(1,3) obtain u d2 w where
    info: "run_state (relationalDatabaseInfoFromSeed r seed (specType (drSpec (obj s))) (specSelector (drSpec (obj s)))) s = (Ok si, u)"
    and set: "run_state (rdiSetDatabaseInfo (RelationalDatabaseClient r) (getDSN (sdiConn si) False)
      (metaName (drMeta (obj s))) (metaNamespace (drMeta (obj s))) (specType (drSpec (obj s)))
      (seed_credentials (sdiDbInfo si))) (dbs u) = (Ok (), d2)"
    and t: "t = u\<lparr>dbs := d2, cluster := w\<rparr>"
    by (rule handleSeed_calls)
  from relationalDatabaseInfoFromSeed_Ok [OF info, unfolded assms(2)] obtain sec i d1 ps c ref pw out w1 w2 w3 where
    get: "run_state (Get_Secret K (secret_key_of seed)) (cluster s) = (Ok sec, w1)" "dbInfoFromSeed (secretData sec) = Inr i"
    and ping: "run_state (rdiPing (RelationalDatabaseClient r) (getDSN (seed_conn (specType (drSpec (obj s))) i) True)
      (specType (drSpec (obj s)))) (dbs s) = (Ok (), d1)"
    and ps: "run_state (List_RelationalDatabaseProvider K) w1 = (Ok ps, w2)"
    and found: "seed_in_providers i (specSelector (drSpec (obj s))) (specType (drSpec (obj s))) ps None = Some (c, ref)"
    and si: "si = \<lparr>sdiDbInfo = i, sdiConn = conn_of (specType (drSpec (obj s))) c pw, sdiDatabaseProviderRef = ref\<rparr>"
    and u: "u = s\<lparr>cluster := w3, dbs := d1\<rparr>"
    by blast
  have w1: "view w1 = view (cluster s)" using get(1) reads(4) by (auto simp: keeps_view_def)
  from seed_in_providers_match [OF found] fresh_providers [OF ps] w1 obtain p where
    "p \<in> set (viewProviders (view (cluster s)))" "rdpSelector (rdpSpec p) = specSelector (drSpec (obj s))"
    "rdpType (rdpSpec p) = specType (drSpec (obj s))" "c \<in> set (rdpConnections (rdpSpec p))" "connEnabled c"
    "connHostname c = diHostName i" "connPort c = diPort i" by auto
  moreover from fresh_secret [OF get(1)] have "viewSecrets (view (cluster s)) (secret_key_of seed) = Some (secretData sec)"
    by simp
  ultimately have "seed_adopted (view (cluster s)) (RelationalDatabaseClient r) (obj s) seed i (dbs s) d2"
    unfolding seed_adopted_def using get(2) ping set si u by (intro exI conjI) (assumption | simp)+
  with si u t show ?thesis by simp
qed

text \<open>A successful reconciliation reaches \<open>reconcile_spec\<close> with the request as it was read.\<close>

lemma Reconcile_reaches_spec:
  assumes "run_state (Get_DatabaseRequest K req) (cluster s) = (Ok d, w)" and "\<not> deleting d" and "Client r = K"
    and "run_state (Reconcile L r req) s = (Ok (), t)"
  obtains u where "run_state (reconcile_spec L r) u = (Ok (), t)" and "dbs u = dbs s" and "drSpec (obj u) = drSpec d"
    and "meta_key (drMeta (obj u)) = meta_key (drMeta d)" and "same_objects view s (u\<lparr>obj := obj s\<rparr>)"
proof -
  from reads(1) [of req] assms(1) have w: "view w = view (cluster s)" by (simp add: keeps_view_def)
  obtain fs added where add: "AddFinalizer L (metaFinalizers (drMeta d)) databaseRequestFinalizer = (fs, added)" by fastforce
  define u where "u = s\<lparr>effects := effects s @
     [Inc promDatabaseRequestReconcileCounter (WithLabelValues [nnName req, nnNamespace req])], cluster := w,
     obj := d\<lparr>drMeta := (drMeta d)\<lparr>metaFinalizers := fs\<rparr>\<rparr>\<rparr>"
  have run: "run_state (if added then go_try (update_obj (Update_DatabaseRequest K))
      (\<lambda>err. handleError L r ''add-finalizer'' err False) (\<lambda>_. reconcile_spec L r) else reconcile_spec L r) u = (Ok (), t)"
    using assms add by (cases added) (auto simp: Reconcile_def reconcile_active_def run_go_try and_then_def u_def)
  show ?thesis
  proof (cases added)
    case False
    with run w show ?thesis by (intro that [of u]) (simp_all add: u_def meta_key_def same_objects_def)
  next
    case True
    obtain out v where upd: "run_state (update_obj (Update_DatabaseRequest K)) u = (out, v)" by fastforce
    have out: "out = Ok ()"
    proof (cases out)
      case (Err err)
      with run True upd have "run_state (handleError L r ''add-finalizer'' err False) v = (Ok (), t)"
        by (simp add: run_go_try)
      from yieldsD [OF handleError_fails this] show ?thesis ..
    qed (use run True upd in \<open>auto simp: run_go_try\<close>)
    with run True upd have "run_state (reconcile_spec L r) v = (Ok (), t)" by (simp add: run_go_try)
    moreover from postD [OF update_call upd] run_update_obj_effects [OF upd] w have
      "dbs v = dbs s" "drSpec (obj v) = drSpec d" "meta_key (drMeta (obj v)) = meta_key (drMeta d)"
      "same_objects view s (v\<lparr>obj := obj s\<rparr>)"
      by (auto simp: u_def same_core_def meta_key_def same_objects_def)
    ultimately show ?thesis by (rule that)
  qed
qed

lemma reconcile_seed_post:
  assumes "Client r = K" and "specSeed (drSpec (obj s)) = Some seed"
    and diff: "\<And>d a i. Diff L a (access_data d i) = [] \<longleftrightarrow> a = access_data d i"
    and "run_state (reconcile_seed L r) s = (Ok (), t)" and "gauge promDatabaseRequestReconcileStatus (effects t) \<noteq> Some 0"
  shows "\<exists>i. seed_adopted (view (cluster s)) (RelationalDatabaseClient r) (obj s) seed i (dbs s) (dbs t) \<and>
    viewSecrets (view (cluster t)) (meta_key (drMeta (obj s))) = Some (access_data (obj s) i) \<and>
    viewServices (view (cluster t)) (service_key (obj s)) = Some (diHostName i)"
proof -
  have failed: "run_state (handleError L r promErr err ignoreError) v \<noteq> (Ok (), t)" for promErr err ignoreError v
    using postD [OF handleError_outcome] assms(5) by blast
  obtain out v where seed: "run_state (handleSeed r) s = (out, v)" by fastforce
  with assms(4) failed obtain si where out: "out = Ok si"
    by (cases out) (auto simp: reconcile_seed_def run_go_try split: if_splits)
  note adopted = handleSeed_Ok [OF seed [unfolded out] assms(1,2)]
  define x where "x = v\<lparr>obj := (obj v)\<lparr>
     drStatus := (drStatus (obj v))\<lparr>statusObservedDatabaseConnectionReference := Some (sdiDatabaseProviderRef si)\<rparr>,
     drSpec := (drSpec (obj v))\<lparr>specDatabaseConnectionReference := Some (sdiDatabaseProviderRef si), specSeed := None\<rparr>\<rparr>\<rparr>"
  have "run_state (provide_access L r (Some (sdiDbInfo si))) x = (Ok (), t)"
    using assms(4) seed out by (simp add: reconcile_seed_def run_go_try and_then_def x_def)
  from postD [OF provide_access_post [OF assms(1) diff] this]
  have "dbs t = dbs v" "viewSecrets (view (cluster t)) (meta_key (drMeta (obj x))) = Some (access_data (obj x) (sdiDbInfo si))"
    "viewServices (view (cluster t)) (service_key (obj x)) = Some (diHostName (sdiDbInfo si))"
    by (simp_all add: x_def)
  moreover have "meta_key (drMeta (obj x)) = meta_key (drMeta (obj s))" "service_key (obj x) = service_key (obj s)"
    "access_data (obj x) i = access_data (obj s) i" for i
    using adopted by (simp_all add: x_def service_key_def access_data_def)
  ultimately show ?thesis using adopted by (intro exI [of _ "sdiDbInfo si"]) simp
qed

lemma Reconcile_seeded:
  assumes "run_state (Get_DatabaseRequest K req) (cluster s) = (Ok d, w)" and "\<not> deleting d" and "Client r = K"
    and "specSeed (drSpec d) = Some seed" and diff: "\<And>d a i. Diff L a (access_data d i) = [] \<longleftrightarrow> a = access_data d i"
    and "run_state (Reconcile L r req) s = (Ok (), t)" and "gauge promDatabaseRequestReconcileStatus (effects t) \<noteq> Some 0"
  shows "up_to_date L (obj t) \<and> dbs t = dbs s \<or>
    (\<exists>i. seed_adopted (view (cluster s)) (RelationalDatabaseClient r) d seed i (dbs s) (dbs t) \<and>
      viewSecrets (view (cluster t)) (meta_key (drMeta d)) = Some (access_data d i) \<and>
      viewServices (view (cluster t)) (service_key d) = Some (diHostName i))"
proof -
  obtain u where u: "run_state (reconcile_spec L r) u = (Ok (), t)" "dbs u = dbs s" "drSpec (obj u) = drSpec d"
    "meta_key (drMeta (obj u)) = meta_key (drMeta d)" "same_objects view s (u\<lparr>obj := obj s\<rparr>)"
    using assms(1,2,3,6) by (rule Reconcile_reaches_spec)
  show ?thesis
  proof (cases "up_to_date L (obj u)")
    case True
    with u show ?thesis by (auto simp: reconcile_spec_def and_then_def run_go_try)
  next
    case False
    with u assms(4) have "run_state (reconcile_seed L r) u = (Ok (), t)" by (simp add: reconcile_spec_def)
    from reconcile_seed_post [OF assms(3) _ diff this assms(7)] u(3) assms(4)
    obtain i where "seed_adopted (view (cluster u)) (RelationalDatabaseClient r) (obj u) seed i (dbs u) (dbs t)"
      "viewSecrets (view (cluster t)) (meta_key (drMeta (obj u))) = Some (access_data (obj u) i)"
      "viewServices (view (cluster t)) (service_key (obj u)) = Some (diHostName i)" by auto
    moreover from this(1) have "seed_adopted (view (cluster s)) (RelationalDatabaseClient r) d seed i (dbs s) (dbs t)"
      unfolding u(2) by (rule seed_adopted_same) (use u(3-5) in \<open>simp_all add: same_objects_def\<close>)
    moreover have "service_key (obj u) = service_key d" "access_data (obj u) i = access_data d i"
      using u(3,4) by (simp_all add: service_key_def access_data_def meta_key_def)
    ultimately show ?thesis using u(4) by auto
  qed
qed

end

text \<open>
  C6: a seed is adopted: after a reconciliation of a request with a seed that returns no error and
  does not set the status gauge to 0, the request was up to date already, or the seed secret was
  read, its database answered the connection test, an enabled connection of a matching provider has
  its host and port, its credentials were recorded for the request through this connection, and
  the secret and the service of the request give access to it.
\<close>

theorem Reconcile_adopts_seed:
  assumes "fresh_cluster K view" and "Client r = K"
    and "\<And>d a i. Diff L a (access_data d i) = [] \<longleftrightarrow> a = access_data d i"
    and "run_state (Get_DatabaseRequest K req) (cluster s) = (Ok d, w)" and "\<not> deleting d"
    and "specSeed (drSpec d) = Some seed"
    and "run_state (Reconcile L r req) s = (Ok (), t)" and "gauge promDatabaseRequestReconcileStatus (effects t) \<noteq> Some 0"
  shows "up_to_date L (obj t) \<and> dbs t = dbs s \<or>
    (\<exists>i. seed_adopted (view (cluster s)) (RelationalDatabaseClient r) d seed i (dbs s) (dbs t) \<and>
      viewSecrets (view (cluster t)) (meta_key (drMeta d)) = Some (access_data d i) \<and>
      viewServices (view (cluster t)) (service_key d) = Some (diHostName i))"
  using fresh_cluster.Reconcile_seeded [OF assms(1,4,5,2,6,3,7,8)] .

lemma demo_seed_run:
  "\<exists>t. run_state (Reconcile mem_library demo_reconciler demo_key) demo_seed_state = (Ok (), t) \<and>
     gauge promDatabaseRequestReconcileStatus (effects t) = Some 1 \<and>
     viewServices (mem_view (cluster t)) (service_key demo_seed_request) = Some ''db.host''"
proof -
  let ?k = "\<lparr>nnName = ''seed'', nnNamespace = ''ns''\<rparr>"
  have parse: "dbInfoFromSeed (seed_data demo_seed) = Inr demo_seed"
    using demo_seed_parses by (simp add: demo_seed_secret_def)
  have info: "diHostName demo_seed = ''db.host''" "diPort demo_seed = 3306"
    by (simp_all add: demo_seed_def)
  show ?thesis
    by (simp add: demo_seed_state_def demo_seed_request_def demo_defs demo_seed_secret_def call_defs reconcile_defs
        reconcile_seed_def handleSeed_def relationalDatabaseInfoFromSeed_def seedDatabase_def relDBTestSeedConnection_def
        parse info service_key_def new_service_def mem_view_def gauge_def Let_def mysqlType_def postgresType_def)
qed

theorem Reconcile_adopts_seed_witness:
  "\<exists>t. run_state (Reconcile mem_library demo_reconciler demo_key) demo_seed_state = (Ok (), t) \<and>
     (up_to_date mem_library (obj t) \<and> dbs t = () \<or>
      (\<exists>i. seed_adopted (mem_view (cluster demo_seed_state)) RelationalDatabaseMock demo_seed_request
         \<lparr>refName = ''seed'', refNamespace = ''ns''\<rparr> i () (dbs t) \<and>
       viewServices (mem_view (cluster t)) (service_key demo_seed_request) = Some (diHostName i)))"
proof -
  obtain t where run: "run_state (Reconcile mem_library demo_reconciler demo_key) demo_seed_state = (Ok (), t)"
    and gauge: "gauge promDatabaseRequestReconcileStatus (effects t) \<noteq> Some 0"
    using demo_seed_run by auto
  from Reconcile_adopts_seed [OF memc.fresh_cluster_axioms demo_reconciler_simps(1) mem_diff_law demo_seed_reads(1)
      demo_seed_request_facts(1,4) run gauge] run
  show ?thesis by (auto simp: demo_seed_state_def demo_state_def)
qed

end
