(* ===== verification/StaleGeneration.thy ===== *)
theory StaleGeneration
  imports RequestErrors
begin

section \<open>The observed generation of a request\<close>

text \<open>
  The reconciler writes the generation it observed into the status and then updates the whole
  request. The status of a request is a subresource: an update stores the specification, counts
  the generation up when it changed, keeps the stored status and answers with what is stored,
  so the generation the reconciler wrote is lost again unless none was stored: a stored zero
  is left out of the answer (\<open>omitempty\<close>), and the field may keep its value.

  The locale \<open>request_store\<close> states these promises of the API server about the requests it stores.
  The two properties below say what follows: the reconciliation that provisions a request stores
  an observed generation below the generation, and from then on no reconciliation
  ever catches up, so the request is never up to date.
\<close>

definition keeps_requests ::
    "('w \<Rightarrow> NamespacedName \<Rightarrow> DatabaseRequest option) \<Rightarrow> ('w, 'a) state \<Rightarrow> bool" where
  "keeps_requests stored m \<longleftrightarrow> (\<forall>w r w'. run_state m w = (r, w') \<longrightarrow> stored w' = stored w)"

abbreviation generation :: "DatabaseRequest \<Rightarrow> int" where
  "generation d \<equiv> metaGeneration (drMeta d)"

abbreviation observed :: "DatabaseRequest \<Rightarrow> int" where
  "observed d \<equiv> statusObservedGeneration (drStatus d)"

text \<open>What is stored after an update of \<open>old\<close> by \<open>sent\<close>, and after a status update.\<close>

definition spec_updated :: "DatabaseRequest \<Rightarrow> DatabaseRequest \<Rightarrow> DatabaseRequest \<Rightarrow> bool" where
  "spec_updated sent old new \<longleftrightarrow>
     meta_key (drMeta new) = meta_key (drMeta sent) \<and> drSpec new = drSpec sent \<and> drStatus new = drStatus old \<and>
     generation new = (if drSpec sent = drSpec old then generation old else generation old + 1) \<and>
     metaDeletionTimestamp (drMeta new) = metaDeletionTimestamp (drMeta old)"

definition status_updated :: "DatabaseRequest \<Rightarrow> DatabaseRequest \<Rightarrow> DatabaseRequest \<Rightarrow> bool" where
  "status_updated sent old new \<longleftrightarrow>
     meta_key (drMeta new) = meta_key (drMeta sent) \<and> drSpec new = drSpec old \<and> drStatus new = drStatus sent \<and> generation new = generation old \<and>
     metaDeletionTimestamp (drMeta new) = metaDeletionTimestamp (drMeta old)"

locale request_store =
  fixes K :: "'w client" and stored :: "'w \<Rightarrow> NamespacedName \<Rightarrow> DatabaseRequest option"
  assumes get_request:
    "\<And>w w'. run_state (Get_DatabaseRequest K k) w = (Ok d, w') \<Longrightarrow> stored w k = Some d"
    and get_missing:
    "\<And>w err w'. run_state (Get_DatabaseRequest K k) w = (Err err, w') \<Longrightarrow> IsNotFound err \<Longrightarrow> stored w k = None"
    and others:
    "keeps_requests stored (Get_DatabaseRequest K k)"
    "keeps_requests stored (Get_RelationalDatabaseProvider K k)"
    "keeps_requests stored (List_RelationalDatabaseProvider K)"
    "keeps_requests stored (Get_Secret K k)" "keeps_requests stored (Create_Secret K sec)"
    "keeps_requests stored (Update_Secret K sec)"
    "keeps_requests stored (Get_Service K k)" "keeps_requests stored (Create_Service K svc)"
    "keeps_requests stored (Update_Service K svc)"
    and update_stored:
    "\<And>w r w'. run_state (Update_DatabaseRequest K d) w = (r, w') \<Longrightarrow>
       stored w (meta_key (drMeta d)) = Some old \<Longrightarrow> metaDeletionTimestamp (drMeta old) = None \<Longrightarrow>
       stored w' = stored w \<or> (\<exists>new. stored w' = (stored w)(meta_key (drMeta d) \<mapsto> new) \<and> spec_updated d old new)"
    and update_answer:
    "\<And>w e w'. run_state (Update_DatabaseRequest K d) w = (Ok (d', e), w') \<Longrightarrow>
       stored w (meta_key (drMeta d)) = Some old \<Longrightarrow> metaDeletionTimestamp (drMeta old) = None \<Longrightarrow>
       (case e of Some err \<Rightarrow> d' = d
        | None \<Rightarrow> (\<exists>new. stored w' = (stored w)(meta_key (drMeta d) \<mapsto> new) \<and> spec_updated d old new \<and>
            meta_key (drMeta d') = meta_key (drMeta d) \<and> drSpec d' = drSpec new \<and> generation d' = generation new \<and>
            (observed d' = observed new \<or> observed new = 0 \<and> observed d' = observed d)))"
    and status_update_stored:
    "\<And>w r w'. run_state (StatusUpdate_DatabaseRequest K d) w = (r, w') \<Longrightarrow>
       stored w (meta_key (drMeta d)) = Some old \<Longrightarrow>
       stored w' = stored w \<or> (\<exists>new. stored w' = (stored w)(meta_key (drMeta d) \<mapsto> new) \<and> status_updated d old new)"
    and status_update_answer:
    "\<And>w e w'. run_state (StatusUpdate_DatabaseRequest K d) w = (Ok (d', e), w') \<Longrightarrow>
       stored w (meta_key (drMeta d)) = Some old \<Longrightarrow>
       (case e of Some err \<Rightarrow> d' = d
        | None \<Rightarrow> meta_key (drMeta d') = meta_key (drMeta d) \<and> drSpec d' = drSpec old \<and>
            generation d' = generation old \<and> observed d' = observed d)"

subsection \<open>A stale request stays stale\<close>

text \<open>
  \<open>tracks stored k x s\<close>: the request stored under \<open>k\<close> has the specification and the two generations
  of \<open>x\<close>, is not being deleted, and the object the reconciler works on is that request with that
  specification and that observed generation.
\<close>

definition like :: "DatabaseRequest \<Rightarrow> DatabaseRequest \<Rightarrow> bool" where
  "like x d \<longleftrightarrow> meta_key (drMeta d) = meta_key (drMeta x) \<and> drSpec d = drSpec x \<and> generation d = generation x \<and> observed d = observed x \<and>
     metaDeletionTimestamp (drMeta d) = None"

definition tracks ::
    "('w \<Rightarrow> NamespacedName \<Rightarrow> DatabaseRequest option) \<Rightarrow> NamespacedName \<Rightarrow> DatabaseRequest \<Rightarrow>
      ('w, 'd) request_state \<Rightarrow> bool" where
  "tracks stored k x s \<longleftrightarrow>
     (\<exists>d. stored (cluster s) k = Some d \<and> like x d) \<and> meta_key (drMeta x) = k \<and>
     meta_key (drMeta (obj s)) = k \<and> drSpec (obj s) = drSpec x \<and> observed (obj s) = observed x"

definition keeps_tracking ::
    "('w \<Rightarrow> NamespacedName \<Rightarrow> DatabaseRequest option) \<Rightarrow> NamespacedName \<Rightarrow> DatabaseRequest \<Rightarrow>
      ('w, 'd) request_state \<Rightarrow> ('w, 'd) request_state \<Rightarrow> bool" where
  "keeps_tracking stored k x s t \<longleftrightarrow> (tracks stored k x s \<longrightarrow> tracks stored k x t)"

lemma preorder_keeps_tracking [simp]: "preorder_rel (keeps_tracking stored k x)"
  by (auto simp: preorder_rel_def keeps_tracking_def intro!: reflpI transpI)

named_theorems tracking_rules "programs that keep a stored request and its generations"

lemma tracking_local [tracking_rules]:
  "preserves (keeps_tracking stored k x) (emit e)"
  "preserves (keeps_tracking stored k x) (in_dbs m)"
  "preserves (keeps_tracking stored k x) (set_condition L c)"
  "preserves (keeps_tracking stored k x) nil_pointer"
  "preserves (keeps_tracking stored k x) (set_status (statusObservedDatabaseConnectionReference_update f))"
  "preserves (keeps_tracking stored k x) (set_status (\<lambda>st. st\<lparr>statusConditions := g st\<rparr>))"
  by (rule preservesI, force simp: keeps_tracking_def tracks_def nil_pointer_def run_set_condition split: prod.splits)+

lemma tracking_reads:
  "keeps_requests stored m \<Longrightarrow> preserves (keeps_tracking stored k x) (in_cluster m)"
  by (rule preserves_in_cluster) (auto simp: keeps_requests_def keeps_tracking_def tracks_def)

text \<open>The object a program goes on with has the specification of the stored request.\<close>

lemma tracking_with_obj:
  assumes "\<And>y. drSpec y = drSpec x \<Longrightarrow> preserves (keeps_tracking stored k x) (f y)"
  shows "preserves (keeps_tracking stored k x) (with_obj f)"
proof (rule preservesI)
  fix s r t
  assume run: "run_state (with_obj f) s = (r, t)"
  show "keeps_tracking stored k x s t"
  proof (cases "tracks stored k x s")
    case True
    then have "preserves (keeps_tracking stored k x) (f (obj s))" by (intro assms) (simp add: tracks_def)
    from preservesD [OF this] run show ?thesis by simp
  qed (simp add: keeps_tracking_def)
qed

context request_store
begin

lemma tracking_calls [tracking_rules]:
  assumes "Client r = K"
  shows "preserves (keeps_tracking stored k x) (in_cluster (Get_RelationalDatabaseProvider (Client r) k'))"
    and "preserves (keeps_tracking stored k x) (in_cluster (List_RelationalDatabaseProvider (Client r)))"
    and "preserves (keeps_tracking stored k x) (in_cluster (Get_Secret (Client r) k'))"
    and "preserves (keeps_tracking stored k x) (in_cluster (Create_Secret (Client r) sec))"
    and "preserves (keeps_tracking stored k x) (in_cluster (Update_Secret (Client r) sec))"
    and "preserves (keeps_tracking stored k x) (in_cluster (Get_Service (Client r) k'))"
    and "preserves (keeps_tracking stored k x) (in_cluster (Create_Service (Client r) svc))"
    and "preserves (keeps_tracking stored k x) (in_cluster (Update_Service (Client r) svc))"
  unfolding assms by (intro tracking_reads others)+

lemma tracking_status_update [tracking_rules]:
  assumes "Client r = K"
  shows "preserves (keeps_tracking stored k x) (update_obj (StatusUpdate_DatabaseRequest (Client r)))"
proof (rule preservesI)
  fix s t :: "('w, 'd) request_state" and res
  assume "run_state (update_obj (StatusUpdate_DatabaseRequest (Client r))) s = (res, t)"
  from run_update_objD [OF this [unfolded assms]] obtain w y res' where t: "t = s\<lparr>cluster := w, obj := y\<rparr>"
    and run: "run_state (StatusUpdate_DatabaseRequest K (obj s)) (cluster s) = (res', w)"
    and y: "(\<exists>e. res' = Ok (y, e)) \<or> y = obj s" by blast
  show "keeps_tracking stored k x s t"
    unfolding keeps_tracking_def
  proof
    assume s: "tracks stored k x s"
    then obtain d where d: "stored (cluster s) (meta_key (drMeta (obj s))) = Some d" "like x d" "meta_key (drMeta (obj s)) = k"
      "meta_key (drMeta x) = k"
      by (auto simp: tracks_def)
    from status_update_stored [OF run d(1)] s d have "\<exists>d'. stored w k = Some d' \<and> like x d'"
      by (auto simp: like_def status_updated_def tracks_def)
    moreover from y status_update_answer [OF _ d(1)] run s d
    have "meta_key (drMeta y) = k \<and> drSpec y = drSpec x \<and> observed y = observed x"
      by (fastforce simp: tracks_def like_def split: option.splits)
    ultimately show "tracks stored k x t" using s by (simp add: tracks_def t)
  qed
qed

lemma tracking_handleError [tracking_rules]:
  "Client r = K \<Longrightarrow> preserves (keeps_tracking stored k x) (handleError L r promErr err ignoreError)"
  unfolding handleError_def Let_def
  by (intro preserves_rules tracking_rules preorder_keeps_tracking)

text \<open>
  The update in which the reconciler has written another observed generation: the specification is
  the stored one, so the generation stays, and the answer has the stored observed generation back.
\<close>

lemma tracking_update:
  assumes "Client r = K" and "observed x \<noteq> 0" and "tracks stored k x (s\<lparr>obj := (obj s)\<lparr>drStatus := st\<rparr>\<rparr>)"
    and "run_state (update_obj (Update_DatabaseRequest (Client r))) s = (res, t)"
  shows "(\<exists>d. stored (cluster t) k = Some d \<and> like x d) \<and> (res = Ok () \<longrightarrow> tracks stored k x t)"
proof -
  from run_update_objD [OF assms(4) [unfolded assms(1)]] obtain w y res' where t: "t = s\<lparr>cluster := w, obj := y\<rparr>"
    and run: "run_state (Update_DatabaseRequest K (obj s)) (cluster s) = (res', w)"
    and res: "res = Ok () \<longrightarrow> res' = Ok (y, None)" by blast
  from assms(3) obtain d where d: "stored (cluster s) (meta_key (drMeta (obj s))) = Some d" "like x d"
    "meta_key (drMeta (obj s)) = k" "drSpec (obj s) = drSpec x" "meta_key (drMeta x) = k"
    by (auto simp: tracks_def)
  then have del: "metaDeletionTimestamp (drMeta d) = None" by (simp add: like_def)
  from update_stored [OF run d(1) del] d have stored: "\<exists>d. stored w k = Some d \<and> like x d"
    by (auto simp: spec_updated_def like_def)
  moreover have "tracks stored k x t" if "res' = Ok (y, None)"
    using update_answer [OF run [unfolded that] d(1) del] stored d assms(2)
    by (auto simp: t tracks_def spec_updated_def like_def)
  ultimately show ?thesis using res t by simp
qed

lemma tracking_plain_update [tracking_rules]:
  assumes "Client r = K"
  shows "preserves (keeps_tracking stored k x) (update_obj (Update_DatabaseRequest (Client r)))"
proof (rule preservesI)
  fix s t :: "('w, 'd) request_state" and res
  assume "run_state (update_obj (Update_DatabaseRequest (Client r))) s = (res, t)"
  from run_update_objD [OF this [unfolded assms]] obtain w y res' where t: "t = s\<lparr>cluster := w, obj := y\<rparr>"
    and run: "run_state (Update_DatabaseRequest K (obj s)) (cluster s) = (res', w)"
    and y: "(\<exists>e. res' = Ok (y, e)) \<or> y = obj s" by blast
  show "keeps_tracking stored k x s t"
    unfolding keeps_tracking_def
  proof
    assume s: "tracks stored k x s"
    then obtain d where d: "stored (cluster s) (meta_key (drMeta (obj s))) = Some d" "like x d"
      "meta_key (drMeta (obj s)) = k" "drSpec (obj s) = drSpec x" "observed (obj s) = observed x"
      "meta_key (drMeta x) = k"
      by (auto simp: tracks_def)
    then have del: "metaDeletionTimestamp (drMeta d) = None" by (simp add: like_def)
    from update_stored [OF run d(1) del] d have "\<exists>d'. stored w k = Some d' \<and> like x d'"
      by (auto simp: like_def spec_updated_def)
    moreover from y update_answer [OF _ d(1) del] run d
    have "meta_key (drMeta y) = k \<and> drSpec y = drSpec x \<and> observed y = observed x"
      by (fastforce simp: spec_updated_def like_def split: option.splits)
    ultimately show "tracks stored k x t" using s by (simp add: tracks_def t)
  qed
qed

lemma tracking_info [tracking_rules]:
  assumes "Client r = K"
  shows "preserves (keeps_tracking stored k x) (relDBInfo r)"
proof -
  have "preserves (keeps_tracking stored k x) (operation_provider r op_info)"
    unfolding operation_provider_def Let_def by (intro preserves_rules tracking_rules preorder_keeps_tracking assms) simp
  moreover have "preserves (keeps_tracking stored k x) (perform_operation r op_info p c conn i)" for p c conn i
    unfolding perform_operation_def operation_info_def
    by simp (intro preserves_rules tracking_rules preorder_keeps_tracking)
  ultimately show ?thesis
    unfolding relDBInfo_def relationalDatabaseOperation_def Let_def
    by (intro preserves_rules tracking_rules preorder_keeps_tracking assms)
qed

lemma tracking_access [tracking_rules]:
  assumes "Client r = K"
  shows "preserves (keeps_tracking stored k x) (handleService r i)"
    and "preserves (keeps_tracking stored k x) (handleSecret L r i)"
  unfolding handleService_def handleSecret_def Let_def
  by (intro preserves_rules tracking_rules preorder_keeps_tracking assms)+

lemma tracking_set_ready [tracking_rules]:
  "Client r = K \<Longrightarrow> preserves (keeps_tracking stored k x) (set_ready L r reason msg event note)"
  unfolding set_ready_def Let_def
  by (intro preserves_rules tracking_rules preorder_keeps_tracking)

abbreviation still where
  "still k x \<equiv> \<lambda>_ t. \<exists>d. stored (cluster t) k = Some d \<and> like x d"

lemma still_of_tracking:
  "preserves (keeps_tracking stored k x) m \<Longrightarrow> tracks stored k x s \<Longrightarrow> post m s (still k x)"
  by (erule preserves_post) (auto simp: keeps_tracking_def tracks_def)

lemma finish_still:
  assumes "Client r = K" and "observed x \<noteq> 0" and "tracks stored k x s"
  shows "post (finish_reconcile L r a b) s (still k x)"
proof -
  define u where "u = s\<lparr>effects := effects s @ [Set promDatabaseRequestReconcileStatus (With (promLabels (obj s) [])) 1],
    obj := (obj s)\<lparr>drStatus := (drStatus (obj s))\<lparr>statusObservedGeneration := generation (obj s)\<rparr>\<rparr>\<rparr>"
  have "tracks stored k x (u\<lparr>obj := (obj u)\<lparr>drStatus := drStatus (obj s)\<rparr>\<rparr>)"
    using assms(3) by (simp add: tracks_def u_def)
  then have upd: "post (update_obj (Update_DatabaseRequest (Client r))) u
      (\<lambda>res t. still k x res t \<and> (res = Ok () \<longrightarrow> tracks stored k x t))"
    by (intro postI tracking_update [OF assms(1,2)])
  let ?rest = "and_then (set_status (\<lambda>st. st\<lparr>statusConditions := fst (RemoveStatusCondition L (statusConditions st) ''Error'')\<rparr>))
     (if a \<or> b then set_ready L r ''DatabaseRequestChanged'' ''The database request has been changed''
        ''DatabaseRequestUpdated'' ''The database request has been updated''
      else set_ready L r ''DatabaseRequestCreated'' ''The database request has been created''
        ''DatabaseRequestUnchanged'' ''The database request has been created'')"
  have "preserves (keeps_tracking stored k x) ?rest"
    by (intro preserves_rules tracking_rules preorder_keeps_tracking assms(1))
  note rest = still_of_tracking [OF this]
  have "post (go_try (update_obj (Update_DatabaseRequest (Client r)))
        (\<lambda>err. with_obj (\<lambda>o2.
           and_then (emit (Inc promDatabaseRequestReconcileErrorCounter (With (promLabels o2 ''cr-update'')))) (fail err)))
        (\<lambda>_. ?rest)) u (still k x)"
    by (rule post_go_tryI [OF upd], simp add: rest del: post_if)
      (auto simp: post_with_obj post_and_then post_emit post_fail)
  then show ?thesis
    by (simp add: finish_reconcile_def post_with_obj post_and_then post_emit u_def post_def [of "set_status _"])
qed

lemma tracks_still: "tracks stored k x t \<Longrightarrow> \<exists>d. stored (cluster t) k = Some d \<and> like x d"
  by (simp add: tracks_def)

lemma still_go_try:
  assumes "preserves (keeps_tracking stored k x) m" and "tracks stored k x s"
    and "\<And>err t. tracks stored k x t \<Longrightarrow> post (h err) t (still k x)"
    and "\<And>y t. tracks stored k x t \<Longrightarrow> post (f y) t (still k x)"
  shows "post (go_try m h f) s (still k x)"
proof (rule post_go_tryI)
  show "post m s (\<lambda>_ t. tracks stored k x t)"
    by (rule preserves_post [OF assms(1)]) (simp add: keeps_tracking_def assms(2))
qed (auto intro: assms(3,4) dest: tracks_still)

lemma still_and_then:
  assumes "preserves (keeps_tracking stored k x) m" and "tracks stored k x s"
    and "\<And>t. tracks stored k x t \<Longrightarrow> post n t (still k x)"
  shows "post (and_then m n) s (still k x)"
  unfolding and_then_def
  by (rule still_go_try [OF assms(1,2)]) (auto simp: post_fail dest: tracks_still intro: assms(3))

lemma still_handleError:
  "Client r = K \<Longrightarrow> tracks stored k x s \<Longrightarrow> post (handleError L r promErr err e) s (still k x)"
  by (intro still_of_tracking tracking_rules)

lemma provide_access_still:
  assumes "Client r = K" and "observed x \<noteq> 0" and "tracks stored k x s"
  shows "post (provide_access L r i) s (still k x)"
  unfolding provide_access_def
  by (intro still_go_try tracking_access finish_still still_handleError assms)

lemma reconcile_existing_still:
  assumes "Client r = K" and "observed x \<noteq> 0" and "tracks stored k x s"
  shows "post (reconcile_existing L r) s (still k x)"
proof -
  have "post (let dbType = specType (drSpec y) in
        if dbType = mysqlType \<or> dbType = postgresType then
          go_try (relDBInfo r)
            (\<lambda>err. with_obj (\<lambda>o2. handleError L r (''get-'' @ specType (drSpec o2) @ ''-database-info'') err False))
            (provide_access L r)
        else provide_access L r None) t (still k x)" if "tracks stored k x t" for y t
    unfolding Let_def post_if
    using that by (auto intro!: still_go_try tracking_info provide_access_still assms
        simp: post_with_obj still_handleError assms(1))
  then show ?thesis
    unfolding reconcile_existing_def
    by (intro still_and_then assms(3)) (auto simp: post_with_obj intro!: preserves_rules tracking_rules)
qed

lemma reconcile_spec_still:
  assumes "Client r = K" and "observed x \<noteq> 0" and "specSeed (drSpec x) = None"
    and "specDatabaseConnectionReference (drSpec x) \<noteq> None" and "tracks stored k x s"
  shows "post (reconcile_spec L r) s (still k x)"
proof -
  from assms(5) have spec: "drSpec (obj s) = drSpec x" by (simp add: tracks_def)
  have "post (reconcile_unseeded L r) s (still k x)"
    unfolding reconcile_unseeded_def post_with_obj
    using reconcile_existing_still [OF assms(1,2,5)] assms(4) spec by (simp only: if_False)
  with assms(3,5) spec show ?thesis
    by (auto simp: reconcile_spec_def post_with_obj post_and_then post_emit post_ok tracks_def)
qed

lemma Reconcile_still:
  assumes "Client r = K" and "stored (cluster s) k = Some x" and "meta_key (drMeta x) = k"
    and "metaDeletionTimestamp (drMeta x) = None" and "specSeed (drSpec x) = None"
    and "specDatabaseConnectionReference (drSpec x) \<noteq> None" and "observed x \<noteq> 0"
  shows "post (Reconcile L r k) s (still k x)"
proof -
  have active: "post (reconcile_active L r) t (still k x)" if "tracks stored k x t" for t
  proof -
    have "tracks stored k x (t\<lparr>obj := (obj t)\<lparr>drMeta := (drMeta (obj t))\<lparr>metaFinalizers := fs\<rparr>\<rparr>\<rparr>)" for fs
      using that by (simp add: tracks_def meta_key_def)
    then show ?thesis
      by (auto simp: reconcile_active_def post_with_obj post_and_then post_set_obj split: prod.split
          intro!: still_go_try tracking_rules reconcile_spec_still still_handleError assms)
  qed
  define u where "u = s\<lparr>effects := effects s @
     [Inc promDatabaseRequestReconcileCounter (WithLabelValues [nnName k, nnNamespace k])], obj := DatabaseRequest_zero\<rparr>"
  have like: "like x x" using assms(4) by (simp add: like_def)
  have get: "post (in_cluster (Get_DatabaseRequest (Client r) k)) u (\<lambda>res t.
      stored (cluster t) k = Some x \<and> (\<forall>d. res = Ok d \<longrightarrow> d = x))"
  proof (rule postI)
    fix res t
    assume "run_state (in_cluster (Get_DatabaseRequest (Client r) k)) u = (res, t)"
    then have run: "run_state (Get_DatabaseRequest K k) (cluster s) = (res, cluster t)"
      using assms(1) by (auto simp: u_def split: prod.splits)
    with others(1) have "stored (cluster t) = stored (cluster s)" by (simp add: keeps_requests_def)
    with run assms(2) show "stored (cluster t) k = Some x \<and> (\<forall>d. res = Ok d \<longrightarrow> d = x)"
      by (auto dest: get_request)
  qed
  have "\<not> deleting x" using assms(4) by (simp add: deleting_def)
  have start: "post (reconcile_active L r) (t\<lparr>obj := x\<rparr>) (still k x)" if "stored (cluster t) k = Some x" for t
    using that like assms(3) by (intro active) (auto simp: tracks_def)
  have "post (go_try (in_cluster (Get_DatabaseRequest (Client r) k))
        (\<lambda>err. if \<not> IsNotFound err then
             and_then (emit (Inc promDatabaseRequestReconcileErrorCounter
                (WithLabelValues [nnName k, nnNamespace k, [], [], ''get-dbreq'', [], []]))) (fail err)
           else ok ())
        (\<lambda>d. and_then (set_obj d) (if deleting d then deleteDatabase L r else reconcile_active L r))) u (still k x)"
    using \<open>\<not> deleting x\<close> like
    by (intro post_go_tryI [OF get])
      (clarsimp simp: post_and_then post_emit post_fail post_ok post_set_obj start)+
  then show ?thesis
    by (simp add: Reconcile_def post_and_then post_emit post_set_obj u_def)
qed

end

subsection \<open>The reconciliation that provisions a request\<close>

text \<open>
  \<open>lags stored k sp n g s\<close>: the stored request has the specification \<open>sp\<close>, the generation \<open>n\<close>
  and an observed generation of at most \<open>g\<close>, and so have the generations of the object.
\<close>

definition lags ::
    "('w \<Rightarrow> NamespacedName \<Rightarrow> DatabaseRequest option) \<Rightarrow> NamespacedName \<Rightarrow> DatabaseRequestSpec \<Rightarrow> int \<Rightarrow> int \<Rightarrow>
      ('w, 'd) request_state \<Rightarrow> bool" where
  "lags stored k sp n g s \<longleftrightarrow>
     (\<exists>d. stored (cluster s) k = Some d \<and> meta_key (drMeta d) = k \<and> drSpec d = sp \<and> generation d = n \<and> observed d \<le> g \<and>
        metaDeletionTimestamp (drMeta d) = None) \<and> specSeed sp = None \<and>
     meta_key (drMeta (obj s)) = k \<and> specSeed (drSpec (obj s)) = None \<and> generation (obj s) = n \<and> observed (obj s) \<le> g"

text \<open>\<open>left_behind\<close>: a program that returned no error leaves a request with a reference that lags.\<close>

definition left_behind ::
    "('w \<Rightarrow> NamespacedName \<Rightarrow> DatabaseRequest option) \<Rightarrow> NamespacedName \<Rightarrow> unit outcome \<Rightarrow>
      ('w, 'd) request_state \<Rightarrow> bool" where
  "left_behind stored k res t \<longleftrightarrow>
     (res = Ok () \<longrightarrow> (\<exists>d. stored (cluster t) k = Some d \<and> meta_key (drMeta d) = k \<and> observed d < generation d \<and>
        specDatabaseConnectionReference (drSpec d) \<noteq> None \<and> specSeed (drSpec d) = None \<and>
        metaDeletionTimestamp (drMeta d) = None))"

definition keeps_lag where
  "keeps_lag stored k sp n g s t \<longleftrightarrow> (lags stored k sp n g s \<longrightarrow> lags stored k sp n g t)"

text \<open>The programs that neither write the object back nor touch its specification.\<close>

definition keeps_spec where
  "keeps_spec stored k sp n g s t \<longleftrightarrow>
     (lags stored k sp n g s \<longrightarrow> lags stored k sp n g t) \<and> drSpec (obj t) = drSpec (obj s)"

lemma preorder_keeps_lag [simp]:
  "preorder_rel (keeps_lag stored k sp n g)" "preorder_rel (keeps_spec stored k sp n g)"
  by (auto simp: preorder_rel_def keeps_lag_def keeps_spec_def intro!: reflpI transpI)

lemma spec_lag: "preserves (keeps_spec stored k sp n g) m \<Longrightarrow> preserves (keeps_lag stored k sp n g) m"
  by (erule preserves_mono) (simp add: keeps_spec_def keeps_lag_def)

named_theorems lag_rules "programs that keep a stored request and its lag"

lemma spec_local [lag_rules]:
  "preserves (keeps_spec stored k sp n g) (emit e)"
  "preserves (keeps_spec stored k sp n g) (in_dbs m)"
  "preserves (keeps_spec stored k sp n g) (set_condition L c)"
  "preserves (keeps_spec stored k sp n g) nil_pointer"
  "preserves (keeps_spec stored k sp n g) (set_status (statusObservedDatabaseConnectionReference_update f))"
  "preserves (keeps_spec stored k sp n g) (set_status (\<lambda>st. st\<lparr>statusObservedDatabaseConnectionReference := a, statusDatabaseInfo := i\<rparr>))"
  "preserves (keeps_spec stored k sp n g) (set_status (\<lambda>st. st\<lparr>statusConditions := h st\<rparr>))"
  by (rule preservesI, force simp: keeps_spec_def lags_def nil_pointer_def run_set_condition split: prod.splits)+

lemma spec_reads: "keeps_requests stored m \<Longrightarrow> preserves (keeps_spec stored k sp n g) (in_cluster m)"
  by (rule preserves_in_cluster) (auto simp: keeps_requests_def keeps_spec_def lags_def)

lemma lag_local [lag_rules]:
  "preserves (keeps_lag stored k sp n g) (emit e)"
  "preserves (keeps_lag stored k sp n g) (in_dbs m)"
  "preserves (keeps_lag stored k sp n g) (set_condition L c)"
  "preserves (keeps_lag stored k sp n g) (set_status (statusObservedDatabaseConnectionReference_update f))"
  "preserves (keeps_lag stored k sp n g) (set_status (\<lambda>st. st\<lparr>statusObservedDatabaseConnectionReference := a, statusDatabaseInfo := i\<rparr>))"
  "preserves (keeps_lag stored k sp n g) (set_status (\<lambda>st. st\<lparr>statusConditions := h st\<rparr>))"
  by (rule spec_lag, rule lag_rules)+

lemma lag_set_reference [lag_rules]:
  "preserves (keeps_lag stored k sp n g) (set_spec (specDatabaseConnectionReference_update f))"
  by (rule preservesI) (auto simp: keeps_lag_def lags_def)

context request_store
begin

lemma spec_calls [lag_rules]:
  assumes "Client r = K"
  shows "preserves (keeps_spec stored k sp n g) (in_cluster (Get_RelationalDatabaseProvider (Client r) k'))"
    and "preserves (keeps_spec stored k sp n g) (in_cluster (List_RelationalDatabaseProvider (Client r)))"
    and "preserves (keeps_spec stored k sp n g) (in_cluster (Get_Secret (Client r) k'))"
    and "preserves (keeps_spec stored k sp n g) (in_cluster (Create_Secret (Client r) sec))"
    and "preserves (keeps_spec stored k sp n g) (in_cluster (Update_Secret (Client r) sec))"
    and "preserves (keeps_spec stored k sp n g) (in_cluster (Get_Service (Client r) k'))"
    and "preserves (keeps_spec stored k sp n g) (in_cluster (Create_Service (Client r) svc))"
    and "preserves (keeps_spec stored k sp n g) (in_cluster (Update_Service (Client r) svc))"
  unfolding assms by (intro spec_reads others)+

lemma spec_provider [lag_rules]:
  assumes "Client r = K"
  shows "preserves (keeps_spec stored k sp n g) (operation_provider r operation)"
proof -
  have conns: "preserves (keeps_spec stored k sp n g) (find_in_connections r dbType p cs found)" for dbType p cs found
    by (induction cs arbitrary: found) (auto simp: Let_def intro!: preserves_rules lag_rules assms)
  have "preserves (keeps_spec stored k sp n g) (find_in_providers r selector dbType ps found)" for selector dbType ps found
    by (induction ps arbitrary: found) (auto intro!: preserves_rules conns)
  then show ?thesis
    unfolding operation_provider_def findRelationalDatabaseProvider_def Let_def
    by (intro preserves_rules lag_rules preorder_keeps_lag assms)
qed

lemma spec_info [lag_rules]:
  assumes "Client r = K"
  shows "preserves (keeps_spec stored k sp n g) (relDBInfo r)"
proof -
  have "preserves (keeps_spec stored k sp n g) (perform_operation r op_info p c conn i)" for p c conn i
    unfolding perform_operation_def operation_info_def
    by simp (intro preserves_rules lag_rules preorder_keeps_lag)
  then show ?thesis
    unfolding relDBInfo_def relationalDatabaseOperation_def Let_def
    by (intro preserves_rules lag_rules preorder_keeps_lag assms)
qed

lemma spec_access [lag_rules]:
  assumes "Client r = K"
  shows "preserves (keeps_spec stored k sp n g) (handleService r i)"
    and "preserves (keeps_spec stored k sp n g) (handleSecret L r i)"
  unfolding handleService_def handleSecret_def Let_def
  by (intro preserves_rules lag_rules preorder_keeps_lag assms)+

lemma lag_status_update [lag_rules]:
  assumes "Client r = K"
  shows "preserves (keeps_lag stored k sp n g) (update_obj (StatusUpdate_DatabaseRequest (Client r)))"
proof (rule preservesI)
  fix s t :: "('w, 'd) request_state" and res
  assume "run_state (update_obj (StatusUpdate_DatabaseRequest (Client r))) s = (res, t)"
  from run_update_objD [OF this [unfolded assms]] obtain w y res' where t: "t = s\<lparr>cluster := w, obj := y\<rparr>"
    and run: "run_state (StatusUpdate_DatabaseRequest K (obj s)) (cluster s) = (res', w)"
    and y: "(\<exists>e. res' = Ok (y, e)) \<or> y = obj s" by blast
  show "keeps_lag stored k sp n g s t"
    unfolding keeps_lag_def
  proof
    assume s: "lags stored k sp n g s"
    then obtain d where d: "stored (cluster s) (meta_key (drMeta (obj s))) = Some d"
      "meta_key (drMeta (obj s)) = k" "drSpec d = sp" "generation d = n" "observed d \<le> g" "metaDeletionTimestamp (drMeta d) = None"
      by (auto simp: lags_def)
    from status_update_stored [OF run d(1)] s d have "\<exists>d'. stored w k = Some d' \<and> meta_key (drMeta d') = k \<and> drSpec d' = sp \<and>
        generation d' = n \<and> observed d' \<le> g \<and> metaDeletionTimestamp (drMeta d') = None"
      by (auto simp: status_updated_def lags_def)
    moreover from y status_update_answer [OF _ d(1)] run s d
    have "meta_key (drMeta y) = k \<and> specSeed (drSpec y) = None \<and> generation y = n \<and> observed y \<le> g"
      by (fastforce simp: lags_def split: option.splits)
    ultimately show "lags stored k sp n g t" using s by (simp add: lags_def t)
  qed
qed

lemma lag_createDatabase:
  assumes "Client r = K"
  shows "preserves (keeps_lag stored k sp n g) (createDatabase r)"
proof -
  have "preserves (keeps_lag stored k sp n g) (perform_operation r op_create p c conn i)" for p c conn i
    unfolding perform_operation_def operation_create_def Let_def
    by simp (intro preserves_rules lag_rules preorder_keeps_lag assms)
  then show ?thesis
    unfolding createDatabase_def relationalDatabaseOperation_def Let_def
    by (intro preserves_rules spec_lag [OF spec_provider] spec_lag [OF spec_calls(3)] preorder_keeps_lag assms)
qed

lemma lag_set_ready:
  "Client r = K \<Longrightarrow> preserves (keeps_lag stored k sp n g) (set_ready L r reason msg event note)"
  unfolding set_ready_def handleError_def Let_def
  by (intro preserves_rules lag_rules preorder_keeps_lag)

lemma behind_error: "left_behind stored k (Err err) t" "left_behind stored k (Panic msg) t"
  by (simp_all add: left_behind_def)

lemma behind_handleError: "post (handleError L r promErr err False) s (left_behind stored k)"
  by (rule post_mono [OF yields_post [OF handleError_fails]]) (auto simp: left_behind_def)

text \<open>The update stores another specification, so the generation is counted up past the one observed.\<close>

lemma lag_update:
  assumes "Client r = K" and "lags stored k sp n n s" and "drSpec (obj s) \<noteq> sp"
    and "run_state (update_obj (Update_DatabaseRequest (Client r))) s = (Ok (), t)"
  shows "lags stored k (drSpec (obj s)) (n + 1) n t"
proof -
  from run_update_objD [OF assms(4) [unfolded assms(1)]] obtain w y where t: "t = s\<lparr>cluster := w, obj := y\<rparr>"
    and run: "run_state (Update_DatabaseRequest K (obj s)) (cluster s) = (Ok (y, None), w)" by blast
  from assms(2) obtain d where d: "stored (cluster s) (meta_key (drMeta (obj s))) = Some d" "drSpec d = sp"
    "generation d = n" "observed d \<le> n" "metaDeletionTimestamp (drMeta d) = None" "meta_key (drMeta (obj s)) = k"
    "observed (obj s) \<le> n" "specSeed (drSpec (obj s)) = None"
    by (auto simp: lags_def)
  from update_answer [OF run d(1,5)] d assms(3) show ?thesis
    by (auto simp: t lags_def spec_updated_def)
qed

lemma finish_behind:
  assumes "Client r = K" and "lags stored k sp n (n - 1) s"
    and "specDatabaseConnectionReference (drSpec (obj s)) \<noteq> specDatabaseConnectionReference sp"
    and "specDatabaseConnectionReference sp = None"
  shows "post (finish_reconcile L r a b) s (left_behind stored k)"
proof -
  define u where "u = s\<lparr>effects := effects s @ [Set promDatabaseRequestReconcileStatus (With (promLabels (obj s) [])) 1],
    obj := (obj s)\<lparr>drStatus := (drStatus (obj s))\<lparr>statusObservedGeneration := generation (obj s)\<rparr>\<rparr>\<rparr>"
  have u: "lags stored k sp n n u" "drSpec (obj u) = drSpec (obj s)" using assms(2) by (auto simp: lags_def u_def)
  have upd: "post (update_obj (Update_DatabaseRequest (Client r))) u
      (\<lambda>res t. res = Ok () \<longrightarrow> lags stored k (drSpec (obj u)) (n + 1) n t)"
    by (intro postI impI lag_update [OF assms(1) u(1)]) (use assms(3,4) u(2) in auto)
  let ?rest = "and_then (set_status (\<lambda>st. st\<lparr>statusConditions := fst (RemoveStatusCondition L (statusConditions st) ''Error'')\<rparr>))
     (if a \<or> b then set_ready L r ''DatabaseRequestChanged'' ''The database request has been changed''
        ''DatabaseRequestUpdated'' ''The database request has been updated''
      else set_ready L r ''DatabaseRequestCreated'' ''The database request has been created''
        ''DatabaseRequestUnchanged'' ''The database request has been created'')"
  have "preserves (keeps_lag stored k (drSpec (obj u)) (n + 1) n) ?rest"
    by (intro preserves_rules lag_rules lag_set_ready preorder_keeps_lag assms(1))
  then have rest: "post ?rest t (left_behind stored k)" if "lags stored k (drSpec (obj u)) (n + 1) n t" for t
    using that assms(3,4) u(2) by (elim preserves_post) (auto simp: keeps_lag_def lags_def left_behind_def)
  have "post (go_try (update_obj (Update_DatabaseRequest (Client r)))
        (\<lambda>err. with_obj (\<lambda>o2.
           and_then (emit (Inc promDatabaseRequestReconcileErrorCounter (With (promLabels o2 ''cr-update'')))) (fail err)))
        (\<lambda>_. ?rest)) u (left_behind stored k)"
    by (rule post_go_tryI [OF upd], simp add: rest del: post_if)
      (auto simp: post_with_obj post_and_then post_emit post_fail behind_error)
  then show ?thesis
    by (simp add: finish_reconcile_def post_with_obj post_and_then post_emit u_def post_def [of "set_status _"])
qed

text \<open>From the reference on: \<open>referenced\<close> is what holds between \<open>createDatabase\<close> and the update.\<close>

definition referenced :: "NamespacedName \<Rightarrow> DatabaseRequestSpec \<Rightarrow> int \<Rightarrow> ('w, 'd) request_state \<Rightarrow> bool" where
  "referenced k sp n s \<longleftrightarrow> lags stored k sp n (n - 1) s \<and> specDatabaseConnectionReference sp = None \<and>
     specDatabaseConnectionReference (drSpec (obj s)) \<noteq> None"

lemma behind_go_try:
  assumes "preserves (keeps_spec stored k sp n (n - 1)) m" and "referenced k sp n s"
    and "\<And>err t. post (h err) t (left_behind stored k)"
    and "\<And>y t. referenced k sp n t \<Longrightarrow> post (f y) t (left_behind stored k)"
  shows "post (go_try m h f) s (left_behind stored k)"
proof (rule post_go_tryI)
  show "post m s (\<lambda>_ t. referenced k sp n t)"
    using assms(2) by (intro preserves_post [OF assms(1)]) (auto simp: keeps_spec_def referenced_def)
qed (auto intro: assms(3,4) behind_error)

lemma provide_access_behind:
  assumes "Client r = K" and "referenced k sp n s"
  shows "post (provide_access L r i) s (left_behind stored k)"
  unfolding provide_access_def
  by (intro behind_go_try [OF _ assms(2)] behind_go_try spec_access behind_handleError assms(1))
    (auto simp: referenced_def intro: finish_behind [OF assms(1)])

lemma reconcile_existing_behind:
  assumes "Client r = K" and "referenced k sp n s"
  shows "post (reconcile_existing L r) s (left_behind stored k)"
proof -
  have "post (let dbType = specType (drSpec y) in
        if dbType = mysqlType \<or> dbType = postgresType then
          go_try (relDBInfo r)
            (\<lambda>err. with_obj (\<lambda>o2. handleError L r (''get-'' @ specType (drSpec o2) @ ''-database-info'') err False))
            (provide_access L r)
        else provide_access L r None) t (left_behind stored k)" if "referenced k sp n t" for y t
    unfolding Let_def post_if
    using that by (auto intro!: behind_go_try [OF spec_info [OF assms(1)]] provide_access_behind assms(1)
        simp: post_with_obj behind_handleError)
  then show ?thesis
    unfolding reconcile_existing_def and_then_def
    by (intro behind_go_try [OF _ assms(2)])
      (auto simp: post_with_obj post_fail behind_error intro!: preserves_rules lag_rules)
qed

lemma reconcile_unseeded_behind:
  assumes "Client r = K" and "lags stored k sp n (n - 1) s" and "specDatabaseConnectionReference sp = None"
    and "specDatabaseConnectionReference (drSpec (obj s)) = None"
  shows "post (reconcile_unseeded L r) s (left_behind stored k)"
proof -
  have created: "post (createDatabase r) s (\<lambda>_ t. lags stored k sp n (n - 1) t)"
    by (rule preserves_post [OF lag_createDatabase [OF assms(1), of k sp n "n - 1"]]) (simp add: keeps_lag_def assms(2))
  have "post (go_try (createDatabase r) (\<lambda>err. handleError L r ''create-database'' err False)
      (\<lambda>_. with_obj (\<lambda>o2.
         if specDatabaseConnectionReference (drSpec o2) = None then
           handleError L r ''missing-connection-reference'' (errors_New ''missing database connection reference'') False
         else reconcile_existing L r))) s (left_behind stored k)"
    using assms(3)
    by (intro post_go_tryI [OF created])
      (auto simp: post_with_obj behind_handleError behind_error referenced_def intro!: reconcile_existing_behind [OF assms(1)])
  with assms(4) show ?thesis by (simp add: reconcile_unseeded_def post_with_obj)
qed

lemma plain_lag_update:
  assumes "Client r = K" and "lags stored k sp n g s" and "drSpec (obj s) = sp"
  shows "post (update_obj (Update_DatabaseRequest (Client r))) s
    (\<lambda>res t. res = Ok () \<longrightarrow> lags stored k sp n g t \<and> drSpec (obj t) = sp)"
proof (intro postI impI)
  fix res t
  assume "run_state (update_obj (Update_DatabaseRequest (Client r))) s = (res, t)" and "res = Ok ()"
  with run_update_objD [OF this(1) [unfolded assms(1)]] obtain w y where t: "t = s\<lparr>cluster := w, obj := y\<rparr>"
    and run: "run_state (Update_DatabaseRequest K (obj s)) (cluster s) = (Ok (y, None), w)" by blast
  from assms(2) obtain d where d: "stored (cluster s) (meta_key (drMeta (obj s))) = Some d" "drSpec d = sp"
    "generation d = n" "observed d \<le> g" "metaDeletionTimestamp (drMeta d) = None" "meta_key (drMeta (obj s)) = k"
    "observed (obj s) \<le> g" "specSeed sp = None"
    by (auto simp: lags_def)
  from update_answer [OF run d(1,5)] d assms(3) show "lags stored k sp n g t \<and> drSpec (obj t) = sp"
    by (auto simp: t lags_def spec_updated_def)
qed

lemma Reconcile_behind:
  assumes "Client r = K" and "stored (cluster s) k = Some x" and "meta_key (drMeta x) = k"
    and "metaDeletionTimestamp (drMeta x) = None" and "specSeed (drSpec x) = None"
    and "specDatabaseConnectionReference (drSpec x) = None" and "observed x < generation x"
  shows "post (Reconcile L r k) s (left_behind stored k)"
proof -
  let ?n = "generation x"
  have spec: "post (reconcile_spec L r) t (left_behind stored k)"
    if t: "lags stored k (drSpec x) ?n (?n - 1) t" "drSpec (obj t) = drSpec x" for t
  proof -
    have "\<not> up_to_date L (obj t)" using t(1) by (auto simp: lags_def up_to_date_def)
    with t assms(5,6) reconcile_unseeded_behind [OF assms(1) t(1) assms(6)] show ?thesis
      by (simp add: reconcile_spec_def post_with_obj)
  qed
  have active: "post (reconcile_active L r) t (left_behind stored k)"
    if t: "lags stored k (drSpec x) ?n (?n - 1) t" "obj t = x" for t
  proof -
    have "lags stored k (drSpec x) ?n (?n - 1) (t\<lparr>obj := x\<lparr>drMeta := (drMeta x)\<lparr>metaFinalizers := fs\<rparr>\<rparr>\<rparr>)" for fs
      using t by (simp add: lags_def meta_key_def)
    then show ?thesis
      using t(2)
      by (auto simp: reconcile_active_def post_with_obj post_and_then post_set_obj behind_error split: prod.split
          intro!: post_go_tryI [OF plain_lag_update [OF assms(1), of k "drSpec x" ?n "?n - 1"]] spec behind_handleError)
  qed
  define u where "u = s\<lparr>effects := effects s @
     [Inc promDatabaseRequestReconcileCounter (WithLabelValues [nnName k, nnNamespace k])], obj := DatabaseRequest_zero\<rparr>"
  have get: "post (in_cluster (Get_DatabaseRequest (Client r) k)) u (\<lambda>res t.
      stored (cluster t) k = Some x \<and> (\<forall>d. res = Ok d \<longrightarrow> d = x) \<and>
      (\<forall>err. res = Err err \<longrightarrow> \<not> IsNotFound err))"
  proof (rule postI)
    fix res t
    assume "run_state (in_cluster (Get_DatabaseRequest (Client r) k)) u = (res, t)"
    then have run: "run_state (Get_DatabaseRequest K k) (cluster s) = (res, cluster t)"
      using assms(1) by (auto simp: u_def split: prod.splits)
    with others(1) have "stored (cluster t) = stored (cluster s)" by (simp add: keeps_requests_def)
    with run assms(2) show "stored (cluster t) k = Some x \<and> (\<forall>d. res = Ok d \<longrightarrow> d = x) \<and>
        (\<forall>err. res = Err err \<longrightarrow> \<not> IsNotFound err)"
      by (auto dest: get_request get_missing)
  qed
  have "\<not> deleting x" using assms(4) by (simp add: deleting_def)
  have start: "post (reconcile_active L r) (t\<lparr>obj := x\<rparr>) (left_behind stored k)"
    if "stored (cluster t) k = Some x" for t
    using that assms(3-7) by (intro active) (simp_all add: lags_def)
  have "post (go_try (in_cluster (Get_DatabaseRequest (Client r) k))
        (\<lambda>err. if \<not> IsNotFound err then
             and_then (emit (Inc promDatabaseRequestReconcileErrorCounter
                (WithLabelValues [nnName k, nnNamespace k, [], [], ''get-dbreq'', [], []]))) (fail err)
           else ok ())
        (\<lambda>d. and_then (set_obj d) (if deleting d then deleteDatabase L r else reconcile_active L r))) u (left_behind stored k)"
    using \<open>\<not> deleting x\<close>
    by (intro post_go_tryI [OF get])
      (clarsimp simp: post_and_then post_emit post_fail post_set_obj behind_error start)+
  then show ?thesis
    by (simp add: Reconcile_def post_and_then post_emit post_set_obj u_def)
qed

end

end
