(* ===== verification/GenerationProps.thy ===== *)
theory GenerationProps
  imports StaleGeneration RequestProps
begin

section \<open>Properties of the observed generation\<close>

text \<open>
  Over every API server that satisfies \<open>request_store\<close>, and on the cluster in memory, which does.
\<close>

lemma mem_requests_kept:
  "keeps_requests mcRequests (mem_lookup f)"
  "(\<And>w. mcRequests (g w) = mcRequests w) \<Longrightarrow> keeps_requests mcRequests (mem_write found g)"
  by (auto simp: keeps_requests_def run_mem_lookup run_mem_write split: option.splits if_splits)

lemma named_as_fields:
  "metaDeletionTimestamp (named_as k m) = metaDeletionTimestamp m" "metaGeneration (named_as k m) = metaGeneration m"
  by (simp_all add: named_as_def)

interpretation mem_requests: request_store mem_client mcRequests
proof (unfold_locales, goal_cases)
  case (1 k d w w')
  then show ?case by (auto simp: run_mem_lookup split: option.splits)
next
  case (2 k w err w')
  then show ?case by (auto simp: run_mem_lookup split: option.splits)
next
  case (5)
  then show ?case by (simp add: keeps_requests_def)
next
  case (12 d old w r w')
  then show ?case
    by (auto simp: mem_update_request_def Let_def spec_updated_def meta_key_def split: if_splits)
next
  case (13 d d' old w e w')
  then show ?case
    by (auto simp: mem_update_request_def Let_def spec_updated_def meta_key_def split: if_splits)
next
  case (14 d old w r w')
  then show ?case
    by (auto simp: mem_status_update_request_def Let_def status_updated_def named_as_fields split: if_splits)
next
  case (15 d d' old w e w')
  then show ?case
    by (auto simp: mem_status_update_request_def Let_def named_as_fields split: if_splits)
qed (simp_all add: mem_requests_kept)

text \<open>
  The steps that leave a request alone except for its own reconciliations: one of those,
  with any result, or a change elsewhere in the cluster.
\<close>

inductive later_step ::
    "library \<Rightarrow> ('w, 'd) DatabaseRequestReconciler \<Rightarrow> ('w \<Rightarrow> NamespacedName \<Rightarrow> DatabaseRequest option) \<Rightarrow>
      NamespacedName \<Rightarrow> 'w \<Rightarrow> 'w \<Rightarrow> bool"
  for L r stored k where
  again: "run_state (Reconcile L r k) s = (res, t) \<Longrightarrow> later_step L r stored k (cluster s) (cluster t)"
| elsewhere: "stored w' k = stored w k \<Longrightarrow> later_step L r stored k w w'"

text \<open>
  C15: provisioning leaves a request behind: when the reconciliation of a stored request without seed and
  connection reference returns no error, the stored request has a reference, and the generation it
  is said to have observed is below its generation. So it is not up to date.
\<close>

theorem provisioned_request_is_stale:
  assumes "request_store (Client r) stored" and "stored (cluster s) k = Some x" and "meta_key (drMeta x) = k"
    and "metaDeletionTimestamp (drMeta x) = None" and "specSeed (drSpec x) = None"
    and "specDatabaseConnectionReference (drSpec x) = None" and "observed x < generation x"
    and "run_state (Reconcile L r k) s = (Ok (), t)"
  shows "\<exists>y. stored (cluster t) k = Some y \<and> specDatabaseConnectionReference (drSpec y) \<noteq> None \<and>
    observed y < generation y \<and> \<not> up_to_date L y"
  using postD [OF request_store.Reconcile_behind [OF assms(1) refl assms(2-7)] assms(8)]
  by (auto simp: left_behind_def up_to_date_def)

definition demo_new_request :: DatabaseRequest where
  "demo_new_request = demo_request\<lparr>drMeta := (drMeta demo_request)\<lparr>metaGeneration := 1\<rparr>\<rparr>"

theorem provisioned_request_is_stale_witness:
  "\<exists>t y. run_state (Reconcile mem_library demo_reconciler demo_key) (demo_state demo_new_request) = (Ok (), t) \<and>
     mcRequests (cluster t) demo_key = Some y \<and> observed y < generation y"
proof -
  have "fst (run_state (Reconcile mem_library demo_reconciler demo_key) (demo_state demo_new_request)) = Ok ()"
    by (simp add: demo_new_request_def demo_defs call_defs reconcile_defs Let_def mysqlType_def postgresType_def demo_load)
  then obtain t where run: "run_state (Reconcile mem_library demo_reconciler demo_key) (demo_state demo_new_request) = (Ok (), t)"
    by (metis prod.collapse)
  have store: "request_store (Client demo_reconciler) mcRequests"
    using mem_requests.request_store_axioms by simp
  have "\<exists>y. mcRequests (cluster t) demo_key = Some y \<and> specDatabaseConnectionReference (drSpec y) \<noteq> None \<and>
      observed y < generation y \<and> \<not> up_to_date mem_library y"
    by (rule provisioned_request_is_stale [OF store _ _ _ _ _ _ run, where x = demo_new_request])
      (simp_all add: demo_new_request_def demo_defs meta_key_def)
  with run show ?thesis by blast
qed

text \<open>
  C14: such a request never settles: once it has a connection reference and an observed generation
  that is not zero and below its generation, it is never up to date again. Whatever number of
  reconciliations follows, with whatever results, the stored request keeps its specification and
  both generations, so every reconciliation of it does all the work again.
\<close>

theorem stale_request_never_settles:
  assumes "request_store (Client r) stored" and "stored w k = Some x" and "meta_key (drMeta x) = k"
    and "metaDeletionTimestamp (drMeta x) = None" and "specSeed (drSpec x) = None"
    and "specDatabaseConnectionReference (drSpec x) \<noteq> None"
    and "observed x \<noteq> 0" and "observed x < generation x"
    and "(later_step L r stored k)\<^sup>*\<^sup>* w w'"
  shows "\<exists>y. stored w' k = Some y \<and> drSpec y = drSpec x \<and> observed y = observed x \<and>
    generation y = generation x \<and> \<not> up_to_date L y"
proof -
  have keep: "\<exists>y. stored v' k = Some y \<and> like x y" if "later_step L r stored k v v'" "stored v k = Some d" "like x d" for v v' d
    using that(1)
  proof cases
    case (again s res t)
    have "\<exists>y. stored (cluster t) k = Some y \<and> like d y"
      by (rule postD [OF request_store.Reconcile_still [OF assms(1) refl] again(3)])
        (use that again assms(3-7) in \<open>auto simp: like_def\<close>)
    with again that(3) show ?thesis by (auto simp: like_def)
  qed (use that in auto)
  from assms(9) have "\<exists>y. stored w' k = Some y \<and> like x y"
  proof (induction rule: rtranclp_induct)
    case base
    from assms(2,4) show ?case by (simp add: like_def)
  next
    case (step v v')
    then obtain d where "stored v k = Some d" "like x d" by blast
    with step(2) show ?case by (rule keep)
  qed
  with assms(8) show ?thesis by (auto simp: like_def up_to_date_def)
qed

definition demo_stale_request :: DatabaseRequest where
  "demo_stale_request = demo_request
     \<lparr>drMeta := (drMeta demo_request)\<lparr>metaGeneration := 2\<rparr>,
      drSpec := (drSpec demo_request)\<lparr>specDatabaseConnectionReference := Some (connection_reference demo_provider demo_connection)\<rparr>,
      drStatus := (drStatus demo_request)\<lparr>statusObservedGeneration := 1\<rparr>\<rparr>"

theorem stale_request_never_settles_witness:
  "\<exists>y. mcRequests (cluster (snd (run_state (Reconcile mem_library demo_reconciler demo_key) (demo_state demo_stale_request))))
         demo_key = Some y \<and> observed y = 1 \<and> \<not> up_to_date mem_library y"
proof -
  obtain res t where run: "run_state (Reconcile mem_library demo_reconciler demo_key) (demo_state demo_stale_request) = (res, t)"
    by fastforce
  from later_step.again [OF this, where stored = mcRequests]
  have steps: "(later_step mem_library demo_reconciler mcRequests demo_key)\<^sup>*\<^sup>* (demo_cluster demo_stale_request) (cluster t)"
    by (simp add: demo_state_def r_into_rtranclp)
  have store: "request_store (Client demo_reconciler) mcRequests"
    using mem_requests.request_store_axioms by simp
  have "\<exists>y. mcRequests (cluster t) demo_key = Some y \<and> drSpec y = drSpec demo_stale_request \<and>
      observed y = observed demo_stale_request \<and> generation y = generation demo_stale_request \<and> \<not> up_to_date mem_library y"
    by (rule stale_request_never_settles [OF store _ _ _ _ _ _ _ steps])
      (simp_all add: demo_stale_request_def demo_defs meta_key_def)
  with run show ?thesis by (auto simp: demo_stale_request_def)
qed

end
