(* ===== verification/MongoDB.thy ===== *)
theory MongoDB
  imports RelDB
begin

section \<open>The MongoDB client (internal/database/mongodb)\<close>

text \<open>
  \<open>MongoDBInterface\<close>, its implementation \<open>MongoDBImpl\<close> and its mock. The driver and the servers
  are not part of the repository: they are the parameter \<open>mongo\<close>, programs over a server state
  \<open>'w\<close> for the calls of the driver that the code makes, each with the database and collection
  it goes to. Decoding a document into a \<open>MongoDBInfo\<close> is the driver's, so the calls that the
  code decodes return the decoded value or the error. A Go map literal is a HOL map, a
  \<open>bson.D\<close> a list. Decoding sets every field of the \<open>MongoDBInfo\<close>. The package has copies of the
  length constants and of \<open>generateRandomString\<close> of \<open>database.go\<close>, equal to those, so the
  definitions of \<open>RelDB\<close> are used for both. \<open>GetClient\<close> is not in the interface record: nobody calls it through the
  interface. Log output is not modelled.
\<close>

record MongoDBInfo =
  miUsername :: string
  miPassword :: string
  miDbname :: string

record MongoDBClientOptions =
  moName :: string
  moHostname :: string
  moPort :: int
  moUsername :: string
  moPassword :: string
  moMechanism :: string
  moSource :: string
  moTLS :: bool

record 's MongoDBInterface =
  mdiGetUser :: "MongoDBClientOptions \<Rightarrow> string \<Rightarrow> string \<Rightarrow> ('s, MongoDBInfo) go"
  mdiDropUserAndDatabase :: "MongoDBClientOptions \<Rightarrow> string \<Rightarrow> string \<Rightarrow> ('s, unit) go"
  mdiCreateUserAndDatabase :: "MongoDBClientOptions \<Rightarrow> string \<Rightarrow> string \<Rightarrow> ('s, MongoDBInfo) go"
  mdiVersion :: "MongoDBClientOptions \<Rightarrow> ('s, string) go"
  mdiPing :: "MongoDBClientOptions \<Rightarrow> ('s, unit) go"

definition mongo_mock_info :: MongoDBInfo where
  "mongo_mock_info = \<lparr>miUsername = ''mock-user'', miPassword = ''mock-pw'', miDbname = ''mock-db''\<rparr>"

definition MongoDBMock :: "'s MongoDBInterface" where
  "MongoDBMock =
     \<lparr>mdiGetUser = (\<lambda>mop name namespace. ok mongo_mock_info),
      mdiDropUserAndDatabase = (\<lambda>mop name namespace. ok ()),
      mdiCreateUserAndDatabase = (\<lambda>mop name namespace. ok mongo_mock_info),
      mdiVersion = (\<lambda>mop. ok ''4.4.0''),
      mdiPing = (\<lambda>mop. ok ())\<rparr>"

subsection \<open>The driver\<close>

text \<open>The values the code puts into commands and reads from their results.\<close>

datatype bson = BString string | BInt int | BDocument "(string \<times> bson) list" | BArray "bson list"

text \<open>\<open>options.ClientOptions\<close> as the code sets them.\<close>

record ClientOptions =
  coURI :: string
  coAuthSource :: string
  coUsername :: string
  coPassword :: string
  coAuthMechanism :: string
  coInsecureSkipVerify :: "bool option"

record ('c, 'w) mongo =
  mongo_Connect :: "ClientOptions \<Rightarrow> ('w, 'c) go"
  mongo_FindOne :: "'c \<Rightarrow> string \<Rightarrow> string \<Rightarrow> (string \<rightharpoonup> string) \<Rightarrow> ('w, MongoDBInfo) go"
  mongo_InsertOne :: "'c \<Rightarrow> string \<Rightarrow> string \<Rightarrow> (string \<rightharpoonup> string) \<Rightarrow> ('w, unit) go"
  mongo_FindOneAndSetOnInsert ::
    "'c \<Rightarrow> string \<Rightarrow> string \<Rightarrow> (string \<rightharpoonup> string) \<Rightarrow> MongoDBInfo \<Rightarrow> ('w, MongoDBInfo) go"
  mongo_DeleteOne :: "'c \<Rightarrow> string \<Rightarrow> string \<Rightarrow> (string \<rightharpoonup> string) \<Rightarrow> ('w, int) go"
  mongo_DropDatabase :: "'c \<Rightarrow> string \<Rightarrow> ('w, unit) go"
  mongo_RunCommand :: "'c \<Rightarrow> string \<Rightarrow> (string \<times> bson) list \<Rightarrow> ('w, string \<rightharpoonup> bson) go"
  mongo_Ping :: "'c \<Rightarrow> ('w, unit) go"
  mongo_rand :: "('w, nat) state"

record ('c, 'w) MongoDBImpl =
  clientCache :: "MongoDBClientOptions \<rightharpoonup> 'c"
  miServer :: 'w

definition NewMongoDBImpl :: "'w \<Rightarrow> ('c, 'w) MongoDBImpl" where
  "NewMongoDBImpl w = \<lparr>clientCache = Map.empty, miServer = w\<rparr>"

definition on_mongo :: "('w, 'a) state \<Rightarrow> (('c, 'w) MongoDBImpl, 'a) state" where
  "on_mongo m = on_part miServer miServer_update m"

subsection \<open>Clients\<close>

definition clientOptions :: "MongoDBClientOptions \<Rightarrow> ClientOptions" where
  "clientOptions mco =
     \<lparr>coURI = ''mongodb://'' @ moHostname mco @ '':'' @ fmt_d (moPort mco),
      coAuthSource = moSource mco, coUsername = moUsername mco, coPassword = moPassword mco,
      coAuthMechanism = moMechanism mco,
      coInsecureSkipVerify = (if moTLS mco then Some True else None)\<rparr>"

definition GetClient ::
    "('c, 'w) mongo \<Rightarrow> MongoDBClientOptions \<Rightarrow> (('c, 'w) MongoDBImpl, 'c) go" where
  "GetClient mongo mop =
     do {
       mi \<leftarrow> get_state;
       (case clientCache mi mop of
          Some client \<Rightarrow> ok client
        | None \<Rightarrow>
            go_try (on_mongo (mongo_Connect mongo (clientOptions mop)))
              (\<lambda>err. fail (Errorf_w ''failed to connect to MongoDB: '' err))
              (\<lambda>client. do {
                 _ \<leftarrow> modify_state (clientCache_update (\<lambda>cache. cache(mop \<mapsto> client)));
                 ok client
               }))
     }"

definition Ping_mongo ::
    "('c, 'w) mongo \<Rightarrow> MongoDBClientOptions \<Rightarrow> (('c, 'w) MongoDBImpl, unit) go" where
  "Ping_mongo mongo mop =
     go_try (GetClient mongo mop)
       (\<lambda>err. fail (Errorf_w ''failed to ping MongoDB server: '' err))
       (\<lambda>client. on_mongo (mongo_Ping mongo client))"

definition Version_mongo ::
    "('c, 'w) mongo \<Rightarrow> MongoDBClientOptions \<Rightarrow> (('c, 'w) MongoDBImpl, string) go" where
  "Version_mongo mongo mop =
     go_try (GetClient mongo mop)
       (\<lambda>err. fail (Errorf_w ''failed to get version: '' err))
       (\<lambda>client.
     go_try (on_mongo (mongo_RunCommand mongo client ''admin'' [(''buildInfo'', BInt 1)]))
       (\<lambda>err. fail (Errorf_w ''failed to execute buildInfo command: '' err))
       (\<lambda>result. case result ''version'' of
          Some (BString version) \<Rightarrow> ok version
        | _ \<Rightarrow> fail (errors_New ''version not found in buildInfo response'')))"

subsection \<open>Users\<close>

definition controller_db :: string where
  "controller_db = ''dbaas_controller''"

definition user_filter :: "string \<Rightarrow> string \<Rightarrow> (string \<rightharpoonup> string)" where
  "user_filter name namespace = [''name'' \<mapsto> name, ''namespace'' \<mapsto> namespace]"

definition GetUser ::
    "('c, 'w) mongo \<Rightarrow> MongoDBClientOptions \<Rightarrow> string \<Rightarrow> string \<Rightarrow> (('c, 'w) MongoDBImpl, MongoDBInfo) go" where
  "GetUser mongo mop name namespace =
     go_try (GetClient mongo mop)
       (\<lambda>err. fail (Errorf_w ''failed to get MongoDB User: '' err))
       (\<lambda>client.
     go_try (on_mongo (mongo_FindOne mongo client controller_db ''users'' (user_filter name namespace)))
       (\<lambda>err.
          if own_kind err = Some MongoErrNoDocuments then
            fail (Errorf_w (''user '' @ name @ '' in namespace '' @ namespace @ '' does not exist, '') err)
          else fail (Errorf_w ''failed to retrieve user: '' err))
       ok)"

definition createMongoDBUserInfo :: "('s, nat) state \<Rightarrow> string \<Rightarrow> ('s, MongoDBInfo) go" where
  "createMongoDBUserInfo source namespace =
     go_try (generateRandomString source maxUsernameLength) fail (\<lambda>username.
     go_try (generateRandomString source maxPasswordLength) fail (\<lambda>password.
     go_try (generateRandomString source (maxDatabaseNameLength - int (length namespace) - 1)) fail (\<lambda>suffix.
       ok \<lparr>miUsername = username, miPassword = password, miDbname = namespace @ ''_'' @ suffix\<rparr>)))"

text \<open>The exported variant, which truncates the namespace.\<close>

definition CreateMongoDBInfo :: "('s, nat) state \<Rightarrow> string \<Rightarrow> ('s, MongoDBInfo) go" where
  "CreateMongoDBInfo source namespace =
     go_try (generateRandomString source maxUsernameLength) fail (\<lambda>username.
     go_try (generateRandomString source maxPasswordLength) fail (\<lambda>password.
       let dbnamePrefix = (if length namespace > 50 then take 50 namespace else namespace) in
       go_try (generateRandomString source (maxDatabaseNameLength - int (length dbnamePrefix) - 1)) fail
         (\<lambda>suffix. ok \<lparr>miUsername = username, miPassword = password, miDbname = dbnamePrefix @ ''_'' @ suffix\<rparr>)))"

definition mongoUserExists ::
    "('c, 'w) mongo \<Rightarrow> 'c \<Rightarrow> string \<Rightarrow> (('c, 'w) MongoDBImpl, bool) go" where
  "mongoUserExists mongo client username =
     go_try (on_mongo (mongo_RunCommand mongo client ''admin''
               [(''usersInfo'', BDocument [(''user'', BString username), (''db'', BString ''admin'')])]))
       (\<lambda>err. fail (Errorf_w ''failed to run usersInfo command: '' err))
       (\<lambda>result. case result ''users'' of
          Some (BArray users) \<Rightarrow> ok (users \<noteq> [])
        | _ \<Rightarrow> ok False)"

definition create_user_command :: "MongoDBInfo \<Rightarrow> (string \<times> bson) list" where
  "create_user_command info =
     [(''createUser'', BString (miUsername info)), (''pwd'', BString (miPassword info)),
      (''roles'', BArray [BDocument [(''role'', BString ''readWrite''), (''db'', BString (miDbname info))]])]"

text \<open>\<open>CreateUserAndDatabase\<close> from \<open>mongoUserExists\<close> on.\<close>

definition ensure_auth_user ::
    "('c, 'w) mongo \<Rightarrow> 'c \<Rightarrow> MongoDBInfo \<Rightarrow> (('c, 'w) MongoDBImpl, MongoDBInfo) go" where
  "ensure_auth_user mongo client userInfo =
     go_try (mongoUserExists mongo client (miUsername userInfo))
       (\<lambda>err. fail (Errorf_w ''failed to check if user exists: '' err))
       (\<lambda>userExists.
          if userExists then ok userInfo
          else
            go_try (on_mongo (mongo_RunCommand mongo client ''admin'' (create_user_command userInfo)))
              (\<lambda>err. fail (Errorf_w ''failed to create MongoDB user: '' err))
              (\<lambda>_. ok userInfo))"

text \<open>
  From the insertion of the dummy document on. The update returns the document as it was
  before, so its \<open>ErrNoDocuments\<close> means that \<open>userInfo\<close> has been inserted.
\<close>

definition ensure_user ::
    "('c, 'w) mongo \<Rightarrow> 'c \<Rightarrow> string \<Rightarrow> string \<Rightarrow> MongoDBInfo \<Rightarrow> (('c, 'w) MongoDBImpl, MongoDBInfo) go" where
  "ensure_user mongo client name namespace userInfo =
     go_try (on_mongo (mongo_InsertOne mongo client (miDbname userInfo) ''init'' [''init'' \<mapsto> ''true'']))
       (\<lambda>err. fail (Errorf_w ''failed to ensure database exists: '' err))
       (\<lambda>_.
     go_try (on_mongo (mongo_FindOneAndSetOnInsert mongo client controller_db ''users''
               (user_filter name namespace) userInfo))
       (\<lambda>err.
          if own_kind err \<noteq> Some MongoErrNoDocuments then
            fail (Errorf_w ''failed to create or update user document: '' err)
          else ensure_auth_user mongo client userInfo)
       (\<lambda>userInfo. ensure_auth_user mongo client userInfo))"

definition CreateUserAndDatabase ::
    "('c, 'w) mongo \<Rightarrow> MongoDBClientOptions \<Rightarrow> string \<Rightarrow> string \<Rightarrow> (('c, 'w) MongoDBImpl, MongoDBInfo) go" where
  "CreateUserAndDatabase mongo mop name namespace =
     go_try (GetClient mongo mop)
       (\<lambda>err. fail (Errorf_w ''failed to create user and database: '' err))
       (\<lambda>client.
     go_try (GetUser mongo mop name namespace)
       (\<lambda>err.
          if root_kind err \<noteq> MongoErrNoDocuments then fail (Errorf_w ''failed to get user info: '' err)
          else
            go_try (createMongoDBUserInfo (on_mongo (mongo_rand mongo)) namespace) fail
              (ensure_user mongo client name namespace))
       (ensure_user mongo client name namespace))"

definition DropUserAndDatabase ::
    "('c, 'w) mongo \<Rightarrow> MongoDBClientOptions \<Rightarrow> string \<Rightarrow> string \<Rightarrow> (('c, 'w) MongoDBImpl, unit) go" where
  "DropUserAndDatabase mongo mop name namespace =
     go_try (GetClient mongo mop)
       (\<lambda>err. fail (Errorf_w ''failed to drop user and database: '' err))
       (\<lambda>client.
     go_try (GetUser mongo mop name namespace)
       (\<lambda>err.
          if root_kind err = MongoErrNoDocuments then ok ()
          else fail (Errorf_w ''failed to retrieve user info: '' err))
       (\<lambda>userInfo.
     go_try (on_mongo (mongo_DropDatabase mongo client (miDbname userInfo)))
       (\<lambda>err. fail (Errorf_w (''failed to drop user database '' @ miDbname userInfo @ '': '') err))
       (\<lambda>_.
     go_try (on_mongo (mongo_RunCommand mongo client ''admin'' [(''dropUser'', BString (miUsername userInfo))]))
       (\<lambda>err. fail (Errorf_w (''failed to drop MongoDB user '' @ miUsername userInfo @ '': '') err))
       (\<lambda>_.
     go_try (on_mongo (mongo_DeleteOne mongo client controller_db ''users'' (user_filter name namespace)))
       (\<lambda>err. fail (Errorf_w ''failed to delete user document: '' err))
       (\<lambda>deletedCount.
          if deletedCount = 0 then
            fail (errors_New (''no user document found with name '' @ name @ '' in namespace '' @ namespace))
          else ok ())))))"

text \<open>\<open>*MongoDBImpl\<close> as the interface the provider reconciler holds.\<close>

definition MongoDBImpl_interface :: "('c, 'w) mongo \<Rightarrow> ('c, 'w) MongoDBImpl MongoDBInterface" where
  "MongoDBImpl_interface mongo =
     \<lparr>mdiGetUser = GetUser mongo, mdiDropUserAndDatabase = DropUserAndDatabase mongo,
      mdiCreateUserAndDatabase = CreateUserAndDatabase mongo,
      mdiVersion = Version_mongo mongo, mdiPing = Ping_mongo mongo\<rparr>"

end
