(* ===== verification/MongoFacts.thy ===== *)
theory MongoFacts
  imports MongoDB RelDBFacts
begin

section \<open>Facts about the MongoDB client\<close>

text \<open>
  The locale \<open>mongo_store\<close> states what the driver and the server promise about the documents
  of the collection \<open>users\<close>, seen as a map from name and namespace to credentials for every
  connected client. Its lemmas say what each method of \<open>MongoDBImpl\<close> does to that map.
\<close>

subsection \<open>Generated credentials\<close>

definition generated_mongo :: "string \<Rightarrow> MongoDBInfo \<Rightarrow> bool" where
  "generated_mongo pre info \<longleftrightarrow>
     length (miUsername info) = 16 \<and> list_all alnum (miUsername info) \<and>
     length (miPassword info) = 24 \<and> list_all alnum (miPassword info) \<and>
     length (miDbname info) = 63 \<and>
     (\<exists>suffix. miDbname info = pre @ ''_'' @ suffix \<and> list_all alnum suffix)"

lemma createMongoDBUserInfo_spec:
  "post (createMongoDBUserInfo source namespace) s
     (\<lambda>r t. if length namespace \<le> 62 then \<exists>info. r = Ok info \<and> generated_mongo namespace info
            else r = Panic ''runtime error: makeslice: len out of range'')"
proof -
  note random = generateRandomString_spec [of _ source]
  have last: "post (go_try (generateRandomString source (62 - int (length namespace))) fail
      (\<lambda>suffix. ok \<lparr>miUsername = u, miPassword = p, miDbname = namespace @ ''_'' @ suffix\<rparr>)) t
      (\<lambda>r t. if length namespace \<le> 62 then \<exists>info. r = Ok info \<and> generated_mongo namespace info
             else r = Panic ''runtime error: makeslice: len out of range'')"
    if "length u = 16" "list_all alnum u" "length p = 24" "list_all alnum p" for u p t
  proof (cases "length namespace \<le> 62")
    case True
    then show ?thesis
      by (intro post_go_tryI [OF random]) (use that in \<open>auto simp: post_rules generated_mongo_def\<close>)
  next
    case False
    then show ?thesis by (simp add: post_def run_go_try generateRandomString_def)
  qed
  show ?thesis
    unfolding createMongoDBUserInfo_def maxUsernameLength_def maxPasswordLength_def maxDatabaseNameLength_def
    by (rule post_go_tryI [OF random], simp, rule post_go_tryI [OF random], simp)
      (auto intro!: last [simplified])
qed

lemma CreateMongoDBInfo_spec:
  "post (CreateMongoDBInfo source namespace) s
     (\<lambda>r t. \<exists>info. r = Ok info \<and> generated_mongo (db_prefix namespace) info)"
proof -
  note random = generateRandomString_spec [of _ source]
  show ?thesis
    unfolding CreateMongoDBInfo_def maxUsernameLength_def maxPasswordLength_def
      maxDatabaseNameLength_def Let_def db_prefix_def [symmetric]
    by (rule post_go_tryI [OF random], simp, rule post_go_tryI [OF random], simp,
        rule post_go_tryI [OF random])
      (auto simp: post_rules generated_mongo_def length_db_prefix nat_diff_distrib)
qed

lemma generated_not_controller:
  assumes "generated_mongo pre info" shows "miDbname info \<noteq> controller_db"
proof
  assume "miDbname info = controller_db"
  then have "length (miDbname info) = 16" by (simp add: controller_db_def)
  with assms show False by (simp add: generated_mongo_def)
qed

subsection \<open>Calls of the methods\<close>

text \<open>One call of a method, other than a drop of the user \<open>k\<close>.\<close>

inductive mongo_step :: "('c, 'w) mongo \<Rightarrow> string \<times> string \<Rightarrow> ('c, 'w) MongoDBImpl \<Rightarrow> ('c, 'w) MongoDBImpl \<Rightarrow> bool"
  for M k where
  get: "run_state (GetUser M mop n ns) s = (r, t) \<Longrightarrow> mongo_step M k s t"
| create: "run_state (CreateUserAndDatabase M mop n ns) s = (r, t) \<Longrightarrow> mongo_step M k s t"
| drop: "run_state (DropUserAndDatabase M mop n ns) s = (r, t) \<Longrightarrow> (n, ns) \<noteq> k \<Longrightarrow> mongo_step M k s t"
| version: "run_state (Version_mongo M mop) s = (r, t) \<Longrightarrow> mongo_step M k s t"
| ping: "run_state (Ping_mongo M mop) s = (r, t) \<Longrightarrow> mongo_step M k s t"

subsection \<open>What the driver and the server promise\<close>

locale mongo_store =
  fixes M :: "('c, 'w) mongo" and users :: "'w \<Rightarrow> 'c \<Rightarrow> string \<times> string \<Rightarrow> MongoDBInfo option"
  assumes find_kept:
    "\<And>w w'. run_state (mongo_FindOne M c db coll f) w = (r, w') \<Longrightarrow> users w' = users w"
    and find_user:
    "\<And>w w'. run_state (mongo_FindOne M c controller_db ''users'' (user_filter n ns)) w = (r, w') \<Longrightarrow>
       (\<forall>i. r = Ok i \<longrightarrow> users w c (n, ns) = Some i) \<and>
       (\<forall>err. r = Err err \<and> root_kind err = MongoErrNoDocuments \<longrightarrow> users w c (n, ns) = None)"
    and upsert:
    "\<And>w w'. run_state (mongo_FindOneAndSetOnInsert M c controller_db ''users'' (user_filter n ns) info) w = (out, w') \<Longrightarrow>
       (\<forall>c' k i. users w c' k = Some i \<longrightarrow> users w' c' k = Some i) \<and>
       (\<forall>c' k i. users w' c' k = Some i \<longrightarrow> users w c' k = Some i \<or> i = info) \<and>
       (\<forall>i. out = Ok i \<longrightarrow> users w c (n, ns) = Some i) \<and>
       (\<forall>err. out = Err err \<and> own_kind err = Some MongoErrNoDocuments \<longrightarrow> users w' c (n, ns) = Some info)"
    and delete:
    "\<And>w w'. run_state (mongo_DeleteOne M c controller_db ''users'' (user_filter n ns)) w = (count, w') \<Longrightarrow>
       (\<forall>c' k. k \<noteq> (n, ns) \<longrightarrow> users w' c' k = users w c' k) \<and>
       (\<forall>c' k i. users w' c' k = Some i \<longrightarrow> users w c' k = Some i) \<and>
       (\<forall>d. count = Ok d \<longrightarrow> users w' c (n, ns) = None)"
    and insert_kept:
    "\<And>w w'. run_state (mongo_InsertOne M c db coll doc) w = (r', w') \<Longrightarrow>
       (db, coll) \<noteq> (controller_db, ''users'') \<Longrightarrow> users w' = users w"
    and drop_kept:
    "\<And>w w'. run_state (mongo_DropDatabase M c db) w = (r', w') \<Longrightarrow> db \<noteq> controller_db \<Longrightarrow> users w' = users w"
    and command_kept: "\<And>w w'. run_state (mongo_RunCommand M c db cmd) w = (res, w') \<Longrightarrow> users w' = users w"
    and ping_kept: "\<And>w w'. run_state (mongo_Ping M c) w = (r', w') \<Longrightarrow> users w' = users w"
    and connect_kept: "\<And>w w'. run_state (mongo_Connect M opts) w = (cl, w') \<Longrightarrow> users w' = users w"
    and rand_kept: "\<And>w w'. run_state (mongo_rand M) w = (x, w') \<Longrightarrow> users w' = users w"
begin

text \<open>The invariant: no user has the controller's own database.\<close>

definition uinv :: "('c, 'w) MongoDBImpl \<Rightarrow> bool" where
  "uinv s \<longleftrightarrow> (\<forall>c k i. users (miServer s) c k = Some i \<longrightarrow> miDbname i \<noteq> controller_db)"

text \<open>The credentials of a name and namespace behind the client of some options.\<close>

definition user_of :: "('c, 'w) MongoDBImpl \<Rightarrow> MongoDBClientOptions \<Rightarrow> string \<times> string \<Rightarrow> MongoDBInfo option" where
  "user_of s mop k = (case clientCache s mop of None \<Rightarrow> None | Some c \<Rightarrow> users (miServer s) c k)"

text \<open>The cache grows, the invariant stays, and only the users in \<open>K\<close> may go.\<close>

definition keeps :: "(string \<times> string) set \<Rightarrow> ('c, 'w) MongoDBImpl \<Rightarrow> ('c, 'w) MongoDBImpl \<Rightarrow> bool" where
  "keeps K s t \<longleftrightarrow> clientCache s \<subseteq>\<^sub>m clientCache t \<and>
     (uinv s \<longrightarrow> uinv t \<and> (\<forall>c k i. k \<notin> K \<longrightarrow> users (miServer s) c k = Some i \<longrightarrow> users (miServer t) c k = Some i))"

lemma preorder_keeps [simp]: "preorder_rel (keeps K)"
  by (auto simp: preorder_rel_def keeps_def intro!: reflpI transpI dest: map_le_trans)

lemma keeps_trans: "keeps K s t \<Longrightarrow> keeps K t u \<Longrightarrow> keeps K s u"
  using preorder_keeps unfolding preorder_rel_def by (blast elim: transpE)

lemma keeps_mono: "keeps {} s t \<Longrightarrow> keeps K s t"
  by (auto simp: keeps_def)

lemma keeps_user:
  "keeps K s t \<Longrightarrow> uinv s \<Longrightarrow> k \<notin> K \<Longrightarrow> user_of s mop k = Some i \<Longrightarrow> user_of t mop k = Some i"
  by (cases k) (force simp: keeps_def user_of_def map_le_def dom_def split: option.splits)

text \<open>\<open>same s t\<close>: the documents are those of \<open>s\<close>, and the cache grows.\<close>

definition same :: "('c, 'w) MongoDBImpl \<Rightarrow> ('c, 'w) MongoDBImpl \<Rightarrow> bool" where
  "same s t \<longleftrightarrow> clientCache s \<subseteq>\<^sub>m clientCache t \<and> users (miServer t) = users (miServer s)"

lemma preorder_same [simp]: "preorder_rel same"
  by (auto simp: preorder_rel_def same_def intro!: reflpI transpI dest: map_le_trans)

lemma same_keeps: "same s t \<Longrightarrow> keeps K s t"
  by (simp add: same_def keeps_def uinv_def)

lemma same_trans: "same s t \<Longrightarrow> same t u \<Longrightarrow> same s u"
  using preorder_same unfolding preorder_rel_def by (blast elim: transpE)

lemma same_users: "same s t \<Longrightarrow> users (miServer t) = users (miServer s)"
  by (simp add: same_def)

lemma run_on_mongo [simp]:
  "run_state (on_mongo m) s = (case run_state m (miServer s) of (r, w) \<Rightarrow> (r, s\<lparr>miServer := w\<rparr>))"
  by (simp add: on_mongo_def)

lemma same_calls [preserves_rules]:
  "preserves same (on_mongo (mongo_FindOne M c db coll f))"
  "preserves same (on_mongo (mongo_RunCommand M c db cmd))"
  "preserves same (on_mongo (mongo_Ping M c))"
  "preserves same (on_mongo (mongo_rand M))"
  by (rule preservesI, auto simp: same_def split: prod.splits
      dest: find_kept command_kept ping_kept rand_kept)+

lemma GetClient_post:
  "post (GetClient M mop) s (\<lambda>r t. same s t \<and>
     (\<forall>c. r = Ok c \<longrightarrow> clientCache t mop = Some c) \<and> (\<forall>c. clientCache s mop = Some c \<longrightarrow> r = Ok c \<and> t = s))"
proof (rule postI, goal_cases)
  case (1 r t)
  then show ?case
    by (auto simp: GetClient_def run_go_try same_def map_le_def dom_def
        split: option.splits prod.splits outcome.splits dest: connect_kept)
qed

lemma same_GetClient: "preserves same (GetClient M mop)"
  by (rule preservesI) (use postD [OF GetClient_post] in blast)

lemma user_of_client:
  "clientCache s mop = Some c \<Longrightarrow> user_of s mop k = users (miServer s) c k"
  by (simp add: user_of_def)

lemma GetUser_post:
  "post (GetUser M mop name namespace) s (\<lambda>r t. same s t \<and>
     (\<forall>i. r = Ok i \<longrightarrow> user_of t mop (name, namespace) = Some i) \<and>
     (\<forall>c err. clientCache s mop = Some c \<and> r = Err err \<and> root_kind err = MongoErrNoDocuments \<longrightarrow>
        user_of t mop (name, namespace) = None))"
  unfolding GetUser_def
proof (rule post_go_tryI [OF GetClient_post], goal_cases)
  case (1 c t)
  show ?case
  proof (rule postI, goal_cases)
    case (1 r u)
    obtain out w where find: "run_state (mongo_FindOne M c controller_db ''users'' (user_filter name namespace))
        (miServer t) = (out, w)" by fastforce
    from \<open>same s t \<and> _\<close> have t: "same s t" "clientCache t mop = Some c"
      "clientCache s mop = None \<or> clientCache s mop = Some c"
      by (cases "clientCache s mop"; auto)+
    from 1 find t(2) find_kept [OF find] find_user [OF find] same_trans [OF t(1), of u] show ?case
      by (auto simp: run_go_try user_of_def same_def split: outcome.splits if_splits)
  qed
qed (auto simp: post_rules)

lemma ensure_auth_user_post:
  "post (ensure_auth_user M c info) s (\<lambda>r t. same s t \<and> (\<forall>i. r = Ok i \<longrightarrow> i = info))"
proof (rule post_conj)
  have "preserves same (ensure_auth_user M c info)"
    unfolding ensure_auth_user_def mongoUserExists_def
    by (intro preserves_rules preorder_same) (auto split: option.split bson.split intro!: preserves_rules)
  then show "post (ensure_auth_user M c info) s (\<lambda>_ t. same s t)"
    by (simp add: preserves_def)
next
  have "yields (\<lambda>i. i = info) (ensure_auth_user M c info)"
    unfolding ensure_auth_user_def by (intro yields_rules) simp_all
  then show "post (ensure_auth_user M c info) s (\<lambda>r _. \<forall>i. r = Ok i \<longrightarrow> i = info)"
    by (rule yields_post)
qed

lemma insert_same: "preserves same (on_mongo (mongo_InsertOne M c db ''init'' doc))"
  by (rule preservesI) (auto simp: same_def split: prod.splits dest: insert_kept)

lemma upsert_post:
  assumes "miDbname info \<noteq> controller_db"
  shows "post (on_mongo (mongo_FindOneAndSetOnInsert M c controller_db ''users'' (user_filter name namespace) info)) s
    (\<lambda>r t. keeps {} s t \<and> clientCache t = clientCache s \<and>
      (\<forall>i. r = Ok i \<longrightarrow> users (miServer t) c (name, namespace) = Some i) \<and>
      (\<forall>err. r = Err err \<and> own_kind err = Some MongoErrNoDocuments \<longrightarrow> users (miServer t) c (name, namespace) = Some info))"
proof (rule postI, goal_cases)
  case (1 r t)
  obtain out w where run: "run_state (mongo_FindOneAndSetOnInsert M c controller_db ''users''
      (user_filter name namespace) info) (miServer s) = (out, w)" by fastforce
  with 1 have rt: "r = out" "t = s\<lparr>miServer := w\<rparr>" by simp_all
  from upsert [OF run] have grow: "\<And>c' k i. users (miServer s) c' k = Some i \<Longrightarrow> users w c' k = Some i"
    and only: "\<And>c' k i. users w c' k = Some i \<Longrightarrow> users (miServer s) c' k = Some i \<or> i = info"
    by blast+
  have "uinv t" if "uinv s"
    using that assms only unfolding uinv_def rt(2) by (metis MongoDBImpl.select_convs(2) MongoDBImpl.surjective MongoDBImpl.update_convs(2))
  with grow have "keeps {} s t"
    unfolding keeps_def rt(2) by simp
  with upsert [OF run] rt show ?case by auto
qed

lemma ensure_user_post:
  assumes "miDbname info \<noteq> controller_db"
  shows "post (ensure_user M c name namespace info) s (\<lambda>r t. keeps {} s t \<and>
    (\<forall>i. r = Ok i \<longrightarrow> users (miServer t) c (name, namespace) = Some i))"
proof -
  have auth: "post (ensure_auth_user M c i) u (\<lambda>r t. keeps {} s t \<and>
      (\<forall>i. r = Ok i \<longrightarrow> users (miServer t) c (name, namespace) = Some i))"
    if "keeps {} s u" "users (miServer u) c (name, namespace) = Some i" for i u
    by (rule post_mono [OF ensure_auth_user_post])
      (use that in \<open>auto intro: keeps_trans same_keeps dest: same_users\<close>)
  have insert: "post (on_mongo (mongo_InsertOne M c (miDbname info) ''init'' [''init'' \<mapsto> ''true''])) s
      (\<lambda>_ t. keeps {} s t)"
    by (rule preserves_post [OF insert_same]) (rule same_keeps)
  show ?thesis
    unfolding ensure_user_def
    by (rule post_go_tryI [OF insert], rule post_go_tryI [OF upsert_post [OF assms]])
      (auto simp: post_rules intro: auth keeps_trans)
qed

lemma CreateUserAndDatabase_post:
  assumes "uinv s"
  shows "post (CreateUserAndDatabase M mop name namespace) s (\<lambda>r t. keeps {} s t \<and>
    (\<forall>i. r = Ok i \<longrightarrow> user_of t mop (name, namespace) = Some i))" (is "post _ _ ?Q")
  unfolding CreateUserAndDatabase_def
proof (rule post_go_tryI [OF GetClient_post], goal_cases)
  case (1 c t)
  then have t: "same s t" "clientCache t mop = Some c" by auto
  have ensure: "post (ensure_user M c name namespace i) u ?Q"
    if "same t u" "miDbname i \<noteq> controller_db" for i u
  proof (rule post_mono [OF ensure_user_post [OF that(2)]], goal_cases)
    case (1 r v)
    from t that(1) have "clientCache u mop = Some c" by (force simp: same_def map_le_def dom_def)
    with 1 have "clientCache v mop = Some c" by (force simp: keeps_def map_le_def dom_def)
    moreover from 1 same_keeps [OF same_trans [OF t(1) that(1)]] have "keeps {} s v"
      by (blast intro: keeps_trans)
    ultimately show ?case using 1 by (simp add: user_of_client)
  qed
  show ?case
  proof (rule post_go_tryI [OF GetUser_post], goal_cases)
    case (1 i u)
    then have u: "same t u" and i: "user_of u mop (name, namespace) = Some i" by auto
    from assms same_keeps [OF same_trans [OF t(1) u]] have "uinv u" by (auto simp: keeps_def)
    with i have "miDbname i \<noteq> controller_db" by (auto simp: uinv_def user_of_def split: option.splits)
    with u show ?case by (rule ensure)
  next
    case (2 err u)
    then have u: "same t u" by auto
    have draw: "preserves same (createMongoDBUserInfo (on_mongo (mongo_rand M)) namespace)"
    proof -
      have bytes: "preserves same (random_bytes (on_mongo (mongo_rand M)) n)" for n
        by (induction n) (auto simp: rand_Intn_def intro!: preserves_rules)
      show ?thesis
        unfolding createMongoDBUserInfo_def generateRandomString_def
        by (intro preserves_rules preorder_same bytes)
    qed
    have gen: "post (createMongoDBUserInfo (on_mongo (mongo_rand M)) namespace) u
        (\<lambda>r v. same t v \<and> (\<forall>i. r = Ok i \<longrightarrow> generated_mongo namespace i))"
      by (rule post_mono [OF post_conj [OF createMongoDBUserInfo_spec preserves_post [OF draw]]])
        (use u in \<open>auto intro: same_trans split: if_splits\<close>)
    have "post (go_try (createMongoDBUserInfo (on_mongo (mongo_rand M)) namespace) fail (ensure_user M c name namespace)) u ?Q"
      by (rule post_go_tryI [OF gen])
        (auto simp: post_rules intro: ensure same_keeps same_trans [OF t(1)] dest: generated_not_controller)
    moreover have "keeps {} s u" by (rule same_keeps [OF same_trans [OF t(1) u]])
    ultimately show ?case by (simp add: post_rules)
  next
    case (3 msg u)
    then show ?case by (auto intro: same_keeps same_trans [OF t(1)])
  qed
qed (auto simp: post_rules intro: same_keeps)

text \<open>
  What a drop that reported no error did: there was no user, or its database was dropped, its
  account was dropped and its document deleted, in this order.
\<close>

definition user_dropped :: "('c, 'w) MongoDBImpl \<Rightarrow> 'c \<Rightarrow> string \<Rightarrow> string \<Rightarrow> bool" where
  "user_dropped s c name namespace \<longleftrightarrow>
     (\<exists>w err. run_state (mongo_FindOne M c controller_db ''users'' (user_filter name namespace)) (miServer s) = (Err err, w) \<and>
        root_kind err = MongoErrNoDocuments) \<or>
     (\<exists>w w1 w2 w3 info res n.
        run_state (mongo_FindOne M c controller_db ''users'' (user_filter name namespace)) (miServer s) = (Ok info, w) \<and>
        run_state (mongo_DropDatabase M c (miDbname info)) w = (Ok (), w1) \<and>
        run_state (mongo_RunCommand M c ''admin'' [(''dropUser'', BString (miUsername info))]) w1 = (Ok res, w2) \<and>
        run_state (mongo_DeleteOne M c controller_db ''users'' (user_filter name namespace)) w2 = (Ok n, w3) \<and> n \<noteq> 0)"

lemma drop_same:
  assumes "miDbname info \<noteq> controller_db"
  shows "preserves same (on_mongo (mongo_DropDatabase M c (miDbname info)))"
  using assms by (intro preservesI) (auto simp: same_def split: prod.splits dest: drop_kept)

lemma delete_post:
  "post (on_mongo (mongo_DeleteOne M c controller_db ''users'' (user_filter name namespace))) s
     (\<lambda>r t. keeps {(name, namespace)} s t \<and> clientCache t = clientCache s \<and>
        (\<forall>d. r = Ok d \<longrightarrow> users (miServer t) c (name, namespace) = None))"
proof (rule postI, goal_cases)
  case (1 r t)
  obtain out w where run: "run_state (mongo_DeleteOne M c controller_db ''users'' (user_filter name namespace)) (miServer s) = (out, w)"
    by fastforce
  with 1 have rt: "r = out" "t = s\<lparr>miServer := w\<rparr>" by simp_all
  from delete [OF run] have others: "\<And>c' k. k \<noteq> (name, namespace) \<Longrightarrow> users w c' k = users (miServer s) c' k"
    and only: "\<And>c' k i. users w c' k = Some i \<Longrightarrow> users (miServer s) c' k = Some i"
    by blast+
  have "uinv s \<Longrightarrow> uinv t" unfolding uinv_def rt(2) by (simp del: split_paired_All) (blast dest: only)
  with others have "keeps {(name, namespace)} s t"
    unfolding keeps_def rt(2) by simp
  with delete [OF run] rt show ?case by auto
qed

lemma DropUserAndDatabase_post:
  assumes "uinv s"
  shows "post (DropUserAndDatabase M mop name namespace) s (\<lambda>r t. keeps {(name, namespace)} s t \<and>
    (r = Ok () \<longrightarrow> user_of t mop (name, namespace) = None))" (is "post _ _ ?Q")
  unfolding DropUserAndDatabase_def
proof (rule post_go_tryI [OF GetClient_post], goal_cases)
  case (1 c t)
  then have t: "same s t" "clientCache t mop = Some c" by auto
  show ?case
  proof (rule post_go_tryI [OF GetUser_post], goal_cases)
    case (1 i u)
    then have u: "same t u" and i: "user_of u mop (name, namespace) = Some i" by auto
    note su = same_trans [OF t(1) u]
    from assms same_keeps [OF su] have "uinv u" by (auto simp: keeps_def)
    with i have db: "miDbname i \<noteq> controller_db" by (auto simp: uinv_def user_of_def split: option.splits)
    have command: "preserves same (on_mongo (mongo_RunCommand M c db cmd))" for db cmd
      by (intro preserves_rules)
    have cache: "clientCache v mop = Some c" if "same t v" for v
      using t(2) that by (force simp: same_def map_le_def dom_def)
    have final: "post (on_mongo (mongo_DeleteOne M c controller_db ''users'' (user_filter name namespace))) v
        (\<lambda>r x. keeps {(name, namespace)} s x \<and> (\<forall>d. r = Ok d \<longrightarrow> user_of x mop (name, namespace) = None))"
      if "same u v" for v
      by (rule post_mono [OF delete_post])
        (use cache [OF same_trans [OF u that]] same_keeps [OF same_trans [OF su that]] in
          \<open>auto intro: keeps_trans simp: user_of_client\<close>)
    have dropped: "post (on_mongo (mongo_DropDatabase M c (miDbname i))) u (\<lambda>_ v. same u v)"
      by (rule preserves_post [OF drop_same [OF db]])
    have account: "post (on_mongo (mongo_RunCommand M c db cmd)) v (\<lambda>_ x. same u x)" if "same u v" for v db cmd
      by (rule preserves_post [OF command]) (rule same_trans [OF that])
    show ?case
      by (rule post_go_tryI [OF dropped], rule post_go_tryI [OF account], assumption, rule post_go_tryI [OF final], assumption)
        (auto simp: post_rules intro: same_keeps same_trans [OF su])
  next
    case (2 err u)
    then show ?case
      using t by (auto simp: post_rules intro: same_keeps same_trans [OF t(1)])
  next
    case (3 msg u)
    then show ?case by (auto intro: same_keeps same_trans [OF t(1)])
  qed
qed (auto simp: post_rules intro: same_keeps)

lemma keeps_step:
  assumes "mongo_step M k s t" and "uinv s"
  shows "keeps (- {k}) s t"
  using assms(1)
proof cases
  case (get mop n ns r)
  from postD [OF GetUser_post get] show ?thesis by (blast intro: same_keeps)
next
  case (create mop n ns r)
  from postD [OF CreateUserAndDatabase_post [OF assms(2)] create] show ?thesis by (blast intro: keeps_mono)
next
  case (drop mop n ns r)
  from postD [OF DropUserAndDatabase_post [OF assms(2)] drop(1)] have "keeps {(n, ns)} s t" by blast
  with drop(2) show ?thesis by (cases k) (auto simp: keeps_def)
next
  case (version mop r)
  have "preserves same (Version_mongo M mop)"
    unfolding Version_mongo_def
    by (intro preserves_rules preorder_same same_GetClient) (auto split: option.split bson.split intro!: preserves_rules)
  from preservesD [OF this version] show ?thesis by (rule same_keeps)
next
  case (ping mop r)
  have "preserves same (Ping_mongo M mop)"
    unfolding Ping_mongo_def by (intro preserves_rules preorder_same same_GetClient)
  from preservesD [OF this ping] show ?thesis by (rule same_keeps)
qed

lemma keeps_steps:
  assumes "(mongo_step M k)\<^sup>*\<^sup>* s t" and "uinv s"
  shows "keeps (- {k}) s t \<and> uinv t"
  using assms(1)
proof (induction rule: rtranclp_induct)
  case base
  then show ?case using assms(2) by (simp add: keeps_def)
next
  case (step t u)
  then have "keeps (- {k}) t u" by (blast intro: keeps_step)
  moreover from this step have "uinv u" by (simp add: keeps_def)
  ultimately show ?case using step.IH by (blast intro: keeps_trans)
qed

lemma created_user_found:
  assumes "uinv s" and "run_state (CreateUserAndDatabase M mop name namespace) s = (Ok info, t)"
    and "(mongo_step M (name, namespace))\<^sup>*\<^sup>* t u"
  shows "user_of u mop (name, namespace) = Some info \<and> uinv u"
proof -
  from postD [OF CreateUserAndDatabase_post [OF assms(1)] assms(2)]
  have "keeps {} s t" and found: "user_of t mop (name, namespace) = Some info" by auto
  with assms(1) have "uinv t" by (simp add: keeps_def)
  from keeps_steps [OF assms(3) this] have u: "keeps (- {(name, namespace)}) t u" "uinv u" by auto
  from keeps_user [OF u(1) \<open>uinv t\<close> _ found] u(2) show ?thesis by simp
qed

lemma GetClient_cached:
  "clientCache s mop = Some c \<Longrightarrow> run_state (GetClient M mop) s = (Ok c, s)"
  by (simp add: GetClient_def)

lemma DropUserAndDatabase_dropped:
  assumes "clientCache s mop = Some c" and "run_state (DropUserAndDatabase M mop name namespace) s = (Ok (), t)"
  shows "user_dropped s c name namespace"
  using assms
  by (auto simp: DropUserAndDatabase_def GetUser_def run_go_try GetClient_cached user_dropped_def
      split: outcome.splits prod.splits if_splits)

lemma interrupted_drop:
  assumes "uinv s" and "clientCache s mop = Some c" and "users (miServer s) c (name, namespace) = Some i"
    and "\<And>w w1. run_state (mongo_FindOne M c controller_db ''users'' (user_filter name namespace)) (miServer s) = (Ok i, w) \<Longrightarrow>
       run_state (mongo_DropDatabase M c (miDbname i)) w = (Ok (), w1) \<Longrightarrow>
       \<exists>err w2. run_state (mongo_RunCommand M c ''admin'' [(''dropUser'', BString (miUsername i))]) w1 = (Err err, w2)"
    and "run_state (DropUserAndDatabase M mop name namespace) s = (res, t)"
  shows "res \<noteq> Ok () \<and> users (miServer t) c (name, namespace) = Some i"
proof -
  obtain out w where find: "run_state (mongo_FindOne M c controller_db ''users'' (user_filter name namespace)) (miServer s) = (out, w)"
    by fastforce
  note w = find_kept [OF find] and found = find_user [OF find]
  from assms(1,3) have db: "miDbname i \<noteq> controller_db" by (simp add: uinv_def)
  show ?thesis
  proof (cases out)
    case (Ok j)
    with found assms(3) have j: "j = i" by simp
    obtain out1 w1 where drop: "run_state (mongo_DropDatabase M c (miDbname i)) w = (out1, w1)" by fastforce
    from drop_kept [OF drop db] w have w1: "users w1 = users (miServer s)" by simp
    show ?thesis
    proof (cases "out1 = Ok ()")
      case True
      with drop assms(4) find Ok j obtain err w2 where
        cmd: "run_state (mongo_RunCommand M c ''admin'' [(''dropUser'', BString (miUsername i))]) w1 = (Err err, w2)"
        by blast
      with assms(2,5) find Ok j drop True command_kept [OF cmd] w1 assms(3) show ?thesis
        by (auto simp: DropUserAndDatabase_def GetUser_def run_go_try GetClient_cached)
    next
      case False
      with assms(2,5) find Ok j drop w1 assms(3) show ?thesis
        by (auto simp: DropUserAndDatabase_def GetUser_def run_go_try GetClient_cached split: outcome.splits)
    qed
  qed (use assms(2,3,5) find found w in
      \<open>auto simp: DropUserAndDatabase_def GetUser_def run_go_try GetClient_cached dest: own_kind_root split: if_splits\<close>)
qed

end

end
