(* ===== verification/MemMongo.thy ===== *)
theory MemMongo
  imports MongoFacts
begin

section \<open>A MongoDB server held in memory\<close>

text \<open>
  An executable driver and server with the documents of the collection \<open>users\<close>, the accounts
  and the databases, which satisfies the laws of \<open>mongo_store\<close>. The witnesses run the client
  on it. The random source always draws the first character.
\<close>

record mem_mongo_server =
  mmUsers :: "string \<times> string \<Rightarrow> MongoDBInfo option"
  mmAccounts :: "string list"
  mmDatabases :: "string list"

definition mm_empty :: mem_mongo_server where
  "mm_empty = \<lparr>mmUsers = Map.empty, mmAccounts = [], mmDatabases = []\<rparr>"

definition ErrNoDocuments :: go_error where
  "ErrNoDocuments = BaseError MongoErrNoDocuments ''mongo: no documents in result''"

definition filter_key :: "(string \<rightharpoonup> string) \<Rightarrow> string \<times> string" where
  "filter_key f =
     (case f ''name'' of None \<Rightarrow> [] | Some n \<Rightarrow> n, case f ''namespace'' of None \<Rightarrow> [] | Some ns \<Rightarrow> ns)"

lemma filter_key_user [simp]: "filter_key (user_filter n ns) = (n, ns)"
  by (simp add: filter_key_def user_filter_def)

fun mm_command :: "(string \<times> bson) list \<Rightarrow> (mem_mongo_server, string \<rightharpoonup> bson) go" where
  "mm_command ((cmd, arg) # rest) =
     (if cmd = ''buildInfo'' then ok [''version'' \<mapsto> BString ''7.0.0'']
      else if cmd = ''usersInfo'' then
        State (\<lambda>w. (Ok [''users'' \<mapsto> BArray (case arg of
            BDocument ((_, BString u) # _) \<Rightarrow> if u \<in> set (mmAccounts w) then [BString u] else []
          | _ \<Rightarrow> [])], w))
      else (case arg of
          BString u \<Rightarrow>
            if cmd = ''createUser'' then State (\<lambda>w. (Ok Map.empty, w\<lparr>mmAccounts := u # mmAccounts w\<rparr>))
            else if cmd = ''dropUser'' then
              State (\<lambda>w. if u \<in> set (mmAccounts w)
                then (Ok Map.empty, w\<lparr>mmAccounts := removeAll u (mmAccounts w)\<rparr>)
                else (Err (errors_New ''UserNotFound''), w))
            else fail (errors_New ''no such command'')
        | _ \<Rightarrow> fail (errors_New ''no such command'')))"
| "mm_command [] = fail (errors_New ''no such command'')"

definition mem_mongo :: "(unit, mem_mongo_server) mongo" where
  "mem_mongo =
     \<lparr>mongo_Connect = (\<lambda>opts. ok ()),
      mongo_FindOne = (\<lambda>c db coll f. State (\<lambda>w.
        case mmUsers w (filter_key f) of None \<Rightarrow> (Err ErrNoDocuments, w) | Some i \<Rightarrow> (Ok i, w))),
      mongo_InsertOne = (\<lambda>c db coll doc. State (\<lambda>w. (Ok (), w\<lparr>mmDatabases := db # mmDatabases w\<rparr>))),
      mongo_FindOneAndSetOnInsert = (\<lambda>c db coll f info. State (\<lambda>w.
        case mmUsers w (filter_key f) of
          None \<Rightarrow> (Err ErrNoDocuments, w\<lparr>mmUsers := (mmUsers w)(filter_key f \<mapsto> info)\<rparr>)
        | Some i \<Rightarrow> (Ok i, w))),
      mongo_DeleteOne = (\<lambda>c db coll f. State (\<lambda>w.
        case mmUsers w (filter_key f) of
          None \<Rightarrow> (Ok 0, w)
        | Some i \<Rightarrow> (Ok 1, w\<lparr>mmUsers := (mmUsers w)(filter_key f := None)\<rparr>))),
      mongo_DropDatabase = (\<lambda>c db. State (\<lambda>w. (Ok (),
        w\<lparr>mmDatabases := removeAll db (mmDatabases w),
          mmUsers := if db = controller_db then Map.empty else mmUsers w\<rparr>))),
      mongo_RunCommand = (\<lambda>c db cmd. mm_command cmd),
      mongo_Ping = (\<lambda>c. ok ()),
      mongo_rand = State_Monad.return 0\<rparr>"

lemma mm_command_users: "run_state (mm_command cmd) w = (r, w') \<Longrightarrow> mmUsers w' = mmUsers w"
  by (cases cmd rule: mm_command.cases) (auto split: if_splits bson.splits)

lemma run_mem_mongo:
  "run_state (mongo_FindOne mem_mongo c db coll f) w =
     (case mmUsers w (filter_key f) of None \<Rightarrow> (Err ErrNoDocuments, w) | Some i \<Rightarrow> (Ok i, w))"
  "run_state (mongo_InsertOne mem_mongo c db coll doc) w = (Ok (), w\<lparr>mmDatabases := db # mmDatabases w\<rparr>)"
  "run_state (mongo_FindOneAndSetOnInsert mem_mongo c db coll f info) w =
     (case mmUsers w (filter_key f) of
        None \<Rightarrow> (Err ErrNoDocuments, w\<lparr>mmUsers := (mmUsers w)(filter_key f \<mapsto> info)\<rparr>)
      | Some i \<Rightarrow> (Ok i, w))"
  "run_state (mongo_DeleteOne mem_mongo c db coll f) w =
     (case mmUsers w (filter_key f) of
        None \<Rightarrow> (Ok 0, w)
      | Some i \<Rightarrow> (Ok 1, w\<lparr>mmUsers := (mmUsers w)(filter_key f := None)\<rparr>))"
  "run_state (mongo_DropDatabase mem_mongo c db) w = (Ok (),
     w\<lparr>mmDatabases := removeAll db (mmDatabases w), mmUsers := if db = controller_db then Map.empty else mmUsers w\<rparr>)"
  "mongo_RunCommand mem_mongo c db cmd = mm_command cmd"
  "own_kind ErrNoDocuments = Some MongoErrNoDocuments" "root_kind ErrNoDocuments = MongoErrNoDocuments"
  by (simp_all add: mem_mongo_def ErrNoDocuments_def)

interpretation mem_mongo: mongo_store mem_mongo "\<lambda>w c k. mmUsers w k"
  by unfold_locales
    (auto simp: mem_mongo_def ErrNoDocuments_def fun_eq_iff dest: mm_command_users split: option.splits if_splits)

lemma random_bytes_still:
  "run_state (random_bytes (on_mongo (mongo_rand mem_mongo)) n) s = (replicate n (CHR ''a''), s)"
  by (induction n) (simp_all add: mem_mongo_def rand_Intn_def rand_chars_def on_mongo_def)

lemma generateRandomString_still:
  "0 \<le> n \<Longrightarrow> run_state (generateRandomString (on_mongo (mongo_rand mem_mongo)) n) s = (Ok (replicate (nat n) (CHR ''a'')), s)"
  by (simp add: generateRandomString_def random_bytes_still)

definition mm_info :: "string \<Rightarrow> MongoDBInfo" where
  "mm_info ns =
     \<lparr>miUsername = replicate 16 (CHR ''a''), miPassword = replicate 24 (CHR ''a''),
      miDbname = ns @ ''_'' @ replicate (62 - length ns) (CHR ''a'')\<rparr>"

lemma mm_info_db [simp]:
  assumes "length ns \<le> 62" shows "miDbname (mm_info ns) \<noteq> controller_db"
proof
  assume "miDbname (mm_info ns) = controller_db"
  then have "length (miDbname (mm_info ns)) = 16" by (simp add: controller_db_def)
  with assms show False by (simp add: mm_info_def)
qed

text \<open>The client on the empty server.\<close>

definition mm_start :: "(unit, mem_mongo_server) MongoDBImpl" where
  "mm_start = NewMongoDBImpl mm_empty"

definition mm_created :: "MongoDBClientOptions \<Rightarrow> string \<Rightarrow> string \<Rightarrow> (unit, mem_mongo_server) MongoDBImpl" where
  "mm_created mop n ns =
     \<lparr>clientCache = [mop \<mapsto> ()],
      miServer = \<lparr>mmUsers = [(n, ns) \<mapsto> mm_info ns], mmAccounts = [miUsername (mm_info ns)],
        mmDatabases = [miDbname (mm_info ns)]\<rparr>\<rparr>"

lemma mm_uinv_start: "mongo_store.uinv (\<lambda>w c k. mmUsers w k) mm_start"
  by (simp add: mem_mongo.uinv_def mm_start_def NewMongoDBImpl_def mm_empty_def)

lemma mm_create:
  assumes "length ns \<le> 62"
  shows "run_state (CreateUserAndDatabase mem_mongo mop n ns) mm_start = (Ok (mm_info ns), mm_created mop n ns)"
proof -
  have gen: "run_state (createMongoDBUserInfo (on_mongo (mongo_rand mem_mongo)) ns) s = (Ok (mm_info ns), s)" for s
    using assms
    by (simp add: createMongoDBUserInfo_def run_go_try generateRandomString_still maxUsernameLength_def
        maxPasswordLength_def maxDatabaseNameLength_def mm_info_def nat_diff_distrib)
  have get: "run_state (GetClient mem_mongo mop) mm_start = (Ok (), \<lparr>clientCache = [mop \<mapsto> ()], miServer = mm_empty\<rparr>)"
    by (simp add: GetClient_def mm_start_def NewMongoDBImpl_def run_go_try on_mongo_def)
      (simp add: mem_mongo_def)
  show ?thesis
    by (simp add: CreateUserAndDatabase_def GetUser_def ensure_user_def ensure_auth_user_def mongoUserExists_def
        create_user_command_def run_go_try get mem_mongo.GetClient_cached gen run_mem_mongo mm_empty_def mm_created_def)
qed

end
