(* ===== verification/MongoProps.thy ===== *)
theory MongoProps
  imports MemMongo
begin

section \<open>Properties of the MongoDB client\<close>

text \<open>
  Over every driver and server that satisfy \<open>mongo_store\<close>; the witnesses run the client on the
  server in memory.
\<close>

text \<open>
  C11: the credentials that CreateUserAndDatabase returned for a name and namespace are what
  every later GetUser and CreateUserAndDatabase of that name and namespace return, whatever
  other calls of the client ran in between, short of a drop of that very user.
\<close>

theorem mongo_credentials_are_permanent:
  assumes "mongo_store M users" and "mongo_store.uinv users s"
    and "run_state (CreateUserAndDatabase M mop name namespace) s = (Ok info, t)"
    and "(mongo_step M (name, namespace))\<^sup>*\<^sup>* t u"
  shows "post (GetUser M mop name namespace) u (\<lambda>r v. (\<forall>i. r = Ok i \<longrightarrow> i = info) \<and>
      (\<forall>err. r = Err err \<longrightarrow> root_kind err \<noteq> MongoErrNoDocuments)) \<and>
    post (CreateUserAndDatabase M mop name namespace) u (\<lambda>r v. \<forall>i. r = Ok i \<longrightarrow> i = info)"
proof -
  note store = assms(1)
  from mongo_store.created_user_found [OF assms]
  have u: "mongo_store.user_of users u mop (name, namespace) = Some info" "mongo_store.uinv users u" by auto
  then obtain c where c: "clientCache u mop = Some c"
    by (auto simp: mongo_store.user_of_def [OF store] split: option.splits)
  have same: "mongo_store.user_of users v mop (name, namespace) = Some info" if "mongo_store.same users u v" for v
    using mongo_store.keeps_user [OF store mongo_store.same_keeps [OF store that, of "{}"] u(2) _ u(1)] by simp
  have get: "post (GetUser M mop name namespace) u (\<lambda>r v. (\<forall>i. r = Ok i \<longrightarrow> i = info) \<and>
      (\<forall>err. r = Err err \<longrightarrow> root_kind err \<noteq> MongoErrNoDocuments))"
    by (rule post_mono [OF mongo_store.GetUser_post [OF store]]) (use same c in \<open>force dest: same\<close>)
  have create: "post (CreateUserAndDatabase M mop name namespace) u (\<lambda>r v. \<forall>i. r = Ok i \<longrightarrow> i = info)"
  proof (rule post_mono [OF mongo_store.CreateUserAndDatabase_post [OF store u(2)]], goal_cases)
    case (1 r v)
    then have "mongo_store.keeps users {} u v" by blast
    from mongo_store.keeps_user [OF store this u(2) _ u(1)] 1 show ?case by auto
  qed
  show ?thesis
    using get create by blast
qed

definition demo_mop :: MongoDBClientOptions where
  "demo_mop =
     \<lparr>moName = ''primary'', moHostname = ''mongo.host'', moPort = 27017, moUsername = ''root'',
      moPassword = ''secret'', moMechanism = ''SCRAM-SHA-1'', moSource = ''admin'', moTLS = True\<rparr>"

lemma demo_mongo_run:
  "run_state (CreateUserAndDatabase mem_mongo demo_mop ''app'' ''ns'') mm_start =
     (Ok (mm_info ''ns''), mm_created demo_mop ''app'' ''ns'')"
  by (rule mm_create) simp

theorem mongo_credentials_are_permanent_witness:
  "\<exists>t u. run_state (DropUserAndDatabase mem_mongo demo_mop ''other'' ''ns'') (mm_created demo_mop ''app'' ''ns'') = (Ok (), t) \<and>
     run_state (CreateUserAndDatabase mem_mongo demo_mop ''app'' ''ns'') t = (Ok (mm_info ''ns''), u)"
proof -
  let ?s = "mm_created demo_mop ''app'' ''ns''"
  have drop: "run_state (DropUserAndDatabase mem_mongo demo_mop ''other'' ''ns'') ?s = (Ok (), ?s)"
    by (simp add: DropUserAndDatabase_def GetUser_def run_go_try mem_mongo.GetClient_cached run_mem_mongo mm_created_def)
  then have steps: "(mongo_step mem_mongo (''app'', ''ns''))\<^sup>*\<^sup>* ?s ?s" by simp
  have step: "mongo_step mem_mongo (''app'', ''ns'') ?s ?s"
    by (rule mongo_step.drop [OF drop]) simp
  have "fst (run_state (CreateUserAndDatabase mem_mongo demo_mop ''app'' ''ns'') ?s) \<noteq> Err err \<and>
      fst (run_state (CreateUserAndDatabase mem_mongo demo_mop ''app'' ''ns'') ?s) \<noteq> Panic msg" for err msg
    by (simp add: CreateUserAndDatabase_def GetUser_def ensure_user_def ensure_auth_user_def mongoUserExists_def
        run_go_try mem_mongo.GetClient_cached run_mem_mongo mm_created_def)
  then obtain i u where again: "run_state (CreateUserAndDatabase mem_mongo demo_mop ''app'' ''ns'') ?s = (Ok i, u)"
    by (metis outcome.exhaust prod.collapse)
  from mongo_credentials_are_permanent [OF mem_mongo.mongo_store_axioms mm_uinv_start demo_mongo_run
      r_into_rtranclp [of "mongo_step mem_mongo (''app'', ''ns'')", OF step]] again
  have "i = mm_info ''ns''" by (simp add: post_def)
  with drop again show ?thesis by blast
qed

text \<open>
  C21: a DropUserAndDatabase that reports no error found no user, or it dropped the recorded
  database, then the account, then the document; either way the user is gone.
\<close>

theorem DropUserAndDatabase_drops:
  assumes "mongo_store M users" and "mongo_store.uinv users s" and "clientCache s mop = Some c"
    and "run_state (DropUserAndDatabase M mop name namespace) s = (Ok (), t)"
  shows "mongo_store.user_dropped M s c name namespace \<and> mongo_store.user_of users t mop (name, namespace) = None"
  using mongo_store.DropUserAndDatabase_dropped [OF assms(1,3,4)]
    postD [OF mongo_store.DropUserAndDatabase_post [OF assms(1,2)] assms(4)]
  by simp

lemma mm_uinv_created: "length ns \<le> 62 \<Longrightarrow> mongo_store.uinv (\<lambda>w c k. mmUsers w k) (mm_created mop n ns)"
  using postD [OF mem_mongo.CreateUserAndDatabase_post [OF mm_uinv_start] mm_create, of ns mop n]
  by (simp add: mem_mongo.keeps_def mm_uinv_start [simplified])

theorem DropUserAndDatabase_drops_witness:
  "\<exists>t. run_state (DropUserAndDatabase mem_mongo demo_mop ''app'' ''ns'') (mm_created demo_mop ''app'' ''ns'') = (Ok (), t) \<and>
     mongo_store.user_dropped mem_mongo (mm_created demo_mop ''app'' ''ns'') () ''app'' ''ns'' \<and>
     mongo_store.user_of (\<lambda>w c k. mmUsers w k) t demo_mop (''app'', ''ns'') = None"
proof -
  have "fst (run_state (DropUserAndDatabase mem_mongo demo_mop ''app'' ''ns'') (mm_created demo_mop ''app'' ''ns'')) = Ok ()"
    by (simp add: DropUserAndDatabase_def GetUser_def run_go_try mem_mongo.GetClient_cached run_mem_mongo mm_created_def)
  then obtain t where run: "run_state (DropUserAndDatabase mem_mongo demo_mop ''app'' ''ns'')
      (mm_created demo_mop ''app'' ''ns'') = (Ok (), t)"
    by (metis prod.collapse)
  have "mongo_store.uinv (\<lambda>w c k. mmUsers w k) (mm_created demo_mop ''app'' ''ns'')"
    by (rule mm_uinv_created) simp
  from DropUserAndDatabase_drops [OF mem_mongo.mongo_store_axioms this _ run, of "()"] run show ?thesis
    by (simp add: mm_created_def)
qed

text \<open>The client above after a drop that lost its connection when the account was gone.\<close>

definition demo_interrupted :: "(unit, mem_mongo_server) MongoDBImpl" where
  "demo_interrupted = (mm_created demo_mop ''app'' ''ns'')
     \<lparr>miServer := \<lparr>mmUsers = [(''app'', ''ns'') \<mapsto> mm_info ''ns''], mmAccounts = [], mmDatabases = []\<rparr>\<rparr>"



text \<open>
  C35: the generated MongoDB credentials have the documented lengths and alphabet; the variant
  that CreateUserAndDatabase uses panics exactly for namespaces of more than 62 characters.
\<close>

theorem createMongoDBUserInfo_bounds:
  "post (createMongoDBUserInfo source namespace) s
     (\<lambda>r t. if length namespace \<le> 62 then \<exists>info. r = Ok info \<and> generated_mongo namespace info
            else r = Panic ''runtime error: makeslice: len out of range'') \<and>
   post (CreateMongoDBInfo source namespace) s
     (\<lambda>r t. \<exists>info. r = Ok info \<and> generated_mongo (take 50 namespace) info)"
  using CreateMongoDBInfo_spec [of source namespace s]
  by (auto simp: createMongoDBUserInfo_spec db_prefix_def split: if_splits)

end
