(* ===== verification/Locks.thy ===== *)
theory Locks
  imports ApiTypes
begin

section \<open>The locks of the DatabaseRequest controller (lock and unlock)\<close>

text \<open>
  \<open>Reconcile\<close> runs in several workers. It takes the mutex that the \<open>sync.Map\<close> \<open>r.Locks\<close> has
  under \<open>lockKey\<close>, stores a new one if there is none, and gives it back when it returns, by
  \<open>defer\<close>, so also when it panics.

  The workers are numbered and their steps interleave. \<open>lock\<close> takes two steps, the atomic
  \<open>LoadOrStore\<close> and \<open>Lock\<close>, which waits for the mutex to be free; \<open>unlock\<close> is one step, and
  unlocking a mutex that is not locked is Go's fatal error, modelled as the state \<open>Crashed\<close> of
  the worker. \<open>sync.Map\<close> and \<open>sync.Mutex\<close> are the standard library's: the first maps keys to
  mutexes, a mutex is free or locked, as \<open>sync.Mutex\<close> does not know its owner.
\<close>

text \<open>\<open>fmt.Sprintf("%s/%s", req.Namespace, req.Name)\<close>.\<close>

definition lockKey :: "NamespacedName \<Rightarrow> string" where
  "lockKey req = nnNamespace req @ ''/'' @ nnName req"

text \<open>Where a worker is: in \<open>lock\<close> with the mutex it loaded, between \<open>lock\<close> and \<open>unlock\<close>, or neither.\<close>

datatype worker = Idle | Locking NamespacedName nat | Reconciling NamespacedName | Crashed

record locks =
  Locks :: "string \<Rightarrow> nat option"
  locked :: "nat \<Rightarrow> bool"
  fresh :: nat
  workers :: "nat \<Rightarrow> worker"

text \<open>No key has a mutex; \<open>fresh\<close> is the next \<open>&sync.Mutex{}\<close>.\<close>

definition no_locks :: locks where
  "no_locks = \<lparr>Locks = Map.empty, locked = (\<lambda>_. False), fresh = 0, workers = (\<lambda>_. Idle)\<rparr>"

text \<open>\<open>r.Locks.LoadOrStore(key, &sync.Mutex{})\<close>.\<close>

definition LoadOrStore :: "string \<Rightarrow> locks \<Rightarrow> nat \<times> locks" where
  "LoadOrStore key s =
     (case Locks s key of
        Some mu \<Rightarrow> (mu, s)
      | None \<Rightarrow> (fresh s, s\<lparr>Locks := (Locks s)(key \<mapsto> fresh s), fresh := Suc (fresh s)\<rparr>))"

definition set_worker :: "nat \<Rightarrow> worker \<Rightarrow> locks \<Rightarrow> locks" where
  "set_worker i p s = s\<lparr>workers := (workers s)(i := p)\<rparr>"

text \<open>The step of \<open>unlock\<close>: \<open>Load\<close>, then \<open>Unlock\<close> if the key is there.\<close>

definition unlock :: "nat \<Rightarrow> string \<Rightarrow> locks \<Rightarrow> locks" where
  "unlock i key s =
     (case Locks s key of
        None \<Rightarrow> set_worker i Idle s
      | Some mu \<Rightarrow>
          if locked s mu then set_worker i Idle (s\<lparr>locked := (locked s)(mu := False)\<rparr>)
          else set_worker i Crashed s)"

inductive lock_step :: "locks \<Rightarrow> locks \<Rightarrow> bool" where
  load_or_store: "workers s i = Idle \<Longrightarrow> LoadOrStore (lockKey req) s = (mu, t) \<Longrightarrow>
     lock_step s (set_worker i (Locking req mu) t)"
| Lock: "workers s i = Locking req mu \<Longrightarrow> \<not> locked s mu \<Longrightarrow>
     lock_step s (set_worker i (Reconciling req) (s\<lparr>locked := (locked s)(mu := True)\<rparr>))"
| Unlock: "workers s i = Reconciling req \<Longrightarrow> lock_step s (unlock i (lockKey req) s)"

abbreviation reachable_locks :: "locks \<Rightarrow> bool" where
  "reachable_locks s \<equiv> lock_step\<^sup>*\<^sup>* no_locks s"

subsection \<open>The invariant\<close>

text \<open>
  Different keys have different mutexes, all below \<open>fresh\<close>; a worker in \<open>lock\<close> has the mutex
  of its key; a mutex is locked exactly when a worker that holds its key is reconciling, and
  there is at most one for a key; no worker has crashed.
\<close>

definition lock_inv :: "locks \<Rightarrow> bool" where
  "lock_inv s \<longleftrightarrow>
     (\<forall>key key' mu. Locks s key = Some mu \<longrightarrow> Locks s key' = Some mu \<longrightarrow> key = key') \<and>
     (\<forall>key mu. Locks s key = Some mu \<longrightarrow> mu < fresh s) \<and>
     (\<forall>mu. locked s mu \<longrightarrow> mu < fresh s) \<and>
     (\<forall>i req mu. workers s i = Locking req mu \<longrightarrow> Locks s (lockKey req) = Some mu) \<and>
     (\<forall>i req. workers s i = Reconciling req \<longrightarrow> (\<exists>mu. Locks s (lockKey req) = Some mu \<and> locked s mu)) \<and>
     (\<forall>i j req req'. workers s i = Reconciling req \<longrightarrow> workers s j = Reconciling req' \<longrightarrow>
        lockKey req = lockKey req' \<longrightarrow> i = j) \<and>
     (\<forall>key mu. Locks s key = Some mu \<longrightarrow> locked s mu \<longrightarrow>
        (\<exists>i req. workers s i = Reconciling req \<and> lockKey req = key)) \<and>
     (\<forall>i. workers s i \<noteq> Crashed)"

lemma lock_inv_start: "lock_inv no_locks"
  by (simp add: lock_inv_def no_locks_def)

subsection \<open>Every step keeps the invariant\<close>

lemma inv_reconciling:
  "lock_inv s \<Longrightarrow> workers s i = Reconciling req \<Longrightarrow> \<exists>mu. Locks s (lockKey req) = Some mu \<and> locked s mu"
  unfolding lock_inv_def by blast

lemma inv_unique:
  "lock_inv s \<Longrightarrow> workers s i = Reconciling req \<Longrightarrow> workers s j = Reconciling req' \<Longrightarrow>
     lockKey req = lockKey req' \<Longrightarrow> i = j"
  unfolding lock_inv_def by blast

lemma inv_holder:
  "lock_inv s \<Longrightarrow> Locks s key = Some mu \<Longrightarrow> locked s mu \<Longrightarrow>
     \<exists>i req. workers s i = Reconciling req \<and> lockKey req = key"
  unfolding lock_inv_def by blast

lemma inv_running: "lock_inv s \<Longrightarrow> workers s i \<noteq> Crashed"
  unfolding lock_inv_def by blast

lemma inv_mutex: "lock_inv s \<Longrightarrow> Locks s key = Some mu \<Longrightarrow> Locks s key' = Some mu \<Longrightarrow> key = key'"
  unfolding lock_inv_def by blast

lemma LoadOrStore_inv:
  assumes "LoadOrStore key s = (mu, t)" and "lock_inv s"
  shows "lock_inv t \<and> Locks t key = Some mu \<and> workers t = workers s \<and> locked t = locked s \<and> Locks s \<subseteq>\<^sub>m Locks t"
proof (cases "Locks s key")
  case None
  with assms(1) have t: "t = s\<lparr>Locks := (Locks s)(key \<mapsto> fresh s), fresh := Suc (fresh s)\<rparr>" "mu = fresh s"
    by (auto simp: LoadOrStore_def)
  have "lock_inv t"
    unfolding lock_inv_def t
  proof (intro conjI, goal_cases)
    case 1
    then show ?case using assms(2) by (auto simp: lock_inv_def)
  next
    case 2
    then show ?case using assms(2) by (auto simp: lock_inv_def less_SucI)
  next
    case 3
    then show ?case using assms(2) by (auto simp: lock_inv_def less_SucI)
  next
    case 4
    then show ?case using assms(2) None by (auto simp: lock_inv_def)
  next
    case 5
    then show ?case using assms(2) None by (simp add: lock_inv_def) (metis option.distinct(1))
  next
    case 6
    then show ?case using assms(2) by (simp add: lock_inv_def)
  next
    case 7
    then show ?case using assms(2) by (auto simp: lock_inv_def)
  next
    case 8
    then show ?case using assms(2) by (simp add: lock_inv_def)
  qed
  with t None show ?thesis by (auto simp: map_le_def)
qed (use assms in \<open>auto simp: LoadOrStore_def\<close>)

lemma Lock_inv:
  assumes "workers s i = Locking req mu" and "\<not> locked s mu" and "lock_inv s"
  shows "lock_inv (set_worker i (Reconciling req) (s\<lparr>locked := (locked s)(mu := True)\<rparr>))"
proof -
  from assms have mu: "Locks s (lockKey req) = Some mu" by (simp add: lock_inv_def)
  with assms(2,3) have nobody: "\<And>j req'. workers s j = Reconciling req' \<Longrightarrow> lockKey req' \<noteq> lockKey req"
    by (metis inv_reconciling option.inject)
  show ?thesis
    unfolding lock_inv_def set_worker_def
  proof (intro conjI, goal_cases)
    case 1
    then show ?case using assms(3) by (simp add: lock_inv_def)
  next
    case 2
    then show ?case using assms(3) by (simp add: lock_inv_def)
  next
    case 3
    then show ?case using assms(3) mu by (auto simp: lock_inv_def)
  next
    case 4
    then show ?case using assms(3) by (auto simp: lock_inv_def)
  next
    case 5
    show ?case using mu inv_reconciling [OF assms(3)] by simp metis
  next
    case 6
    show ?case using nobody inv_unique [OF assms(3)] by simp metis
  next
    case 7
    then show ?case using assms(1,3) mu by (auto simp: lock_inv_def) (metis worker.distinct(7))+
  next
    case 8
    then show ?case using assms(3) by (simp add: lock_inv_def)
  qed
qed

lemma unlock_eq:
  assumes "workers s i = Reconciling req" and "lock_inv s"
  obtains mu where "Locks s (lockKey req) = Some mu" and "locked s mu"
    and "unlock i (lockKey req) s = set_worker i Idle (s\<lparr>locked := (locked s)(mu := False)\<rparr>)"
proof -
  from inv_reconciling [OF assms(2,1)] obtain mu where "Locks s (lockKey req) = Some mu" "locked s mu"
    by blast
  then show ?thesis by (intro that) (auto simp: unlock_def)
qed

lemma unlock_inv:
  assumes "workers s i = Reconciling req" and "lock_inv s"
  shows "lock_inv (unlock i (lockKey req) s)"
proof -
  obtain mu where mu: "Locks s (lockKey req) = Some mu" "locked s mu"
    and eq: "unlock i (lockKey req) s = set_worker i Idle (s\<lparr>locked := (locked s)(mu := False)\<rparr>)"
    using assms by (rule unlock_eq)
  show ?thesis
    unfolding eq lock_inv_def set_worker_def
  proof (intro conjI, goal_cases)
    case 5
    have other: "mu' \<noteq> mu" if "workers s j = Reconciling req'" "j \<noteq> i" "Locks s (lockKey req') = Some mu'" for j req' mu'
      using that inv_unique [OF assms(2,1)] inv_mutex [OF assms(2) mu(1)] by blast
    show ?case using other inv_reconciling [OF assms(2)] by simp metis
  next
    case 7
    have "\<exists>j req'. j \<noteq> i \<and> workers s j = Reconciling req' \<and> lockKey req' = key"
      if "Locks s key = Some mu'" "locked s mu'" "mu' \<noteq> mu" for key mu'
      using inv_holder [OF assms(2) that(1,2)] that(1,3) mu(1) assms(1) by (metis option.inject worker.inject(2))
    then show ?case by simp metis
  qed (use assms(2) in \<open>auto simp: lock_inv_def\<close>)
qed

lemma lock_step_inv: "lock_step s t \<Longrightarrow> lock_inv s \<Longrightarrow> lock_inv t"
proof (induction rule: lock_step.induct)
  case (load_or_store s i req mu t)
  then have t: "lock_inv t" "Locks t (lockKey req) = Some mu" "workers t i = Idle"
    by (auto dest: LoadOrStore_inv)
  then show ?case
    unfolding lock_inv_def set_worker_def
    by (intro conjI; simp; metis worker.distinct(3))
qed (auto intro: Lock_inv unlock_inv)

lemma reachable_inv: "reachable_locks s \<Longrightarrow> lock_inv s"
  by (induction rule: rtranclp_induct) (auto intro: lock_inv_start lock_step_inv)

subsection \<open>Properties\<close>

text \<open>Two workers with the same request: the first one reconciles it, the second one waits.\<close>

definition waited_for :: NamespacedName where
  "waited_for = \<lparr>nnName = ''db'', nnNamespace = ''prod''\<rparr>"

definition contended :: locks where
  "contended =
     \<lparr>Locks = [''prod/db'' \<mapsto> 0], locked = (\<lambda>_. False)(0 := True), fresh = 1,
      workers = (\<lambda>_. Idle)(0 := Reconciling waited_for, 1 := Locking waited_for 0)\<rparr>"

lemma split_at_slash:
  assumes "a @ CHR ''/'' # b = a' @ CHR ''/'' # b'" and "CHR ''/'' \<notin> set a" and "CHR ''/'' \<notin> set a'"
  shows "a = a' \<and> b = b'"
  using assms by (induction a arbitrary: a') (auto simp: Cons_eq_append_conv append_eq_Cons_conv)

lemma waited_for_key: "lockKey waited_for = ''prod/db''"
  by (simp add: lockKey_def waited_for_def)

lemma reachable_contended: "reachable_locks contended"
proof -
  define s1 where "s1 = set_worker 0 (Locking waited_for 0)
    (no_locks\<lparr>Locks := [''prod/db'' \<mapsto> 0], fresh := 1\<rparr>)"
  define s2 where "s2 = set_worker 0 (Reconciling waited_for) (s1\<lparr>locked := (locked s1)(0 := True)\<rparr>)"
  have "lock_step no_locks s1"
    unfolding s1_def
    by (rule load_or_store) (simp_all add: LoadOrStore_def no_locks_def waited_for_key)
  moreover have "lock_step s1 s2"
    unfolding s2_def by (rule Lock) (simp_all add: s1_def set_worker_def no_locks_def)
  moreover have "lock_step s2 (set_worker 1 (Locking waited_for 0) s2)"
    by (rule load_or_store) (simp_all add: s2_def s1_def LoadOrStore_def set_worker_def no_locks_def waited_for_key)
  moreover have "set_worker 1 (Locking waited_for 0) s2 = contended"
    by (simp add: contended_def s2_def s1_def set_worker_def no_locks_def)
  ultimately show ?thesis by (metis rtranclp.simps)
qed

text \<open>
  C8: Mutual exclusion. Whatever the interleaving of the workers, while one of them is between
  \<open>lock\<close> and \<open>unlock\<close> for a request, no other one is there for the same key, and no worker
  ever unlocks a mutex that is not locked.
\<close>

theorem reconciles_exclude_each_other:
  assumes "reachable_locks s" and "workers s i = Reconciling req" and "i \<noteq> j"
    and "lockKey req' = lockKey req"
  shows "workers s j \<noteq> Reconciling req' \<and> workers s j \<noteq> Crashed"
  using inv_unique [OF reachable_inv [OF assms(1)] assms(2)] inv_running [OF reachable_inv [OF assms(1)]] assms(3,4)
  by auto

theorem reconciles_exclude_each_other_witness:
  "workers contended 1 \<noteq> Reconciling waited_for \<and> workers contended 1 \<noteq> Crashed"
  by (rule reconciles_exclude_each_other [OF reachable_contended, of 0 waited_for 1 waited_for])
    (simp_all add: contended_def)

text \<open>
  C16: A worker that waits in \<open>lock\<close> can always get in: its mutex is free, or the worker that
  holds it can give it back, and then the waiting one takes it. There is no deadlock.
\<close>

theorem waiting_worker_gets_in:
  assumes "reachable_locks s" and "workers s i = Locking req mu"
  shows "\<exists>t. lock_step\<^sup>*\<^sup>* s t \<and> workers t i = Reconciling req \<and> locked t mu"
proof (cases "locked s mu")
  case False
  with assms(2) have "lock_step s (set_worker i (Reconciling req) (s\<lparr>locked := (locked s)(mu := True)\<rparr>))"
    by (rule Lock)
  then show ?thesis by (intro exI conjI, rule r_into_rtranclp) (simp_all add: set_worker_def)
next
  case True
  note inv = reachable_inv [OF assms(1)]
  with assms(2) have mu: "Locks s (lockKey req) = Some mu" by (simp add: lock_inv_def)
  from inv_holder [OF inv mu True] obtain j req' where j: "workers s j = Reconciling req'"
    and key: "lockKey req' = lockKey req" by blast
  with assms(2) have ij: "i \<noteq> j" by auto
  define t where "t = unlock j (lockKey req') s"
  have t: "t = set_worker j Idle (s\<lparr>locked := (locked s)(mu := False)\<rparr>)"
    using mu True by (simp add: t_def unlock_def key)
  then have "workers t i = Locking req mu" "\<not> locked t mu"
    using assms(2) ij by (simp_all add: set_worker_def)
  then have "lock_step t (set_worker i (Reconciling req) (t\<lparr>locked := (locked t)(mu := True)\<rparr>))"
    by (rule Lock)
  moreover have "lock_step s t" unfolding t_def by (rule Unlock [OF j])
  ultimately have "lock_step\<^sup>*\<^sup>* s (set_worker i (Reconciling req) (t\<lparr>locked := (locked t)(mu := True)\<rparr>))"
    by (metis rtranclp.simps)
  then show ?thesis by - (rule exI, rule conjI, assumption, simp add: set_worker_def)
qed

theorem waiting_worker_gets_in_witness:
  "\<exists>t. lock_step\<^sup>*\<^sup>* contended t \<and> workers t 1 = Reconciling waited_for \<and> locked t 0"
  by (rule waiting_worker_gets_in [OF reachable_contended]) (simp add: contended_def)

text \<open>
  C36: The key of the lock identifies the request, because a namespace has no slash: the locks
  of different requests are different.
\<close>

theorem lockKey_identifies:
  assumes "CHR ''/'' \<notin> set (nnNamespace req)" and "CHR ''/'' \<notin> set (nnNamespace req')"
  shows "lockKey req = lockKey req' \<longleftrightarrow> req = req'"
proof
  assume "lockKey req = lockKey req'"
  then show "req = req'" using assms by (auto simp: lockKey_def dest: split_at_slash)
qed simp

theorem lockKey_identifies_witness:
  "lockKey waited_for \<noteq> lockKey \<lparr>nnName = ''db'', nnNamespace = ''prod2''\<rparr>"
  by (subst lockKey_identifies) (simp_all add: waited_for_def)

end
