(* ===== verification/ProviderCheck.thy ===== *)
theory ProviderCheck
  imports Kube
begin

section \<open>What the two provider controllers share\<close>

text \<open>
  Both provider reconcilers go over the connections of their object, probe each one, and
  keep three variables: the connection statuses, the errors and whether an enabled database
  answered. The record \<open>check_state\<close> holds them, the locale \<open>provider_check\<close> says what one
  turn of such a loop does, and its lemmas what the loop leaves: one status for each
  connection, in order, one error for each connection that did not answer.
\<close>

subsection \<open>The variables of the loop\<close>

record check_state =
  dbStatus :: "ConnectionStatus list"
  checkErrors :: "go_error list"
  foundEnabledDatabase :: bool

definition check_start :: check_state where
  "check_start = \<lparr>dbStatus = [], checkErrors = [], foundEnabledDatabase = False\<rparr>"

text \<open>The end of a turn for a connection that failed, and for one that answered.\<close>

definition check_failed :: "ConnectionStatus \<Rightarrow> go_error \<Rightarrow> check_state \<Rightarrow> check_state" where
  "check_failed status err st = st\<lparr>dbStatus := dbStatus st @ [status], checkErrors := checkErrors st @ [err]\<rparr>"

definition check_passed :: "ConnectionStatus \<Rightarrow> check_state \<Rightarrow> check_state" where
  "check_passed status st =
     st\<lparr>dbStatus := dbStatus st @ [status],
        foundEnabledDatabase := (if csEnabled status then True else foundEnabledDatabase st)\<rparr>"

definition unavailable :: "ConnectionStatus \<Rightarrow> bool" where
  "unavailable status \<longleftrightarrow> csStatus status = ''unavailable''"

definition available :: "ConnectionStatus \<Rightarrow> bool" where
  "available status \<longleftrightarrow> csStatus status = ''available''"

lemma available_not_unavailable [simp]: "available status \<Longrightarrow> \<not> unavailable status"
  by (auto simp: available_def unavailable_def)

subsection \<open>The loop\<close>

text \<open>
  \<open>reports c status\<close> says that \<open>status\<close> is what a probe of \<open>c\<close> may record; in the locale below
  \<open>kept\<close> is what a turn keeps and \<open>inv\<close> what the laws of a turn need of the state.
  \<open>describes\<close> relates the variables to the connections that have been probed.
\<close>

definition describes :: "('c \<Rightarrow> ConnectionStatus \<Rightarrow> bool) \<Rightarrow> 'c list \<Rightarrow> check_state \<Rightarrow> bool" where
  "describes reports conns st \<longleftrightarrow>
     list_all2 reports conns (dbStatus st) \<and>
     length (checkErrors st) = length (filter unavailable (dbStatus st)) \<and>
     list_all (\<lambda>status. available status \<or> unavailable status) (dbStatus st) \<and>
     (foundEnabledDatabase st \<longleftrightarrow> (\<exists>status \<in> set (dbStatus st). available status \<and> csEnabled status))"

lemma describes_start: "describes reports [] check_start"
  by (simp add: describes_def check_start_def)

lemma describes_failed:
  assumes "describes reports conns st" and "reports c status" and "unavailable status"
  shows "describes reports (conns @ [c]) (check_failed status err st)"
  using assms
  by (auto simp: describes_def check_failed_def list_all2_append list_all2_lengthD dest: available_not_unavailable)

lemma describes_passed:
  assumes "describes reports conns st" and "reports c status" and "available status"
  shows "describes reports (conns @ [c]) (check_passed status st)"
  using assms
  by (auto simp: describes_def check_passed_def list_all2_append list_all2_lengthD)

text \<open>The test \<open>len(errors) == len(conns)\<close> holds exactly when no connection answered.\<close>

lemma filter_all_iff: "length (filter P xs) = length xs \<longleftrightarrow> list_all P xs"
  by (metis filter_id_conv length_filter_less less_irrefl list.pred_set)

lemma describes_none_answered:
  assumes "describes reports conns st"
  shows "length (checkErrors st) = length conns \<longleftrightarrow> list_all unavailable (dbStatus st)"
proof -
  from assms have "length conns = length (dbStatus st)"
    by (auto simp: describes_def dest: list_all2_lengthD)
  with assms show ?thesis by (simp add: describes_def filter_all_iff)
qed

lemma describes_found:
  "describes reports conns st \<Longrightarrow> foundEnabledDatabase st \<Longrightarrow>
     \<exists>status \<in> set (dbStatus st). available status \<and> csEnabled status"
  by (simp add: describes_def)

locale provider_check =
  fixes check :: "'c \<Rightarrow> check_state \<Rightarrow> ('s, check_state) go"
    and loop :: "'c list \<Rightarrow> check_state \<Rightarrow> ('s, check_state) go"
    and reports :: "'c \<Rightarrow> ConnectionStatus \<Rightarrow> bool"
    and kept :: "'s \<Rightarrow> 's \<Rightarrow> bool"
    and inv :: "'s \<Rightarrow> bool"
  assumes loop_Nil: "loop [] st = ok st"
    and loop_Cons: "loop (c # cs) st = go_try (check c st) fail (loop cs)"
    and check_kept: "preserves kept (check c st)"
    and kept: "preorder_rel kept"
    and kept_inv: "\<And>s t. kept s t \<Longrightarrow> inv s \<Longrightarrow> inv t"
    and check: "\<And>s t. inv s \<Longrightarrow> run_state (check c st) s = (r, t) \<Longrightarrow>
       (\<exists>status err. r = Ok (check_failed status err st) \<and> reports c status \<and> unavailable status) \<or>
       (\<exists>status. r = Ok (check_passed status st) \<and> reports c status \<and> available status) \<or>
       (\<exists>text. r = Panic text)"
begin

lemma loop_kept: "preserves kept (loop cs st)"
  by (induction cs arbitrary: st)
    (auto simp: loop_Nil loop_Cons intro!: preserves_ok preserves_fail preserves_go_try kept check_kept)

lemma loop_post:
  assumes "describes reports seen st" and "inv s"
  shows "post (loop cs st) s (\<lambda>r t. kept s t \<and>
    ((\<exists>st'. r = Ok st' \<and> describes reports (seen @ cs) st') \<or> (\<exists>text. r = Panic text)))"
  using assms
proof (induction cs arbitrary: seen st s)
  case Nil
  with kept show ?case by (simp add: loop_Nil post_ok preorder_rel_def reflp_def)
next
  case (Cons c cs)
  show ?case
    unfolding loop_Cons
  proof (rule post_go_tryI)
    show "post (check c st) s (\<lambda>r t. kept s t \<and>
        ((\<exists>st'. r = Ok st' \<and> describes reports (seen @ [c]) st') \<or> (\<exists>text. r = Panic text)))"
    proof (rule postI)
      fix r t
      assume run: "run_state (check c st) s = (r, t)"
      from check_kept run have "kept s t" by (rule preservesD)
      with check [OF Cons.prems(2) run] Cons.prems(1) show "kept s t \<and>
          ((\<exists>st'. r = Ok st' \<and> describes reports (seen @ [c]) st') \<or> (\<exists>text. r = Panic text))"
        by (auto intro: describes_failed describes_passed)
    qed
  next
    fix st' t
    assume "kept s t \<and> ((\<exists>st''. Ok st' = Ok st'' \<and> describes reports (seen @ [c]) st'') \<or> (\<exists>text. Ok st' = Panic text))"
    then have "kept s t" and "describes reports (seen @ [c]) st'" by auto
    from \<open>kept s t\<close> Cons.prems(2) have "inv t" by (rule kept_inv)
    from kept \<open>kept s t\<close> have trans: "kept t u \<Longrightarrow> kept s u" for u
      by (auto simp: preorder_rel_def elim: transpE)
    show "post (loop cs st') t (\<lambda>r u. kept s u \<and>
        ((\<exists>st'. r = Ok st' \<and> describes reports (seen @ c # cs) st') \<or> (\<exists>text. r = Panic text)))"
      by (rule post_mono [OF Cons.IH [OF \<open>describes reports (seen @ [c]) st'\<close> \<open>inv t\<close>]]) (auto intro: trans)
  qed auto
qed

lemma loop_start:
  "inv s \<Longrightarrow> post (loop cs check_start) s (\<lambda>r t. kept s t \<and>
    ((\<exists>st. r = Ok st \<and> describes reports cs st) \<or> (\<exists>text. r = Panic text)))"
  using loop_post [OF describes_start, of s cs] by simp

end

subsection \<open>What the loops keep\<close>

text \<open>Collecting the connections reads secrets: it leaves the databases, the object and the effects alone.\<close>

definition same_but_cluster :: "('w, 'd, 'o) rstate \<Rightarrow> ('w, 'd, 'o) rstate \<Rightarrow> bool" where
  "same_but_cluster s t \<longleftrightarrow> dbs t = dbs s \<and> obj t = obj s \<and> effects t = effects s"

lemma preorder_same_but_cluster [simp]: "preorder_rel same_but_cluster"
  by (auto simp: preorder_rel_def same_but_cluster_def intro!: reflpI transpI)

text \<open>Probing changes the databases and writes fitting metrics, of the gauges only \<open>version\<close>.\<close>

definition probing :: "prom_vec \<Rightarrow> ('w, 'd, 'o) rstate \<Rightarrow> ('w, 'd, 'o) rstate \<Rightarrow> bool" where
  "probing version s t \<longleftrightarrow> cluster t = cluster s \<and> obj t = obj s \<and> fits s t \<and>
     (\<forall>v. v \<noteq> version \<longrightarrow> gauge v (effects t) = gauge v (effects s))"

lemma preorder_probing [simp]: "preorder_rel (probing version)"
  using preorder_fits by (auto simp: preorder_rel_def probing_def intro!: reflpI transpI elim: reflpE transpE)

lemma probing_in_dbs: "preserves (probing version) (in_dbs m)"
  by (rule preserves_in_dbs) (simp add: probing_def fits_def)

lemma probing_nil_pointer: "preserves (probing version) nil_pointer"
  unfolding nil_pointer_def by (intro preserves_rules preorder_probing)

subsection \<open>Unique names\<close>

text \<open>\<open>len(uniqueNames) != len(instance.Spec.Connections)\<close>, for the set of the names.\<close>

lemma card_names_distinct: "card (set (map name conns)) = length conns \<longleftrightarrow> distinct (map name conns)"
  by (metis card_distinct distinct_card length_map)

end
