(* ===== verification/RelProvider.thy ===== *)
theory RelProvider
  imports ProviderCheck Conn
begin

section \<open>The RelationalDatabaseProvider reconciler (internal/controller/relationaldatabaseprovider_controller.go)\<close>

text \<open>
  \<open>Reconcile_rdp\<close> and what it calls, on the state of \<open>Kube\<close> with the object \<open>instance\<close>.
  The map \<open>uniqueNames\<close> is the set of its keys. A client call that returns an error returns no
  value in the model; the code puts the version returned beside an error into a label, and
  every implementation of \<open>Version\<close> returns the empty string there.
\<close>

definition databaseProviderFinalizer :: string where
  "databaseProviderFinalizer = ''relationaldatabaseprovider.crd.lagoon.sh/finalizer''"

definition promRelationalDatabaseProviderReconcileErrorCounter :: prom_vec where
  "promRelationalDatabaseProviderReconcileErrorCounter =
     \<lparr>pvName = ''relationaldatabaseprovider_reconcile_error_total'',
      pvLabels = [''type'', ''name'', ''selector'', ''error'']\<rparr>"

definition promRelationalDatabaseProviderStatus :: prom_vec where
  "promRelationalDatabaseProviderStatus =
     \<lparr>pvName = ''relationaldatabaseprovider_status'', pvLabels = [''type'', ''name'', ''selector'']\<rparr>"

definition promRelationalDatabaseProviderConnectionVersion :: prom_vec where
  "promRelationalDatabaseProviderConnectionVersion =
     \<lparr>pvName = ''relationaldatabaseprovider_connection_version'',
      pvLabels = [''type'', ''name'', ''selector'', ''hostname'', ''username'', ''version'']\<rparr>"

record ('w, 'd) RelationalDatabaseProviderReconciler =
  rdprClient :: "'w client"
  RelDBClient :: "'d RelationalDatabaseInterface"

type_synonym ('w, 'd) provider_state = "('w, 'd, RelationalDatabaseProvider) rstate"

definition set_rdp_status ::
    "(RelationalDatabaseProviderStatus \<Rightarrow> RelationalDatabaseProviderStatus) \<Rightarrow> (('w, 'd) provider_state, unit) go" where
  "set_rdp_status f = with_obj (\<lambda>o1. set_obj (o1\<lparr>rdpStatus := f (rdpStatus o1)\<rparr>))"

text \<open>\<open>meta.SetStatusCondition(&instance.Status.Conditions, c)\<close>, whose result the code drops.\<close>

definition set_rdp_condition :: "library \<Rightarrow> Condition \<Rightarrow> (('w, 'd) provider_state, unit) go" where
  "set_rdp_condition L c =
     set_rdp_status (\<lambda>st. st\<lparr>rdpConditions := fst (SetStatusCondition L (rdpConditions st) c)\<rparr>)"

text \<open>The three labels \<open>instance.Spec.Type, name, instance.Spec.Selector\<close>.\<close>

definition rdp_labels :: "RelationalDatabaseProvider \<Rightarrow> string \<Rightarrow> string list" where
  "rdp_labels instance n = [rdpType (rdpSpec instance), n, rdpSelector (rdpSpec instance)]"

definition handleError_rdp ::
    "library \<Rightarrow> ('w, 'd) RelationalDatabaseProviderReconciler \<Rightarrow> string \<Rightarrow> go_error \<Rightarrow>
      (('w, 'd) provider_state, unit) go" where
  "handleError_rdp L r promErr err =
     with_obj (\<lambda>instance.
     let labels = rdp_labels instance (metaName (rdpMeta instance)) in
     and_then (emit (Inc promRelationalDatabaseProviderReconcileErrorCounter (WithLabelValues (labels @ [promErr]))))
     (and_then (emit (Set promRelationalDatabaseProviderStatus (WithLabelValues labels) 0))
     (and_then (emit (Eventf EventTypeWarning (errTypeToEventReason (Title L) promErr) (Error err) (Error err)))
     (and_then (set_rdp_condition L
        \<lparr>condType = ''Ready'', condStatus = ConditionFalse,
         condReason = errTypeToEventReason (Title L) promErr, condMessage = Error err\<rparr>)
     (go_try (update_obj (StatusUpdate_RelationalDatabaseProvider (rdprClient r)))
        (\<lambda>_. with_obj (\<lambda>o2.
           and_then (emit (Inc promRelationalDatabaseProviderReconcileErrorCounter
             (WithLabelValues (rdp_labels o2 (metaName (rdpMeta o2)) @ [''update-status'']))))
             (fail err)))
        (\<lambda>_. fail err))))))"

subsection \<open>The connections and their passwords\<close>

text \<open>
  The loop ends with the names and connections it collected, or early with the label and the
  error that the code passes to \<open>handleError\<close>.
\<close>

fun collect_connections ::
    "('w, 'd) RelationalDatabaseProviderReconciler \<Rightarrow> string \<Rightarrow> Connection list \<Rightarrow> string set \<Rightarrow> reldbConn list \<Rightarrow>
      (('w, 'd) provider_state, (string \<times> go_error) + (string set \<times> reldbConn list)) go" where
  "collect_connections r dbType [] uniqueNames conns = ok (Inr (uniqueNames, conns))"
| "collect_connections r dbType (conn # rest) uniqueNames conns =
     go_try (in_cluster (Get_Secret (rdprClient r) (secret_key_of (connPasswordSecretRef conn))))
       (\<lambda>err. ok (Inl (''get-secret'', err)))
       (\<lambda>secret.
          let password = secret_password secret in
          if password = [] then
            ok (Inl (dbType @ ''-empty-password'',
              errors_New (dbType @ '' connection secret '' @ metaName (secretMeta secret) @
                '' in namespace '' @ metaNamespace (secretMeta secret) @ '' has empty password'')))
          else
            collect_connections r dbType rest (insert (connName conn) uniqueNames)
              (conns @ [\<lparr>rcDbType = dbType, rcName = connName conn, rcHostname = connHostname conn,
                 rcReplicaHostnames = connReplicaHostnames conn, rcPassword = password,
                 rcPort = connPort conn, rcUsername = connUsername conn, rcEnabled = connEnabled conn\<rparr>]))"

subsection \<open>Probing a connection\<close>

text \<open>The status entries: \<open>DatabaseVersion\<close> stays empty for a connection that is unavailable.\<close>

definition rdp_status_of :: "reldbConn \<Rightarrow> string \<Rightarrow> string \<Rightarrow> ConnectionStatus" where
  "rdp_status_of conn version status =
     \<lparr>csName = rcName conn, csHostname = rcHostname conn, csDatabaseVersion = version,
      csEnabled = rcEnabled conn, csStatus = status\<rparr>"

definition set_rdp_version ::
    "NamespacedName \<Rightarrow> reldbConn \<Rightarrow> string \<Rightarrow> int \<Rightarrow> (('w, 'd) provider_state, unit) go" where
  "set_rdp_version req conn version value =
     with_obj (\<lambda>instance. emit (Set promRelationalDatabaseProviderConnectionVersion
       (WithLabelValues [rdpType (rdpSpec instance), nnName req, rdpSelector (rdpSpec instance),
          rcHostname conn, rcUsername conn, version]) value))"

definition check_connection ::
    "('w, 'd) RelationalDatabaseProviderReconciler \<Rightarrow> NamespacedName \<Rightarrow> reldbConn \<Rightarrow> check_state \<Rightarrow>
      (('w, 'd) provider_state, check_state) go" where
  "check_connection r req conn st =
     with_obj (\<lambda>instance.
     let dbType = rdpType (rdpSpec instance);
         down = (\<lambda>err. check_failed (rdp_status_of conn [] ''unavailable'') err st) in
     go_try (in_dbs (rdiPing (RelDBClient r) (getDSN conn False) dbType))
       (\<lambda>err. and_then (set_rdp_version req conn [] 0) (ok (down err)))
       (\<lambda>_.
     go_try (in_dbs (rdiVersion (RelDBClient r) (getDSN conn False) dbType))
       (\<lambda>err. and_then (set_rdp_version req conn [] 0) (ok (down err)))
       (\<lambda>version.
     go_try (in_dbs (rdiInitialize (RelDBClient r) (getDSN conn False) dbType))
       (\<lambda>err. and_then (set_rdp_version req conn version 0) (ok (down err)))
       (\<lambda>_.
          and_then (set_rdp_version req conn version (if rcEnabled conn then 1 else 0))
            (ok (check_passed (rdp_status_of conn version ''available'') st))))))"

fun check_connections ::
    "('w, 'd) RelationalDatabaseProviderReconciler \<Rightarrow> NamespacedName \<Rightarrow> reldbConn list \<Rightarrow> check_state \<Rightarrow>
      (('w, 'd) provider_state, check_state) go" where
  "check_connections r req [] st = ok st"
| "check_connections r req (conn # conns) st =
     go_try (check_connection r req conn st) fail (check_connections r req conns)"

subsection \<open>Reconcile\<close>

text \<open>\<open>fmt.Errorf("... %v", errors)\<close>: the texts in brackets, separated by a space.\<close>

definition fmt_errors :: "go_error list \<Rightarrow> string" where
  "fmt_errors errs = ''['' @ strings_Join (map Error errs) '' '' @ '']''"

text \<open>From \<open>instance.Status.ConnectionStatus = dbStatus\<close> on.\<close>

definition finish_rdp ::
    "library \<Rightarrow> ('w, 'd) RelationalDatabaseProviderReconciler \<Rightarrow> NamespacedName \<Rightarrow> reldbConn list \<Rightarrow> check_state \<Rightarrow>
      (('w, 'd) provider_state, unit) go" where
  "finish_rdp L r req conns st =
     and_then (set_rdp_status (\<lambda>s. s\<lparr>rdpConnectionStatus := dbStatus st\<rparr>))
     (and_then (with_obj (\<lambda>o1. set_rdp_status (\<lambda>s. s\<lparr>rdpObservedGeneration := metaGeneration (rdpMeta o1)\<rparr>)))
     (with_obj (\<lambda>instance.
        let dbType = rdpType (rdpSpec instance) in
        if length (checkErrors st) = length conns then
          handleError_rdp L r (dbType @ ''-connection-error'')
            (errors_New (''failed to connect to any of the '' @ dbType @ '' databases: '' @ fmt_errors (checkErrors st)))
        else if \<not> foundEnabledDatabase st then
          handleError_rdp L r (dbType @ ''-connection-not-any-enabled'')
            (errors_New (''no enabled working '' @ dbType @ '' database found''))
        else
          and_then (set_rdp_condition L
            \<lparr>condType = ''Ready'', condStatus = ConditionTrue, condReason = ''Reconciled'',
             condMessage = ''RelationalDatabaseProvider reconciled''\<rparr>)
          (go_try (update_obj (StatusUpdate_RelationalDatabaseProvider (rdprClient r)))
             (\<lambda>err. with_obj (\<lambda>o2.
                and_then (emit (Inc promRelationalDatabaseProviderReconcileErrorCounter
                  (WithLabelValues (rdp_labels o2 (nnName req) @ [''update-status'']))))
                (and_then (emit (Set promRelationalDatabaseProviderStatus (WithLabelValues (rdp_labels o2 (nnName req))) 0))
                (fail err))))
             (\<lambda>_. with_obj (\<lambda>o2.
                and_then (emit (Eventf ''Normal'' ''Reconciled''
                  ''RelationalDatabaseProvider reconciled'' ''RelationalDatabaseProvider reconciled''))
                (and_then (emit (Set promRelationalDatabaseProviderStatus (WithLabelValues (rdp_labels o2 (nnName req))) 1))
                (ok ()))))))))"

text \<open>From the collection of the connections on.\<close>

definition check_rdp ::
    "library \<Rightarrow> ('w, 'd) RelationalDatabaseProviderReconciler \<Rightarrow> NamespacedName \<Rightarrow> (('w, 'd) provider_state, unit) go" where
  "check_rdp L r req =
     with_obj (\<lambda>instance.
     let dbType = rdpType (rdpSpec instance); connections = rdpConnections (rdpSpec instance) in
     go_try (collect_connections r dbType connections {} []) fail
       (\<lambda>collected.
          case collected of
            Inl (promErr, err) \<Rightarrow> handleError_rdp L r promErr err
          | Inr (uniqueNames, conns) \<Rightarrow>
              if card uniqueNames \<noteq> length connections then
                handleError_rdp L r (dbType @ ''-unique-name-error'')
                  (errors_New (dbType @ '' database connections must have unique names''))
              else
                go_try (check_connections r req conns check_start) fail (finish_rdp L r req conns)))"

definition rdp_up_to_date :: "library \<Rightarrow> RelationalDatabaseProvider \<Rightarrow> bool" where
  "rdp_up_to_date L instance \<longleftrightarrow>
     rdpConditions (rdpStatus instance) \<noteq> [] \<and>
     IsStatusConditionTrue L (rdpConditions (rdpStatus instance)) ''Ready'' \<and>
     rdpObservedGeneration (rdpStatus instance) \<ge> metaGeneration (rdpMeta instance)"

definition set_rdp_finalizers :: "string list \<Rightarrow> (('w, 'd) provider_state, unit) go" where
  "set_rdp_finalizers finalizers =
     with_obj (\<lambda>o1. set_obj (o1\<lparr>rdpMeta := (rdpMeta o1)\<lparr>metaFinalizers := finalizers\<rparr>\<rparr>))"

definition release_rdp ::
    "library \<Rightarrow> ('w, 'd) RelationalDatabaseProviderReconciler \<Rightarrow> (('w, 'd) provider_state, unit) go" where
  "release_rdp L r =
     with_obj (\<lambda>instance.
       case RemoveFinalizer L (metaFinalizers (rdpMeta instance)) databaseProviderFinalizer of
         (finalizers, removed) \<Rightarrow>
           and_then (set_rdp_finalizers finalizers)
           (if removed then
              go_try (update_obj (Update_RelationalDatabaseProvider (rdprClient r)))
                (\<lambda>err. handleError_rdp L r ''remove-finalizer'' err) (\<lambda>_. ok ())
            else ok ()))"

definition reconcile_active_rdp ::
    "library \<Rightarrow> ('w, 'd) RelationalDatabaseProviderReconciler \<Rightarrow> NamespacedName \<Rightarrow> (('w, 'd) provider_state, unit) go" where
  "reconcile_active_rdp L r req =
     with_obj (\<lambda>instance.
       if rdp_up_to_date L instance then
         and_then (emit (Eventf EventTypeNormal ''ReconcileSkipped''
            ''No updates to reconcile'' ''No updates to reconcile'')) (ok ())
       else
         (case AddFinalizer L (metaFinalizers (rdpMeta instance)) databaseProviderFinalizer of
            (finalizers, added) \<Rightarrow>
              and_then (set_rdp_finalizers finalizers)
              (if added then
                 go_try (update_obj (Update_RelationalDatabaseProvider (rdprClient r)))
                   (\<lambda>err. handleError_rdp L r ''add-finalizer'' err) (\<lambda>_. check_rdp L r req)
               else check_rdp L r req)))"

definition Reconcile_rdp ::
    "library \<Rightarrow> ('w, 'd) RelationalDatabaseProviderReconciler \<Rightarrow> NamespacedName \<Rightarrow> (('w, 'd) provider_state, unit) go" where
  "Reconcile_rdp L r req =
     and_then (set_obj RelationalDatabaseProvider_zero)
     (go_try (in_cluster (Get_RelationalDatabaseProvider (rdprClient r) req))
        (\<lambda>err.
           if IsNotFound err then ok ()
           else
             and_then (emit (Inc promRelationalDatabaseProviderReconcileErrorCounter
               (WithLabelValues [[], nnName req, [], ''get-relationaldbprovider''])))
               (fail err))
        (\<lambda>instance.
           and_then (set_obj instance)
           (if being_deleted (rdpMeta instance) then release_rdp L r else reconcile_active_rdp L r req)))"

end
