(* ===== verification/MongoProvider.thy ===== *)
theory MongoProvider
  imports ProviderCheck Conn MongoDB
begin

section \<open>The MongoDBProvider reconciler (internal/controller/mongodbprovider_controller.go)\<close>

text \<open>
  \<open>Reconcile_mdp\<close> and what it calls, on the state of \<open>Kube\<close> with the object \<open>instance\<close>. The
  client is an interface value that may be nil, so the field \<open>MongoDBClient\<close> is an option and
  a call through \<open>None\<close> panics. As in \<open>RelProvider\<close>, the set \<open>uniqueNames\<close> stands for the map
  of that name, and the version returned beside an error is the empty string.
\<close>

definition mongoDBProviderFinalizer :: string where
  "mongoDBProviderFinalizer = ''mongodbprovider.crd.lagoon.sh/finalizer''"

definition promMongoDBProviderReconcileErrorCounter :: prom_vec where
  "promMongoDBProviderReconcileErrorCounter =
     \<lparr>pvName = ''mongodbprovider_reconcile_error_total'', pvLabels = [''name'', ''selector'', ''error'']\<rparr>"

definition promMongoDBProviderStatus :: prom_vec where
  "promMongoDBProviderStatus = \<lparr>pvName = ''mongodbprovider_status'', pvLabels = [''name'', ''selector'']\<rparr>"

definition promMongoDBProviderConnectionVersion :: prom_vec where
  "promMongoDBProviderConnectionVersion =
     \<lparr>pvName = ''mongodbprovider_connection_version'',
      pvLabels = [''name'', ''selector'', ''hostname'', ''username'', ''version'']\<rparr>"

record ('w, 'd) MongoDBProviderReconciler =
  mdprClient :: "'w client"
  MongoDBClient :: "'d MongoDBInterface option"

type_synonym ('w, 'd) mongo_provider_state = "('w, 'd, MongoDBProvider) rstate"

record mongoDBConn =
  mdcOptions :: MongoDBClientOptions
  mdcEnabled :: bool

definition set_mdp_status ::
    "(MongoDBProviderStatus \<Rightarrow> MongoDBProviderStatus) \<Rightarrow> (('w, 'd) mongo_provider_state, unit) go" where
  "set_mdp_status f = with_obj (\<lambda>o1. set_obj (o1\<lparr>mdpStatus := f (mdpStatus o1)\<rparr>))"

definition set_mdp_condition :: "library \<Rightarrow> Condition \<Rightarrow> (('w, 'd) mongo_provider_state, unit) go" where
  "set_mdp_condition L c =
     set_mdp_status (\<lambda>st. st\<lparr>mdpConditions := fst (SetStatusCondition L (mdpConditions st) c)\<rparr>)"

text \<open>A call of a method of \<open>r.MongoDBClient\<close>.\<close>

definition call_mongo ::
    "('w, 'd) MongoDBProviderReconciler \<Rightarrow> ('d MongoDBInterface \<Rightarrow> ('d, 'a) go) \<Rightarrow>
      (('w, 'd) mongo_provider_state, 'a) go" where
  "call_mongo r method = (case MongoDBClient r of None \<Rightarrow> nil_pointer | Some client \<Rightarrow> in_dbs (method client))"

definition handleError_mdp ::
    "library \<Rightarrow> ('w, 'd) MongoDBProviderReconciler \<Rightarrow> string \<Rightarrow> go_error \<Rightarrow>
      (('w, 'd) mongo_provider_state, unit) go" where
  "handleError_mdp L r promErr err =
     with_obj (\<lambda>instance.
     let n = metaName (mdpMeta instance); selector = mdpSelector (mdpSpec instance) in
     and_then (emit (Inc promMongoDBProviderReconcileErrorCounter (WithLabelValues [n, selector, promErr])))
     (and_then (emit (Set promMongoDBProviderStatus (WithLabelValues [n, selector]) 0))
     (and_then (emit (Eventf EventTypeWarning (errTypeToEventReason (Title L) promErr) (Error err) (Error err)))
     (and_then (set_mdp_condition L
        \<lparr>condType = ''Ready'', condStatus = ConditionFalse,
         condReason = errTypeToEventReason (Title L) promErr, condMessage = Error err\<rparr>)
     (go_try (update_obj (StatusUpdate_MongoDBProvider (mdprClient r)))
        (\<lambda>err. with_obj (\<lambda>o2.
           and_then (emit (Inc promMongoDBProviderReconcileErrorCounter
             (WithLabelValues [metaName (mdpMeta o2), mdpSelector (mdpSpec o2), ''update-status''])))
             (fail err)))
        (\<lambda>_. fail err))))))"

subsection \<open>The connections and their passwords\<close>

fun collect_mongo ::
    "('w, 'd) MongoDBProviderReconciler \<Rightarrow> MongoDBConnection list \<Rightarrow> string set \<Rightarrow> mongoDBConn list \<Rightarrow>
      (('w, 'd) mongo_provider_state, (string \<times> go_error) + (string set \<times> mongoDBConn list)) go" where
  "collect_mongo r [] uniqueNames conns = ok (Inr (uniqueNames, conns))"
| "collect_mongo r (conn # rest) uniqueNames conns =
     (let uniqueNames = insert (mcName conn) uniqueNames in
      go_try (in_cluster (Get_Secret (mdprClient r) (secret_key_of (mcPasswordSecretRef conn))))
        (\<lambda>err. ok (Inl (''get-secret'', err)))
        (\<lambda>secret.
           let password = secret_password secret in
           if password = [] then
             ok (Inl (''empty-password'', errors_New (''password is empty for secret '' @
               refNamespace (mcPasswordSecretRef conn) @ ''/'' @ refName (mcPasswordSecretRef conn))))
           else
             collect_mongo r rest uniqueNames
               (conns @ [\<lparr>mdcOptions =
                  \<lparr>moName = mcName conn, moHostname = mcHostname conn, moPort = mcPort conn,
                   moUsername = mcUsername conn, moPassword = password,
                   moMechanism = authMechanism (mcAuth conn), moSource = authSource (mcAuth conn),
                   moTLS = authTLS (mcAuth conn)\<rparr>,
                  mdcEnabled = mcEnabled conn\<rparr>])))"

subsection \<open>Probing a connection\<close>

definition mdp_status_of :: "mongoDBConn \<Rightarrow> string \<Rightarrow> string \<Rightarrow> ConnectionStatus" where
  "mdp_status_of conn version status =
     \<lparr>csName = moName (mdcOptions conn), csHostname = moHostname (mdcOptions conn),
      csDatabaseVersion = version, csEnabled = mdcEnabled conn, csStatus = status\<rparr>"

definition set_mdp_version :: "mongoDBConn \<Rightarrow> string \<Rightarrow> int \<Rightarrow> (('w, 'd) mongo_provider_state, unit) go" where
  "set_mdp_version conn version value =
     with_obj (\<lambda>instance. emit (Set promMongoDBProviderConnectionVersion
       (WithLabelValues [moName (mdcOptions conn), mdpSelector (mdpSpec instance),
          moHostname (mdcOptions conn), moUsername (mdcOptions conn), version]) value))"

definition check_mongo ::
    "('w, 'd) MongoDBProviderReconciler \<Rightarrow> mongoDBConn \<Rightarrow> check_state \<Rightarrow>
      (('w, 'd) mongo_provider_state, check_state) go" where
  "check_mongo r conn st =
     (let down = (\<lambda>err. check_failed (mdp_status_of conn ''unknown'' ''unavailable'') err st) in
      go_try (call_mongo r (\<lambda>client. mdiPing client (mdcOptions conn)))
        (\<lambda>err. and_then (set_mdp_version conn [] 0) (ok (down err)))
        (\<lambda>_.
      go_try (call_mongo r (\<lambda>client. mdiVersion client (mdcOptions conn)))
        (\<lambda>err. and_then (set_mdp_version conn [] 0) (ok (down err)))
        (\<lambda>version.
           and_then (set_mdp_version conn version (if mdcEnabled conn then 1 else 0))
             (ok (check_passed (mdp_status_of conn version ''available'') st)))))"

fun check_mongos ::
    "('w, 'd) MongoDBProviderReconciler \<Rightarrow> mongoDBConn list \<Rightarrow> check_state \<Rightarrow>
      (('w, 'd) mongo_provider_state, check_state) go" where
  "check_mongos r [] st = ok st"
| "check_mongos r (conn # conns) st = go_try (check_mongo r conn st) fail (check_mongos r conns)"

subsection \<open>Reconcile\<close>

definition finish_mdp ::
    "library \<Rightarrow> ('w, 'd) MongoDBProviderReconciler \<Rightarrow> NamespacedName \<Rightarrow> mongoDBConn list \<Rightarrow> check_state \<Rightarrow>
      (('w, 'd) mongo_provider_state, unit) go" where
  "finish_mdp L r req conns st =
     and_then (set_mdp_status (\<lambda>s. s\<lparr>mdpConnectionStatus := dbStatus st\<rparr>))
     (and_then (with_obj (\<lambda>o1. set_mdp_status (\<lambda>s. s\<lparr>mdpObservedGeneration := metaGeneration (mdpMeta o1)\<rparr>)))
     (with_obj (\<lambda>instance.
        if length (checkErrors st) = length conns then
          handleError_mdp L r ''all-connections-error''
            (errors_New (''all connections failed for MongoDBProvider '' @ metaName (mdpMeta instance)))
        else if \<not> foundEnabledDatabase st then
          handleError_mdp L r ''no-enabled-database''
            (errors_New (''no enabled database found for MongoDBProvider '' @ metaName (mdpMeta instance)))
        else
          and_then (set_mdp_condition L
            \<lparr>condType = ''Ready'', condStatus = ConditionTrue, condReason = ''Reconciled'',
             condMessage = ''MongoDBProvider reconciled''\<rparr>)
          (go_try (update_obj (StatusUpdate_MongoDBProvider (mdprClient r)))
             (\<lambda>err. with_obj (\<lambda>o2.
                and_then (emit (Inc promMongoDBProviderReconcileErrorCounter
                  (WithLabelValues [nnName req, mdpSelector (mdpSpec o2), ''update-status''])))
                (and_then (emit (Set promMongoDBProviderStatus (WithLabelValues [nnName req, mdpSelector (mdpSpec o2)]) 0))
                (fail err))))
             (\<lambda>_. with_obj (\<lambda>o2.
                and_then (emit (Eventf EventTypeNormal ''Reconciled''
                  ''MongoDBProvider reconciled'' ''MongoDBProvider reconciled''))
                (and_then (emit (Set promMongoDBProviderStatus (WithLabelValues [nnName req, mdpSelector (mdpSpec o2)]) 1))
                (ok ()))))))))"

definition check_mdp ::
    "library \<Rightarrow> ('w, 'd) MongoDBProviderReconciler \<Rightarrow> NamespacedName \<Rightarrow> (('w, 'd) mongo_provider_state, unit) go" where
  "check_mdp L r req =
     with_obj (\<lambda>instance.
     let connections = mdpConnections (mdpSpec instance) in
     go_try (collect_mongo r connections {} []) fail
       (\<lambda>collected.
          case collected of
            Inl (promErr, err) \<Rightarrow> handleError_mdp L r promErr err
          | Inr (uniqueNames, conns) \<Rightarrow>
              if card uniqueNames \<noteq> length connections then
                handleError_mdp L r ''dunique-name-error''
                  (errors_New (''connection names are not unique for MongoDBProvider '' @ metaName (mdpMeta instance)))
              else
                go_try (check_mongos r conns check_start) fail (finish_mdp L r req conns)))"

definition mdp_up_to_date :: "library \<Rightarrow> MongoDBProvider \<Rightarrow> bool" where
  "mdp_up_to_date L instance \<longleftrightarrow>
     mdpConditions (mdpStatus instance) \<noteq> [] \<and>
     IsStatusConditionTrue L (mdpConditions (mdpStatus instance)) ''Ready'' \<and>
     mdpObservedGeneration (mdpStatus instance) \<ge> metaGeneration (mdpMeta instance)"

definition set_mdp_finalizers :: "string list \<Rightarrow> (('w, 'd) mongo_provider_state, unit) go" where
  "set_mdp_finalizers finalizers =
     with_obj (\<lambda>o1. set_obj (o1\<lparr>mdpMeta := (mdpMeta o1)\<lparr>metaFinalizers := finalizers\<rparr>\<rparr>))"

definition release_mdp ::
    "library \<Rightarrow> ('w, 'd) MongoDBProviderReconciler \<Rightarrow> (('w, 'd) mongo_provider_state, unit) go" where
  "release_mdp L r =
     with_obj (\<lambda>instance.
       case RemoveFinalizer L (metaFinalizers (mdpMeta instance)) mongoDBProviderFinalizer of
         (finalizers, removed) \<Rightarrow>
           and_then (set_mdp_finalizers finalizers)
           (if removed then
              go_try (update_obj (Update_MongoDBProvider (mdprClient r)))
                (\<lambda>err. handleError_mdp L r ''remove-finalizer'' err) (\<lambda>_. ok ())
            else ok ()))"

definition reconcile_active_mdp ::
    "library \<Rightarrow> ('w, 'd) MongoDBProviderReconciler \<Rightarrow> NamespacedName \<Rightarrow> (('w, 'd) mongo_provider_state, unit) go" where
  "reconcile_active_mdp L r req =
     with_obj (\<lambda>instance.
       if mdp_up_to_date L instance then
         and_then (emit (Eventf EventTypeNormal ''ReconcileSkipped''
            ''No updates to reconcile'' ''No updates to reconcile'')) (ok ())
       else if \<not> ContainsFinalizer L (metaFinalizers (mdpMeta instance)) mongoDBProviderFinalizer then
         and_then (set_mdp_finalizers (fst (AddFinalizer L (metaFinalizers (mdpMeta instance)) mongoDBProviderFinalizer)))
         (go_try (update_obj (Update_MongoDBProvider (mdprClient r)))
            (\<lambda>err. handleError_mdp L r ''add-finalizer'' err) (\<lambda>_. check_mdp L r req))
       else check_mdp L r req)"

definition Reconcile_mdp ::
    "library \<Rightarrow> ('w, 'd) MongoDBProviderReconciler \<Rightarrow> NamespacedName \<Rightarrow> (('w, 'd) mongo_provider_state, unit) go" where
  "Reconcile_mdp L r req =
     and_then (set_obj MongoDBProvider_zero)
     (go_try (in_cluster (Get_MongoDBProvider (mdprClient r) req))
        (\<lambda>err.
           if IsNotFound err then ok ()
           else
             and_then (emit (Inc promMongoDBProviderReconcileErrorCounter
               (WithLabelValues [nnName req, [], ''get-mongodbprovider''])))
               (fail err))
        (\<lambda>instance.
           and_then (set_obj instance)
           (if being_deleted (mdpMeta instance) then release_mdp L r else reconcile_active_mdp L r req)))"

end
