(* ===== verification/Wiring.thy ===== *)
theory Wiring
  imports DbRequest RelProvider MongoProvider
begin

section \<open>Putting the program together (cmd/main.go and the SetupWithManager methods)\<close>

text \<open>
  \<open>main\<close> builds the reconcilers and hands them to the manager of controller-runtime. The
  manager, the registry of the metrics and the servers are not part of the repository: their
  answers are the parameter \<open>answer\<close>, a function of the calls made so far and the new call, and the
  state of \<open>main\<close> is the list of the calls it has made. A function without an error result
  answers \<open>Ok ()\<close> or panics. \<open>os.Exit(1)\<close> is the error \<open>exit_status_1\<close>.

  The flags are given as \<open>flag.Parse\<close> left them. Log options, the scheme and signal handling are
  not modelled.
\<close>

subsection \<open>Flags and options\<close>

record flags =
  metricsAddr :: string
  enableLeaderElection :: bool
  probeAddr :: string
  secureMetrics :: bool
  enableHTTP2 :: bool
  maxConcurrentReconciles :: int

text \<open>What the flags are when the command line has none.\<close>

definition default_flags :: flags where
  "default_flags =
     \<lparr>metricsAddr = '':8080'', enableLeaderElection = False, probeAddr = '':8081'',
      secureMetrics = False, enableHTTP2 = False, maxConcurrentReconciles = 10\<rparr>"

record tls_Config =
  NextProtos :: "string list"

definition disableHTTP2 :: "tls_Config \<Rightarrow> tls_Config" where
  "disableHTTP2 c = c\<lparr>NextProtos := [''http/1.1'']\<rparr>"

definition tlsOpts :: "flags \<Rightarrow> (tls_Config \<Rightarrow> tls_Config) list" where
  "tlsOpts fl = [] @ (if \<not> enableHTTP2 fl then [disableHTTP2] else [])"

record ctrl_Options =
  optMetricsBindAddress :: string
  optMetricsSecureServing :: bool
  optMetricsTLSOpts :: "(tls_Config \<Rightarrow> tls_Config) list"
  optWebhookTLSOpts :: "(tls_Config \<Rightarrow> tls_Config) list"
  optHealthProbeBindAddress :: string
  optLeaderElection :: bool
  optLeaderElectionID :: string

definition manager_options :: "flags \<Rightarrow> ctrl_Options" where
  "manager_options fl =
     \<lparr>optMetricsBindAddress = metricsAddr fl, optMetricsSecureServing = secureMetrics fl,
      optMetricsTLSOpts = tlsOpts fl, optWebhookTLSOpts = tlsOpts fl,
      optHealthProbeBindAddress = probeAddr fl, optLeaderElection = enableLeaderElection fl,
      optLeaderElectionID = ''7c5dfb9a.lagoon.sh''\<rparr>"

subsection \<open>The calls\<close>

datatype ('w, 'd, 'e) reconciler =
    DatabaseRequest_controller "('w, 'd) DatabaseRequestReconciler"
  | RelationalDatabaseProvider_controller "('w, 'd) RelationalDatabaseProviderReconciler"
  | MongoDBProvider_controller "('w, 'e) MongoDBProviderReconciler"

text \<open>
  \<open>Complete\<close> stands for \<open>NewControllerManagedBy(mgr).For(...).WithEventFilter(GenerationChangedPredicate)
  .WithOptions(MaxConcurrentReconciles).Complete(r)\<close> with the number of reconciles and the reconciler.
\<close>

datatype ('w, 'd, 'e) call =
    NewManager ctrl_Options
  | MustRegister "prom_vec list"
  | GetEventRecorder string
  | Complete int "('w, 'd, 'e) reconciler"
  | AddHealthzCheck string
  | AddReadyzCheck string
  | Start

type_synonym ('w, 'd, 'e) answers = "('w, 'd, 'e) call list \<Rightarrow> ('w, 'd, 'e) call \<Rightarrow> unit outcome"
type_synonym ('w, 'd, 'e) startup = "(('w, 'd, 'e) call list, unit) go"

definition call :: "('w, 'd, 'e) answers \<Rightarrow> ('w, 'd, 'e) call \<Rightarrow> ('w, 'd, 'e) startup" where
  "call answer c = State (\<lambda>calls. (answer calls c, calls @ [c]))"

subsection \<open>The SetupWithManager methods\<close>

definition SetupWithManager_dbr ::
    "('w, 'd, 'e) answers \<Rightarrow> ('w, 'd) DatabaseRequestReconciler \<Rightarrow> int \<Rightarrow> ('w, 'd, 'e) startup" where
  "SetupWithManager_dbr answer r n =
     and_then (call answer (MustRegister
       [promDatabaseRequestReconcileCounter, promDatabaseRequestReconcileErrorCounter,
        promDatabaseRequestReconcileStatus]))
     (and_then (call answer (GetEventRecorder ''DatabaseRequestReconciler''))
     (call answer (Complete n (DatabaseRequest_controller r))))"

definition SetupWithManager_rdp ::
    "('w, 'd, 'e) answers \<Rightarrow> ('w, 'd) RelationalDatabaseProviderReconciler \<Rightarrow> ('w, 'd, 'e) startup" where
  "SetupWithManager_rdp answer r =
     and_then (call answer (MustRegister
       [promRelationalDatabaseProviderReconcileErrorCounter, promRelationalDatabaseProviderStatus,
        promRelationalDatabaseProviderConnectionVersion]))
     (and_then (call answer (GetEventRecorder ''relationaldatabaseprovider_controller''))
     (call answer (Complete 1 (RelationalDatabaseProvider_controller r))))"

definition SetupWithManager_mdp ::
    "('w, 'd, 'e) answers \<Rightarrow> ('w, 'e) MongoDBProviderReconciler \<Rightarrow> ('w, 'd, 'e) startup" where
  "SetupWithManager_mdp answer r =
     and_then (call answer (MustRegister
       [promMongoDBProviderReconcileErrorCounter, promMongoDBProviderStatus,
        promMongoDBProviderConnectionVersion]))
     (and_then (call answer (GetEventRecorder ''mongodbprovider-controller''))
     (call answer (Complete 1 (MongoDBProvider_controller r))))"

subsection \<open>main\<close>

text \<open>The reconcilers; a field that the literal leaves out has its zero value, nil.\<close>

definition main_dbr ::
    "'w client \<Rightarrow> 'd RelationalDatabaseInterface \<Rightarrow> ('w, 'd) DatabaseRequestReconciler" where
  "main_dbr K relDBClient = \<lparr>Client = K, RelationalDatabaseClient = relDBClient\<rparr>"

definition main_rdp ::
    "'w client \<Rightarrow> 'd RelationalDatabaseInterface \<Rightarrow> ('w, 'd) RelationalDatabaseProviderReconciler" where
  "main_rdp K relDBClient = \<lparr>rdprClient = K, RelDBClient = relDBClient\<rparr>"

definition main_mdp :: "'w client \<Rightarrow> ('w, 'e) MongoDBProviderReconciler" where
  "main_mdp K = \<lparr>mdprClient = K, MongoDBClient = None\<rparr>"

definition exit_status_1 :: go_error where
  "exit_status_1 = errors_New ''exit status 1''"

text \<open>\<open>if err = m(); err != nil { os.Exit(1) }\<close>.\<close>

definition or_exit :: "('s, unit) go \<Rightarrow> ('s, unit) go \<Rightarrow> ('s, unit) go" where
  "or_exit m k = go_try m (\<lambda>_. fail exit_status_1) (\<lambda>_. k)"

definition controller_main ::
    "('w, 'd, 'e) answers \<Rightarrow> 'w client \<Rightarrow> 'd RelationalDatabaseInterface \<Rightarrow> flags \<Rightarrow> ('w, 'd, 'e) startup" where
  "controller_main answer K relDBClient fl =
     or_exit (call answer (NewManager (manager_options fl)))
     (or_exit (SetupWithManager_dbr answer (main_dbr K relDBClient) (maxConcurrentReconciles fl))
     (or_exit (SetupWithManager_rdp answer (main_rdp K relDBClient))
     (or_exit (SetupWithManager_mdp answer (main_mdp K))
     (or_exit (call answer (AddHealthzCheck ''healthz''))
     (or_exit (call answer (AddReadyzCheck ''readyz''))
     (or_exit (call answer Start)
     (ok ())))))))"

end
