(* ===== verification/RelProviderFacts.thy ===== *)
theory RelProviderFacts
  imports RelProvider
begin

section \<open>Facts about the RelationalDatabaseProvider reconciler\<close>

text \<open>
  What the loops of the reconciler compute (the interpretation \<open>rdp_check\<close> of \<open>provider_check\<close>),
  what the stored provider says after a reconciliation, over every API server that satisfies
  \<open>status_store\<close>, and the metrics.
\<close>

lemma run_set_rdp_status [simp]:
  "run_state (set_rdp_status f) s = (Ok (), s\<lparr>obj := (obj s)\<lparr>rdpStatus := f (rdpStatus (obj s))\<rparr>\<rparr>)"
  by (simp add: set_rdp_status_def)

lemma run_set_rdp_condition [simp]:
  "run_state (set_rdp_condition L c) s = (Ok (), s\<lparr>obj := (obj s)\<lparr>rdpStatus := (rdpStatus (obj s))
     \<lparr>rdpConditions := fst (SetStatusCondition L (rdpConditions (rdpStatus (obj s))) c)\<rparr>\<rparr>\<rparr>)"
  by (simp add: set_rdp_condition_def)

lemma run_set_rdp_finalizers [simp]:
  "run_state (set_rdp_finalizers fs) s = (Ok (), s\<lparr>obj := (obj s)\<lparr>rdpMeta := (rdpMeta (obj s))\<lparr>metaFinalizers := fs\<rparr>\<rparr>\<rparr>)"
  by (simp add: set_rdp_finalizers_def)

lemma post_set_rdp [post_rules]:
  "post (set_rdp_status f) s Q = Q (Ok ()) (s\<lparr>obj := (obj s)\<lparr>rdpStatus := f (rdpStatus (obj s))\<rparr>\<rparr>)"
  "post (set_rdp_condition L c) s Q = Q (Ok ()) (s\<lparr>obj := (obj s)\<lparr>rdpStatus := (rdpStatus (obj s))
     \<lparr>rdpConditions := fst (SetStatusCondition L (rdpConditions (rdpStatus (obj s))) c)\<rparr>\<rparr>\<rparr>)"
  "post (set_rdp_finalizers fs) s Q =
     Q (Ok ()) (s\<lparr>obj := (obj s)\<lparr>rdpMeta := (rdpMeta (obj s))\<lparr>metaFinalizers := fs\<rparr>\<rparr>\<rparr>)"
  by (simp_all add: post_def)

subsection \<open>The connections collected\<close>

text \<open>The \<open>reldbConn\<close> of a connection with the given password.\<close>

definition conn_with :: "string \<Rightarrow> Connection \<Rightarrow> string \<Rightarrow> reldbConn" where
  "conn_with dbType c password =
     \<lparr>rcDbType = dbType, rcName = connName c, rcHostname = connHostname c,
      rcReplicaHostnames = connReplicaHostnames c, rcPassword = password,
      rcPort = connPort c, rcUsername = connUsername c, rcEnabled = connEnabled c\<rparr>"

definition collected :: "string \<Rightarrow> Connection list \<Rightarrow> reldbConn list \<Rightarrow> bool" where
  "collected dbType cs conns \<longleftrightarrow>
     list_all2 (\<lambda>c conn. \<exists>password. password \<noteq> [] \<and> conn = conn_with dbType c password) cs conns"

lemma collect_connections_post:
  assumes "collected dbType seen conns" and "names = set (map connName seen)"
  shows "post (collect_connections r dbType cs names conns) s (\<lambda>res t. same_but_cluster s t \<and>
     (\<forall>names' conns'. res = Ok (Inr (names', conns')) \<longrightarrow>
        collected dbType (seen @ cs) conns' \<and> names' = set (map connName (seen @ cs))) \<and>
     (\<forall>promErr err. res = Ok (Inl (promErr, err)) \<longrightarrow> promErr = ''get-secret'' \<or> promErr = dbType @ ''-empty-password'') \<and>
     (\<forall>err. res \<noteq> Err err))"
  using assms
proof (induction cs arbitrary: seen names conns s)
  case Nil
  then show ?case by (auto simp: post_rules same_but_cluster_def)
next
  case (Cons c cs)
  show ?case
  proof (rule postI, goal_cases)
    case (1 res t)
    obtain out w where get: "run_state (Get_Secret (rdprClient r) (secret_key_of (connPasswordSecretRef c))) (cluster s) = (out, w)"
      by fastforce
    show ?case
    proof (cases out)
      case (Ok secret)
      show ?thesis
      proof (cases "secret_password secret = []")
        case True
        with 1 Ok get show ?thesis by (auto simp: run_go_try Let_def same_but_cluster_def)
      next
        case False
        let ?conn = "conn_with dbType c (secret_password secret)"
        from Cons.prems False have step: "collected dbType (seen @ [c]) (conns @ [?conn])"
            "insert (connName c) names = set (map connName (seen @ [c]))"
          by (auto simp: collected_def list_all2_append list_all2_lengthD)
        from 1 Ok get False have run: "run_state (collect_connections r dbType cs (insert (connName c) names)
            (conns @ [?conn])) (s\<lparr>cluster := w\<rparr>) = (res, t)"
          by (simp add: run_go_try Let_def conn_with_def)
        from postD [OF Cons.IH [OF step] run] show ?thesis
          by (simp add: same_but_cluster_def)
      qed
    qed (use 1 get in \<open>auto simp: run_go_try same_but_cluster_def\<close>)
  qed
qed

lemma collect_start:
  "post (collect_connections r dbType cs {} []) s (\<lambda>res t. same_but_cluster s t \<and>
     (\<forall>names conns. res = Ok (Inr (names, conns)) \<longrightarrow> collected dbType cs conns \<and> names = set (map connName cs)) \<and>
     (\<forall>promErr err. res = Ok (Inl (promErr, err)) \<longrightarrow> promErr = ''get-secret'' \<or> promErr = dbType @ ''-empty-password'') \<and>
     (\<forall>err. res \<noteq> Err err))"
  using collect_connections_post [of dbType "[]" "[]" "{}" r cs s] by (simp add: collected_def)

subsection \<open>The probes\<close>

text \<open>
  The client answered for a connection: it pinged, told the version and initialised, in this
  order and with no error.
\<close>

definition answered :: "'d RelationalDatabaseInterface \<Rightarrow> string \<Rightarrow> reldbConn \<Rightarrow> string \<Rightarrow> bool" where
  "answered db dbType conn version \<longleftrightarrow>
     (\<exists>d0 d1 d2 d3. run_state (rdiPing db (getDSN conn False) dbType) d0 = (Ok (), d1) \<and>
        run_state (rdiVersion db (getDSN conn False) dbType) d1 = (Ok version, d2) \<and>
        run_state (rdiInitialize db (getDSN conn False) dbType) d2 = (Ok (), d3))"

definition reports_rdp ::
    "'d RelationalDatabaseInterface \<Rightarrow> string \<Rightarrow> reldbConn \<Rightarrow> ConnectionStatus \<Rightarrow> bool" where
  "reports_rdp db dbType conn status \<longleftrightarrow>
     csName status = rcName conn \<and> csHostname status = rcHostname conn \<and> csEnabled status = rcEnabled conn \<and>
     (available status \<and> answered db dbType conn (csDatabaseVersion status) \<or>
      unavailable status \<and> csDatabaseVersion status = [])"

lemma rdp_vectors [simp]:
  "promRelationalDatabaseProviderConnectionVersion \<noteq> promRelationalDatabaseProviderStatus"
  by (simp add: promRelationalDatabaseProviderConnectionVersion_def promRelationalDatabaseProviderStatus_def)

lemma probing_set_rdp_version: "preserves (probing promRelationalDatabaseProviderConnectionVersion) (set_rdp_version req conn version n)"
  unfolding set_rdp_version_def
  by (intro preserves_with_obj preserves_emit)
    (auto simp: probing_def fits_def promRelationalDatabaseProviderConnectionVersion_def)

lemma check_connection_probing: "preserves (probing promRelationalDatabaseProviderConnectionVersion) (check_connection r req conn st)"
  unfolding check_connection_def Let_def
  by (intro preserves_rules preorder_probing probing_set_rdp_version probing_in_dbs)

lemma run_set_rdp_version:
  "run_state (set_rdp_version req conn version n) s = (Ok (), s\<lparr>effects := effects s @
     [Set promRelationalDatabaseProviderConnectionVersion (WithLabelValues [rdpType (rdpSpec (obj s)), nnName req,
        rdpSelector (rdpSpec (obj s)), rcHostname conn, rcUsername conn, version]) n]\<rparr>)"
  by (simp add: set_rdp_version_def)

lemma check_connection_result:
  assumes "rdpType (rdpSpec (obj s)) = dbType" and "run_state (check_connection r req conn st) s = (res, t)"
  shows "(\<exists>status err. res = Ok (check_failed status err st) \<and> reports_rdp (RelDBClient r) dbType conn status \<and> unavailable status) \<or>
     (\<exists>status. res = Ok (check_passed status st) \<and> reports_rdp (RelDBClient r) dbType conn status \<and> available status) \<or>
     (\<exists>text. res = Panic text)"
proof -
  let ?down = "rdp_status_of conn [] ''unavailable''"
  have down: "reports_rdp (RelDBClient r) dbType conn ?down \<and> unavailable ?down"
    by (simp add: reports_rdp_def rdp_status_of_def unavailable_def)
  have up: "reports_rdp (RelDBClient r) dbType conn (rdp_status_of conn version ''available'') \<and>
      available (rdp_status_of conn version ''available'')"
    if "run_state (rdiPing (RelDBClient r) (getDSN conn False) dbType) d0 = (Ok (), d1)"
      "run_state (rdiVersion (RelDBClient r) (getDSN conn False) dbType) d1 = (Ok version, d2)"
      "run_state (rdiInitialize (RelDBClient r) (getDSN conn False) dbType) d2 = (Ok (), d3)" for version d0 d1 d2 d3
    using that unfolding reports_rdp_def answered_def
    by (auto simp: rdp_status_of_def available_def)
  show ?thesis
    using assms(2) down
    by (auto simp: check_connection_def Let_def run_go_try and_then_def run_set_rdp_version assms(1)
        split: prod.splits outcome.splits dest: up)
qed

interpretation rdp_check: provider_check "check_connection r req" "check_connections r req"
  "reports_rdp (RelDBClient r) dbType" "probing promRelationalDatabaseProviderConnectionVersion" "\<lambda>s. rdpType (rdpSpec (obj s)) = dbType"
  for r :: "('w, 'd) RelationalDatabaseProviderReconciler" and req dbType
proof (unfold_locales, goal_cases)
  case (5 s t)
  then show ?case by (simp add: probing_def)
next
  case (6 c r' st s t)
  then show ?case by (intro check_connection_result)
qed (simp_all add: check_connection_probing)

subsection \<open>What a reconciliation leaves\<close>

definition rdp_ready_condition :: Condition where
  "rdp_ready_condition =
     \<lparr>condType = ''Ready'', condStatus = ConditionTrue, condReason = ''Reconciled'',
      condMessage = ''RelationalDatabaseProvider reconciled''\<rparr>"

text \<open>
  A provider whose status tells the truth: unique names, one entry for each connection, in
  order, \<open>available\<close> only if the client answered for it, an enabled one among them, and the
  generation it was seen at.
\<close>

definition rdp_ready :: "library \<Rightarrow> 'd RelationalDatabaseInterface \<Rightarrow> RelationalDatabaseProvider \<Rightarrow> bool" where
  "rdp_ready L db p \<longleftrightarrow>
     (let cs = rdpConnections (rdpSpec p); dbType = rdpType (rdpSpec p);
          entries = rdpConnectionStatus (rdpStatus p) in
      distinct (map connName cs) \<and>
      list_all2 (\<lambda>c status. \<exists>password. password \<noteq> [] \<and>
        reports_rdp db dbType (conn_with dbType c password) status) cs entries \<and>
      (\<exists>status \<in> set entries. available status \<and> csEnabled status) \<and>
      rdpObservedGeneration (rdpStatus p) = metaGeneration (rdpMeta p) \<and>
      (\<exists>cs. rdpConditions (rdpStatus p) = fst (SetStatusCondition L cs rdp_ready_condition)))"

text \<open>The outcome of a reconciliation that is not skipped.\<close>

definition rdp_settled ::
    "library \<Rightarrow> 'd RelationalDatabaseInterface \<Rightarrow> ('w \<Rightarrow> string \<Rightarrow> RelationalDatabaseProvider option) \<Rightarrow>
      RelationalDatabaseProvider \<Rightarrow> unit outcome \<Rightarrow> ('w, 'd) provider_state \<Rightarrow> bool" where
  "rdp_settled L db stored p res t \<longleftrightarrow>
     (res = Ok () \<longrightarrow>
        (\<exists>q. stored (cluster t) (rdp_name p) = Some q \<and> rdpSpec q = rdpSpec p \<and> rdp_ready L db q) \<and>
        gauge promRelationalDatabaseProviderStatus (effects t) = Some 1) \<and>
     (\<forall>err. res = Err err \<longrightarrow> gauge promRelationalDatabaseProviderStatus (effects t) = Some 0)"

lemma handleError_rdp_post:
  "post (handleError_rdp L r promErr err) s (\<lambda>res t.
     res \<noteq> Ok () \<and> gauge promRelationalDatabaseProviderStatus (effects t) = Some 0)"
  by (simp add: handleError_rdp_def Let_def post_rules)
    (rule post_mono [OF update_obj_post], simp add: post_rules split: outcome.split)

lemma handleError_rdp_settled: "post (handleError_rdp L r promErr err) s (rdp_settled L db stored p)"
  by (rule post_mono [OF handleError_rdp_post]) (simp add: rdp_settled_def)

locale rdp_store = status_store "Get_RelationalDatabaseProvider K" "Update_RelationalDatabaseProvider K"
    "StatusUpdate_RelationalDatabaseProvider K" rdp_name rdpSpec "\<lambda>p. metaGeneration (rdpMeta p)" rdpStatus stored
  for K :: "'w client" and stored :: "'w \<Rightarrow> string \<Rightarrow> RelationalDatabaseProvider option"
begin

lemma finish_rdp_settled:
  assumes "rdprClient r = K" and "rdpSpec (obj s) = rdpSpec p" and "rdp_name (obj s) = rdp_name p"
    and "distinct (map connName (rdpConnections (rdpSpec p)))"
    and "collected (rdpType (rdpSpec p)) (rdpConnections (rdpSpec p)) conns"
    and "describes (reports_rdp (RelDBClient r) (rdpType (rdpSpec p))) conns st"
  shows "post (finish_rdp L r req conns st) s (rdp_settled L (RelDBClient r) stored p)"
proof -
  define y where "y = (obj s)\<lparr>rdpStatus := (rdpStatus (obj s))\<lparr>rdpConnectionStatus := dbStatus st,
     rdpObservedGeneration := metaGeneration (rdpMeta (obj s)),
     rdpConditions := fst (SetStatusCondition L (rdpConditions (rdpStatus (obj s))) rdp_ready_condition)\<rparr>\<rparr>"
  have seen: "list_all2 (reports_rdp (RelDBClient r) (rdpType (rdpSpec p))) conns (dbStatus st)"
    using assms(6) by (simp add: describes_def)
  have entries: "list_all2 (\<lambda>c status. \<exists>password. password \<noteq> [] \<and>
      reports_rdp (RelDBClient r) (rdpType (rdpSpec p)) (conn_with (rdpType (rdpSpec p)) c password) status)
      (rdpConnections (rdpSpec p)) (dbStatus st)"
    by (rule list_all2_trans [OF _ assms(5) [unfolded collected_def] seen]) blast
  have named: "rdp_name y = rdp_name p" "rdpSpec y = rdpSpec p"
    using assms(2,3) by (simp_all add: y_def rdp_name_def)
  have fin: "\<exists>q. stored (cluster t) (rdp_name p) = Some q \<and> rdpSpec q = rdpSpec p \<and> rdp_ready L (RelDBClient r) q"
    if "foundEnabledDatabase st" "rdp_name (obj t) = rdp_name y" "rdpSpec (obj t) = rdpSpec y"
      "metaGeneration (rdpMeta (obj t)) = metaGeneration (rdpMeta y)" "rdpStatus (obj t) = rdpStatus y"
      "stored (cluster t) (rdp_name y) = Some (obj t)" for t
    using that named assms(4) entries describes_found [OF assms(6)]
    by (auto simp: rdp_ready_def y_def)
  have ready: "post (update_obj (StatusUpdate_RelationalDatabaseProvider (rdprClient r))) (s\<lparr>obj := y\<rparr>)
     (\<lambda>r t. rdp_name (obj t) = rdp_name y \<and> rdpSpec (obj t) = rdpSpec y \<and>
       metaGeneration (rdpMeta (obj t)) = metaGeneration (rdpMeta y) \<and>
       (r = Ok () \<longrightarrow> stored (cluster t) (rdp_name y) = Some (obj t) \<and> rdpStatus (obj t) = rdpStatus y))"
    using stupd_call [of "s\<lparr>obj := y\<rparr>"] assms(1) by simp
  show ?thesis
    by (simp add: finish_rdp_def Let_def post_rules handleError_rdp_settled, fold rdp_ready_condition_def y_def,
        intro impI, rule post_mono [OF ready], simp add: post_rules split: outcome.split)
      (auto intro: fin simp: rdp_settled_def)
qed

lemma check_rdp_settled:
  assumes "rdprClient r = K" and "rdpSpec (obj s) = rdpSpec p" and "rdp_name (obj s) = rdp_name p"
  shows "post (check_rdp L r req) s (rdp_settled L (RelDBClient r) stored p)"
  unfolding check_rdp_def Let_def post_with_obj assms(2)
proof (rule post_go_tryI [OF collect_start], goal_cases)
  case (1 out t)
  then have t: "obj t = obj s" by (simp add: same_but_cluster_def)
  show ?case
  proof (cases out)
    case (Inr found)
    obtain names conns where found: "found = (names, conns)" by fastforce
    with 1 Inr have names: "names = set (map connName (rdpConnections (rdpSpec p)))"
      and conns: "collected (rdpType (rdpSpec p)) (rdpConnections (rdpSpec p)) conns" by auto
    have loop: "post (go_try (check_connections r req conns check_start) fail (finish_rdp L r req conns)) t
        (rdp_settled L (RelDBClient r) stored p)"
      if unique: "distinct (map connName (rdpConnections (rdpSpec p)))"
    proof (rule post_go_tryI [OF rdp_check.loop_start [of t "rdpType (rdpSpec p)"]], goal_cases)
      case 1
      then show ?case using t assms(2) by simp
    next
      case (2 st u)
      then show ?case
        using assms t unique conns by (intro finish_rdp_settled) (auto simp: probing_def)
    qed (simp_all add: rdp_settled_def)
    have card: "card names = length (rdpConnections (rdpSpec p)) \<longleftrightarrow> distinct (map connName (rdpConnections (rdpSpec p)))"
      unfolding names by (rule card_names_distinct)
    show ?thesis
      using loop by (simp add: Inr found card handleError_rdp_settled)
  qed (auto intro: handleError_rdp_settled)
next
  case (2 err t)
  then show ?case by simp
next
  case (3 msg t)
  then show ?case by (simp add: rdp_settled_def)
qed

lemma reconcile_active_rdp_settled:
  assumes "rdprClient r = K" and "\<not> rdp_up_to_date L (obj s)"
  shows "post (reconcile_active_rdp L r req) s (rdp_settled L (RelDBClient r) stored (obj s))"
proof -
  obtain fs added where add: "AddFinalizer L (metaFinalizers (rdpMeta (obj s))) databaseProviderFinalizer = (fs, added)"
    by fastforce
  let ?t = "s\<lparr>obj := (obj s)\<lparr>rdpMeta := (rdpMeta (obj s))\<lparr>metaFinalizers := fs\<rparr>\<rparr>\<rparr>"
  have named: "rdpSpec (obj ?t) = rdpSpec (obj s)" "rdp_name (obj ?t) = rdp_name (obj s)"
    by (simp_all add: rdp_name_def)
  have updated: "post (go_try (update_obj (Update_RelationalDatabaseProvider (rdprClient r)))
      (\<lambda>err. handleError_rdp L r ''add-finalizer'' err) (\<lambda>_. check_rdp L r req)) ?t
      (rdp_settled L (RelDBClient r) stored (obj s))"
    unfolding assms(1)
    by (rule post_go_tryI [OF upd_call])
      (use named assms(1) in \<open>auto intro: handleError_rdp_settled check_rdp_settled simp: rdp_settled_def\<close>)
  show ?thesis
    using updated check_rdp_settled [OF assms(1) named]
    by (simp add: reconcile_active_rdp_def assms(2) add post_rules)
qed

end

subsection \<open>Metrics\<close>

lemma fits_rdp_sets [fits_rules]:
  "preserves fits (set_rdp_status f)" "preserves fits (set_rdp_condition L c)" "preserves fits (set_rdp_finalizers fs)"
  by (rule preservesI, simp add: fits_def)+

lemma fits_handleError_rdp [fits_rules]: "preserves fits (handleError_rdp L r promErr err)"
  unfolding handleError_rdp_def Let_def
  by (intro preserves_rules preorder_fits fits_rules fits_emit)
    (simp_all add: rdp_labels_def promRelationalDatabaseProviderReconcileErrorCounter_def
      promRelationalDatabaseProviderStatus_def)

lemma fits_collect [fits_rules]: "preserves fits (collect_connections r dbType cs names conns)"
  by (induction cs arbitrary: names conns) (auto simp: Let_def intro!: preserves_rules fits_rules)

lemma fits_check_connections [fits_rules]: "preserves fits (check_connections r req conns st)"
proof -
  have "preserves fits (check_connection r req conn st)" for conn st
    by (rule preserves_mono [OF check_connection_probing]) (simp add: probing_def)
  then show ?thesis
    by (induction conns arbitrary: st) (auto intro!: preserves_rules)
qed

lemma fits_finish_rdp [fits_rules]: "preserves fits (finish_rdp L r req conns st)"
  unfolding finish_rdp_def Let_def
  by (intro preserves_rules preorder_fits fits_rules fits_emit)
    (simp_all add: rdp_labels_def promRelationalDatabaseProviderReconcileErrorCounter_def
      promRelationalDatabaseProviderStatus_def)

lemma fits_Reconcile_rdp: "preserves fits (Reconcile_rdp L r req)"
  unfolding Reconcile_rdp_def reconcile_active_rdp_def release_rdp_def check_rdp_def Let_def
  by (intro preserves_rules preorder_fits fits_rules fits_emit)
    (simp_all add: promRelationalDatabaseProviderReconcileErrorCounter_def)

end
