(* ===== verification/MongoProviderFacts.thy ===== *)
theory MongoProviderFacts
  imports MongoProvider
begin

section \<open>Facts about the MongoDBProvider reconciler\<close>

text \<open>
  The counterpart of \<open>RelProviderFacts\<close>: the loops (the interpretation \<open>mdp_check\<close> of
  \<open>provider_check\<close>), what the stored provider says after a reconciliation over every API server
  that satisfies \<open>status_store\<close>, the metrics, and the panic of a reconciler without a client.
\<close>

lemma run_set_mdp [simp]:
  "run_state (set_mdp_status f) s = (Ok (), s\<lparr>obj := (obj s)\<lparr>mdpStatus := f (mdpStatus (obj s))\<rparr>\<rparr>)"
  "run_state (set_mdp_finalizers fs) s = (Ok (), s\<lparr>obj := (obj s)\<lparr>mdpMeta := (mdpMeta (obj s))\<lparr>metaFinalizers := fs\<rparr>\<rparr>\<rparr>)"
  by (simp_all add: set_mdp_status_def set_mdp_finalizers_def)

lemma run_set_mdp_condition [simp]:
  "run_state (set_mdp_condition L c) s = (Ok (), s\<lparr>obj := (obj s)\<lparr>mdpStatus := (mdpStatus (obj s))
     \<lparr>mdpConditions := fst (SetStatusCondition L (mdpConditions (mdpStatus (obj s))) c)\<rparr>\<rparr>\<rparr>)"
  by (simp add: set_mdp_condition_def)

lemma post_set_mdp [post_rules]:
  "post (set_mdp_status f) s Q = Q (Ok ()) (s\<lparr>obj := (obj s)\<lparr>mdpStatus := f (mdpStatus (obj s))\<rparr>\<rparr>)"
  "post (set_mdp_condition L c) s Q = Q (Ok ()) (s\<lparr>obj := (obj s)\<lparr>mdpStatus := (mdpStatus (obj s))
     \<lparr>mdpConditions := fst (SetStatusCondition L (mdpConditions (mdpStatus (obj s))) c)\<rparr>\<rparr>\<rparr>)"
  "post (set_mdp_finalizers fs) s Q =
     Q (Ok ()) (s\<lparr>obj := (obj s)\<lparr>mdpMeta := (mdpMeta (obj s))\<lparr>metaFinalizers := fs\<rparr>\<rparr>\<rparr>)"
  by (simp_all add: post_def)

subsection \<open>The connections collected\<close>

definition mongo_conn_with :: "MongoDBConnection \<Rightarrow> string \<Rightarrow> mongoDBConn" where
  "mongo_conn_with c password =
     \<lparr>mdcOptions =
        \<lparr>moName = mcName c, moHostname = mcHostname c, moPort = mcPort c, moUsername = mcUsername c,
         moPassword = password, moMechanism = authMechanism (mcAuth c), moSource = authSource (mcAuth c),
         moTLS = authTLS (mcAuth c)\<rparr>,
      mdcEnabled = mcEnabled c\<rparr>"

definition mongo_collected :: "MongoDBConnection list \<Rightarrow> mongoDBConn list \<Rightarrow> bool" where
  "mongo_collected cs conns \<longleftrightarrow>
     list_all2 (\<lambda>c conn. \<exists>password. password \<noteq> [] \<and> conn = mongo_conn_with c password) cs conns"

lemma collect_mongo_post:
  assumes "mongo_collected seen conns" and "names = set (map mcName seen)"
  shows "post (collect_mongo r cs names conns) s (\<lambda>res t. same_but_cluster s t \<and>
     (\<forall>names' conns'. res = Ok (Inr (names', conns')) \<longrightarrow>
        mongo_collected (seen @ cs) conns' \<and> names' = set (map mcName (seen @ cs))) \<and>
     (\<forall>err. res \<noteq> Err err))"
  using assms
proof (induction cs arbitrary: seen names conns s)
  case Nil
  then show ?case by (auto simp: post_rules same_but_cluster_def)
next
  case (Cons c cs)
  show ?case
  proof (rule postI, goal_cases)
    case (1 res t)
    obtain out w where get: "run_state (Get_Secret (mdprClient r) (secret_key_of (mcPasswordSecretRef c))) (cluster s) = (out, w)"
      by fastforce
    show ?case
    proof (cases out)
      case (Ok secret)
      show ?thesis
      proof (cases "secret_password secret = []")
        case True
        with 1 Ok get show ?thesis by (auto simp: run_go_try Let_def same_but_cluster_def)
      next
        case False
        let ?conn = "mongo_conn_with c (secret_password secret)"
        from Cons.prems False have step: "mongo_collected (seen @ [c]) (conns @ [?conn])"
            "insert (mcName c) names = set (map mcName (seen @ [c]))"
          by (auto simp: mongo_collected_def list_all2_append list_all2_lengthD)
        from 1 Ok get False have run: "run_state (collect_mongo r cs (insert (mcName c) names)
            (conns @ [?conn])) (s\<lparr>cluster := w\<rparr>) = (res, t)"
          by (simp add: run_go_try Let_def mongo_conn_with_def)
        from postD [OF Cons.IH [OF step] run] show ?thesis
          by (simp add: same_but_cluster_def)
      qed
    qed (use 1 get in \<open>auto simp: run_go_try Let_def same_but_cluster_def\<close>)
  qed
qed

lemma collect_mongo_start:
  "post (collect_mongo r cs {} []) s (\<lambda>res t. same_but_cluster s t \<and>
     (\<forall>names conns. res = Ok (Inr (names, conns)) \<longrightarrow> mongo_collected cs conns \<and> names = set (map mcName cs)) \<and>
     (\<forall>err. res \<noteq> Err err))"
  using collect_mongo_post [of "[]" "[]" "{}" r cs s] by (simp add: mongo_collected_def)

subsection \<open>The probes\<close>

definition mongo_answered :: "('w, 'd) MongoDBProviderReconciler \<Rightarrow> mongoDBConn \<Rightarrow> string \<Rightarrow> bool" where
  "mongo_answered r conn version \<longleftrightarrow>
     (\<exists>client d0 d1 d2. MongoDBClient r = Some client \<and>
        run_state (mdiPing client (mdcOptions conn)) d0 = (Ok (), d1) \<and>
        run_state (mdiVersion client (mdcOptions conn)) d1 = (Ok version, d2))"

definition reports_mdp :: "('w, 'd) MongoDBProviderReconciler \<Rightarrow> mongoDBConn \<Rightarrow> ConnectionStatus \<Rightarrow> bool" where
  "reports_mdp r conn status \<longleftrightarrow>
     csName status = moName (mdcOptions conn) \<and> csHostname status = moHostname (mdcOptions conn) \<and>
     csEnabled status = mdcEnabled conn \<and>
     (available status \<and> mongo_answered r conn (csDatabaseVersion status) \<or>
      unavailable status \<and> csDatabaseVersion status = ''unknown'')"

lemma mdp_vectors [simp]: "promMongoDBProviderConnectionVersion \<noteq> promMongoDBProviderStatus"
  by (simp add: promMongoDBProviderConnectionVersion_def promMongoDBProviderStatus_def)

lemma run_set_mdp_version:
  "run_state (set_mdp_version conn version n) s = (Ok (), s\<lparr>effects := effects s @
     [Set promMongoDBProviderConnectionVersion (WithLabelValues [moName (mdcOptions conn),
        mdpSelector (mdpSpec (obj s)), moHostname (mdcOptions conn), moUsername (mdcOptions conn), version]) n]\<rparr>)"
  by (simp add: set_mdp_version_def)

lemma probing_set_mdp_version: "preserves (probing promMongoDBProviderConnectionVersion) (set_mdp_version conn version n)"
  unfolding set_mdp_version_def
  by (intro preserves_with_obj preserves_emit)
    (auto simp: probing_def fits_def promMongoDBProviderConnectionVersion_def)

lemma probing_call_mongo: "preserves (probing v) (call_mongo r method)"
  unfolding call_mongo_def by (intro preserves_rules probing_in_dbs probing_nil_pointer)

lemma check_mongo_probing: "preserves (probing promMongoDBProviderConnectionVersion) (check_mongo r conn st)"
  unfolding check_mongo_def Let_def
  by (intro preserves_rules preorder_probing probing_set_mdp_version probing_call_mongo)

lemma check_mongo_result:
  assumes "run_state (check_mongo r conn st) s = (res, t)"
  shows "(\<exists>status err. res = Ok (check_failed status err st) \<and> reports_mdp r conn status \<and> unavailable status) \<or>
     (\<exists>status. res = Ok (check_passed status st) \<and> reports_mdp r conn status \<and> available status) \<or>
     (\<exists>text. res = Panic text)"
proof -
  let ?down = "mdp_status_of conn ''unknown'' ''unavailable''"
  have down: "reports_mdp r conn ?down \<and> unavailable ?down"
    by (simp add: reports_mdp_def mdp_status_of_def unavailable_def)
  have up: "reports_mdp r conn (mdp_status_of conn version ''available'') \<and>
      available (mdp_status_of conn version ''available'')"
    if "MongoDBClient r = Some client" "run_state (mdiPing client (mdcOptions conn)) d0 = (Ok (), d1)"
      "run_state (mdiVersion client (mdcOptions conn)) d1 = (Ok version, d2)" for client version d0 d1 d2
    using that unfolding reports_mdp_def mongo_answered_def
    by (auto simp: mdp_status_of_def available_def)
  show ?thesis
    using assms down
    by (auto simp: check_mongo_def call_mongo_def nil_pointer_def Let_def run_go_try and_then_def run_set_mdp_version
        split: prod.splits outcome.splits option.splits dest: up)
qed

interpretation mdp_check: provider_check "check_mongo r" "check_mongos r" "reports_mdp r"
  "probing promMongoDBProviderConnectionVersion" "\<lambda>s. True"
  for r :: "('w, 'd) MongoDBProviderReconciler"
  by unfold_locales (rule check_mongo_result, assumption | simp add: check_mongo_probing)+

subsection \<open>What a reconciliation leaves\<close>

definition mdp_ready_condition :: Condition where
  "mdp_ready_condition =
     \<lparr>condType = ''Ready'', condStatus = ConditionTrue, condReason = ''Reconciled'',
      condMessage = ''MongoDBProvider reconciled''\<rparr>"

definition mdp_ready :: "library \<Rightarrow> ('w, 'd) MongoDBProviderReconciler \<Rightarrow> MongoDBProvider \<Rightarrow> bool" where
  "mdp_ready L r p \<longleftrightarrow>
     (let cs = mdpConnections (mdpSpec p); entries = mdpConnectionStatus (mdpStatus p) in
      distinct (map mcName cs) \<and>
      list_all2 (\<lambda>c status. \<exists>password. password \<noteq> [] \<and> reports_mdp r (mongo_conn_with c password) status) cs entries \<and>
      (\<exists>status \<in> set entries. available status \<and> csEnabled status) \<and>
      mdpObservedGeneration (mdpStatus p) = metaGeneration (mdpMeta p) \<and>
      (\<exists>cs. mdpConditions (mdpStatus p) = fst (SetStatusCondition L cs mdp_ready_condition)))"

definition mdp_settled ::
    "library \<Rightarrow> ('w, 'd) MongoDBProviderReconciler \<Rightarrow> ('w \<Rightarrow> string \<Rightarrow> MongoDBProvider option) \<Rightarrow>
      MongoDBProvider \<Rightarrow> unit outcome \<Rightarrow> ('w, 'd) mongo_provider_state \<Rightarrow> bool" where
  "mdp_settled L r stored p res t \<longleftrightarrow>
     (res = Ok () \<longrightarrow>
        (\<exists>q. stored (cluster t) (mdp_name p) = Some q \<and> mdpSpec q = mdpSpec p \<and> mdp_ready L r q) \<and>
        gauge promMongoDBProviderStatus (effects t) = Some 1) \<and>
     (\<forall>err. res = Err err \<longrightarrow> gauge promMongoDBProviderStatus (effects t) = Some 0)"

lemma handleError_mdp_settled: "post (handleError_mdp L r promErr err) s (mdp_settled L r stored p)"
  by (simp add: handleError_mdp_def Let_def post_rules)
    (rule post_mono [OF update_obj_post], simp add: post_rules mdp_settled_def split: outcome.split)

locale mdp_store = status_store "Get_MongoDBProvider K" "Update_MongoDBProvider K"
    "StatusUpdate_MongoDBProvider K" mdp_name mdpSpec "\<lambda>p. metaGeneration (mdpMeta p)" mdpStatus stored
  for K :: "'w client" and stored :: "'w \<Rightarrow> string \<Rightarrow> MongoDBProvider option"
begin

lemma finish_mdp_settled:
  assumes "mdprClient r = K" and "mdpSpec (obj s) = mdpSpec p" and "mdp_name (obj s) = mdp_name p"
    and "distinct (map mcName (mdpConnections (mdpSpec p)))"
    and "mongo_collected (mdpConnections (mdpSpec p)) conns"
    and "describes (reports_mdp r) conns st"
  shows "post (finish_mdp L r req conns st) s (mdp_settled L r stored p)"
proof -
  define y where "y = (obj s)\<lparr>mdpStatus := (mdpStatus (obj s))\<lparr>mdpConnectionStatus := dbStatus st,
     mdpObservedGeneration := metaGeneration (mdpMeta (obj s)),
     mdpConditions := fst (SetStatusCondition L (mdpConditions (mdpStatus (obj s))) mdp_ready_condition)\<rparr>\<rparr>"
  have seen: "list_all2 (reports_mdp r) conns (dbStatus st)"
    using assms(6) by (simp add: describes_def)
  have entries: "list_all2 (\<lambda>c status. \<exists>password. password \<noteq> [] \<and> reports_mdp r (mongo_conn_with c password) status)
      (mdpConnections (mdpSpec p)) (dbStatus st)"
    by (rule list_all2_trans [OF _ assms(5) [unfolded mongo_collected_def] seen]) blast
  have named: "mdp_name y = mdp_name p" "mdpSpec y = mdpSpec p"
    using assms(2,3) by (simp_all add: y_def mdp_name_def)
  have fin: "\<exists>q. stored (cluster t) (mdp_name p) = Some q \<and> mdpSpec q = mdpSpec p \<and> mdp_ready L r q"
    if "foundEnabledDatabase st" "mdp_name (obj t) = mdp_name y" "mdpSpec (obj t) = mdpSpec y"
      "metaGeneration (mdpMeta (obj t)) = metaGeneration (mdpMeta y)" "mdpStatus (obj t) = mdpStatus y"
      "stored (cluster t) (mdp_name y) = Some (obj t)" for t
    using that named assms(4) entries describes_found [OF assms(6)]
    by (auto simp: mdp_ready_def y_def)
  have ready: "post (update_obj (StatusUpdate_MongoDBProvider (mdprClient r))) (s\<lparr>obj := y\<rparr>)
     (\<lambda>r t. mdp_name (obj t) = mdp_name y \<and> mdpSpec (obj t) = mdpSpec y \<and>
       metaGeneration (mdpMeta (obj t)) = metaGeneration (mdpMeta y) \<and>
       (r = Ok () \<longrightarrow> stored (cluster t) (mdp_name y) = Some (obj t) \<and> mdpStatus (obj t) = mdpStatus y))"
    using stupd_call [of "s\<lparr>obj := y\<rparr>"] assms(1) by simp
  show ?thesis
    by (simp add: finish_mdp_def Let_def post_rules handleError_mdp_settled, fold mdp_ready_condition_def y_def,
        intro impI, rule post_mono [OF ready], simp add: post_rules split: outcome.split)
      (auto intro: fin simp: mdp_settled_def)
qed

lemma check_mdp_settled:
  assumes "mdprClient r = K" and "mdpSpec (obj s) = mdpSpec p" and "mdp_name (obj s) = mdp_name p"
  shows "post (check_mdp L r req) s (mdp_settled L r stored p)"
  unfolding check_mdp_def Let_def post_with_obj assms(2)
proof (rule post_go_tryI [OF collect_mongo_start], goal_cases)
  case (1 out t)
  then have t: "obj t = obj s" by (simp add: same_but_cluster_def)
  show ?case
  proof (cases out)
    case (Inr found)
    obtain names conns where found: "found = (names, conns)" by fastforce
    with 1 Inr have names: "names = set (map mcName (mdpConnections (mdpSpec p)))"
      and conns: "mongo_collected (mdpConnections (mdpSpec p)) conns" by auto
    have loop: "post (go_try (check_mongos r conns check_start) fail (finish_mdp L r req conns)) t
        (mdp_settled L r stored p)"
      if unique: "distinct (map mcName (mdpConnections (mdpSpec p)))"
    proof (rule post_go_tryI [OF mdp_check.loop_start [OF TrueI]], goal_cases)
      case (1 st u)
      then show ?case
        using assms t unique conns by (intro finish_mdp_settled) (auto simp: probing_def)
    qed (simp_all add: mdp_settled_def)
    have card: "card names = length (mdpConnections (mdpSpec p)) \<longleftrightarrow> distinct (map mcName (mdpConnections (mdpSpec p)))"
      unfolding names by (rule card_names_distinct)
    show ?thesis
      using loop by (simp add: Inr found card handleError_mdp_settled)
  qed (auto intro: handleError_mdp_settled)
next
  case (2 err t)
  then show ?case by simp
next
  case (3 msg t)
  then show ?case by (simp add: mdp_settled_def)
qed

lemma reconcile_active_mdp_settled:
  assumes "mdprClient r = K" and "\<not> mdp_up_to_date L (obj s)"
  shows "post (reconcile_active_mdp L r req) s (mdp_settled L r stored (obj s))"
proof -
  let ?t = "\<lambda>fs. s\<lparr>obj := (obj s)\<lparr>mdpMeta := (mdpMeta (obj s))\<lparr>metaFinalizers := fs\<rparr>\<rparr>\<rparr>"
  have named: "mdpSpec (obj (?t fs)) = mdpSpec (obj s)" "mdp_name (obj (?t fs)) = mdp_name (obj s)" for fs
    by (simp_all add: mdp_name_def)
  have updated: "post (go_try (update_obj (Update_MongoDBProvider (mdprClient r)))
      (\<lambda>err. handleError_mdp L r ''add-finalizer'' err) (\<lambda>_. check_mdp L r req)) (?t fs)
      (mdp_settled L r stored (obj s))" for fs
    unfolding assms(1)
    by (rule post_go_tryI [OF upd_call])
      (use named assms(1) in \<open>auto intro: handleError_mdp_settled check_mdp_settled simp: mdp_settled_def\<close>)
  show ?thesis
    using updated check_mdp_settled [OF assms(1) refl refl]
    by (simp add: reconcile_active_mdp_def assms(2) post_rules)
qed

end

subsection \<open>A reconciler without a client\<close>

text \<open>The first probe panics, whatever the connection.\<close>

lemma check_mongos_no_client:
  assumes "MongoDBClient r = None" and "conns \<noteq> []"
  shows "run_state (check_mongos r conns st) s =
    (Panic ''runtime error: invalid memory address or nil pointer dereference'', s)"
proof -
  from assms(2) obtain c cs where "conns = c # cs" by (cases conns) auto
  with assms(1) show ?thesis
    by (simp add: run_go_try check_mongo_def Let_def call_mongo_def nil_pointer_def)
qed

lemma finish_nothing_fails: "post (finish_mdp L r req [] check_start) s (\<lambda>res t. res \<noteq> Ok ())"
  by (simp add: finish_mdp_def Let_def post_rules check_start_def handleError_mdp_def)
    (rule post_mono [OF update_obj_post], simp add: post_rules split: outcome.split)

lemma check_mdp_no_client:
  assumes "MongoDBClient r = None"
  shows "post (check_mdp L r req) s (\<lambda>res t. res \<noteq> Ok ())"
proof -
  have failed: "post (handleError_mdp L r promErr err) t (\<lambda>res t. res \<noteq> Ok ())" for promErr err t
    by (simp add: handleError_mdp_def Let_def post_rules)
      (rule post_mono [OF update_obj_post], simp add: post_rules split: outcome.split)
  have loop: "post (go_try (check_mongos r conns check_start) fail (finish_mdp L r req conns)) t (\<lambda>res t. res \<noteq> Ok ())"
    for conns t
  proof (cases "conns = []")
    case True
    then show ?thesis by (simp add: post_rules finish_nothing_fails)
  next
    case False
    with check_mongos_no_client [OF assms, of conns] show ?thesis
      by (simp add: post_def run_go_try)
  qed
  show ?thesis
    unfolding check_mdp_def Let_def post_with_obj
    by (rule post_go_tryI [OF collect_mongo_start]) (auto simp: loop failed post_fail split: sum.split)
qed

subsection \<open>Metrics\<close>

lemma fits_mdp_sets [fits_rules]:
  "preserves fits (set_mdp_status f)" "preserves fits (set_mdp_condition L c)" "preserves fits (set_mdp_finalizers fs)"
  by (rule preservesI, simp add: fits_def)+

lemma fits_handleError_mdp [fits_rules]: "preserves fits (handleError_mdp L r promErr err)"
  unfolding handleError_mdp_def Let_def
  by (intro preserves_rules preorder_fits fits_rules fits_emit)
    (simp_all add: promMongoDBProviderReconcileErrorCounter_def promMongoDBProviderStatus_def)

lemma fits_collect_mongo [fits_rules]: "preserves fits (collect_mongo r cs names conns)"
  by (induction cs arbitrary: names conns) (auto simp: Let_def intro!: preserves_rules fits_rules)

lemma fits_check_mongos [fits_rules]: "preserves fits (check_mongos r conns st)"
proof -
  have "preserves fits (check_mongo r conn st)" for conn st
    by (rule preserves_mono [OF check_mongo_probing]) (simp add: probing_def)
  then show ?thesis
    by (induction conns arbitrary: st) (auto intro!: preserves_rules)
qed

lemma fits_finish_mdp [fits_rules]: "preserves fits (finish_mdp L r req conns st)"
  unfolding finish_mdp_def Let_def
  by (intro preserves_rules preorder_fits fits_rules fits_emit)
    (simp_all add: promMongoDBProviderReconcileErrorCounter_def promMongoDBProviderStatus_def)

lemma fits_Reconcile_mdp: "preserves fits (Reconcile_mdp L r req)"
  unfolding Reconcile_mdp_def reconcile_active_mdp_def release_mdp_def check_mdp_def Let_def
  by (intro preserves_rules preorder_fits fits_rules fits_emit)
    (simp_all add: promMongoDBProviderReconcileErrorCounter_def)

end
