(* ===== verification/SystemSteps.thy ===== *)
theory SystemSteps
  imports Wiring DbRequestFacts RelProviderFacts MongoProviderFacts
begin

section \<open>The controllers together\<close>

text \<open>
  The program as a transition system: a step is a reconciliation by one of the controllers that
  \<open>main\<close> builds, of any request, whatever it returns, or a change of the cluster by somebody
  else. The state is that of the cluster and of the relational database client that two of the
  controllers share. A reconciliation is one step; the calls of parallel reconciliations
  of different requests interleave in the program, and what is shown here of a step
  is shown call by call.

  The locale \<open>controllers\<close> states what the controllers rely on together: the contract of the
  database client, and that the API server only answers with validated objects and keeps the
  namespace of an object it updates.
\<close>

inductive system_step ::
    "library \<Rightarrow> 'w client \<Rightarrow> 'd RelationalDatabaseInterface \<Rightarrow> 'w \<times> 'd \<Rightarrow> 'w \<times> 'd \<Rightarrow> bool"
  for L :: library and K :: "'w client" and db :: "'d RelationalDatabaseInterface" where
  request: "run_state (Reconcile L (main_dbr K db) req) s = (res, t) \<Longrightarrow>
     system_step L K db (cluster s, dbs s) (cluster t, dbs t)"
| provider: "run_state (Reconcile_rdp L (main_rdp K db) req) s = (res, t) \<Longrightarrow>
     system_step L K db (cluster s, dbs s) (cluster t, dbs t)"
| mongo_provider:
    "run_state (Reconcile_mdp L (main_mdp K :: ('w, unit) MongoDBProviderReconciler) req) s = (res, t) \<Longrightarrow>
     system_step L K db (cluster s, d) (cluster t, d)"
| outside: "system_step L K db (w, d) (w', d)"

abbreviation system_steps where
  "system_steps L K db \<equiv> (system_step L K db)\<^sup>*\<^sup>*"

text \<open>A program uses the database client only through its methods, with names that are allowed.\<close>

definition calls_only ::
    "'d RelationalDatabaseInterface \<Rightarrow> (string \<Rightarrow> bool) \<Rightarrow> (RelationalDatabaseInfo \<Rightarrow> bool) \<Rightarrow>
      ('w, 'd, 'o) rstate \<Rightarrow> ('w, 'd, 'o) rstate \<Rightarrow> bool" where
  "calls_only db ok_name ok_info s t \<longleftrightarrow> client_steps db ok_name ok_info (dbs s) (dbs t)"

lemma preorder_calls_only [simp]: "preorder_rel (calls_only db ok_name ok_info)"
  by (auto simp: preorder_rel_def calls_only_def intro!: reflpI transpI intro: rtranclp_trans)

named_theorems calls_rules "programs that use the client only through its methods"

lemma calls_only_quiet [calls_rules]:
  "preserves (calls_only db ok_name ok_info) (in_cluster m)"
  "preserves (calls_only db ok_name ok_info) (update_obj upd)"
  "preserves (calls_only db ok_name ok_info) (set_obj x)"
  "preserves (calls_only db ok_name ok_info) (emit e)"
  "preserves (calls_only db ok_name ok_info) nil_pointer"
  by (rule preservesI, force simp: calls_only_def nil_pointer_def dest: run_update_obj_effects split: prod.splits)+

lemma calls_only_probes [calls_rules]:
  "preserves (calls_only db ok_name ok_info) (in_dbs (rdiPing db dsn dbType))"
  "preserves (calls_only db ok_name ok_info) (in_dbs (rdiVersion db dsn dbType))"
  "preserves (calls_only db ok_name ok_info) (in_dbs (rdiInitialize db dsn dbType))"
  "preserves (calls_only db ok_name ok_info) (in_dbs (rdiLoad db dsn dbType))"
  by (rule preserves_in_dbs, auto simp: calls_only_def intro: client_step.intros)+

subsection \<open>The provider controller\<close>

lemma calls_rdp_parts [calls_rules]:
  "preserves (calls_only db ok_name ok_info) (set_rdp_status f)"
  "preserves (calls_only db ok_name ok_info) (set_rdp_condition L c)"
  "preserves (calls_only db ok_name ok_info) (set_rdp_finalizers fs)"
  "preserves (calls_only db ok_name ok_info) (set_rdp_version req conn version n)"
  unfolding set_rdp_condition_def set_rdp_status_def set_rdp_finalizers_def set_rdp_version_def
  by (intro preserves_rules calls_rules preorder_calls_only)+

lemma calls_handleError_rdp [calls_rules]:
  "preserves (calls_only db ok_name ok_info) (handleError_rdp L r promErr err)"
  unfolding handleError_rdp_def Let_def by (intro preserves_rules calls_rules preorder_calls_only)

lemma calls_collect_connections [calls_rules]:
  "preserves (calls_only db ok_name ok_info) (collect_connections r dbType cs names conns)"
  by (induction cs arbitrary: names conns) (auto simp: Let_def intro!: preserves_rules calls_rules)

lemma calls_check_connections [calls_rules]:
  assumes "RelDBClient r = db"
  shows "preserves (calls_only db ok_name ok_info) (check_connections r req conns st)"
proof -
  have "preserves (calls_only db ok_name ok_info) (check_connection r req conn st)" for conn st
    unfolding check_connection_def Let_def assms
    by (intro preserves_rules calls_rules preorder_calls_only)
  then show ?thesis by (induction conns arbitrary: st) (auto intro!: preserves_rules)
qed

lemma calls_Reconcile_rdp:
  assumes "RelDBClient r = db"
  shows "preserves (calls_only db ok_name ok_info) (Reconcile_rdp L r req)"
  unfolding Reconcile_rdp_def release_rdp_def reconcile_active_rdp_def check_rdp_def finish_rdp_def Let_def
  by (intro preserves_rules calls_rules preorder_calls_only assms)

subsection \<open>The request controller\<close>

text \<open>
  The names that the request controller passes come from the request it works on, from the
  providers it reads and from the seed, so its programs keep a relation that speaks about the
  object too.
\<close>

definition request_ns :: "('w, 'd) request_state \<Rightarrow> string" where
  "request_ns s = metaNamespace (drMeta (obj s))"

definition safe_calls ::
    "'d RelationalDatabaseInterface \<Rightarrow> (string \<Rightarrow> bool) \<Rightarrow> (RelationalDatabaseInfo \<Rightarrow> bool) \<Rightarrow>
      ('w, 'd) request_state \<Rightarrow> ('w, 'd) request_state \<Rightarrow> bool" where
  "safe_calls db ok_name ok_info s t \<longleftrightarrow>
     (ok_name (request_ns s) \<longrightarrow> ok_name (request_ns t) \<and> calls_only db ok_name ok_info s t)"

lemma preorder_safe_calls [simp]: "preorder_rel (safe_calls db ok_name ok_info)"
  using preorder_calls_only [of db ok_name ok_info]
  by (auto simp: preorder_rel_def safe_calls_def intro!: reflpI transpI dest: reflpD transpD)

text \<open>The object a program goes on with is the one the state has.\<close>

lemma safe_with_obj:
  assumes "\<And>x. ok_name (metaNamespace (drMeta x)) \<Longrightarrow> preserves (safe_calls db ok_name ok_info) (k x)"
  shows "preserves (safe_calls db ok_name ok_info) (with_obj k)"
proof (rule preservesI)
  fix s r t
  assume "run_state (with_obj k) s = (r, t)"
  then have run: "run_state (k (obj s)) s = (r, t)" by simp
  show "safe_calls db ok_name ok_info s t"
  proof (cases "ok_name (request_ns s)")
    case True
    then have "preserves (safe_calls db ok_name ok_info) (k (obj s))"
      by (intro assms) (simp add: request_ns_def)
    from preservesD [OF this run] show ?thesis .
  qed (simp add: safe_calls_def)
qed

text \<open>A call whose values are known to satisfy a property.\<close>

lemma preserves_go_try_yields:
  assumes "preorder_rel R" and "preserves R m" and "yields V m"
    and "\<And>err. preserves R (h err)" and "\<And>x. V x \<Longrightarrow> preserves R (k x)"
  shows "preserves R (go_try m h k)"
  unfolding preserves_def
proof
  fix s
  have "post m s (\<lambda>r t. R s t \<and> (\<forall>x. r = Ok x \<longrightarrow> V x))"
    using assms(2,3) by (intro post_conj) (auto simp: preserves_def yields_def)
  moreover have "R s u" if "R s t" "R t u" for t u
    using that assms(1) by (auto simp: preorder_rel_def elim: transpE)
  ultimately show "post (go_try m h k) s (\<lambda>_ t. R s t)"
    by (elim post_go_tryI) (auto intro: preserves_post [OF assms(4)] preserves_post [OF assms(5)])
qed

lemma yields_go_try_from:
  assumes "yields U m" and "\<And>err. yields V (h err)" and "\<And>x. U x \<Longrightarrow> yields V (k x)"
  shows "yields V (go_try m h k)"
  unfolding yields_def
proof
  fix s
  have "post m s (\<lambda>r t. \<forall>x. r = Ok x \<longrightarrow> U x)" using assms(1) by (simp add: yields_def)
  then show "post (go_try m h k) s (\<lambda>r _. \<forall>x. r = Ok x \<longrightarrow> V x)"
    by (rule post_go_tryI) (auto intro: yields_post [OF assms(2)] yields_post [OF assms(3)])
qed

lemma yields_with_obj [yields_rules]: "(\<And>x. yields V (k x)) \<Longrightarrow> yields V (with_obj k)"
  by (auto simp: yields_def post_with_obj)

lemma yields_case_option [yields_rules]:
  "(x = None \<Longrightarrow> yields V m) \<Longrightarrow> (\<And>a. x = Some a \<Longrightarrow> yields V (f a)) \<Longrightarrow>
     yields V (case x of None \<Rightarrow> m | Some a \<Rightarrow> f a)"
  by (cases x) simp_all

lemma yields_in_cluster: "yields V m \<Longrightarrow> yields V (in_cluster m)"
  by (auto simp: yields_def post_in_cluster)

named_theorems safe_rules "programs that only pass allowed names"

lemma safe_local [safe_rules]:
  "preserves (safe_calls db ok_name ok_info) (in_cluster m)"
  "preserves (safe_calls db ok_name ok_info) (emit e)"
  "preserves (safe_calls db ok_name ok_info) (set_status f)"
  "preserves (safe_calls db ok_name ok_info) (set_spec g)"
  "preserves (safe_calls db ok_name ok_info) (set_condition L c)"
  "preserves (safe_calls db ok_name ok_info) nil_pointer"
  by (rule preservesI, force simp: safe_calls_def calls_only_def request_ns_def nil_pointer_def run_set_condition
      split: prod.splits)+

lemma safe_set_obj:
  "ok_name (metaNamespace (drMeta x)) \<Longrightarrow> preserves (safe_calls db ok_name ok_info) (set_obj x)"
  by (rule preservesI) (auto simp: safe_calls_def calls_only_def request_ns_def)

lemma safe_in_dbs:
  "(\<And>d r d'. run_state m d = (r, d') \<Longrightarrow> client_step db ok_name ok_info d d') \<Longrightarrow>
     preserves (safe_calls db ok_name ok_info) (in_dbs m)"
  by (rule preserves_in_dbs) (auto simp: safe_calls_def calls_only_def request_ns_def)

lemma safe_client_calls [safe_rules]:
  "preserves (safe_calls db ok_name ok_info) (in_dbs (rdiPing db dsn dbType))"
  "preserves (safe_calls db ok_name ok_info) (in_dbs (rdiLoad db dsn dbType))"
  "ok_name ns \<Longrightarrow> preserves (safe_calls db ok_name ok_info) (in_dbs (rdiDropDatabase db dsn n ns dbType))"
  "ok_name ns \<Longrightarrow> preserves (safe_calls db ok_name ok_info) (in_dbs (rdiGetDatabaseInfo db dsn n ns dbType))"
  "ok_name ns \<Longrightarrow> ok_name user \<Longrightarrow>
     preserves (safe_calls db ok_name ok_info) (in_dbs (rdiCreateDatabase db dsn n ns dbType user))"
  "ok_info i \<Longrightarrow> preserves (safe_calls db ok_name ok_info) (in_dbs (rdiSetDatabaseInfo db dsn n ns dbType i))"
  by (rule safe_in_dbs, erule client_step.intros; assumption)+

definition ok_provider :: "(string \<Rightarrow> bool) \<Rightarrow> RelationalDatabaseProvider \<Rightarrow> bool" where
  "ok_provider ok_name p \<longleftrightarrow> (\<forall>c \<in> set (rdpConnections (rdpSpec p)). ok_name (connUsername c))"

definition ok_found :: "(string \<Rightarrow> bool) \<Rightarrow> find_state \<Rightarrow> bool" where
  "ok_found ok_name found \<longleftrightarrow> (\<forall>q. fst (snd found) = Some q \<longrightarrow> ok_provider ok_name q)"

locale controllers = credential_store db creds sinv ok_name ok_info
  for db :: "'d RelationalDatabaseInterface" and creds and sinv and ok_name and ok_info +
  fixes K :: "'w client"
  assumes request_ok: "yields (\<lambda>d. ok_name (metaNamespace (drMeta d))) (Get_DatabaseRequest K k)"
    and provider_ok: "yields (ok_provider ok_name) (Get_RelationalDatabaseProvider K k)"
    and providers_ok: "yields (list_all (ok_provider ok_name)) (List_RelationalDatabaseProvider K)"
    and seed_ok:
    "yields (\<lambda>sec. \<forall>i. dbInfoFromSeed (secretData sec) = Inr i \<longrightarrow> ok_info (seed_credentials i)) (Get_Secret K k)"
    and update_ns:
    "yields (\<lambda>(d', e). metaNamespace (drMeta d') = metaNamespace (drMeta d)) (Update_DatabaseRequest K d)"
    "yields (\<lambda>(d', e). metaNamespace (drMeta d') = metaNamespace (drMeta d)) (StatusUpdate_DatabaseRequest K d)"
begin

abbreviation safe where
  "safe \<equiv> safe_calls db ok_name ok_info"

lemma safe_update_obj:
  fixes upd :: "DatabaseRequest \<Rightarrow> ('w, DatabaseRequest \<times> go_error option) go"
  assumes "\<And>d. yields (\<lambda>(d', e). metaNamespace (drMeta d') = metaNamespace (drMeta d)) (upd d)"
  shows "preserves safe (update_obj upd)"
proof (rule preservesI)
  fix s t :: "('w, 'd) request_state" and r
  assume "run_state (update_obj upd) s = (r, t)"
  from run_update_objD [OF this] obtain w x r' where t: "t = s\<lparr>cluster := w, obj := x\<rparr>"
    and run: "run_state (upd (obj s)) (cluster s) = (r', w)" and x: "(\<exists>e. r' = Ok (x, e)) \<or> x = obj s"
    by blast
  from x run have "metaNamespace (drMeta x) = metaNamespace (drMeta (obj s))"
    by (auto dest!: yieldsD [OF assms])
  with t show "safe s t" by (simp add: safe_calls_def calls_only_def request_ns_def)
qed

lemma safe_updates [safe_rules]:
  assumes "Client r = K"
  shows "preserves safe (update_obj (Update_DatabaseRequest (Client r)))"
    and "preserves safe (update_obj (StatusUpdate_DatabaseRequest (Client r)))"
  unfolding assms by (intro safe_update_obj update_ns)+

lemma safe_handleError [safe_rules]:
  "Client r = K \<Longrightarrow> preserves safe (handleError L r promErr err ignoreError)"
  unfolding handleError_def Let_def
  by (intro preserves_rules safe_rules preorder_safe_calls)

text \<open>The providers found and their connections have allowed users.\<close>

lemma yields_find_in_connections:
  "ok_provider ok_name p \<Longrightarrow> ok_found ok_name found \<Longrightarrow>
     yields (ok_found ok_name) (find_in_connections r dbType p cs found)"
proof (induction cs arbitrary: found)
  case (Cons c cs)
  then have "ok_found ok_name (l, Some p, connName c)" for l by (simp add: ok_found_def)
  with Cons show ?case by (cases found) (auto simp: Let_def intro!: yields_rules)
qed (auto intro: yields_rules)

lemma yields_find_in_providers:
  "list_all (ok_provider ok_name) ps \<Longrightarrow> ok_found ok_name found \<Longrightarrow>
     yields (ok_found ok_name) (find_in_providers r selector dbType ps found)"
proof (induction ps arbitrary: found)
  case (Cons p ps)
  then have "yields (ok_found ok_name) (find_in_connections r dbType p (rdpConnections (rdpSpec p)) found)"
    by (simp add: yields_find_in_connections)
  moreover have "yields (ok_found ok_name) (find_in_providers r selector dbType ps found')" if "ok_found ok_name found'" for found'
    using Cons that by simp
  ultimately show ?case
    using Cons.prems by (auto intro!: yields_if yields_go_try_from yields_fail simp del: split_paired_All)
qed (auto intro: yields_rules)

lemma yields_operation_provider:
  assumes "Client r = K"
  shows "yields (\<lambda>(p, n). ok_provider ok_name p) (operation_provider r operation)"
proof -
  have find: "yields (\<lambda>(p, n). ok_provider ok_name p) (findRelationalDatabaseProvider r)"
    unfolding findRelationalDatabaseProvider_def Let_def assms
    by (intro yields_with_obj yields_go_try_from [OF yields_in_cluster [OF providers_ok]]
        yields_go_try_from [OF yields_find_in_providers] yields_fail)
      (auto simp: ok_found_def yields_def post_rules split: option.split)
  show ?thesis
    unfolding operation_provider_def assms
    by (intro yields_with_obj yields_if yields_go_try_from [OF find] yields_case_option
        yields_go_try_from [OF yields_in_cluster [OF provider_ok]] yields_fail)
      (auto simp: yields_def post_rules)
qed

lemma safe_find_in_connections [safe_rules]:
  assumes "RelationalDatabaseClient r = db"
  shows "preserves safe (find_in_connections r dbType p cs found)"
  by (induction cs arbitrary: found) (auto simp: Let_def assms intro!: preserves_rules safe_rules)

lemma safe_find_in_providers [safe_rules]:
  assumes "RelationalDatabaseClient r = db"
  shows "preserves safe (find_in_providers r selector dbType ps found)"
  by (induction ps arbitrary: found)
    (auto intro!: preserves_rules safe_find_in_connections [OF assms])

text \<open>The operations on the database of a request.\<close>

lemma safe_operation_provider:
  assumes "Client r = K" and "RelationalDatabaseClient r = db"
  shows "preserves safe (operation_provider r operation)"
  unfolding operation_provider_def findRelationalDatabaseProvider_def Let_def
  by (intro preserves_rules safe_rules preorder_safe_calls assms)

lemma safe_operations:
  assumes "Client r = K" and "RelationalDatabaseClient r = db"
  shows "ok_name (rcUsername conn) \<Longrightarrow> preserves safe (operation_create r p c conn)"
    and "preserves safe (operation_drop r conn)"
    and "preserves safe (operation_info r conn i)"
  unfolding operation_create_def operation_drop_def operation_info_def Let_def assms(2)
  by (intro safe_with_obj preserves_go_try preserves_and_then preserves_case_option preserves_ok preserves_fail
      safe_rules preorder_safe_calls assms(1); assumption?)+

lemma safe_relationalDatabaseOperation [safe_rules]:
  assumes "Client r = K" and "RelationalDatabaseClient r = db"
  shows "preserves safe (relationalDatabaseOperation r operation i)"
proof -
  have perform: "preserves safe (perform_operation r operation p c conn i)" if "ok_name (rcUsername conn)" for p c conn
    unfolding perform_operation_def
    by (intro preserves_rules preorder_safe_calls safe_operations [OF assms] that)
  have user: "ok_name (rcUsername (conn_of dbType c pw))"
    if "ok_provider ok_name p" "last_connection n (rdpConnections (rdpSpec p)) None = Some c" for p n c pw dbType
    using that last_connection_in [OF that(2)] by (auto simp: ok_provider_def conn_of_def)
  show ?thesis
    unfolding relationalDatabaseOperation_def Let_def
    by (rule preserves_go_try_yields [OF preorder_safe_calls safe_operation_provider [OF assms]
          yields_operation_provider [OF assms(1)]])
      (auto intro!: preserves_rules safe_rules intro: perform user split: option.split)
qed

lemma safe_requests [safe_rules]:
  assumes "Client r = K" and "RelationalDatabaseClient r = db"
  shows "preserves safe (relDBDeletion r)" and "preserves safe (relDBInfo r)" and "preserves safe (createDatabase r)"
  unfolding relDBDeletion_def relDBInfo_def createDatabase_def Let_def
  by (intro preserves_rules safe_rules preorder_safe_calls assms)+

text \<open>A seed: the credentials set are those of the seed secret.\<close>

lemma yields_seedDatabase:
  assumes "Client r = K"
  shows "yields (\<lambda>i. ok_info (seed_credentials i)) (seedDatabase r seed)"
  unfolding seedDatabase_def assms
  by (rule yields_go_try_from [OF yields_in_cluster [OF seed_ok]])
    (auto simp: yields_def post_rules split: sum.split)

lemma yields_relationalDatabaseInfoFromSeed:
  assumes "Client r = K"
  shows "yields (\<lambda>si. ok_info (seed_credentials (sdiDbInfo si))) (relationalDatabaseInfoFromSeed r seed dbType selector)"
  unfolding relationalDatabaseInfoFromSeed_def Let_def
  by (rule yields_go_try_from [OF yields_seedDatabase [OF assms]])
    (auto intro!: yields_rules split: option.split)

lemma safe_handleSeed [safe_rules]:
  assumes "Client r = K" and "RelationalDatabaseClient r = db"
  shows "preserves safe (handleSeed r)"
proof -
  have "preserves safe (relationalDatabaseInfoFromSeed r seed dbType selector)" for seed dbType selector
    unfolding relationalDatabaseInfoFromSeed_def seedDatabase_def relDBTestSeedConnection_def Let_def assms(2)
    by (intro preserves_rules safe_rules preorder_safe_calls)
  then show ?thesis
    unfolding handleSeed_def assms(2)
    by (auto intro!: safe_with_obj preserves_case_option preserves_go_try_yields
        [OF preorder_safe_calls _ yields_relationalDatabaseInfoFromSeed [OF assms(1)]]
        preserves_and_then preserves_ok preserves_fail safe_rules)
qed

text \<open>Deletion and reconciliation.\<close>

lemma safe_delete_service [safe_rules]:
  assumes "Client r = K"
  shows "preserves safe (delete_service L r)"
  unfolding delete_service_def delete_secret_def delete_finalizer_def finish_delete_def Let_def
  by (intro safe_with_obj preserves_rules safe_rules safe_set_obj preorder_safe_calls assms; simp)

lemma safe_deleteDatabase [safe_rules]:
  assumes "Client r = K" and "RelationalDatabaseClient r = db"
  shows "preserves safe (deleteDatabase L r)"
  unfolding deleteDatabase_def Let_def
  by (intro preserves_rules safe_rules preorder_safe_calls assms)

lemma safe_provide_access [safe_rules]:
  assumes "Client r = K"
  shows "preserves safe (provide_access L r i)"
  unfolding provide_access_def handleService_def handleSecret_def finish_reconcile_def set_ready_def Let_def
  by (intro preserves_rules safe_rules preorder_safe_calls assms)

lemma safe_reconcile_spec [safe_rules]:
  assumes "Client r = K" and "RelationalDatabaseClient r = db"
  shows "preserves safe (reconcile_spec L r)"
  unfolding reconcile_spec_def reconcile_seed_def reconcile_unseeded_def reconcile_existing_def Let_def
  by (intro preserves_rules safe_rules preorder_safe_calls assms)

lemma safe_reconcile_active [safe_rules]:
  assumes "Client r = K" and "RelationalDatabaseClient r = db"
  shows "preserves safe (reconcile_active L r)"
  unfolding reconcile_active_def Let_def
  by (intro safe_with_obj preserves_rules safe_rules safe_set_obj preorder_safe_calls assms; simp)

lemma request_calls:
  assumes "run_state (Reconcile L r req) s = (res, t)" and "Client r = K" and "RelationalDatabaseClient r = db"
  shows "client_steps db ok_name ok_info (dbs s) (dbs t)"
proof -
  define u where "u = s\<lparr>effects := effects s @
     [Inc promDatabaseRequestReconcileCounter (WithLabelValues [nnName req, nnNamespace req])], obj := DatabaseRequest_zero\<rparr>"
  obtain out w where get: "run_state (Get_DatabaseRequest K req) (cluster s) = (out, w)" by fastforce
  show ?thesis
  proof (cases out)
    case (Ok d)
    let ?u = "u\<lparr>cluster := w, obj := d\<rparr>"
    have "run_state (if deleting d then deleteDatabase L r else reconcile_active L r) ?u = (res, t)"
      using assms(1,2) get Ok by (simp add: Reconcile_def run_go_try and_then_def u_def)
    moreover have "preserves safe (if deleting d then deleteDatabase L r else reconcile_active L r)"
      by (intro preserves_rules safe_rules assms)
    ultimately have "safe ?u t" by (auto dest: preservesD)
    with yieldsD [OF request_ok get [unfolded Ok]] show ?thesis
      by (simp add: safe_calls_def calls_only_def request_ns_def u_def)
  qed (use assms(1,2) get in \<open>auto simp: Reconcile_def run_go_try and_then_def split: if_splits\<close>)
qed

lemma system_step_calls:
  "system_step L K db (w, d) (w', d') \<Longrightarrow> client_steps db ok_name ok_info d d'"
proof (induction "(w, d)" "(w', d')" arbitrary: w d w' d' rule: system_step.induct)
  case (request req s res t)
  then show ?case by (auto intro: request_calls simp: main_dbr_def)
next
  case (provider req s res t)
  have "RelDBClient (main_rdp K db) = db" by (simp add: main_rdp_def)
  from preservesD [OF calls_Reconcile_rdp [OF this] provider(1)] show ?case by (simp add: calls_only_def provider)
qed simp_all

lemma system_steps_calls:
  "system_steps L K db (w, d) (w', d') \<Longrightarrow> client_steps db ok_name ok_info d d'"
  by (induction rule: rtranclp_induct2) (auto dest!: system_step_calls intro: rtranclp_trans)

lemma system_keeps:
  "system_steps L K db (w, d) (w', d') \<Longrightarrow> sinv d \<Longrightarrow> sinv d' \<and> creds_kept creds d d'"
  using system_steps_calls steps_law by blast

end

end
