(* ===== verification/RelProviderProps.thy ===== *)
theory RelProviderProps
  imports RelProviderFacts MemCluster
begin

section \<open>Properties of the RelationalDatabaseProvider reconciler\<close>

text \<open>
  Over every API server that satisfies \<open>rdp_store\<close>, every database client and all library
  functions; the witnesses run the reconciler on the cluster in memory with the repository's
  mock of the database client.
\<close>

interpretation mem_rdp_store: rdp_store mem_client "\<lambda>w n. find (\<lambda>p. rdp_name p = n) (mcProviders w)"
  by (rule rdp_store.intro, rule mem_rdp.status_store_axioms)

lemma Reconcile_rdp_settled:
  assumes "rdp_store (rdprClient r) stored"
    and "run_state (Get_RelationalDatabaseProvider (rdprClient r) req) (cluster s) = (Ok p, w)"
    and "\<not> being_deleted (rdpMeta p)" and "\<not> rdp_up_to_date L p"
    and "run_state (Reconcile_rdp L r req) s = (res, t)"
  shows "rdp_settled L (RelDBClient r) stored p res t \<and> rdp_name p = nnName req"
proof -
  from assms(2-5) have "run_state (reconcile_active_rdp L r req) (s\<lparr>cluster := w, obj := p\<rparr>) = (res, t)"
    by (simp add: Reconcile_rdp_def and_then_def run_go_try)
  from postD [OF rdp_store.reconcile_active_rdp_settled [OF assms(1) refl] this] assms(4)
  have "rdp_settled L (RelDBClient r) stored p res t" by simp
  moreover from status_store.get_stored [OF rdp_store.axioms [OF assms(1)] assms(2)]
  have "rdp_name p = nnName req" by simp
  ultimately show ?thesis by blast
qed

subsection \<open>A concrete provider\<close>

definition demo_conn :: "string \<Rightarrow> bool \<Rightarrow> Connection" where
  "demo_conn n enabled =
     \<lparr>connName = n, connHostname = n @ ''.host'', connReplicaHostnames = [],
      connPasswordSecretRef = \<lparr>refName = ''pw'', refNamespace = ''dbaas''\<rparr>, connPort = 3306,
      connUsername = ''root'', connEnabled = enabled\<rparr>"

definition demo_rdp :: RelationalDatabaseProvider where
  "demo_rdp = RelationalDatabaseProvider_zero
     \<lparr>rdpMeta := ObjectMeta_of ''prov'' [] Map.empty,
      rdpSpec := \<lparr>rdpType = ''mysql'', rdpSelector = ''dev'',
        rdpConnections = [demo_conn ''primary'' True, demo_conn ''spare'' False]\<rparr>\<rparr>"

definition demo_rdp_key :: NamespacedName where
  "demo_rdp_key = \<lparr>nnName = ''prov'', nnNamespace = []\<rparr>"

definition demo_rdp_state :: "string \<Rightarrow> (mem_cluster, unit) provider_state" where
  "demo_rdp_state password =
     \<lparr>cluster = \<lparr>mcRequests = Map.empty, mcProviders = [demo_rdp], mcMongoProviders = [],
        mcSecrets = [\<lparr>nnName = ''pw'', nnNamespace = ''dbaas''\<rparr> \<mapsto>
          \<lparr>secretMeta = ObjectMeta_of ''pw'' ''dbaas'' Map.empty, secretData = [''password'' \<mapsto> password]\<rparr>],
        mcServices = Map.empty\<rparr>,
      dbs = (), obj = RelationalDatabaseProvider_zero, effects = []\<rparr>"

definition demo_rdpr :: "(mem_cluster, unit) RelationalDatabaseProviderReconciler" where
  "demo_rdpr = \<lparr>rdprClient = mem_client, RelDBClient = RelationalDatabaseMock\<rparr>"

lemmas demo_rdp_defs = demo_rdp_state_def demo_rdpr_def demo_rdp_def demo_conn_def demo_rdp_key_def
  RelationalDatabaseProvider_zero_def ObjectMeta_of_def ObjectMeta_zero_def

lemmas rdp_defs = Reconcile_rdp_def reconcile_active_rdp_def check_rdp_def finish_rdp_def check_connection_def
  run_set_rdp_version handleError_rdp_def rdp_up_to_date_def being_deleted_def rdp_status_of_def
  check_passed_def check_start_def secret_password_def secret_key_of_def rdp_name_def run_go_try and_then_def
  run_mem_lookup mem_update_provider_def mem_status_update_provider_def mem_put_def update_obj_def
  named_as_def RelationalDatabaseMock_def

lemma demo_rdp_get:
  "run_state (Get_RelationalDatabaseProvider (rdprClient demo_rdpr) demo_rdp_key) (cluster (demo_rdp_state pw)) =
     (Ok demo_rdp, cluster (demo_rdp_state pw))"
  "\<not> being_deleted (rdpMeta demo_rdp)" "\<not> rdp_up_to_date mem_library demo_rdp"
  by (simp_all add: demo_rdp_defs rdp_defs)

lemma demo_rdp_run:
  "fst (run_state (Reconcile_rdp mem_library demo_rdpr demo_rdp_key) (demo_rdp_state ''secret'')) = Ok ()"
  by (simp add: demo_rdp_defs rdp_defs Let_def)

lemma demo_rdp_run_empty:
  "fst (run_state (Reconcile_rdp mem_library demo_rdpr demo_rdp_key) (demo_rdp_state [])) =
     Err (errors_New ''mysql connection secret pw in namespace dbaas has empty password'')"
  by (simp add: demo_rdp_defs rdp_defs Let_def)

text \<open>
  C7: a reconciliation of a provider that is not being deleted and not up to date, when it
  returns no error, leaves a stored provider with a Ready condition whose status is true: the
  connection names are unique, there is one entry for each connection in order, an entry says
  available only if the database client pinged, told that version and initialised the server,
  an enabled connection is available, and the status has the stored generation.
\<close>

theorem Reconcile_rdp_ready:
  assumes "rdp_store (rdprClient r) stored"
    and "run_state (Get_RelationalDatabaseProvider (rdprClient r) req) (cluster s) = (Ok p, w)"
    and "\<not> being_deleted (rdpMeta p)" and "\<not> rdp_up_to_date L p"
    and "run_state (Reconcile_rdp L r req) s = (Ok (), t)"
  shows "\<exists>q. stored (cluster t) (nnName req) = Some q \<and> rdpSpec q = rdpSpec p \<and> rdp_ready L (RelDBClient r) q"
  using Reconcile_rdp_settled [OF assms] by (auto simp: rdp_settled_def)

theorem Reconcile_rdp_ready_witness:
  "\<exists>t q. run_state (Reconcile_rdp mem_library demo_rdpr demo_rdp_key) (demo_rdp_state ''secret'') = (Ok (), t) \<and>
     find (\<lambda>p. rdp_name p = ''prov'') (mcProviders (cluster t)) = Some q \<and> rdpSpec q = rdpSpec demo_rdp \<and>
     rdp_ready mem_library (RelDBClient demo_rdpr) q"
proof -
  obtain t where run: "run_state (Reconcile_rdp mem_library demo_rdpr demo_rdp_key) (demo_rdp_state ''secret'') = (Ok (), t)"
    using demo_rdp_run by (metis prod.collapse)
  have "rdp_store (rdprClient demo_rdpr) (\<lambda>w n. find (\<lambda>p. rdp_name p = n) (mcProviders w))"
    using mem_rdp_store.rdp_store_axioms by (simp add: demo_rdpr_def)
  from Reconcile_rdp_ready [OF this demo_rdp_get run] run show ?thesis
    by (simp add: demo_rdp_key_def)
qed

text \<open>
  C20: the status gauge of the provider tells the outcome of such a reconciliation: it is 1
  after a reconciliation that returned no error and 0 after one that returned an error.
\<close>

theorem provider_gauge_tells_outcome:
  assumes "rdp_store (rdprClient r) stored"
    and "run_state (Get_RelationalDatabaseProvider (rdprClient r) req) (cluster s) = (Ok p, w)"
    and "\<not> being_deleted (rdpMeta p)" and "\<not> rdp_up_to_date L p"
    and "run_state (Reconcile_rdp L r req) s = (res, t)" and "\<And>msg. res \<noteq> Panic msg"
  shows "gauge promRelationalDatabaseProviderStatus (effects t) = Some (if res = Ok () then 1 else 0)"
  using Reconcile_rdp_settled [OF assms(1-5)] assms(6)
  by (cases res) (auto simp: rdp_settled_def)

theorem provider_gauge_tells_outcome_witness:
  "\<exists>t u. run_state (Reconcile_rdp mem_library demo_rdpr demo_rdp_key) (demo_rdp_state ''secret'') = (Ok (), t) \<and>
     gauge promRelationalDatabaseProviderStatus (effects t) = Some 1 \<and>
     run_state (Reconcile_rdp mem_library demo_rdpr demo_rdp_key) (demo_rdp_state []) =
       (Err (errors_New ''mysql connection secret pw in namespace dbaas has empty password''), u) \<and>
     gauge promRelationalDatabaseProviderStatus (effects u) = Some 0"
proof -
  obtain t u where run: "run_state (Reconcile_rdp mem_library demo_rdpr demo_rdp_key) (demo_rdp_state ''secret'') = (Ok (), t)"
    and failed: "run_state (Reconcile_rdp mem_library demo_rdpr demo_rdp_key) (demo_rdp_state []) =
       (Err (errors_New ''mysql connection secret pw in namespace dbaas has empty password''), u)"
    using demo_rdp_run demo_rdp_run_empty by (metis prod.collapse)
  have store: "rdp_store (rdprClient demo_rdpr) (\<lambda>w n. find (\<lambda>p. rdp_name p = n) (mcProviders w))"
    using mem_rdp_store.rdp_store_axioms by (simp add: demo_rdpr_def)
  from provider_gauge_tells_outcome [OF store demo_rdp_get run]
    provider_gauge_tells_outcome [OF store demo_rdp_get failed] run failed show ?thesis
    by simp
qed

text \<open>
  C13: the reconciliation of a provider terminates: once one has returned no error, the next one of the
  same provider, read back as it was stored and not being deleted, finds it up to date: it
  returns no error, touches neither the cluster nor a database and records one event. It is assumed of the
  condition helpers that a condition that has been set to true is there and true.
\<close>

theorem provider_reconciliation_settles:
  assumes "rdp_store (rdprClient r) stored"
    and "run_state (Get_RelationalDatabaseProvider (rdprClient r) req) (cluster s) = (Ok p, w)"
    and "\<not> being_deleted (rdpMeta p)" and "\<not> rdp_up_to_date L p"
    and "run_state (Reconcile_rdp L r req) s = (Ok (), t)"
    and "\<And>cs. fst (SetStatusCondition L cs rdp_ready_condition) \<noteq> [] \<and>
      IsStatusConditionTrue L (fst (SetStatusCondition L cs rdp_ready_condition)) ''Ready''"
    and "run_state (Get_RelationalDatabaseProvider (rdprClient r) req) (cluster t) = (Ok q, w')"
    and "\<not> being_deleted (rdpMeta q)"
  shows "run_state (Reconcile_rdp L r req) t = (Ok (), t\<lparr>cluster := w', obj := q, effects := effects t @
    [Eventf EventTypeNormal ''ReconcileSkipped'' ''No updates to reconcile'' ''No updates to reconcile'']\<rparr>)"
proof -
  from Reconcile_rdp_settled [OF assms(1-5)] obtain q' where "stored (cluster t) (nnName req) = Some q'"
    and ready: "rdp_ready L (RelDBClient r) q'" by (auto simp: rdp_settled_def)
  with status_store.get_stored [OF rdp_store.axioms [OF assms(1)] assms(7)] have "q' = q" by simp
  with ready obtain cs where "rdpConditions (rdpStatus q) = fst (SetStatusCondition L cs rdp_ready_condition)"
    and "rdpObservedGeneration (rdpStatus q) = metaGeneration (rdpMeta q)"
    by (auto simp: rdp_ready_def Let_def)
  with assms(6) have "rdp_up_to_date L q" by (simp add: rdp_up_to_date_def)
  with assms(7,8) show ?thesis
    by (simp add: Reconcile_rdp_def reconcile_active_rdp_def run_go_try and_then_def)
qed

theorem provider_reconciliation_settles_witness:
  "\<exists>t u. run_state (Reconcile_rdp mem_library demo_rdpr demo_rdp_key) (demo_rdp_state ''secret'') = (Ok (), t) \<and>
     run_state (Reconcile_rdp mem_library demo_rdpr demo_rdp_key) t = (Ok (), u) \<and> cluster u = cluster t \<and>
     length (effects u) = Suc (length (effects t))"
proof -
  obtain t where run: "run_state (Reconcile_rdp mem_library demo_rdpr demo_rdp_key) (demo_rdp_state ''secret'') = (Ok (), t)"
    using demo_rdp_run by (metis prod.collapse)
  have "map_option (\<lambda>q. being_deleted (rdpMeta q)) (find (\<lambda>p. rdp_name p = ''prov'')
      (mcProviders (cluster (snd (run_state (Reconcile_rdp mem_library demo_rdpr demo_rdp_key) (demo_rdp_state ''secret'')))))) = Some False"
    by (simp add: demo_rdp_defs rdp_defs Let_def)
  with run obtain q where found: "find (\<lambda>p. rdp_name p = ''prov'') (mcProviders (cluster t)) = Some q"
    and del: "\<not> being_deleted (rdpMeta q)" by auto
  from found have get: "run_state (Get_RelationalDatabaseProvider (rdprClient demo_rdpr) demo_rdp_key) (cluster t) = (Ok q, cluster t)"
    by (simp add: demo_rdpr_def demo_rdp_key_def run_mem_lookup rdp_defs)
  have store: "rdp_store (rdprClient demo_rdpr) (\<lambda>w n. find (\<lambda>p. rdp_name p = n) (mcProviders w))"
    using mem_rdp_store.rdp_store_axioms by (simp add: demo_rdpr_def)
  have law: "fst (SetStatusCondition mem_library cs rdp_ready_condition) \<noteq> [] \<and>
      IsStatusConditionTrue mem_library (fst (SetStatusCondition mem_library cs rdp_ready_condition)) ''Ready''" for cs
    by (induction cs) (auto simp: mem_library_def rdp_ready_condition_def split: prod.splits)
  from provider_reconciliation_settles [OF store demo_rdp_get run law get del] run show ?thesis by auto
qed

end
