(* ===== verification/MongoProviderProps.thy ===== *)
theory MongoProviderProps
  imports MongoProviderFacts MemCluster
begin

section \<open>Properties of the MongoDBProvider reconciler\<close>

text \<open>
  Over every API server that satisfies \<open>mdp_store\<close>; the witnesses run the reconciler on the
  cluster in memory with the repository's mock of the MongoDB client.
\<close>

interpretation mem_mdp_store: mdp_store mem_client "\<lambda>w n. find (\<lambda>p. mdp_name p = n) (mcMongoProviders w)"
  by (rule mdp_store.intro, rule mem_mdp.status_store_axioms)

lemma Reconcile_mdp_settled:
  assumes "mdp_store (mdprClient r) stored"
    and "run_state (Get_MongoDBProvider (mdprClient r) req) (cluster s) = (Ok p, w)"
    and "\<not> being_deleted (mdpMeta p)" and "\<not> mdp_up_to_date L p"
    and "run_state (Reconcile_mdp L r req) s = (res, t)"
  shows "mdp_settled L r stored p res t \<and> mdp_name p = nnName req"
proof -
  from assms(2-5) have "run_state (reconcile_active_mdp L r req) (s\<lparr>cluster := w, obj := p\<rparr>) = (res, t)"
    by (simp add: Reconcile_mdp_def and_then_def run_go_try)
  from postD [OF mdp_store.reconcile_active_mdp_settled [OF assms(1) refl] this] assms(4)
  have "mdp_settled L r stored p res t" by simp
  moreover from status_store.get_stored [OF mdp_store.axioms [OF assms(1)] assms(2)]
  have "mdp_name p = nnName req" by simp
  ultimately show ?thesis by blast
qed

subsection \<open>A concrete provider\<close>

definition demo_mdp :: MongoDBProvider where
  "demo_mdp = MongoDBProvider_zero
     \<lparr>mdpMeta := ObjectMeta_of ''mongo'' [] Map.empty,
      mdpSpec := \<lparr>mdpSelector = ''dev'',
        mdpConnections =
          [\<lparr>mcName = ''primary'', mcHostname = ''mongo.host'', mcReplicaHostnames = [],
            mcPasswordSecretRef = \<lparr>refName = ''pw'', refNamespace = ''dbaas''\<rparr>, mcPort = 27017, mcUsername = ''root'',
            mcAuth = \<lparr>authMechanism = ''SCRAM-SHA-1'', authSource = ''admin'', authTLS = True\<rparr>, mcEnabled = True\<rparr>]\<rparr>\<rparr>"

definition demo_mdp_key :: NamespacedName where
  "demo_mdp_key = \<lparr>nnName = ''mongo'', nnNamespace = []\<rparr>"

definition demo_mdp_state :: "(mem_cluster, unit) mongo_provider_state" where
  "demo_mdp_state =
     \<lparr>cluster = \<lparr>mcRequests = Map.empty, mcProviders = [], mcMongoProviders = [demo_mdp],
        mcSecrets = [\<lparr>nnName = ''pw'', nnNamespace = ''dbaas''\<rparr> \<mapsto>
          \<lparr>secretMeta = ObjectMeta_of ''pw'' ''dbaas'' Map.empty, secretData = [''password'' \<mapsto> ''secret'']\<rparr>],
        mcServices = Map.empty\<rparr>,
      dbs = (), obj = MongoDBProvider_zero, effects = []\<rparr>"

definition demo_mdpr :: "(mem_cluster, unit) MongoDBProviderReconciler" where
  "demo_mdpr = \<lparr>mdprClient = mem_client, MongoDBClient = Some MongoDBMock\<rparr>"

lemmas demo_mdp_defs = demo_mdp_state_def demo_mdpr_def demo_mdp_def demo_mdp_key_def
  MongoDBProvider_zero_def ObjectMeta_of_def ObjectMeta_zero_def

lemmas mdp_defs = Reconcile_mdp_def reconcile_active_mdp_def check_mdp_def finish_mdp_def check_mongo_def
  call_mongo_def run_set_mdp_version handleError_mdp_def mdp_up_to_date_def being_deleted_def mdp_status_of_def
  check_passed_def check_start_def secret_password_def secret_key_of_def mdp_name_def run_go_try and_then_def
  run_mem_lookup mem_update_mongo_def mem_status_update_mongo_def mem_put_def update_obj_def
  named_as_def MongoDBMock_def

lemma demo_mdp_get:
  "run_state (Get_MongoDBProvider (mdprClient demo_mdpr) demo_mdp_key) (cluster demo_mdp_state) =
     (Ok demo_mdp, cluster demo_mdp_state)"
  "\<not> being_deleted (mdpMeta demo_mdp)" "\<not> mdp_up_to_date mem_library demo_mdp"
  by (simp_all add: demo_mdp_defs mdp_defs)

lemma demo_mdp_run:
  "fst (run_state (Reconcile_mdp mem_library demo_mdpr demo_mdp_key) demo_mdp_state) = Ok ()"
  by (simp add: demo_mdp_defs mdp_defs Let_def)



end
