(* ===== verification/WiringProps.thy ===== *)
theory WiringProps
  imports Wiring DbRequestProps RelProviderProps MongoProviderProps
begin

section \<open>Properties of the whole program\<close>

text \<open>
  \<open>follows\<close> says which calls a part of \<open>main\<close> makes, whatever the answers: in order, all of them
  unless one failed, and a panic of the part is a panic of one of them. It composes along the
  code, so the calls of \<open>main\<close> are those of its parts.
\<close>

definition follows :: "('w, 'd, 'e) answers \<Rightarrow> ('w, 'd, 'e) startup \<Rightarrow> ('w, 'd, 'e) call list \<Rightarrow> bool" where
  "follows answer m cs \<longleftrightarrow>
     (\<forall>s res t. run_state m s = (res, t) \<longrightarrow>
        (\<exists>n \<le> length cs. t = s @ take n cs) \<and>
        (res = Ok () \<longrightarrow> t = s @ cs) \<and>
        (\<forall>msg. res = Panic msg \<longrightarrow> (\<exists>n < length cs. answer (s @ take n cs) (cs ! n) = Panic msg)))"

lemma followsD:
  assumes "follows answer m cs" and "run_state m [] = (res, t)"
  shows "(\<exists>n \<le> length cs. t = take n cs) \<and> (res = Ok () \<longrightarrow> t = cs) \<and>
     (\<forall>msg. res = Panic msg \<longrightarrow> (\<exists>n < length cs. answer (take n cs) (cs ! n) = Panic msg))"
  using assms(1) [unfolded follows_def, rule_format, OF assms(2)] by simp

named_theorems follows_rules "the calls of a part of main"

lemma follows_call [follows_rules]: "follows answer (call answer c) [c]"
  unfolding follows_def call_def by (auto intro: exI [of _ 1] exI [of _ 0])

lemma follows_ok [follows_rules]: "follows answer (ok ()) []"
  unfolding follows_def by simp

lemma follows_go_try:
  assumes "follows answer m cs" and "follows answer k ds"
  shows "follows answer (go_try m (\<lambda>err. fail (h err)) (\<lambda>_. k)) (cs @ ds)"
  unfolding follows_def
proof (intro allI impI, goal_cases)
  case (1 s res t)
  obtain out u where m: "run_state m s = (out, u)" by fastforce
  note first = assms(1) [unfolded follows_def, rule_format, OF m]
  show ?case
  proof (cases out)
    case (Ok x)
    with first have u: "u = s @ cs" by simp
    from 1 m Ok have k: "run_state k u = (res, t)" by (simp add: run_go_try)
    note second = assms(2) [unfolded follows_def, rule_format, OF k]
    from second obtain n where "n \<le> length ds" "t = u @ take n ds" by blast
    then have "\<exists>n \<le> length (cs @ ds). t = s @ take n (cs @ ds)"
      using u by (intro exI [of _ "length cs + n"]) simp
    moreover have "\<exists>n < length (cs @ ds). answer (s @ take n (cs @ ds)) ((cs @ ds) ! n) = Panic msg"
      if "res = Panic msg" for msg
    proof -
      from second that obtain n where "n < length ds" "answer (u @ take n ds) (ds ! n) = Panic msg" by blast
      with u show ?thesis by (intro exI [of _ "length cs + n"]) simp
    qed
    ultimately show ?thesis using second u by simp
  next
    case (Err err)
    with 1 m have "res = Err (h err)" "t = u" by (simp_all add: run_go_try)
    moreover from first obtain n where "n \<le> length cs" "u = s @ take n cs" by blast
    then have "\<exists>n \<le> length (cs @ ds). u = s @ take n (cs @ ds)" by (intro exI [of _ n]) simp
    ultimately show ?thesis by simp
  next
    case (Panic msg)
    with 1 m have "res = Panic msg" "t = u" by (simp_all add: run_go_try)
    moreover from first obtain n where "n \<le> length cs" "u = s @ take n cs" by blast
    then have "\<exists>n \<le> length (cs @ ds). u = s @ take n (cs @ ds)" by (intro exI [of _ n]) simp
    moreover from first Panic obtain n where "n < length cs" "answer (s @ take n cs) (cs ! n) = Panic msg" by blast
    then have "\<exists>n < length (cs @ ds). answer (s @ take n (cs @ ds)) ((cs @ ds) ! n) = Panic msg"
      by (intro exI [of _ n]) (simp add: nth_append)
    ultimately show ?thesis by simp
  qed
qed

lemma follows_then [follows_rules]:
  "follows answer m cs \<Longrightarrow> follows answer k ds \<Longrightarrow> follows answer (and_then m k) (cs @ ds)"
  "follows answer m cs \<Longrightarrow> follows answer k ds \<Longrightarrow> follows answer (or_exit m k) (cs @ ds)"
  unfolding and_then_def or_exit_def by (rule follows_go_try; assumption)+

subsection \<open>The calls of main\<close>

definition main_calls ::
    "'w client \<Rightarrow> 'd RelationalDatabaseInterface \<Rightarrow> flags \<Rightarrow> ('w, 'd, 'e) call list" where
  "main_calls K db fl =
     [NewManager (manager_options fl),
      MustRegister [promDatabaseRequestReconcileCounter, promDatabaseRequestReconcileErrorCounter,
        promDatabaseRequestReconcileStatus],
      GetEventRecorder ''DatabaseRequestReconciler'',
      Complete (maxConcurrentReconciles fl)
        (DatabaseRequest_controller \<lparr>Client = K, RelationalDatabaseClient = db\<rparr>),
      MustRegister [promRelationalDatabaseProviderReconcileErrorCounter, promRelationalDatabaseProviderStatus,
        promRelationalDatabaseProviderConnectionVersion],
      GetEventRecorder ''relationaldatabaseprovider_controller'',
      Complete 1 (RelationalDatabaseProvider_controller \<lparr>rdprClient = K, RelDBClient = db\<rparr>),
      MustRegister [promMongoDBProviderReconcileErrorCounter, promMongoDBProviderStatus,
        promMongoDBProviderConnectionVersion],
      GetEventRecorder ''mongodbprovider-controller'',
      Complete 1 (MongoDBProvider_controller \<lparr>mdprClient = K, MongoDBClient = None\<rparr>),
      AddHealthzCheck ''healthz'', AddReadyzCheck ''readyz'', Start]"

lemma main_follows: "follows answer (controller_main answer K db fl) (main_calls K db fl)"
proof -
  have "follows answer (controller_main answer K db fl)
     ([NewManager (manager_options fl)] @
      ([MustRegister [promDatabaseRequestReconcileCounter, promDatabaseRequestReconcileErrorCounter,
          promDatabaseRequestReconcileStatus]] @
       [GetEventRecorder ''DatabaseRequestReconciler''] @
       [Complete (maxConcurrentReconciles fl) (DatabaseRequest_controller (main_dbr K db))]) @
      ([MustRegister [promRelationalDatabaseProviderReconcileErrorCounter, promRelationalDatabaseProviderStatus,
          promRelationalDatabaseProviderConnectionVersion]] @
       [GetEventRecorder ''relationaldatabaseprovider_controller''] @
       [Complete 1 (RelationalDatabaseProvider_controller (main_rdp K db))]) @
      ([MustRegister [promMongoDBProviderReconcileErrorCounter, promMongoDBProviderStatus,
          promMongoDBProviderConnectionVersion]] @
       [GetEventRecorder ''mongodbprovider-controller''] @
       [Complete 1 (MongoDBProvider_controller (main_mdp K))]) @
      [AddHealthzCheck ''healthz''] @ [AddReadyzCheck ''readyz''] @ [Start] @ [])"
    unfolding controller_main_def SetupWithManager_dbr_def SetupWithManager_rdp_def SetupWithManager_mdp_def
    by (intro follows_rules)
  then show ?thesis
    by (simp add: main_calls_def main_dbr_def main_rdp_def main_mdp_def)
qed

lemma main_calls_end: "main_calls K db fl = butlast (main_calls K db fl) @ [Start]"
  "Start \<notin> set (butlast (main_calls K db fl))"
  by (simp_all add: main_calls_def)

lemma butlast_prefix:
  assumes "cs = butlast cs @ [c]" and "c \<notin> set (butlast cs)" and "n \<le> length cs" and "c \<in> set (take n cs)"
  shows "take n cs = cs"
proof (rule ccontr)
  assume "take n cs \<noteq> cs"
  with assms(3) have "n \<le> length (butlast cs)" by (cases "n = length cs") auto
  with assms(1) have "take n cs = take n (butlast cs)" by (metis take_append take_0 append_Nil2 diff_is_0_eq)
  with assms(2,4) show False by (auto dest: in_set_takeD)
qed

lemma follows_all:
  assumes "follows answer m cs" and "cs = butlast cs @ [c]" and "c \<notin> set (butlast cs)"
    and "run_state m [] = (res, t)" and "c \<in> set t \<or> res = Ok ()"
  shows "t = cs"
proof (cases "res = Ok ()")
  case True
  with followsD [OF assms(1,4)] show ?thesis by simp
next
  case False
  from followsD [OF assms(1,4)] obtain n where n: "n \<le> length cs" "t = take n cs" by blast
  from butlast_prefix [OF assms(2,3) n(1)] assms(5) False n(2) show ?thesis by blast
qed



subsection \<open>The registry\<close>

fun registered :: "('w, 'd, 'e) call \<Rightarrow> prom_vec list" where
  "registered (MustRegister vs) = vs"
| "registered _ = []"

lemmas prom_vec_defs = promDatabaseRequestReconcileCounter_def promDatabaseRequestReconcileErrorCounter_def
  promDatabaseRequestReconcileStatus_def promRelationalDatabaseProviderReconcileErrorCounter_def
  promRelationalDatabaseProviderStatus_def promRelationalDatabaseProviderConnectionVersion_def
  promMongoDBProviderReconcileErrorCounter_def promMongoDBProviderStatus_def promMongoDBProviderConnectionVersion_def

lemma main_metrics_distinct: "distinct (map pvName (concat (map registered (main_calls K db fl))))"
  by (simp add: main_calls_def prom_vec_defs)

lemma distinct_up_to:
  assumes "distinct (map f (concat (map g cs)))" and "n < length cs"
  shows "distinct (map f (concat (map g (take n cs)) @ g (cs ! n)))"
proof -
  from assms(2) have "cs = take n cs @ cs ! n # drop (Suc n) cs" by (rule id_take_nth_drop)
  with assms(1) have "distinct (map f (concat (map g (take n cs @ cs ! n # drop (Suc n) cs))))" by simp
  then show ?thesis by simp blast
qed

lemma follows_no_panic:
  assumes "follows answer m cs" and "distinct (map pvName (concat (map registered cs)))"
    and "\<And>calls c msg. answer calls c = Panic msg \<Longrightarrow>
      \<not> distinct (map pvName (concat (map registered calls) @ registered c))"
    and "run_state m [] = (res, t)"
  shows "res \<noteq> Panic msg"
proof
  assume "res = Panic msg"
  with followsD [OF assms(1,4)] obtain n where n: "n < length cs"
    and panics: "answer (take n cs) (cs ! n) = Panic msg" by blast
  from assms(3) [OF panics] distinct_up_to [OF assms(2) n] show False ..
qed

text \<open>
  C31: \<open>main\<close> does not panic over its metrics: the names it registers are different, so with a
  registry that panics only for a name it has already, no call of \<open>main\<close> panics.
\<close>

theorem main_registers_metrics_once:
  assumes "\<And>calls c msg. answer calls c = Panic msg \<Longrightarrow>
      \<not> distinct (map pvName (concat (map registered calls) @ registered c))"
    and "run_state (controller_main answer K db fl) [] = (res, calls)"
  shows "res \<noteq> Panic msg"
  by (rule follows_no_panic [OF main_follows main_metrics_distinct assms])

text \<open>A registry that panics for every name it has already.\<close>

definition strict_registry :: "('w, 'd, 'e) answers" where
  "strict_registry calls c =
     (if distinct (map pvName (concat (map registered calls) @ registered c)) then Ok ()
      else Panic ''duplicate metrics collector registration attempted'')"

theorem main_registers_metrics_once_witness:
  "fst (run_state (controller_main (strict_registry :: (mem_cluster, unit, unit) answers) mem_client
     RelationalDatabaseMock default_flags) []) \<noteq> Panic ''duplicate metrics collector registration attempted''"
  by (rule main_registers_metrics_once [where answer = strict_registry])
    (auto simp: strict_registry_def split: if_splits intro: prod.collapse [symmetric])

subsection \<open>The MongoDB reconciler as main builds it\<close>

text \<open>
  C29: \<open>main\<close> builds the MongoDBProvider reconciler without a client, so it never succeeds on
  a provider that is not being deleted and not up to date: it returns an error or panics. Such a
  provider never gets ready.
\<close>

theorem main_mongo_never_ready:
  assumes "run_state (Get_MongoDBProvider K req) (cluster s) = (Ok p, w)"
    and "\<not> being_deleted (mdpMeta p)" and "\<not> mdp_up_to_date L p"
    and "run_state (Reconcile_mdp L (main_mdp K) req) s = (res, t)"
  shows "res \<noteq> Ok ()"
proof -
  have client: "MongoDBClient (main_mdp K) = None" "mdprClient (main_mdp K) = K"
    by (simp_all add: main_mdp_def)
  let ?s = "s\<lparr>cluster := w, obj := p\<rparr>"
  have run: "run_state (reconcile_active_mdp L (main_mdp K) req) ?s = (res, t)"
    using assms by (simp add: Reconcile_mdp_def and_then_def run_go_try client)
  have failed: "post (handleError_mdp L (main_mdp K) promErr err) u (\<lambda>res t. res \<noteq> Ok ())" for promErr err u
    by (simp add: handleError_mdp_def Let_def post_rules)
      (rule post_mono [OF update_obj_post], simp add: post_rules split: outcome.split)
  have "post (reconcile_active_mdp L (main_mdp K) req) ?s (\<lambda>res t. res \<noteq> Ok ())"
    using assms(3)
    by (simp add: reconcile_active_mdp_def post_rules check_mdp_no_client [OF client(1)])
      (intro impI, rule post_mono [OF update_obj_post],
        simp add: failed check_mdp_no_client [OF client(1)] split: outcome.split)
  from postD [OF this run] show ?thesis .
qed

theorem main_mongo_never_ready_witness:
  "fst (run_state (Reconcile_mdp mem_library (main_mdp mem_client) demo_mdp_key) demo_mdp_state) \<noteq> Ok ()"
proof -
  have get: "run_state (Get_MongoDBProvider mem_client demo_mdp_key) (cluster demo_mdp_state) =
      (Ok demo_mdp, cluster demo_mdp_state)"
    using demo_mdp_get(1) by (simp add: demo_mdpr_def)
  show ?thesis
    by (rule main_mongo_never_ready [OF get demo_mdp_get(2,3)]) (rule prod.collapse [symmetric])
qed

end
