(* ===== verification/RelDBProps.thy ===== *)
theory RelDBProps
  imports MemSQL
begin

section \<open>Properties of the SQL client\<close>

text \<open>
  The properties of \<open>internal/database/database.go\<close>, over every server that satisfies the laws
  of \<open>sql_server\<close>, or over every server at all. The witnesses run the client on the server in
  memory of \<open>MemSQL\<close>.
\<close>

subsection \<open>Credentials\<close>

text \<open>
  C5: once \<open>CreateDatabase\<close> has returned credentials for a name and a namespace, every later
  \<open>GetDatabaseInfo\<close> or \<open>CreateDatabase\<close> on that data source that returns, returns the same
  ones, whatever calls of the interface (drops, seeds, failed calls) ran in between.
\<close>

theorem credentials_are_permanent:
  assumes "sql_server sql dsn_of users" and "store_inv dsn_of users ri"
    and "safe_name namespace" and "safe_name user"
    and "run_state (CreateDatabase sql dsn name namespace dbType user) ri = (Ok info, ri1)"
    and "client_steps (RelationalDatabaseImpl_interface sql) safe_name safe_info ri1 ri2"
  shows "(\<forall>dbType' info' ri3. run_state (GetDatabaseInfo sql dsn name namespace dbType') ri2 = (Ok info', ri3) \<longrightarrow>
      info' = info) \<and>
    (\<forall>dbType' user' info' ri3. safe_name user' \<longrightarrow>
      run_state (CreateDatabase sql dsn name namespace dbType' user') ri2 = (Ok info', ri3) \<longrightarrow> info' = info)"
proof -
  note store = sql_server.is_credential_store [OF assms(1)]
  show ?thesis
    using credential_store.created_then_get [OF store assms(2-4) _ assms(6)]
      credential_store.created_then_created [OF store assms(2-4) _ _ assms(6)] assms(5)
    by (simp add: RelationalDatabaseImpl_interface_def)
qed

lemma demo_create_drop:
  "\<exists>info ri1 ri2 ri3.
     run_state (CreateDatabase mem_sql ''dsn'' ''db'' ''ns'' mysql ''root'') mem_start = (Ok info, ri1) \<and>
     run_state (DropDatabase mem_sql ''dsn'' ''db'' ''ns'' mysql) ri1 = (Ok (), ri2) \<and>
     run_state (GetDatabaseInfo mem_sql ''dsn'' ''db'' ''ns'' mysql) ri2 = (Ok info, ri3)"
proof -
  let ?rows = "\<lambda>info. [((''db'', ''ns''), info)]"
  obtain info ri1 where create:
      "run_state (CreateDatabase mem_sql ''dsn'' ''db'' ''ns'' mysql ''root'') mem_start = (Ok info, ri1)"
    and "mem_ready ''dsn'' (?rows info) ri1"
    using mem_CreateDatabase_first [OF mem_ready_start] by (blast elim: succeedsE)
  then have ready: "mem_ready ''dsn'' (?rows info) ri1" and row: "map_of (?rows info) (''db'', ''ns'') = Some info"
    by simp_all
  obtain ri2 where drop: "run_state (DropDatabase mem_sql ''dsn'' ''db'' ''ns'' mysql) ri1 = (Ok (), ri2)"
    and "mem_ready ''dsn'' (?rows info) ri2"
    using succeedsE [OF mem_DropDatabase [OF ready row]] by (metis old.unit.exhaust)
  from succeedsE [OF mem_GetDatabaseInfo [OF this(2) row]] create drop show ?thesis by metis
qed

lemma demo_names_safe: "safe_name ''ns''" "safe_name ''root''"
  by (simp_all add: safe_name_def safe_char_def alnum_def rand_chars_def)

lemma demo_drop_step:
  "run_state (DropDatabase mem_sql dsn ''db'' ''ns'' mysql) ri1 = (r, ri2) \<Longrightarrow>
   client_steps (RelationalDatabaseImpl_interface mem_sql) safe_name safe_info ri1 ri2"
  using client_step.drop [of "RelationalDatabaseImpl_interface mem_sql" dsn "''db''" "''ns''" mysql ri1 r ri2]
    demo_names_safe by (simp add: RelationalDatabaseImpl_interface_def r_into_rtranclp del: safe_name_Cons)

theorem credentials_are_permanent_witness:
  "\<exists>info ri1 ri2 ri3 info'.
     run_state (CreateDatabase mem_sql ''dsn'' ''db'' ''ns'' mysql ''root'') mem_start = (Ok info, ri1) \<and>
     run_state (DropDatabase mem_sql ''dsn'' ''db'' ''ns'' mysql) ri1 = (Ok (), ri2) \<and>
     run_state (GetDatabaseInfo mem_sql ''dsn'' ''db'' ''ns'' mysql) ri2 = (Ok info', ri3) \<and> info' = info"
proof -
  obtain info ri1 ri2 ri3 where run:
    "run_state (CreateDatabase mem_sql ''dsn'' ''db'' ''ns'' mysql ''root'') mem_start = (Ok info, ri1)"
    "run_state (DropDatabase mem_sql ''dsn'' ''db'' ''ns'' mysql) ri1 = (Ok (), ri2)"
    "run_state (GetDatabaseInfo mem_sql ''dsn'' ''db'' ''ns'' mysql) ri2 = (Ok info, ri3)"
    using demo_create_drop by blast
  with credentials_are_permanent [OF mem.sql_server_axioms store_inv_start demo_names_safe run(1) demo_drop_step [OF run(2)]]
  show ?thesis by blast
qed

text \<open>
  C9: \<open>CreateDatabase\<close> refines get or create: it keeps the invariant of the client, and when
  it returns with no error it returns the recorded credentials and leaves the table alone, or,
  when there were none, records and returns fresh ones of the documented lengths.
\<close>

theorem CreateDatabase_gets_or_creates:
  assumes "sql_server sql dsn_of users" and "store_inv dsn_of users ri"
    and "safe_name namespace" and "safe_name user"
  shows "post (CreateDatabase sql dsn name namespace dbType user) ri
    (\<lambda>r ri'. store_inv dsn_of users ri' \<and>
       get_or_create users dsn name namespace (riServer ri) r (riServer ri'))"
  by (rule post_mono [OF sql_server.CreateDatabase_post [OF assms]]) (use assms(2) in \<open>simp add: grows_def\<close>)

theorem CreateDatabase_gets_or_creates_witness:
  "\<exists>info ri1.
     run_state (CreateDatabase mem_sql ''dsn'' ''db'' ''ns'' mysql ''root'') mem_start = (Ok info, ri1) \<and>
     store_inv (\<lambda>d. d) mem_users ri1 \<and> generated_info ''ns'' info \<and>
     mem_users ''dsn'' (riServer ri1) = [(''db'', ''ns'') \<mapsto> info]"
proof -
  obtain info ri1 where run:
    "run_state (CreateDatabase mem_sql ''dsn'' ''db'' ''ns'' mysql ''root'') mem_start = (Ok info, ri1)"
    using demo_create_drop by blast
  moreover note CreateDatabase_gets_or_creates [OF mem.sql_server_axioms store_inv_start demo_names_safe,
      THEN postD, OF run]
  ultimately show ?thesis by (simp add: get_or_create_def)
qed

text \<open>
  C18: asking for credentials of an unknown name and namespace is not an error either:
  \<open>GetDatabaseInfo\<close> meets the same specification for MySQL and for PostgreSQL, so it records
  fresh credentials.
\<close>

theorem GetDatabaseInfo_gets_or_creates:
  assumes "sql_server sql dsn_of users" and "store_inv dsn_of users ri" and "safe_name namespace"
  shows "post (GetDatabaseInfo sql dsn name namespace dbType) ri
    (\<lambda>r ri'. store_inv dsn_of users ri' \<and>
       get_or_create users dsn name namespace (riServer ri) r (riServer ri'))"
  by (rule post_mono [OF sql_server.GetDatabaseInfo_post [OF assms]]) (use assms(2) in \<open>simp add: grows_def\<close>)

theorem GetDatabaseInfo_gets_or_creates_witness:
  "post (GetDatabaseInfo mem_sql ''dsn'' ''db'' ''ns'' mysql) mem_start
     (\<lambda>r ri'. store_inv (\<lambda>d. d) mem_users ri' \<and>
        get_or_create mem_users ''dsn'' ''db'' ''ns'' (riServer mem_start) r (riServer ri')) \<and>
   (\<exists>info ri1. run_state (GetDatabaseInfo mem_sql ''dsn'' ''db'' ''ns'' mysql) mem_start = (Ok info, ri1))"
proof
  show "\<exists>info ri1. run_state (GetDatabaseInfo mem_sql ''dsn'' ''db'' ''ns'' mysql) mem_start = (Ok info, ri1)"
    by (rule succeedsE [OF mem_databaseInfo_fresh [OF mem_ready_start]]) (auto simp: GetDatabaseInfo_def)
qed (rule GetDatabaseInfo_gets_or_creates [OF mem.sql_server_axioms store_inv_start demo_names_safe(1)])


lemma demo_info_safe: "safe_info \<lparr>Username = ''u'', Password = ''p'', Dbname = ''d''\<rparr>"
  by (simp add: safe_info_def safe_name_def safe_char_def alnum_def rand_chars_def)




subsection \<open>The shape of generated credentials\<close>

text \<open>
  C34: for every namespace, the generated username has 16 letters and digits, the password 24,
  and the database name is the namespace cut at 50, an underscore, and letters and digits up to
  the 63 bytes a PostgreSQL identifier may have; the generation never panics.
\<close>

theorem createUserInfo_shape:
  "post (createUserInfo source namespace) s
     (\<lambda>r t. \<exists>info. r = Ok info \<and>
        length (Username info) = 16 \<and> list_all alnum (Username info) \<and>
        length (Password info) = 24 \<and> list_all alnum (Password info) \<and>
        length (Dbname info) = 63 \<and>
        (\<exists>suffix. Dbname info = take 50 namespace @ ''_'' @ suffix \<and> list_all alnum suffix))"
  by (rule post_mono [OF createUserInfo_spec]) (auto simp: generated_info_def db_prefix_def)

subsection \<open>Connections\<close>

text \<open>
  C40: a handle, once opened for a data source, is the one every later call uses, without
  opening the database again, whatever methods ran in between.
\<close>

theorem GetConnection_reused:
  assumes "run_state (GetConnection sql dsn dbType) ri = (Ok db, ri1)"
    and "client_steps (RelationalDatabaseImpl_interface sql) ok_name ok_info ri1 ri2"
  shows "run_state (GetConnection sql dsn dbType') ri2 = (Ok db, ri2)"
  by (rule GetConnection_cached)
    (rule cache_grows_cached [OF client_steps_cache [OF assms(2)] GetConnection_Ok_cached [OF assms(1)]])

theorem GetConnection_reused_witness:
  "\<exists>ri1. run_state (GetConnection mem_sql ''dsn'' mysql) mem_start = (Ok ''dsn'', ri1) \<and>
     run_state (GetConnection mem_sql ''dsn'' postgres) ri1 = (Ok ''dsn'', ri1)"
proof -
  obtain ri1 where "run_state (GetConnection mem_sql ''dsn'' mysql) mem_start = (Ok ''dsn'', ri1)"
    using mem_connect [OF mem_ready_start] by (blast elim: succeedsE)
  with GetConnection_reused [OF this rtranclp.rtrancl_refl] show ?thesis by blast
qed

subsection \<open>The load\<close>

text \<open>
  The load of a MySQL server is the size that the first row of
  \<open>information_schema.tables\<close> gives, in megabytes cut to an integer; no other row counts.
\<close>

theorem Load_MySQL_first_row:
  assumes "run_state (GetConnection sql dsn mysql) ri = (Ok db, ri1)"
    and "run_state (sql_Query_float sql db mysql_select_load []) (riServer ri1) = (Ok ([Inr x] # rows), w)"
  shows "run_state (Load sql dsn mysql) ri = (Ok (load_MB x), ri1\<lparr>riServer := w\<rparr>)"
  using assms
  by (simp add: Load_def Let_def run_go_try query_row_def on_server_def scan_first_row_def Scan_def)

theorem Load_MySQL_first_row_witness:
  "fst (run_state (Load mem_sql ''dsn'' mysql)
      (New (mem_world_empty\<lparr>memServers := (\<lambda>d. mem_db_empty\<lparr>memSizes := [3145729, 1048576000]\<rparr>)\<rparr>))) = Ok 3"
proof -
  define ri :: "(string, mem_world) RelationalDatabaseImpl"
    where "ri = New (mem_world_empty\<lparr>memServers := (\<lambda>d. mem_db_empty\<lparr>memSizes := [3145729, 1048576000]\<rparr>)\<rparr>)"
  have "run_state (GetConnection mem_sql ''dsn'' mysql) ri = (Ok ''dsn'', ri\<lparr>connectionCache := [''dsn'' \<mapsto> ''dsn'']\<rparr>)"
    by (simp add: ri_def GetConnection_def New_def mem_sql_def on_server_def run_go_try)
  moreover have "run_state (sql_Query_float mem_sql ''dsn'' mysql_select_load [])
      (riServer (ri\<lparr>connectionCache := [''dsn'' \<mapsto> ''dsn'']\<rparr>)) = (Ok ([Inr 3145729] # [[Inr 1048576000]]), riServer ri)"
    by (simp add: ri_def New_def mem_sql_def mem_sizes_def mem_db_empty_def)
  moreover have "load_MB 3145729 = 3"
  proof -
    have "\<lfloor>3145729 / 1048576 :: rat\<rfloor> = 3" by (simp add: floor_eq_iff)
    then show ?thesis by (simp add: load_MB_def truncate_rat_def)
  qed
  ultimately show ?thesis
    using Load_MySQL_first_row [of mem_sql "''dsn''" ri "''dsn''"] by (simp add: ri_def)
qed

end
