(* ===== verification/SystemProps.thy ===== *)
theory SystemProps
  imports SystemSteps WiringProps RelDBProps
begin

section \<open>Properties of the controllers together\<close>

text \<open>
  The witnesses run the controllers on the cluster in memory behind an admission check, which
  answers a read of an object that is not valid with an error, and on the SQL client on the
  server in memory.
\<close>

definition admitting :: "('a \<Rightarrow> bool) \<Rightarrow> ('w, 'a) go \<Rightarrow> ('w, 'a) go" where
  "admitting P m = go_try m fail (\<lambda>x. if P x then ok x else fail (errors_New ''invalid object''))"

lemma yields_admitting: "yields P (admitting P m)"
  unfolding admitting_def by (intro yields_rules) simp

definition admitting_client ::
    "(string \<Rightarrow> bool) \<Rightarrow> (RelationalDatabaseInfo \<Rightarrow> bool) \<Rightarrow> mem_cluster client" where
  "admitting_client ok_name ok_info = mem_client
     \<lparr>Get_DatabaseRequest := \<lambda>k. admitting (\<lambda>d. ok_name (metaNamespace (drMeta d))) (Get_DatabaseRequest mem_client k),
      Get_RelationalDatabaseProvider := \<lambda>k. admitting (ok_provider ok_name) (Get_RelationalDatabaseProvider mem_client k),
      List_RelationalDatabaseProvider :=
        admitting (list_all (ok_provider ok_name)) (List_RelationalDatabaseProvider mem_client),
      Get_Secret := \<lambda>k. admitting
        (\<lambda>sec. \<forall>i. dbInfoFromSeed (secretData sec) = Inr i \<longrightarrow> ok_info (seed_credentials i)) (Get_Secret mem_client k)\<rparr>"

lemma mem_update_ns:
  "yields (\<lambda>(d', e). metaNamespace (drMeta d') = metaNamespace (drMeta d)) (mem_update_request d)"
  "yields (\<lambda>(d', e). metaNamespace (drMeta d') = metaNamespace (drMeta d)) (mem_status_update_request d)"
  by (auto simp: yields_def post_def mem_update_request_def mem_status_update_request_def meta_key_def
      Let_def named_as_def split: option.splits prod.splits if_splits)

interpretation mem_controllers: controllers "RelationalDatabaseImpl_interface mem_sql"
  "impl_creds mem_users" "store_inv (\<lambda>d. d) mem_users" safe_name safe_info "admitting_client safe_name safe_info"
  by (intro controllers.intro controllers_axioms.intro mem.is_credential_store)
    (simp_all add: admitting_client_def mem_client_def yields_admitting mem_update_ns)

subsection \<open>Credentials across the whole program\<close>



subsection \<open>Metrics\<close>

text \<open>
  C33: no reconciliation of any of the controllers writes a metric with labels that do not fit
  its declaration, which would panic: whatever the calls return, the metrics and events a
  reconciliation has added all fit.
\<close>

theorem metrics_always_fit:
  "preserves fits (Reconcile L r1 req) \<and> preserves fits (Reconcile_rdp L r2 req) \<and>
   preserves fits (Reconcile_mdp L r3 req)"
  by (intro conjI fits_Reconcile fits_Reconcile_rdp fits_Reconcile_mdp)

end
