(* ===== verification/Interleaving.thy ===== *)
theory Interleaving
  imports SystemProps
begin

section \<open>Workers that interleave\<close>

text \<open>
  The workers of the request controller run in parallel and share the database client, and so does
  the provider controller. \<open>interleaved env db\<close> is the client as one reconciliation sees it then: before each of
  its calls the others have changed the databases, by \<open>env n\<close> before the \<open>n\<close>th call. What they did is any
  change that keeps the invariant and the recorded credentials, as every sequence of calls of the client does
  (\<open>steps_law\<close>). The client so seen meets the same contract, so everything that was shown
  over the contract holds for reconciliations that interleave call by call.
\<close>

definition amid :: "(nat \<Rightarrow> 'd \<Rightarrow> 'd) \<Rightarrow> ('d, 'a) go \<Rightarrow> ('d \<times> nat, 'a) go" where
  "amid env m = State (\<lambda>(d, n). case run_state m (env n d) of (r, d') \<Rightarrow> (r, (d', Suc n)))"

definition interleaved ::
    "(nat \<Rightarrow> 'd \<Rightarrow> 'd) \<Rightarrow> 'd RelationalDatabaseInterface \<Rightarrow> ('d \<times> nat) RelationalDatabaseInterface" where
  "interleaved env db =
     \<lparr>rdiPing = (\<lambda>dsn k. amid env (rdiPing db dsn k)),
      rdiVersion = (\<lambda>dsn k. amid env (rdiVersion db dsn k)),
      rdiLoad = (\<lambda>dsn k. amid env (rdiLoad db dsn k)),
      rdiInitialize = (\<lambda>dsn k. amid env (rdiInitialize db dsn k)),
      rdiCreateDatabase = (\<lambda>dsn n ns k u. amid env (rdiCreateDatabase db dsn n ns k u)),
      rdiDropDatabase = (\<lambda>dsn n ns k. amid env (rdiDropDatabase db dsn n ns k)),
      rdiGetDatabaseInfo = (\<lambda>dsn n ns k. amid env (rdiGetDatabaseInfo db dsn n ns k)),
      rdiSetDatabaseInfo = (\<lambda>dsn n ns k i. amid env (rdiSetDatabaseInfo db dsn n ns k i))\<rparr>"

lemma run_amid:
  "run_state (amid env m) s = (r, t) \<longleftrightarrow>
     run_state m (env (snd s) (fst s)) = (r, fst t) \<and> snd t = Suc (snd s)"
  by (cases s; cases t) (auto simp: amid_def split: prod.splits)

lemma interleaved_step:
  assumes "client_step (interleaved env db) ok_name ok_info s t"
  shows "client_step db ok_name ok_info (env (snd s) (fst s)) (fst t)"
  using assms
  by cases (auto simp: interleaved_def run_amid intro: client_step.intros)

text \<open>What the others do keeps the invariant and the credentials that are recorded.\<close>

definition well_behaved where
  "well_behaved creds sinv env \<longleftrightarrow> (\<forall>n d. sinv d \<longrightarrow> sinv (env n d) \<and> creds_kept creds d (env n d))"

context credential_store
begin

lemma calls_well_behaved: "(\<And>n d. client_steps db ok_name ok_info d (env n d)) \<Longrightarrow> well_behaved creds sinv env"
  using steps_law by (auto simp: well_behaved_def)

lemma interleaved_store:
  assumes "well_behaved creds sinv env"
  shows "credential_store (interleaved env db) (\<lambda>dsn s. creds dsn (fst s)) (\<lambda>s. sinv (fst s)) ok_name ok_info"
proof (unfold_locales, goal_cases)
  case (1 s t)
  from assms 1(2) have env: "sinv (env (snd s) (fst s))" "creds_kept creds (fst s) (env (snd s) (fst s))"
    by (simp_all add: well_behaved_def)
  from step_law [OF interleaved_step [OF 1(1)] env(1)] env(2) show ?case
    by (auto simp: creds_kept_def)
next
  case (2 s dsn name namespace dbType user info t)
  then have run: "run_state (rdiCreateDatabase db dsn name namespace dbType user) (env (snd s) (fst s)) = (Ok info, fst t)"
    by (simp add: interleaved_def run_amid)
  show ?case by (rule create_law [OF _ 2(2,3) run]) (use assms 2(1) in \<open>simp add: well_behaved_def\<close>)
next
  case (3 s dsn name namespace dbType info t)
  then have run: "run_state (rdiGetDatabaseInfo db dsn name namespace dbType) (env (snd s) (fst s)) = (Ok info, fst t)"
    by (simp add: interleaved_def run_amid)
  show ?case by (rule get_law [OF _ 3(2) run]) (use assms 3(1) in \<open>simp add: well_behaved_def\<close>)
qed

end

lemma interleaved_controllers:
  assumes "controllers db creds sinv ok_name ok_info K" and "well_behaved creds sinv env"
  shows "controllers (interleaved env db) (\<lambda>dsn s. creds dsn (fst s)) (\<lambda>s. sinv (fst s)) ok_name ok_info K"
  using assms(1) credential_store.interleaved_store [OF controllers.axioms(1) [OF assms(1)] assms(2)]
  by (simp add: controllers_def)

lemma interleaved_provisioning:
  assumes "provisioning K view db creds sinv ok_name ok_info L" and "well_behaved creds sinv env"
  shows "provisioning K view (interleaved env db) (\<lambda>dsn s. creds dsn (fst s)) (\<lambda>s. sinv (fst s)) ok_name ok_info L"
  using assms(1) credential_store.interleaved_store [OF provisioning.axioms(2) [OF assms(1)] assms(2)]
  by (simp add: provisioning_def)

text \<open>The credentials are permanent in the whole program also when its reconciliations interleave.\<close>

lemma interleaved_program_keeps_credentials:
  assumes "controllers db creds sinv ok_name ok_info K" and "well_behaved creds sinv env" and "sinv (fst d)"
    and "system_steps L K (interleaved env db) (w, d) (w', d')" and "creds dsn (fst d) key = Some info"
  shows "creds dsn (fst d') key = Some info"
  using controllers.system_keeps [OF interleaved_controllers [OF assms(1,2)] assms(4,3)] assms(5)
  by (auto dest: creds_keptD)

text \<open>
  C3: a reconciliation provides access also among other workers: when before each of its calls to the database
  client other workers have done anything that keeps the recorded credentials, a
  reconciliation of a MySQL or PostgreSQL request without a seed that returns no error still
  leaves the recorded credentials in the secret and the service on their host, or found the
  request up to date.
\<close>

theorem Reconcile_among_workers:
  assumes "provisioning K view db creds sinv ok_name ok_info L" and "well_behaved creds sinv env"
    and "run_state (Get_DatabaseRequest K req) (cluster s) = (Ok d, w)"
    and "\<not> deleting d" and "specSeed (drSpec d) = None" and "relational d"
    and "sinv (fst (dbs s))" and "ok_name (metaNamespace (drMeta d))"
    and "\<forall>p \<in> set (viewProviders (view (cluster s))). \<forall>c \<in> set (rdpConnections (rdpSpec p)). ok_name (connUsername c)"
    and "run_state (Reconcile L \<lparr>Client = K, RelationalDatabaseClient = interleaved env db\<rparr> req) s = (Ok (), t)"
  shows "provisioned view creds d (cluster t) (fst (dbs t)) \<or> up_to_date L (obj t)"
  using provisioning.Reconcile_post [OF interleaved_provisioning [OF assms(1,2)] assms(3)] assms(4-10)
  by (auto simp: provisioning.rec_def [OF interleaved_provisioning [OF assms(1,2)]] provisioned_def)

text \<open>The databases are a counter that the other workers count up before every call.\<close>

definition demo_busy :: "nat \<Rightarrow> nat \<Rightarrow> nat" where
  "demo_busy n d = d + 1"

lemma run_amid_ok [simp]: "run_state (amid env (ok x)) (d, n) = (Ok x, (env n d, Suc n))"
  by (simp add: amid_def)

lemma demo_busy_run:
  "\<exists>t. run_state (Reconcile mem_library \<lparr>Client = mem_client, RelationalDatabaseClient = interleaved demo_busy RelationalDatabaseMock\<rparr>
      demo_key) \<lparr>cluster = demo_cluster demo_request, dbs = (0, 0), obj = DatabaseRequest_zero, effects = []\<rparr> = (Ok (), t) \<and>
    dbs t = (3, 3) \<and> \<not> up_to_date mem_library (obj t)"
  by (simp add: demo_defs call_defs reconcile_defs Let_def mysqlType_def postgresType_def demo_load interleaved_def
      demo_busy_def)

theorem Reconcile_among_workers_witness:
  "\<exists>t. run_state (Reconcile mem_library \<lparr>Client = mem_client, RelationalDatabaseClient = interleaved demo_busy RelationalDatabaseMock\<rparr>
      demo_key) \<lparr>cluster = demo_cluster demo_request, dbs = (0, 0), obj = DatabaseRequest_zero, effects = []\<rparr> = (Ok (), t) \<and>
    provisioned mem_view (\<lambda>dsn s key. Some mock_info) demo_request (cluster t) (3 :: nat)"
proof -
  let ?s = "\<lparr>cluster = demo_cluster demo_request, dbs = (0, 0), obj = DatabaseRequest_zero, effects = []\<rparr>"
  obtain t where run: "run_state (Reconcile mem_library \<lparr>Client = mem_client,
      RelationalDatabaseClient = interleaved demo_busy RelationalDatabaseMock\<rparr> demo_key) ?s = (Ok (), t)"
    and t: "dbs t = (3, 3)" "\<not> up_to_date mem_library (obj t)"
    using demo_busy_run by blast
  have prov: "provisioning mem_client mem_view (RelationalDatabaseMock :: nat RelationalDatabaseInterface)
      (\<lambda>dsn s key. Some mock_info) (\<lambda>s. True) (\<lambda>n. True) (\<lambda>info. True) mem_library"
    by (intro provisioning.intro provisioning_axioms.intro memc.fresh_cluster_axioms mock.credential_store_axioms mem_diff_law)
  have get: "run_state (Get_DatabaseRequest mem_client demo_key) (cluster ?s) = (Ok demo_request, demo_cluster demo_request)"
    by (simp add: run_mem_lookup demo_cluster_def)
  have env: "well_behaved (\<lambda>dsn s key. Some mock_info) (\<lambda>s. True) demo_busy"
    by (simp add: well_behaved_def creds_kept_def)
  have "provisioned mem_view (\<lambda>dsn s key. Some mock_info) demo_request (cluster t) (fst (dbs t)) \<or>
      up_to_date mem_library (obj t)"
    by (rule Reconcile_among_workers [OF prov env get _ _ _ _ _ _ run])
      (simp_all add: demo_request_def deleting_def relational_def DatabaseRequest_zero_def ObjectMeta_of_def
        ObjectMeta_zero_def mysqlType_def)
  with run t show ?thesis by auto
qed

end
