(* ===== verification/GoHeap.thy ===== *)
theory GoHeap
  imports ApiTypes
begin

section \<open>Memory with pointers and slices\<close>

text \<open>
  The memory in which the generated copy functions work. An address leads to a block, an array
  of values of one type; a pointer is nil or the address of a block of one value, a slice is nil
  or an address with a length. A block holds the structs of \<open>api/v1alpha1\<close> as they are laid out
  in memory, with pointers and slices in them.

  \<open>load\<close>, \<open>alloc\<close>, \<open>read_at\<close> and \<open>write_at\<close> are the accesses; an access that Go refuses panics.
  \<open>copy_pointer\<close>, \<open>copy_slice\<close> and \<open>copy_each\<close> are the three patterns of the generated code.
\<close>

type_synonym addr = nat
type_synonym pointer = "addr option"
type_synonym slice = "(addr \<times> nat) option"

subsection \<open>The structs in memory\<close>

record TypeMeta =
  tmKind :: string
  tmAPIVersion :: string

record ListMeta =
  lmSelfLink :: string
  lmResourceVersion :: string
  lmContinue :: string
  lmRemainingItemCount :: "int option"

record Connection_m =
  cmName :: string
  cmHostname :: string
  cmReplicaHostnames :: slice
  cmPasswordSecretRef :: SecretReference
  cmPort :: int
  cmUsername :: string
  cmEnabled :: bool

record MongoDBConnection_m =
  mmName :: string
  mmHostname :: string
  mmReplicaHostnames :: slice
  mmPasswordSecretRef :: SecretReference
  mmPort :: int
  mmUsername :: string
  mmAuth :: MongoDBAuth
  mmEnabled :: bool

record DatabaseRequestSpec_m =
  smName :: string
  smSelector :: string
  smType :: string
  smSeed :: pointer
  smAdditionalUsers :: slice
  smDatabaseConnectionReference :: pointer
  smDropDatabaseOnDelete :: bool
  smForcedReconcilation :: pointer

record DatabaseRequestStatus_m =
  tmConditions :: slice
  tmObservedGeneration :: int
  tmObservedDatabaseConnectionReference :: pointer
  tmDatabaseInfo :: pointer

text \<open>The specification and the status of a provider; both kinds of providers have the same status.\<close>

record RelationalDatabaseProviderSpec_m =
  rsType :: string
  rsSelector :: string
  rsConnections :: slice

record MongoDBProviderSpec_m =
  msSelector :: string
  msConnections :: slice

record ProviderStatus_m =
  psConditions :: slice
  psConnectionStatus :: slice
  psObservedGeneration :: int

text \<open>An object, and a list of objects, of any of the three kinds.\<close>

record ('sp, 'st) object_m =
  omTypeMeta :: TypeMeta
  omObjectMeta :: ObjectMeta
  omSpec :: 'sp
  omStatus :: 'st

record list_m =
  liTypeMeta :: TypeMeta
  liListMeta :: ListMeta
  liItems :: slice

type_synonym DatabaseRequest_m = "(DatabaseRequestSpec_m, DatabaseRequestStatus_m) object_m"
type_synonym RelationalDatabaseProvider_m = "(RelationalDatabaseProviderSpec_m, ProviderStatus_m) object_m"
type_synonym MongoDBProvider_m = "(MongoDBProviderSpec_m, ProviderStatus_m) object_m"

subsection \<open>Blocks and cells\<close>

datatype block =
    is_Strings: Strings (strings: "string list")
  | is_SecretReferences: SecretReferences (secretReferences: "SecretReference list")
  | is_Times: Times (times: "Time list")
  | is_Conditions: Conditions (conditions: "Condition list")
  | is_AdditionalUsers: AdditionalUsers (additionalUsers: "AdditionalUser list")
  | is_ConnectionStatuses: ConnectionStatuses (connectionStatuses: "ConnectionStatus list")
  | is_ConnectionReferences: ConnectionReferences (connectionReferences: "DatabaseConnectionReference list")
  | is_DatabaseInfos: DatabaseInfos (databaseInfos: "DatabaseInfo list")
  | is_MongoDBAuths: MongoDBAuths (mongoDBAuths: "MongoDBAuth list")
  | is_Connections: Connections (connections: "Connection_m list")
  | is_MongoDBConnections: MongoDBConnections (mongoDBConnections: "MongoDBConnection_m list")
  | is_RequestSpecs: RequestSpecs (requestSpecs: "DatabaseRequestSpec_m list")
  | is_RequestStatuses: RequestStatuses (requestStatuses: "DatabaseRequestStatus_m list")
  | is_Requests: Requests (requests: "DatabaseRequest_m list")
  | is_RProviderSpecs: RProviderSpecs (rproviderSpecs: "RelationalDatabaseProviderSpec_m list")
  | is_MProviderSpecs: MProviderSpecs (mproviderSpecs: "MongoDBProviderSpec_m list")
  | is_ProviderStatuses: ProviderStatuses (providerStatuses: "ProviderStatus_m list")
  | is_RProviders: RProviders (rproviders: "RelationalDatabaseProvider_m list")
  | is_MProviders: MProviders (mproviders: "MongoDBProvider_m list")
  | is_ObjectLists: ObjectLists (objectLists: "list_m list")

record heap =
  blocks :: "addr \<Rightarrow> block option"
  heap_top :: addr

text \<open>A cell says how arrays of one type are kept in blocks, and what the zero value is.\<close>

record 'a cell =
  mk :: "'a list \<Rightarrow> block"
  is_cell :: "block \<Rightarrow> bool"
  elems :: "block \<Rightarrow> 'a list"
  zero_of :: 'a

definition load :: "'a cell \<Rightarrow> heap \<Rightarrow> addr \<Rightarrow> 'a list option" where
  "load c h a = (case blocks h a of None \<Rightarrow> None | Some b \<Rightarrow> if is_cell c b then Some (elems c b) else None)"

definition alloc :: "'a cell \<Rightarrow> 'a list \<Rightarrow> (heap, addr) go" where
  "alloc c xs =
     State (\<lambda>h. (Ok (heap_top h), \<lparr>blocks = (blocks h)(heap_top h \<mapsto> mk c xs), heap_top = heap_top h + 1\<rparr>))"

definition invalid_address :: string where
  "invalid_address = ''invalid memory address or nil pointer dereference''"

definition load_block :: "'a cell \<Rightarrow> addr \<Rightarrow> (heap, 'a list) go" where
  "load_block c a = State (\<lambda>h. case load c h a of None \<Rightarrow> (Panic invalid_address, h) | Some xs \<Rightarrow> (Ok xs, h))"

definition store_block :: "'a cell \<Rightarrow> addr \<Rightarrow> 'a list \<Rightarrow> (heap, unit) go" where
  "store_block c a xs = State (\<lambda>h. (Ok (), h\<lparr>blocks := (blocks h)(a \<mapsto> mk c xs)\<rparr>))"

definition read_at :: "'a cell \<Rightarrow> addr \<Rightarrow> nat \<Rightarrow> (heap, 'a) go" where
  "read_at c a i =
     go_try (load_block c a) fail (\<lambda>xs. if i < length xs then ok (xs ! i) else panic ''index out of range'')"

definition write_at :: "'a cell \<Rightarrow> addr \<Rightarrow> nat \<Rightarrow> 'a \<Rightarrow> (heap, unit) go" where
  "write_at c a i x =
     go_try (load_block c a) fail
       (\<lambda>xs. if i < length xs then store_block c a (xs[i := x]) else panic ''index out of range'')"

subsection \<open>The patterns of the generated code\<close>

text \<open>\<open>if in != nil { *out = new(T); **out = **in }\<close>\<close>

definition copy_pointer :: "'a cell \<Rightarrow> pointer \<Rightarrow> (heap, pointer) go" where
  "copy_pointer c p =
     (case p of
        None \<Rightarrow> ok None
      | Some a \<Rightarrow>
          go_try (alloc c [zero_of c]) fail (\<lambda>b.
          go_try (read_at c a 0) fail (\<lambda>x.
          go_try (write_at c b 0 x) fail (\<lambda>_. ok (Some b)))))"

text \<open>\<open>if in != nil { *out = make([]T, len(*in)); copy(*out, *in) }\<close>\<close>

definition copy_slice :: "'a cell \<Rightarrow> slice \<Rightarrow> (heap, slice) go" where
  "copy_slice c s =
     (case s of
        None \<Rightarrow> ok None
      | Some (a, n) \<Rightarrow>
          go_try (alloc c (replicate n (zero_of c))) fail (\<lambda>b.
          go_try (load_block c a) fail (\<lambda>xs.
          go_try (store_block c b (take n xs)) fail (\<lambda>_. ok (Some (b, n))))))"

text \<open>\<open>for i := range *in { (*in)[i].DeepCopyInto(&(*out)[i]) }\<close>\<close>

fun copy_loop :: "'a cell \<Rightarrow> ('a \<Rightarrow> (heap, 'a) go) \<Rightarrow> addr \<Rightarrow> addr \<Rightarrow> nat list \<Rightarrow> (heap, unit) go" where
  "copy_loop c into a b [] = ok ()"
| "copy_loop c into a b (i # is) =
     go_try (read_at c a i) fail (\<lambda>x.
     go_try (into x) fail (\<lambda>y.
     go_try (write_at c b i y) fail (\<lambda>_. copy_loop c into a b is)))"

definition copy_each :: "'a cell \<Rightarrow> ('a \<Rightarrow> (heap, 'a) go) \<Rightarrow> slice \<Rightarrow> (heap, slice) go" where
  "copy_each c into s =
     (case s of
        None \<Rightarrow> ok None
      | Some (a, n) \<Rightarrow>
          go_try (alloc c (replicate n (zero_of c))) fail (\<lambda>b.
          go_try (copy_loop c into a b [0..<n]) fail (\<lambda>_. ok (Some (b, n)))))"

text \<open>\<open>if in == nil { return nil }; out := new(T); in.DeepCopyInto(out); return out\<close>\<close>

definition DeepCopy_of :: "'a cell \<Rightarrow> ('a \<Rightarrow> (heap, 'a) go) \<Rightarrow> pointer \<Rightarrow> (heap, pointer) go" where
  "DeepCopy_of c into p =
     (case p of
        None \<Rightarrow> ok None
      | Some a \<Rightarrow>
          go_try (alloc c [zero_of c]) fail (\<lambda>b.
          go_try (read_at c a 0) fail (\<lambda>x.
          go_try (into x) fail (\<lambda>y.
          go_try (write_at c b 0 y) fail (\<lambda>_. ok (Some b))))))"

subsection \<open>Reading a value out of the memory\<close>

text \<open>
  A reader tells the value that a struct, a pointer or a slice stands for in a memory, or
  nothing when an address leads nowhere. \<open>holds rd S h x v\<close>: \<open>x\<close> stands for \<open>v\<close> in \<open>h\<close>, and
  also after any change of the blocks outside of \<open>S\<close>.
\<close>

definition agree :: "addr set \<Rightarrow> heap \<Rightarrow> heap \<Rightarrow> bool" where
  "agree S h h' \<longleftrightarrow> (\<forall>a\<in>S. blocks h' a = blocks h a)"

definition holds :: "(heap \<Rightarrow> 'x \<Rightarrow> 'v option) \<Rightarrow> addr set \<Rightarrow> heap \<Rightarrow> 'x \<Rightarrow> 'v \<Rightarrow> bool" where
  "holds rd S h x v \<longleftrightarrow> (\<forall>h'. agree S h h' \<longrightarrow> rd h' x = Some v)"

definition rd_plain :: "heap \<Rightarrow> 'x \<Rightarrow> 'x option" where
  "rd_plain h x = Some x"

definition rd_pair :: "(heap \<Rightarrow> 'x \<Rightarrow> 'v option) \<Rightarrow> (heap \<Rightarrow> 'y \<Rightarrow> 'u option) \<Rightarrow> heap \<Rightarrow> 'x \<times> 'y \<Rightarrow> ('v \<times> 'u) option" where
  "rd_pair rd rd' h p =
     (case (rd h (fst p), rd' h (snd p)) of (Some v, Some u) \<Rightarrow> Some (v, u) | _ \<Rightarrow> None)"

definition rd_struct :: "('x \<Rightarrow> 'w) \<Rightarrow> ('x \<Rightarrow> 'f) \<Rightarrow> (heap \<Rightarrow> 'f \<Rightarrow> 'v option) \<Rightarrow> heap \<Rightarrow> 'x \<Rightarrow> ('w \<times> 'v) option" where
  "rd_struct own refs rd h x = map_option (Pair (own x)) (rd h (refs x))"

definition rd_pointer :: "'a cell \<Rightarrow> (heap \<Rightarrow> 'a \<Rightarrow> 'v option) \<Rightarrow> heap \<Rightarrow> pointer \<Rightarrow> 'v option option" where
  "rd_pointer c rd h p =
     (case p of
        None \<Rightarrow> Some None
      | Some a \<Rightarrow> (case load c h a of Some (x # _) \<Rightarrow> map_option Some (rd h x) | _ \<Rightarrow> None))"

definition rd_slice :: "'a cell \<Rightarrow> (heap \<Rightarrow> 'a \<Rightarrow> 'v option) \<Rightarrow> heap \<Rightarrow> slice \<Rightarrow> 'v list option option" where
  "rd_slice c rd h s =
     (case s of
        None \<Rightarrow> Some None
      | Some (a, n) \<Rightarrow>
          (case load c h a of
             None \<Rightarrow> None
           | Some xs \<Rightarrow> if n \<le> length xs then map_option Some (those (map (rd h) (take n xs))) else None))"

text \<open>
  \<open>deep_copy rd m\<close>: from any memory in which \<open>x\<close> stands for \<open>v\<close>, with all that it leads to
  allocated, \<open>m x\<close> returns something that stands for \<open>v\<close> in blocks allocated since, and no older block
  has changed. So no later change of the blocks of one of them is seen through the other.
\<close>

definition extends :: "heap \<Rightarrow> heap \<Rightarrow> bool" where
  "extends h h' \<longleftrightarrow> heap_top h \<le> heap_top h' \<and> agree {..<heap_top h} h h'"

definition deep_copy :: "(heap \<Rightarrow> 'x \<Rightarrow> 'v option) \<Rightarrow> ('x \<Rightarrow> (heap, 'x) go) \<Rightarrow> bool" where
  "deep_copy rd m \<longleftrightarrow>
     (\<forall>h x v. holds rd {..<heap_top h} h x v \<longrightarrow>
        succeeds (m x) h (\<lambda>y h'. extends h h' \<and> holds rd {heap_top h..<heap_top h'} h' y v))"

end
