(* ===== verification/GoHeapFacts.thy ===== *)
theory GoHeapFacts
  imports GoHeap
begin

section \<open>The patterns of the generated code copy deeply\<close>

text \<open>
  The locale \<open>block_cell\<close> states what a cell promises, that blocks give back the arrays they were made
  of. It is interpreted for every type of block in \<open>DeepCopy\<close>. In it the three copy patterns
  and \<open>DeepCopy_of\<close> are shown to be deep copies, given that the copy of an element is one.
\<close>

subsection \<open>Memories that agree\<close>

lemma agree_refl [simp]: "agree S h h"
  by (simp add: agree_def)

lemma agree_trans: "agree S h h' \<Longrightarrow> agree S h' h'' \<Longrightarrow> agree S h h''"
  by (simp add: agree_def)

lemma agree_sym: "agree S h h' \<Longrightarrow> agree S h' h"
  by (simp add: agree_def)

lemma agree_subset: "agree S h h' \<Longrightarrow> T \<subseteq> S \<Longrightarrow> agree T h h'"
  by (auto simp: agree_def)

lemma extends_refl [simp]: "extends h h"
  by (simp add: extends_def)

lemma extends_trans: "extends h h' \<Longrightarrow> extends h' h'' \<Longrightarrow> extends h h''"
  by (auto simp: extends_def agree_def)

lemma holdsD: "holds rd S h x v \<Longrightarrow> agree S h h' \<Longrightarrow> rd h' x = Some v"
  by (simp add: holds_def)

lemma holds_now: "holds rd S h x v \<Longrightarrow> rd h x = Some v"
  by (simp add: holds_def)

lemma holds_agree: "holds rd S h x v \<Longrightarrow> agree S h h' \<Longrightarrow> holds rd S h' x v"
  by (auto simp: holds_def intro: agree_trans)

lemma holds_subset: "holds rd S h x v \<Longrightarrow> S \<subseteq> T \<Longrightarrow> holds rd T h x v"
  by (auto simp: holds_def intro: agree_subset)

text \<open>What was allocated at the start is still there, and what was copied on the way too.\<close>

lemma holds_old:
  "holds rd {..<heap_top h} h x v \<Longrightarrow> extends h h' \<Longrightarrow> holds rd {..<heap_top h'} h' x v"
  by (rule holds_subset [OF holds_agree]) (auto simp: extends_def)

lemma holds_new:
  "holds rd {a..<heap_top h} h x v \<Longrightarrow> extends h h' \<Longrightarrow> holds rd {a..<heap_top h'} h' x v"
  by (rule holds_subset [OF holds_agree], assumption)
    (auto simp: extends_def elim: agree_subset)

lemma holds_plain [simp]: "holds rd_plain S h x v \<longleftrightarrow> v = x"
  by (auto simp: holds_def rd_plain_def intro: exI [of _ h])

lemma holds_pair [simp]:
  "holds (rd_pair rd rd') S h (x, y) (v, u) \<longleftrightarrow> holds rd S h x v \<and> holds rd' S h y u"
  by (auto simp: holds_def rd_pair_def split: option.splits)

lemma holds_struct [simp]:
  "holds (rd_struct own refs rd) S h x (w, v) \<longleftrightarrow> w = own x \<and> holds rd S h (refs x) v"
  by (auto simp: holds_def rd_struct_def dest: spec [of _ h])

subsection \<open>A deep copy as a step of a program\<close>

lemma copy_step:
  assumes "deep_copy rd m" and "holds rd {..<heap_top h0} h0 x v" and "extends h0 h"
    and "\<And>y h'. extends h0 h' \<Longrightarrow> extends h h' \<Longrightarrow> holds rd {heap_top h0..<heap_top h'} h' y v \<Longrightarrow>
      succeeds (k y) h' Q"
  shows "succeeds (go_try (m x) f k) h Q"
proof (rule succeeds_go_try)
  from holds_old [OF assms(2,3)] assms(1)
  show "succeeds (m x) h (\<lambda>y h'. extends h h' \<and> holds rd {heap_top h..<heap_top h'} h' y v)"
    by (simp add: deep_copy_def)
next
  fix y h'
  assume copied: "extends h h' \<and> holds rd {heap_top h..<heap_top h'} h' y v"
  with assms(3) have "extends h0 h'" by (auto intro: extends_trans)
  moreover from copied assms(3) have "holds rd {heap_top h0..<heap_top h'} h' y v"
    by (auto simp: extends_def elim: holds_subset)
  ultimately show "succeeds (k y) h' Q" using copied by (intro assms(4)) simp_all
qed

lemma deep_copy_plain: "deep_copy rd_plain (\<lambda>x. ok x)"
  by (auto simp: deep_copy_def intro!: succeeds_ok)

lemma deep_copy_same: "deep_copy rd m \<Longrightarrow> (\<And>x. m' x = m x) \<Longrightarrow> deep_copy rd m'"
  by (simp add: deep_copy_def)

lemma those_Some: "those xs = Some ys \<longleftrightarrow> xs = map Some ys"
  by (induction xs arbitrary: ys) (auto split: option.splits)

subsection \<open>Cells\<close>

locale block_cell =
  fixes c :: "'a cell"
  assumes is_mk: "is_cell c (mk c xs)" and elems_mk: "elems c (mk c xs) = xs"
begin

lemma load_agree: "blocks h' a = blocks h a \<Longrightarrow> load c h' a = load c h a"
  by (simp add: load_def)

lemma load_stored [simp]:
  "blocks h a = Some (mk c xs) \<Longrightarrow> load c h a = Some xs"
  by (simp add: load_def is_mk elems_mk)

lemma run_alloc [simp]:
  "run_state (alloc c xs) h = (Ok (heap_top h), \<lparr>blocks = (blocks h)(heap_top h \<mapsto> mk c xs), heap_top = heap_top h + 1\<rparr>)"
  by (simp add: alloc_def)

lemma succeeds_alloc:
  assumes "\<And>h'. extends h h' \<Longrightarrow> heap_top h' = heap_top h + 1 \<Longrightarrow> load c h' (heap_top h) = Some xs \<Longrightarrow>
     succeeds (k (heap_top h)) h' Q"
  shows "succeeds (go_try (alloc c xs) f k) h Q"
proof -
  let ?h' = "\<lparr>blocks = (blocks h)(heap_top h \<mapsto> mk c xs), heap_top = heap_top h + 1\<rparr>"
  have "succeeds (k (heap_top h)) ?h' Q"
    by (rule assms) (auto simp: extends_def agree_def)
  then show ?thesis by (simp add: succeeds_def post_def run_go_try)
qed

lemma succeeds_load:
  "load c h a = Some xs \<Longrightarrow> succeeds (k xs) h Q \<Longrightarrow> succeeds (go_try (load_block c a) f k) h Q"
  by (simp add: succeeds_def post_def run_go_try load_block_def)

lemma run_read_at:
  "load c h a = Some xs \<Longrightarrow> i < length xs \<Longrightarrow> run_state (read_at c a i) h = (Ok (xs ! i), h)"
  by (simp add: read_at_def load_block_def run_go_try)

lemma succeeds_read:
  "load c h a = Some xs \<Longrightarrow> i < length xs \<Longrightarrow> succeeds (k (xs ! i)) h Q \<Longrightarrow>
     succeeds (go_try (read_at c a i) f k) h Q"
  by (simp add: succeeds_def post_def run_go_try run_read_at)

lemma succeeds_store:
  assumes "\<And>h'. heap_top h' = heap_top h \<Longrightarrow> agree (- {a}) h h' \<Longrightarrow> load c h' a = Some xs \<Longrightarrow> succeeds (k ()) h' Q"
  shows "succeeds (go_try (store_block c a xs) f k) h Q"
proof -
  have "succeeds (k ()) (h\<lparr>blocks := (blocks h)(a \<mapsto> mk c xs)\<rparr>) Q"
    by (rule assms) (auto simp: agree_def)
  then show ?thesis by (simp add: succeeds_def post_def run_go_try store_block_def)
qed

lemma succeeds_write:
  assumes "load c h a = Some xs" and "i < length xs"
    and "\<And>h'. heap_top h' = heap_top h \<Longrightarrow> agree (- {a}) h h' \<Longrightarrow> load c h' a = Some (xs[i := x]) \<Longrightarrow>
      succeeds (k ()) h' Q"
  shows "succeeds (go_try (write_at c a i x) f k) h Q"
proof -
  let ?h' = "h\<lparr>blocks := (blocks h)(a \<mapsto> mk c (xs[i := x]))\<rparr>"
  have "succeeds (k ()) ?h' Q"
    by (rule assms(3)) (auto simp: agree_def)
  moreover have "run_state (write_at c a i x) h = (Ok (), ?h')"
    using assms(1,2) by (simp add: write_at_def load_block_def store_block_def run_go_try)
  ultimately show ?thesis by (simp add: succeeds_def post_def run_go_try)
qed

text \<open>What a pointer and a slice lead to.\<close>

lemma load_outside: "a \<notin> S \<Longrightarrow> \<exists>h'. agree S h h' \<and> load c h' a = None"
  by (rule exI [of _ "h\<lparr>blocks := (blocks h)(a := None)\<rparr>"]) (auto simp: agree_def load_def)

lemma load_inside: "a \<in> S \<Longrightarrow> agree S h h' \<Longrightarrow> load c h' a = load c h a"
  by (simp add: agree_def load_def)

lemma load_extends: "extends h h' \<Longrightarrow> a < heap_top h \<Longrightarrow> load c h a = Some xs \<Longrightarrow> load c h' a = Some xs"
  by (simp add: extends_def agree_def load_def)

lemma holds_nil [simp]:
  "holds (rd_pointer c rd) S h None v \<longleftrightarrow> v = None" "holds (rd_slice c rd) S h None v' \<longleftrightarrow> v' = None"
  by (auto simp: holds_def rd_pointer_def rd_slice_def intro: exI [of _ h])

lemma holds_pointer:
  "holds (rd_pointer c rd) S h (Some a) v \<longleftrightarrow>
     a \<in> S \<and> (\<exists>x xs w. load c h a = Some (x # xs) \<and> v = Some w \<and> holds rd S h x w)"
proof
  assume held: "holds (rd_pointer c rd) S h (Some a) v"
  have "a \<in> S"
  proof (rule ccontr)
    assume "a \<notin> S"
    from load_outside [OF this] obtain h' where "agree S h h'" "load c h' a = None" by blast
    with holdsD [OF held] show False by (fastforce simp: rd_pointer_def)
  qed
  moreover from holds_now [OF held] obtain x xs w where x: "load c h a = Some (x # xs)" "v = Some w"
    by (auto simp: rd_pointer_def split: option.splits list.splits)
  moreover have "holds rd S h x w"
    unfolding holds_def
  proof (intro allI impI)
    fix h'
    assume agree: "agree S h h'"
    from holdsD [OF held this] load_inside [OF \<open>a \<in> S\<close> agree] x show "rd h' x = Some w"
      by (auto simp: rd_pointer_def)
  qed
  ultimately show "a \<in> S \<and> (\<exists>x xs w. load c h a = Some (x # xs) \<and> v = Some w \<and> holds rd S h x w)" by blast
next
  assume "a \<in> S \<and> (\<exists>x xs w. load c h a = Some (x # xs) \<and> v = Some w \<and> holds rd S h x w)"
  then show "holds (rd_pointer c rd) S h (Some a) v"
    by (auto simp: holds_def rd_pointer_def load_inside)
qed

lemma holds_slice:
  "holds (rd_slice c rd) S h (Some (a, n)) v \<longleftrightarrow>
     a \<in> S \<and> (\<exists>xs ws. load c h a = Some xs \<and> n \<le> length xs \<and> v = Some ws \<and> length ws = n \<and>
       (\<forall>i<n. holds rd S h (xs ! i) (ws ! i)))"
proof
  assume held: "holds (rd_slice c rd) S h (Some (a, n)) v"
  have "a \<in> S"
  proof (rule ccontr)
    assume "a \<notin> S"
    from load_outside [OF this] obtain h' where "agree S h h'" "load c h' a = None" by blast
    with holdsD [OF held] show False by (fastforce simp: rd_slice_def)
  qed
  moreover from holds_now [OF held] obtain xs ws where xs: "load c h a = Some xs" "n \<le> length xs" "v = Some ws"
    and ws: "map (rd h) (take n xs) = map Some ws"
    by (auto simp: rd_slice_def those_Some split: option.splits if_splits)
  moreover from arg_cong [OF ws, of length] xs have "length ws = n" by simp
  moreover have "holds rd S h (xs ! i) (ws ! i)" if "i < n" for i
    unfolding holds_def
  proof (intro allI impI)
    fix h'
    assume agree: "agree S h h'"
    from holdsD [OF held this] load_inside [OF \<open>a \<in> S\<close> agree] xs have "map (rd h') (take n xs) = map Some ws"
      by (auto simp: rd_slice_def those_Some)
    then have "map (rd h') (take n xs) ! i = map Some ws ! i" by simp
    with that xs \<open>length ws = n\<close> show "rd h' (xs ! i) = Some (ws ! i)" by simp
  qed
  ultimately show "a \<in> S \<and> (\<exists>xs ws. load c h a = Some xs \<and> n \<le> length xs \<and> v = Some ws \<and> length ws = n \<and>
       (\<forall>i<n. holds rd S h (xs ! i) (ws ! i)))" by blast
next
  assume "a \<in> S \<and> (\<exists>xs ws. load c h a = Some xs \<and> n \<le> length xs \<and> v = Some ws \<and> length ws = n \<and>
       (\<forall>i<n. holds rd S h (xs ! i) (ws ! i)))"
  then obtain xs ws where a: "a \<in> S" and xs: "load c h a = Some xs" "n \<le> length xs" "v = Some ws" "length ws = n"
    and ws: "\<And>i. i < n \<Longrightarrow> holds rd S h (xs ! i) (ws ! i)" by blast
  show "holds (rd_slice c rd) S h (Some (a, n)) v"
    unfolding holds_def
  proof (intro allI impI)
    fix h'
    assume agree: "agree S h h'"
    have "map (rd h') (take n xs) = map Some ws"
      by (rule nth_equalityI) (use xs holdsD [OF ws agree] in auto)
    with load_inside [OF a agree] xs show "rd_slice c rd h' (Some (a, n)) = Some v"
      by (simp add: rd_slice_def those_Some)
  qed
qed

subsection \<open>The copy patterns\<close>

lemma deep_copy_pointer: "deep_copy (rd_pointer c rd_plain) (copy_pointer c)"
  unfolding deep_copy_def
proof (intro allI impI)
  fix h p and v :: "'a option"
  assume held: "holds (rd_pointer c rd_plain) {..<heap_top h} h p v"
  show "succeeds (copy_pointer c p) h
    (\<lambda>y h'. extends h h' \<and> holds (rd_pointer c rd_plain) {heap_top h..<heap_top h'} h' y v)"
  proof (cases p)
    case None
    with held show ?thesis by (auto simp: copy_pointer_def intro: succeeds_ok)
  next
    case (Some a)
    with held obtain x xs where a: "a < heap_top h" "load c h a = Some (x # xs)" "v = Some x"
      by (auto simp: holds_pointer)
    show ?thesis
      unfolding copy_pointer_def Some option.case
    proof (rule succeeds_alloc)
      fix h1
      assume h1: "extends h h1" "heap_top h1 = heap_top h + 1" "load c h1 (heap_top h) = Some [zero_of c]"
      have la: "load c h1 a = Some (x # xs)" by (rule load_extends [OF h1(1) a(1,2)])
      show "succeeds (go_try (read_at c a 0) fail (\<lambda>x. go_try (write_at c (heap_top h) 0 x) fail
          (\<lambda>_. ok (Some (heap_top h))))) h1
        (\<lambda>y h'. extends h h' \<and> holds (rd_pointer c rd_plain) {heap_top h..<heap_top h'} h' y v)"
        using h1 a(3)
        by (intro succeeds_read [OF la] succeeds_write [OF h1(3)] succeeds_ok)
          (auto simp: holds_pointer extends_def agree_def)
    qed
  qed
qed

lemma deep_copy_slice: "deep_copy (rd_slice c rd_plain) (copy_slice c)"
  unfolding deep_copy_def
proof (intro allI impI)
  fix h s and v :: "'a list option"
  assume held: "holds (rd_slice c rd_plain) {..<heap_top h} h s v"
  show "succeeds (copy_slice c s) h
    (\<lambda>y h'. extends h h' \<and> holds (rd_slice c rd_plain) {heap_top h..<heap_top h'} h' y v)"
  proof (cases s)
    case None
    with held show ?thesis by (auto simp: copy_slice_def intro: succeeds_ok)
  next
    case (Some an)
    then obtain a n where s: "s = Some (a, n)" by fastforce
    with held obtain xs ws where a: "a < heap_top h" "load c h a = Some xs" "n \<le> length xs" "v = Some ws"
      "length ws = n" "\<And>i. i < n \<Longrightarrow> ws ! i = xs ! i"
      by (auto simp: holds_slice)
    show ?thesis
      unfolding copy_slice_def s option.case prod.case
    proof (rule succeeds_alloc)
      fix h1
      assume h1: "extends h h1" "heap_top h1 = heap_top h + 1" "load c h1 (heap_top h) = Some (replicate n (zero_of c))"
      have la: "load c h1 a = Some xs" by (rule load_extends [OF h1(1) a(1,2)])
      show "succeeds (go_try (load_block c a) fail (\<lambda>xs. go_try (store_block c (heap_top h) (take n xs)) fail
          (\<lambda>_. ok (Some (heap_top h, n))))) h1
        (\<lambda>y h'. extends h h' \<and> holds (rd_slice c rd_plain) {heap_top h..<heap_top h'} h' y v)"
        using h1 a
        by (intro succeeds_load [OF la] succeeds_store succeeds_ok)
          (auto simp: holds_slice extends_def agree_def)
    qed
  qed
qed

text \<open>
  The loop: the elements before \<open>i\<close> are copied, in blocks allocated after the array \<open>b\<close>, so that
  a write to the array disturbs none of them.
\<close>

definition copied_to :: "(heap \<Rightarrow> 'a \<Rightarrow> 'v option) \<Rightarrow> addr \<Rightarrow> nat \<Rightarrow> 'v list \<Rightarrow> nat \<Rightarrow> heap \<Rightarrow> bool" where
  "copied_to rd b n ws i h \<longleftrightarrow>
     b < heap_top h \<and> (\<exists>ys. load c h b = Some ys \<and> length ys = n \<and>
       (\<forall>j<i. holds rd {b + 1..<heap_top h} h (ys ! j) (ws ! j)))"

lemma copied_more:
  assumes "copied_to rd b n ws i h" and "extends h h1" and "holds rd {b + 1..<heap_top h1} h1 y (ws ! i)" and "i < n"
    and "load c h1 b = Some ys \<Longrightarrow> length ys = n \<Longrightarrow>
      agree (- {b}) h1 h2 \<and> heap_top h2 = heap_top h1 \<and> load c h2 b = Some (ys[i := y])"
    and "load c h1 b = Some ys"
  shows "copied_to rd b n ws (i + 1) h2"
proof -
  from assms(1) obtain zs where zs: "b < heap_top h" "load c h b = Some zs" "length zs = n"
    "\<And>j. j < i \<Longrightarrow> holds rd {b + 1..<heap_top h} h (zs ! j) (ws ! j)"
    unfolding copied_to_def by blast
  from load_extends [OF assms(2) zs(1,2)] assms(6) have ys: "ys = zs" by simp
  from assms(5,6) ys zs(3) have h2: "agree (- {b}) h1 h2" "heap_top h2 = heap_top h1" "load c h2 b = Some (zs[i := y])"
    by simp_all
  have "holds rd {b + 1..<heap_top h2} h2 (zs[i := y] ! j) (ws ! j)" if "j < i + 1" for j
  proof -
    have "holds rd {b + 1..<heap_top h1} h1 (zs[i := y] ! j) (ws ! j)"
      using that assms(3,4) zs(3) holds_new [OF zs(4) assms(2), of j]
      by (cases "j = i") (auto simp: nth_list_update)
    moreover have "agree {b + 1..<heap_top h1} h1 h2" by (rule agree_subset [OF h2(1)]) auto
    ultimately show ?thesis using h2(2) by (simp add: holds_agree)
  qed
  with zs h2 assms(2) show ?thesis
    unfolding copied_to_def by (intro conjI exI [of _ "zs[i := y]"]) (auto simp: extends_def)
qed

lemma succeeds_copy_loop:
  assumes "deep_copy rd into" and "a < heap_top h0" and "load c h0 a = Some xs" and "n \<le> length xs"
    and "\<And>i. i < n \<Longrightarrow> holds rd {..<heap_top h0} h0 (xs ! i) (ws ! i)"
    and "extends h0 h" and "copied_to rd (heap_top h0) n ws i h" and "i \<le> n"
  shows "succeeds (copy_loop c into a (heap_top h0) [i..<n]) h
    (\<lambda>_ h'. extends h0 h' \<and> copied_to rd (heap_top h0) n ws n h')"
  using assms(6-8)
proof (induction "n - i" arbitrary: i h)
  case 0
  then show ?case by (auto intro!: succeeds_ok)
next
  case (Suc m)
  let ?b = "heap_top h0"
  from Suc have i: "i < n" and upt: "[i..<n] = i # [i + 1..<n]"
    by (simp_all add: upt_conv_Cons)
  from Suc(4) obtain ys where ys: "?b < heap_top h" "load c h ?b = Some ys" "length ys = n"
    unfolding copied_to_def by blast
  have la: "load c h a = Some xs" by (rule load_extends [OF Suc(3) assms(2,3)])
  have x: "holds rd {..<heap_top h} h (xs ! i) (ws ! i)" by (rule holds_old [OF assms(5) [OF i] Suc(3)])
  show ?case
    unfolding upt copy_loop.simps
  proof (intro succeeds_read [OF la] copy_step [OF assms(1) x extends_refl])
    show "i < length xs" using i assms(4) by simp
  next
    fix y h1
    assume h1: "extends h h1" and y: "holds rd {heap_top h..<heap_top h1} h1 y (ws ! i)"
    from ys(1) have y': "holds rd {?b + 1..<heap_top h1} h1 y (ws ! i)" by (intro holds_subset [OF y]) auto
    have lb: "load c h1 ?b = Some ys" by (rule load_extends [OF h1 ys(1,2)])
    show "succeeds (go_try (write_at c ?b i y) fail (\<lambda>_. copy_loop c into a ?b [i + 1..<n])) h1
      (\<lambda>_ h'. extends h0 h' \<and> copied_to rd ?b n ws n h')"
    proof (rule succeeds_write [OF lb])
      show "i < length ys" using i ys(3) by simp
    next
      fix h2
      assume h2: "heap_top h2 = heap_top h1" "agree (- {?b}) h1 h2" "load c h2 ?b = Some (ys[i := y])"
      have "copied_to rd ?b n ws (i + 1) h2"
        by (rule copied_more [OF Suc(4) h1 y' i _ lb]) (use h2 in simp)
      moreover from extends_trans [OF Suc(3) h1] h2 have "extends h0 h2"
        by (auto simp: extends_def agree_def)
      ultimately show "succeeds (copy_loop c into a ?b [i + 1..<n]) h2
          (\<lambda>_ h'. extends h0 h' \<and> copied_to rd ?b n ws n h')"
        using Suc(1) [of "i + 1" h2] Suc(2) i by simp
    qed
  qed
qed

lemma deep_copy_each:
  fixes rd :: "heap \<Rightarrow> 'a \<Rightarrow> 'v option"
  assumes "deep_copy rd into"
  shows "deep_copy (rd_slice c rd) (copy_each c into)"
  unfolding deep_copy_def
proof (intro allI impI)
  fix h s and v :: "'v list option"
  assume held: "holds (rd_slice c rd) {..<heap_top h} h s v"
  show "succeeds (copy_each c into s) h
    (\<lambda>y h'. extends h h' \<and> holds (rd_slice c rd) {heap_top h..<heap_top h'} h' y v)"
  proof (cases s)
    case None
    with held show ?thesis by (auto simp: copy_each_def intro: succeeds_ok)
  next
    case (Some an)
    then obtain a n where s: "s = Some (a, n)" by fastforce
    with held obtain xs ws where a: "a < heap_top h" "load c h a = Some xs" "n \<le> length xs" and v: "v = Some ws" "length ws = n"
      and ws: "\<And>i. i < n \<Longrightarrow> holds rd {..<heap_top h} h (xs ! i) (ws ! i)"
      by (auto simp: holds_slice)
    show ?thesis
      unfolding copy_each_def s option.case prod.case
    proof (rule succeeds_alloc, rule succeeds_go_try)
      fix h1
      assume h1: "extends h h1" "heap_top h1 = heap_top h + 1" "load c h1 (heap_top h) = Some (replicate n (zero_of c))"
      then have "copied_to rd (heap_top h) n ws 0 h1" by (simp add: copied_to_def)
      from succeeds_copy_loop [OF assms a ws h1(1) this]
      show "succeeds (copy_loop c into a (heap_top h) [0..<n]) h1
        (\<lambda>_ h'. extends h h' \<and> copied_to rd (heap_top h) n ws n h')" by simp
    next
      fix x h2
      assume h2: "extends h h2 \<and> copied_to rd (heap_top h) n ws n h2"
      then obtain ys where ys: "heap_top h < heap_top h2" "load c h2 (heap_top h) = Some ys" "length ys = n"
        "\<And>j. j < n \<Longrightarrow> holds rd {heap_top h + 1..<heap_top h2} h2 (ys ! j) (ws ! j)"
        unfolding copied_to_def by blast
      have "holds rd {heap_top h..<heap_top h2} h2 (ys ! j) (ws ! j)" if "j < n" for j
        using that by (intro holds_subset [OF ys(4)]) auto
      with ys h2 v show "succeeds (ok (Some (heap_top h, n))) h2
        (\<lambda>y h'. extends h h' \<and> holds (rd_slice c rd) {heap_top h..<heap_top h'} h' y v)"
        by (intro succeeds_ok) (simp add: holds_slice)
    qed
  qed
qed

lemma deep_copy_DeepCopy:
  fixes rd :: "heap \<Rightarrow> 'a \<Rightarrow> 'v option"
  assumes "deep_copy rd into"
  shows "deep_copy (rd_pointer c rd) (DeepCopy_of c into)"
  unfolding deep_copy_def
proof (intro allI impI)
  fix h p and v :: "'v option"
  assume held: "holds (rd_pointer c rd) {..<heap_top h} h p v"
  show "succeeds (DeepCopy_of c into p) h
    (\<lambda>y h'. extends h h' \<and> holds (rd_pointer c rd) {heap_top h..<heap_top h'} h' y v)"
  proof (cases p)
    case None
    with held show ?thesis by (auto simp: DeepCopy_of_def intro: succeeds_ok)
  next
    case (Some a)
    with held obtain x xs w where a: "a < heap_top h" "load c h a = Some (x # xs)" and v: "v = Some w"
      and w: "holds rd {..<heap_top h} h x w"
      by (auto simp: holds_pointer)
    show ?thesis
      unfolding DeepCopy_of_def Some option.case
    proof (rule succeeds_alloc)
      fix h1
      assume h1: "extends h h1" "heap_top h1 = heap_top h + 1" "load c h1 (heap_top h) = Some [zero_of c]"
      have la: "load c h1 a = Some (x # xs)" by (rule load_extends [OF h1(1) a])
      have x: "holds rd {..<heap_top h1} h1 ((x # xs) ! 0) w" using holds_old [OF w h1(1)] by simp
      show "succeeds (go_try (read_at c a 0) fail (\<lambda>x. go_try (into x) fail (\<lambda>y. go_try (write_at c (heap_top h) 0 y) fail
          (\<lambda>_. ok (Some (heap_top h)))))) h1
        (\<lambda>y h'. extends h h' \<and> holds (rd_pointer c rd) {heap_top h..<heap_top h'} h' y v)"
      proof (intro succeeds_read [OF la] copy_step [OF assms x extends_refl])
        fix y h2
        assume h2: "extends h1 h2" and y: "holds rd {heap_top h1..<heap_top h2} h2 y w"
        from h1(2) have b: "heap_top h < heap_top h1" by simp
        have lb: "load c h2 (heap_top h) = Some [zero_of c]" by (rule load_extends [OF h2 b h1(3)])
        show "succeeds (go_try (write_at c (heap_top h) 0 y) fail (\<lambda>_. ok (Some (heap_top h)))) h2
          (\<lambda>y h'. extends h h' \<and> holds (rd_pointer c rd) {heap_top h..<heap_top h'} h' y v)"
        proof (rule succeeds_write [OF lb], simp, rule succeeds_ok)
          fix h3
          assume h3: "heap_top h3 = heap_top h2" "agree (- {heap_top h}) h2 h3" "load c h3 (heap_top h) = Some ([zero_of c][0 := y])"
          have "holds rd {heap_top h1..<heap_top h2} h3 y w"
            by (rule holds_agree [OF y agree_subset [OF h3(2)]]) (use h1(2) in auto)
          then have "holds rd {heap_top h..<heap_top h3} h3 y w"
            by (rule holds_subset) (use h1(2) h3(1) in auto)
          moreover from h1(1,2) h2 h3 have "extends h h3" "heap_top h < heap_top h3"
            by (auto simp: extends_def agree_def)
          ultimately show "extends h h3 \<and> holds (rd_pointer c rd) {heap_top h..<heap_top h3} h3 (Some (heap_top h)) v"
            using h3(3) v by (simp add: holds_pointer)
        qed
      qed simp
    qed
  qed
qed

end

end
