(* ===== verification/DeepCopy.thy ===== *)
theory DeepCopy
  imports GoHeapFacts
begin

section \<open>The generated copy functions (api/v1alpha1/zz_generated.deepcopy.go)\<close>

text \<open>
  \<open>DeepCopyInto\<close>, \<open>DeepCopy\<close> and \<open>DeepCopyObject\<close> of every struct of the package, on the memory of \<open>GoHeap\<close>.
  \<open>DeepCopyInto_T\<close> takes the struct \<open>*in\<close> and returns the struct that \<open>*out\<close> holds when it is done: the
  copy \<open>*out = *in\<close>, with the fields replaced that the code replaces. The copy functions of
  \<open>metav1\<close> are parameters, in the record \<open>copy_library\<close>; what they promise is \<open>copies_values\<close>.
\<close>

record copy_library =
  ObjectMeta_DeepCopyInto :: "ObjectMeta \<Rightarrow> ObjectMeta"
  ListMeta_DeepCopyInto :: "ListMeta \<Rightarrow> ListMeta"
  Condition_DeepCopyInto :: "Condition \<Rightarrow> Condition"
  Time_DeepCopy :: "Time \<Rightarrow> Time"

definition copies_values :: "copy_library \<Rightarrow> bool" where
  "copies_values L \<longleftrightarrow>
     (\<forall>m. ObjectMeta_DeepCopyInto L m = m) \<and> (\<forall>m. ListMeta_DeepCopyInto L m = m) \<and>
     (\<forall>c. Condition_DeepCopyInto L c = c) \<and> (\<forall>t. Time_DeepCopy L t = t)"

subsection \<open>The cells\<close>

definition string_cell :: "string cell" where
  "string_cell = \<lparr>mk = Strings, is_cell = is_Strings, elems = strings,
     zero_of = []\<rparr>"

definition secretReference_cell :: "SecretReference cell" where
  "secretReference_cell = \<lparr>mk = SecretReferences, is_cell = is_SecretReferences, elems = secretReferences,
     zero_of = \<lparr>refName = [], refNamespace = []\<rparr>\<rparr>"

definition time_cell :: "Time cell" where
  "time_cell = \<lparr>mk = Times, is_cell = is_Times, elems = times,
     zero_of = 0\<rparr>"

definition condition_cell :: "Condition cell" where
  "condition_cell = \<lparr>mk = Conditions, is_cell = is_Conditions, elems = conditions,
     zero_of = \<lparr>condType = [], condStatus = [], condReason = [], condMessage = []\<rparr>\<rparr>"

definition additionalUser_cell :: "AdditionalUser cell" where
  "additionalUser_cell = \<lparr>mk = AdditionalUsers, is_cell = is_AdditionalUsers, elems = additionalUsers,
     zero_of = \<lparr>auType = [], auName = []\<rparr>\<rparr>"

definition connectionStatus_cell :: "ConnectionStatus cell" where
  "connectionStatus_cell = \<lparr>mk = ConnectionStatuses, is_cell = is_ConnectionStatuses, elems = connectionStatuses,
     zero_of = \<lparr>csName = [], csHostname = [], csDatabaseVersion = [], csEnabled = False, csStatus = []\<rparr>\<rparr>"

definition connectionReference_cell :: "DatabaseConnectionReference cell" where
  "connectionReference_cell = \<lparr>mk = ConnectionReferences, is_cell = is_ConnectionReferences, elems = connectionReferences,
     zero_of = \<lparr>dcrDatabaseObjectReference = \<lparr>objKind = [], objName = [], objUID = [], objResourceVersion = []\<rparr>, dcrName = []\<rparr>\<rparr>"

definition databaseInfo_cell :: "DatabaseInfo cell" where
  "databaseInfo_cell = \<lparr>mk = DatabaseInfos, is_cell = is_DatabaseInfos, elems = databaseInfos,
     zero_of = \<lparr>infoUsername = [], infoDatabasename = []\<rparr>\<rparr>"

definition mongoDBAuth_cell :: "MongoDBAuth cell" where
  "mongoDBAuth_cell = \<lparr>mk = MongoDBAuths, is_cell = is_MongoDBAuths, elems = mongoDBAuths,
     zero_of = \<lparr>authMechanism = [], authSource = [], authTLS = False\<rparr>\<rparr>"

definition connection_cell :: "Connection_m cell" where
  "connection_cell = \<lparr>mk = Connections, is_cell = is_Connections, elems = connections,
     zero_of = \<lparr>cmName = [], cmHostname = [], cmReplicaHostnames = None, cmPasswordSecretRef = \<lparr>refName = [], refNamespace = []\<rparr>, cmPort = 0, cmUsername = [], cmEnabled = False\<rparr>\<rparr>"

definition mongoDBConnection_cell :: "MongoDBConnection_m cell" where
  "mongoDBConnection_cell = \<lparr>mk = MongoDBConnections, is_cell = is_MongoDBConnections, elems = mongoDBConnections,
     zero_of = \<lparr>mmName = [], mmHostname = [], mmReplicaHostnames = None, mmPasswordSecretRef = \<lparr>refName = [], refNamespace = []\<rparr>, mmPort = 0, mmUsername = [], mmAuth = \<lparr>authMechanism = [], authSource = [], authTLS = False\<rparr>, mmEnabled = False\<rparr>\<rparr>"

definition requestSpec_cell :: "DatabaseRequestSpec_m cell" where
  "requestSpec_cell = \<lparr>mk = RequestSpecs, is_cell = is_RequestSpecs, elems = requestSpecs,
     zero_of = \<lparr>smName = [], smSelector = [], smType = [], smSeed = None, smAdditionalUsers = None, smDatabaseConnectionReference = None, smDropDatabaseOnDelete = False, smForcedReconcilation = None\<rparr>\<rparr>"

definition requestStatus_cell :: "DatabaseRequestStatus_m cell" where
  "requestStatus_cell = \<lparr>mk = RequestStatuses, is_cell = is_RequestStatuses, elems = requestStatuses,
     zero_of = \<lparr>tmConditions = None, tmObservedGeneration = 0, tmObservedDatabaseConnectionReference = None, tmDatabaseInfo = None\<rparr>\<rparr>"

definition request_cell :: "DatabaseRequest_m cell" where
  "request_cell = \<lparr>mk = Requests, is_cell = is_Requests, elems = requests,
     zero_of = \<lparr>omTypeMeta = \<lparr>tmKind = [], tmAPIVersion = []\<rparr>, omObjectMeta = ObjectMeta_zero, omSpec = zero_of requestSpec_cell, omStatus = zero_of requestStatus_cell\<rparr>\<rparr>"

definition rproviderSpec_cell :: "RelationalDatabaseProviderSpec_m cell" where
  "rproviderSpec_cell = \<lparr>mk = RProviderSpecs, is_cell = is_RProviderSpecs, elems = rproviderSpecs,
     zero_of = \<lparr>rsType = [], rsSelector = [], rsConnections = None\<rparr>\<rparr>"

definition mproviderSpec_cell :: "MongoDBProviderSpec_m cell" where
  "mproviderSpec_cell = \<lparr>mk = MProviderSpecs, is_cell = is_MProviderSpecs, elems = mproviderSpecs,
     zero_of = \<lparr>msSelector = [], msConnections = None\<rparr>\<rparr>"

definition providerStatus_cell :: "ProviderStatus_m cell" where
  "providerStatus_cell = \<lparr>mk = ProviderStatuses, is_cell = is_ProviderStatuses, elems = providerStatuses,
     zero_of = \<lparr>psConditions = None, psConnectionStatus = None, psObservedGeneration = 0\<rparr>\<rparr>"

definition rprovider_cell :: "RelationalDatabaseProvider_m cell" where
  "rprovider_cell = \<lparr>mk = RProviders, is_cell = is_RProviders, elems = rproviders,
     zero_of = \<lparr>omTypeMeta = \<lparr>tmKind = [], tmAPIVersion = []\<rparr>, omObjectMeta = ObjectMeta_zero, omSpec = zero_of rproviderSpec_cell, omStatus = zero_of providerStatus_cell\<rparr>\<rparr>"

definition mprovider_cell :: "MongoDBProvider_m cell" where
  "mprovider_cell = \<lparr>mk = MProviders, is_cell = is_MProviders, elems = mproviders,
     zero_of = \<lparr>omTypeMeta = \<lparr>tmKind = [], tmAPIVersion = []\<rparr>, omObjectMeta = ObjectMeta_zero, omSpec = zero_of mproviderSpec_cell, omStatus = zero_of providerStatus_cell\<rparr>\<rparr>"

definition objectList_cell :: "list_m cell" where
  "objectList_cell = \<lparr>mk = ObjectLists, is_cell = is_ObjectLists, elems = objectLists,
     zero_of = \<lparr>liTypeMeta = \<lparr>tmKind = [], tmAPIVersion = []\<rparr>, liListMeta = \<lparr>lmSelfLink = [], lmResourceVersion = [], lmContinue = [], lmRemainingItemCount = None\<rparr>, liItems = None\<rparr>\<rparr>"

interpretation string_block: block_cell string_cell
  by unfold_locales (simp_all add: string_cell_def)

interpretation secretReference_block: block_cell secretReference_cell
  by unfold_locales (simp_all add: secretReference_cell_def)

interpretation time_block: block_cell time_cell
  by unfold_locales (simp_all add: time_cell_def)

interpretation condition_block: block_cell condition_cell
  by unfold_locales (simp_all add: condition_cell_def)

interpretation additionalUser_block: block_cell additionalUser_cell
  by unfold_locales (simp_all add: additionalUser_cell_def)

interpretation connectionStatus_block: block_cell connectionStatus_cell
  by unfold_locales (simp_all add: connectionStatus_cell_def)

interpretation connectionReference_block: block_cell connectionReference_cell
  by unfold_locales (simp_all add: connectionReference_cell_def)

interpretation databaseInfo_block: block_cell databaseInfo_cell
  by unfold_locales (simp_all add: databaseInfo_cell_def)

interpretation mongoDBAuth_block: block_cell mongoDBAuth_cell
  by unfold_locales (simp_all add: mongoDBAuth_cell_def)

interpretation connection_block: block_cell connection_cell
  by unfold_locales (simp_all add: connection_cell_def)

interpretation mongoDBConnection_block: block_cell mongoDBConnection_cell
  by unfold_locales (simp_all add: mongoDBConnection_cell_def)

interpretation requestSpec_block: block_cell requestSpec_cell
  by unfold_locales (simp_all add: requestSpec_cell_def)

interpretation requestStatus_block: block_cell requestStatus_cell
  by unfold_locales (simp_all add: requestStatus_cell_def)

interpretation request_block: block_cell request_cell
  by unfold_locales (simp_all add: request_cell_def)

interpretation rproviderSpec_block: block_cell rproviderSpec_cell
  by unfold_locales (simp_all add: rproviderSpec_cell_def)

interpretation mproviderSpec_block: block_cell mproviderSpec_cell
  by unfold_locales (simp_all add: mproviderSpec_cell_def)

interpretation providerStatus_block: block_cell providerStatus_cell
  by unfold_locales (simp_all add: providerStatus_cell_def)

interpretation rprovider_block: block_cell rprovider_cell
  by unfold_locales (simp_all add: rprovider_cell_def)

interpretation mprovider_block: block_cell mprovider_cell
  by unfold_locales (simp_all add: mprovider_cell_def)

interpretation objectList_block: block_cell objectList_cell
  by unfold_locales (simp_all add: objectList_cell_def)

subsection \<open>Structs without references\<close>

definition DeepCopyInto_AdditionalUser :: "AdditionalUser \<Rightarrow> (heap, AdditionalUser) go" where
  "DeepCopyInto_AdditionalUser x = ok x"

definition DeepCopyInto_ConnectionStatus :: "ConnectionStatus \<Rightarrow> (heap, ConnectionStatus) go" where
  "DeepCopyInto_ConnectionStatus x = ok x"

definition DeepCopyInto_DatabaseConnectionReference ::
    "DatabaseConnectionReference \<Rightarrow> (heap, DatabaseConnectionReference) go" where
  "DeepCopyInto_DatabaseConnectionReference x =
     ok (x\<lparr>dcrDatabaseObjectReference := dcrDatabaseObjectReference x\<rparr>)"

definition DeepCopyInto_DatabaseInfo :: "DatabaseInfo \<Rightarrow> (heap, DatabaseInfo) go" where
  "DeepCopyInto_DatabaseInfo x = ok x"

definition DeepCopyInto_MongoDBAuth :: "MongoDBAuth \<Rightarrow> (heap, MongoDBAuth) go" where
  "DeepCopyInto_MongoDBAuth x = ok x"

subsection \<open>Structs with references\<close>

definition DeepCopyInto_Connection :: "Connection_m \<Rightarrow> (heap, Connection_m) go" where
  "DeepCopyInto_Connection x =
     go_try (copy_slice string_cell (cmReplicaHostnames x)) fail (\<lambda>hosts.
       ok (x\<lparr>cmReplicaHostnames := hosts, cmPasswordSecretRef := cmPasswordSecretRef x\<rparr>))"

definition DeepCopyInto_MongoDBConnection :: "MongoDBConnection_m \<Rightarrow> (heap, MongoDBConnection_m) go" where
  "DeepCopyInto_MongoDBConnection x =
     go_try (copy_slice string_cell (mmReplicaHostnames x)) fail (\<lambda>hosts.
       ok (x\<lparr>mmReplicaHostnames := hosts, mmPasswordSecretRef := mmPasswordSecretRef x, mmAuth := mmAuth x\<rparr>))"

text \<open>\<open>*out = (*in).DeepCopy()\<close> of a \<open>metav1.Time\<close>.\<close>

definition copy_time :: "copy_library \<Rightarrow> pointer \<Rightarrow> (heap, pointer) go" where
  "copy_time L p = DeepCopy_of time_cell (\<lambda>t. ok (Time_DeepCopy L t)) p"

definition DeepCopyInto_DatabaseRequestSpec ::
    "copy_library \<Rightarrow> DatabaseRequestSpec_m \<Rightarrow> (heap, DatabaseRequestSpec_m) go" where
  "DeepCopyInto_DatabaseRequestSpec L x =
     go_try (copy_pointer secretReference_cell (smSeed x)) fail (\<lambda>seed.
     go_try (copy_slice additionalUser_cell (smAdditionalUsers x)) fail (\<lambda>users.
     go_try (copy_pointer connectionReference_cell (smDatabaseConnectionReference x)) fail (\<lambda>ref.
     go_try (copy_time L (smForcedReconcilation x)) fail (\<lambda>forced.
       ok (x\<lparr>smSeed := seed, smAdditionalUsers := users, smDatabaseConnectionReference := ref,
              smForcedReconcilation := forced\<rparr>)))))"

definition DeepCopyInto_DatabaseRequestStatus ::
    "copy_library \<Rightarrow> DatabaseRequestStatus_m \<Rightarrow> (heap, DatabaseRequestStatus_m) go" where
  "DeepCopyInto_DatabaseRequestStatus L x =
     go_try (copy_each condition_cell (\<lambda>c. ok (Condition_DeepCopyInto L c)) (tmConditions x)) fail (\<lambda>conds.
     go_try (copy_pointer connectionReference_cell (tmObservedDatabaseConnectionReference x)) fail (\<lambda>ref.
     go_try (copy_pointer databaseInfo_cell (tmDatabaseInfo x)) fail (\<lambda>info.
       ok (x\<lparr>tmConditions := conds, tmObservedDatabaseConnectionReference := ref, tmDatabaseInfo := info\<rparr>))))"

definition DeepCopyInto_RelationalDatabaseProviderSpec ::
    "RelationalDatabaseProviderSpec_m \<Rightarrow> (heap, RelationalDatabaseProviderSpec_m) go" where
  "DeepCopyInto_RelationalDatabaseProviderSpec x =
     go_try (copy_each connection_cell DeepCopyInto_Connection (rsConnections x)) fail (\<lambda>conns.
       ok (x\<lparr>rsConnections := conns\<rparr>))"

definition DeepCopyInto_MongoDBProviderSpec :: "MongoDBProviderSpec_m \<Rightarrow> (heap, MongoDBProviderSpec_m) go" where
  "DeepCopyInto_MongoDBProviderSpec x =
     go_try (copy_each mongoDBConnection_cell DeepCopyInto_MongoDBConnection (msConnections x)) fail (\<lambda>conns.
       ok (x\<lparr>msConnections := conns\<rparr>))"

definition DeepCopyInto_RelationalDatabaseProviderStatus ::
    "copy_library \<Rightarrow> ProviderStatus_m \<Rightarrow> (heap, ProviderStatus_m) go" where
  "DeepCopyInto_RelationalDatabaseProviderStatus L x =
     go_try (copy_each condition_cell (\<lambda>c. ok (Condition_DeepCopyInto L c)) (psConditions x)) fail (\<lambda>conds.
     go_try (copy_slice connectionStatus_cell (psConnectionStatus x)) fail (\<lambda>conns.
       ok (x\<lparr>psConditions := conds, psConnectionStatus := conns\<rparr>)))"

definition DeepCopyInto_MongoDBProviderStatus ::
    "copy_library \<Rightarrow> ProviderStatus_m \<Rightarrow> (heap, ProviderStatus_m) go" where
  "DeepCopyInto_MongoDBProviderStatus L x =
     go_try (copy_each condition_cell (\<lambda>c. ok (Condition_DeepCopyInto L c)) (psConditions x)) fail (\<lambda>conds.
     go_try (copy_slice connectionStatus_cell (psConnectionStatus x)) fail (\<lambda>conns.
       ok (x\<lparr>psConditions := conds, psConnectionStatus := conns\<rparr>)))"

subsection \<open>Objects and lists\<close>

definition DeepCopyInto_DatabaseRequest ::
    "copy_library \<Rightarrow> DatabaseRequest_m \<Rightarrow> (heap, DatabaseRequest_m) go" where
  "DeepCopyInto_DatabaseRequest L x =
     (let out = x\<lparr>omTypeMeta := omTypeMeta x, omObjectMeta := ObjectMeta_DeepCopyInto L (omObjectMeta x)\<rparr> in
      go_try (DeepCopyInto_DatabaseRequestSpec L (omSpec x)) fail (\<lambda>spec.
      go_try (DeepCopyInto_DatabaseRequestStatus L (omStatus x)) fail (\<lambda>status.
        ok (out\<lparr>omSpec := spec, omStatus := status\<rparr>))))"

definition DeepCopyInto_DatabaseRequestList :: "copy_library \<Rightarrow> list_m \<Rightarrow> (heap, list_m) go" where
  "DeepCopyInto_DatabaseRequestList L x =
     (let out = x\<lparr>liTypeMeta := liTypeMeta x, liListMeta := ListMeta_DeepCopyInto L (liListMeta x)\<rparr> in
      go_try (copy_each request_cell (DeepCopyInto_DatabaseRequest L) (liItems x)) fail (\<lambda>items.
        ok (out\<lparr>liItems := items\<rparr>)))"

definition DeepCopyInto_RelationalDatabaseProvider ::
    "copy_library \<Rightarrow> RelationalDatabaseProvider_m \<Rightarrow> (heap, RelationalDatabaseProvider_m) go" where
  "DeepCopyInto_RelationalDatabaseProvider L x =
     (let out = x\<lparr>omTypeMeta := omTypeMeta x, omObjectMeta := ObjectMeta_DeepCopyInto L (omObjectMeta x)\<rparr> in
      go_try (DeepCopyInto_RelationalDatabaseProviderSpec (omSpec x)) fail (\<lambda>spec.
      go_try (DeepCopyInto_RelationalDatabaseProviderStatus L (omStatus x)) fail (\<lambda>status.
        ok (out\<lparr>omSpec := spec, omStatus := status\<rparr>))))"

definition DeepCopyInto_RelationalDatabaseProviderList :: "copy_library \<Rightarrow> list_m \<Rightarrow> (heap, list_m) go" where
  "DeepCopyInto_RelationalDatabaseProviderList L x =
     (let out = x\<lparr>liTypeMeta := liTypeMeta x, liListMeta := ListMeta_DeepCopyInto L (liListMeta x)\<rparr> in
      go_try (copy_each rprovider_cell (DeepCopyInto_RelationalDatabaseProvider L) (liItems x)) fail (\<lambda>items.
        ok (out\<lparr>liItems := items\<rparr>)))"

definition DeepCopyInto_MongoDBProvider ::
    "copy_library \<Rightarrow> MongoDBProvider_m \<Rightarrow> (heap, MongoDBProvider_m) go" where
  "DeepCopyInto_MongoDBProvider L x =
     (let out = x\<lparr>omTypeMeta := omTypeMeta x, omObjectMeta := ObjectMeta_DeepCopyInto L (omObjectMeta x)\<rparr> in
      go_try (DeepCopyInto_MongoDBProviderSpec (omSpec x)) fail (\<lambda>spec.
      go_try (DeepCopyInto_MongoDBProviderStatus L (omStatus x)) fail (\<lambda>status.
        ok (out\<lparr>omSpec := spec, omStatus := status\<rparr>))))"

definition DeepCopyInto_MongoDBProviderList :: "copy_library \<Rightarrow> list_m \<Rightarrow> (heap, list_m) go" where
  "DeepCopyInto_MongoDBProviderList L x =
     (let out = x\<lparr>liTypeMeta := liTypeMeta x, liListMeta := ListMeta_DeepCopyInto L (liListMeta x)\<rparr> in
      go_try (copy_each mprovider_cell (DeepCopyInto_MongoDBProvider L) (liItems x)) fail (\<lambda>items.
        ok (out\<lparr>liItems := items\<rparr>)))"

subsection \<open>DeepCopy and DeepCopyObject\<close>

definition DeepCopy_AdditionalUser :: "pointer \<Rightarrow> (heap, pointer) go" where
  "DeepCopy_AdditionalUser p = DeepCopy_of additionalUser_cell DeepCopyInto_AdditionalUser p"

definition DeepCopy_Connection :: "pointer \<Rightarrow> (heap, pointer) go" where
  "DeepCopy_Connection p = DeepCopy_of connection_cell DeepCopyInto_Connection p"

definition DeepCopy_ConnectionStatus :: "pointer \<Rightarrow> (heap, pointer) go" where
  "DeepCopy_ConnectionStatus p = DeepCopy_of connectionStatus_cell DeepCopyInto_ConnectionStatus p"

definition DeepCopy_DatabaseConnectionReference :: "pointer \<Rightarrow> (heap, pointer) go" where
  "DeepCopy_DatabaseConnectionReference p = DeepCopy_of connectionReference_cell DeepCopyInto_DatabaseConnectionReference p"

definition DeepCopy_DatabaseInfo :: "pointer \<Rightarrow> (heap, pointer) go" where
  "DeepCopy_DatabaseInfo p = DeepCopy_of databaseInfo_cell DeepCopyInto_DatabaseInfo p"

definition DeepCopy_DatabaseRequest :: "copy_library \<Rightarrow> pointer \<Rightarrow> (heap, pointer) go" where
  "DeepCopy_DatabaseRequest L p = DeepCopy_of request_cell (DeepCopyInto_DatabaseRequest L) p"

definition DeepCopy_DatabaseRequestList :: "copy_library \<Rightarrow> pointer \<Rightarrow> (heap, pointer) go" where
  "DeepCopy_DatabaseRequestList L p = DeepCopy_of objectList_cell (DeepCopyInto_DatabaseRequestList L) p"

definition DeepCopy_DatabaseRequestSpec :: "copy_library \<Rightarrow> pointer \<Rightarrow> (heap, pointer) go" where
  "DeepCopy_DatabaseRequestSpec L p = DeepCopy_of requestSpec_cell (DeepCopyInto_DatabaseRequestSpec L) p"

definition DeepCopy_DatabaseRequestStatus :: "copy_library \<Rightarrow> pointer \<Rightarrow> (heap, pointer) go" where
  "DeepCopy_DatabaseRequestStatus L p = DeepCopy_of requestStatus_cell (DeepCopyInto_DatabaseRequestStatus L) p"

definition DeepCopy_MongoDBAuth :: "pointer \<Rightarrow> (heap, pointer) go" where
  "DeepCopy_MongoDBAuth p = DeepCopy_of mongoDBAuth_cell DeepCopyInto_MongoDBAuth p"

definition DeepCopy_MongoDBConnection :: "pointer \<Rightarrow> (heap, pointer) go" where
  "DeepCopy_MongoDBConnection p = DeepCopy_of mongoDBConnection_cell DeepCopyInto_MongoDBConnection p"

definition DeepCopy_MongoDBProvider :: "copy_library \<Rightarrow> pointer \<Rightarrow> (heap, pointer) go" where
  "DeepCopy_MongoDBProvider L p = DeepCopy_of mprovider_cell (DeepCopyInto_MongoDBProvider L) p"

definition DeepCopy_MongoDBProviderList :: "copy_library \<Rightarrow> pointer \<Rightarrow> (heap, pointer) go" where
  "DeepCopy_MongoDBProviderList L p = DeepCopy_of objectList_cell (DeepCopyInto_MongoDBProviderList L) p"

definition DeepCopy_MongoDBProviderSpec :: "pointer \<Rightarrow> (heap, pointer) go" where
  "DeepCopy_MongoDBProviderSpec p = DeepCopy_of mproviderSpec_cell DeepCopyInto_MongoDBProviderSpec p"

definition DeepCopy_MongoDBProviderStatus :: "copy_library \<Rightarrow> pointer \<Rightarrow> (heap, pointer) go" where
  "DeepCopy_MongoDBProviderStatus L p = DeepCopy_of providerStatus_cell (DeepCopyInto_MongoDBProviderStatus L) p"

definition DeepCopy_RelationalDatabaseProvider :: "copy_library \<Rightarrow> pointer \<Rightarrow> (heap, pointer) go" where
  "DeepCopy_RelationalDatabaseProvider L p = DeepCopy_of rprovider_cell (DeepCopyInto_RelationalDatabaseProvider L) p"

definition DeepCopy_RelationalDatabaseProviderList :: "copy_library \<Rightarrow> pointer \<Rightarrow> (heap, pointer) go" where
  "DeepCopy_RelationalDatabaseProviderList L p = DeepCopy_of objectList_cell (DeepCopyInto_RelationalDatabaseProviderList L) p"

definition DeepCopy_RelationalDatabaseProviderSpec :: "pointer \<Rightarrow> (heap, pointer) go" where
  "DeepCopy_RelationalDatabaseProviderSpec p = DeepCopy_of rproviderSpec_cell DeepCopyInto_RelationalDatabaseProviderSpec p"

definition DeepCopy_RelationalDatabaseProviderStatus :: "copy_library \<Rightarrow> pointer \<Rightarrow> (heap, pointer) go" where
  "DeepCopy_RelationalDatabaseProviderStatus L p = DeepCopy_of providerStatus_cell (DeepCopyInto_RelationalDatabaseProviderStatus L) p"

text \<open>
  A \<open>runtime.Object\<close> is nil or an address with the type it points to; a nil pointer is turned into a nil
  object, not into an object with a nil pointer in it.
\<close>

datatype runtime_object =
    DatabaseRequestObject pointer | DatabaseRequestListObject pointer
  | RelationalDatabaseProviderObject pointer | RelationalDatabaseProviderListObject pointer
  | MongoDBProviderObject pointer | MongoDBProviderListObject pointer

definition as_object :: "(pointer \<Rightarrow> runtime_object) \<Rightarrow> (heap, pointer) go \<Rightarrow> (heap, runtime_object option) go" where
  "as_object typed copy = go_try copy fail (\<lambda>c. if c \<noteq> None then ok (Some (typed c)) else ok None)"

definition DeepCopyObject_DatabaseRequest :: "copy_library \<Rightarrow> pointer \<Rightarrow> (heap, runtime_object option) go" where
  "DeepCopyObject_DatabaseRequest L p = as_object DatabaseRequestObject (DeepCopy_DatabaseRequest L p)"

definition DeepCopyObject_DatabaseRequestList :: "copy_library \<Rightarrow> pointer \<Rightarrow> (heap, runtime_object option) go" where
  "DeepCopyObject_DatabaseRequestList L p = as_object DatabaseRequestListObject (DeepCopy_DatabaseRequestList L p)"

definition DeepCopyObject_RelationalDatabaseProvider :: "copy_library \<Rightarrow> pointer \<Rightarrow> (heap, runtime_object option) go" where
  "DeepCopyObject_RelationalDatabaseProvider L p = as_object RelationalDatabaseProviderObject (DeepCopy_RelationalDatabaseProvider L p)"

definition DeepCopyObject_RelationalDatabaseProviderList :: "copy_library \<Rightarrow> pointer \<Rightarrow> (heap, runtime_object option) go" where
  "DeepCopyObject_RelationalDatabaseProviderList L p = as_object RelationalDatabaseProviderListObject (DeepCopy_RelationalDatabaseProviderList L p)"

definition DeepCopyObject_MongoDBProvider :: "copy_library \<Rightarrow> pointer \<Rightarrow> (heap, runtime_object option) go" where
  "DeepCopyObject_MongoDBProvider L p = as_object MongoDBProviderObject (DeepCopy_MongoDBProvider L p)"

definition DeepCopyObject_MongoDBProviderList :: "copy_library \<Rightarrow> pointer \<Rightarrow> (heap, runtime_object option) go" where
  "DeepCopyObject_MongoDBProviderList L p = as_object MongoDBProviderListObject (DeepCopy_MongoDBProviderList L p)"

end
