(* ===== verification/DeepCopyProps.thy ===== *)
theory DeepCopyProps
  imports DeepCopy
begin

section \<open>The generated copies are deep\<close>

text \<open>
  The value that a struct stands for is the struct with its references erased, together with what
  the references lead to; nil and an empty slice are different values. Every copy function
  of the package is a \<open>deep_copy\<close> for the reader of its struct.
\<close>

subsection \<open>Readers of the structs\<close>

definition rd_connection where
  "rd_connection = rd_struct (\<lambda>x. x\<lparr>cmReplicaHostnames := None\<rparr>) cmReplicaHostnames (rd_slice string_cell rd_plain)"

definition rd_mongoDBConnection where
  "rd_mongoDBConnection =
     rd_struct (\<lambda>x. x\<lparr>mmReplicaHostnames := None\<rparr>) mmReplicaHostnames (rd_slice string_cell rd_plain)"

definition rd_requestSpec where
  "rd_requestSpec =
     rd_struct
       (\<lambda>x. x\<lparr>smSeed := None, smAdditionalUsers := None, smDatabaseConnectionReference := None,
               smForcedReconcilation := None\<rparr>)
       (\<lambda>x. (smSeed x, smAdditionalUsers x, smDatabaseConnectionReference x, smForcedReconcilation x))
       (rd_pair (rd_pointer secretReference_cell rd_plain) (rd_pair (rd_slice additionalUser_cell rd_plain)
         (rd_pair (rd_pointer connectionReference_cell rd_plain) (rd_pointer time_cell rd_plain))))"

definition rd_requestStatus where
  "rd_requestStatus =
     rd_struct
       (\<lambda>x. x\<lparr>tmConditions := None, tmObservedDatabaseConnectionReference := None, tmDatabaseInfo := None\<rparr>)
       (\<lambda>x. (tmConditions x, tmObservedDatabaseConnectionReference x, tmDatabaseInfo x))
       (rd_pair (rd_slice condition_cell rd_plain) (rd_pair (rd_pointer connectionReference_cell rd_plain)
         (rd_pointer databaseInfo_cell rd_plain)))"

definition rd_rproviderSpec where
  "rd_rproviderSpec = rd_struct (\<lambda>x. x\<lparr>rsConnections := None\<rparr>) rsConnections (rd_slice connection_cell rd_connection)"

definition rd_mproviderSpec where
  "rd_mproviderSpec =
     rd_struct (\<lambda>x. x\<lparr>msConnections := None\<rparr>) msConnections (rd_slice mongoDBConnection_cell rd_mongoDBConnection)"

definition rd_providerStatus where
  "rd_providerStatus =
     rd_struct (\<lambda>x. x\<lparr>psConditions := None, psConnectionStatus := None\<rparr>) (\<lambda>x. (psConditions x, psConnectionStatus x))
       (rd_pair (rd_slice condition_cell rd_plain) (rd_slice connectionStatus_cell rd_plain))"

definition rd_object where
  "rd_object rdSpec rdStatus =
     rd_struct (\<lambda>x. (omTypeMeta x, omObjectMeta x)) (\<lambda>x. (omSpec x, omStatus x)) (rd_pair rdSpec rdStatus)"

definition rd_objects where
  "rd_objects c rd = rd_struct (\<lambda>x. (liTypeMeta x, liListMeta x)) liItems (rd_slice c rd)"

abbreviation rd_request where
  "rd_request \<equiv> rd_object rd_requestSpec rd_requestStatus"

abbreviation rd_rprovider where
  "rd_rprovider \<equiv> rd_object rd_rproviderSpec rd_providerStatus"

abbreviation rd_mprovider where
  "rd_mprovider \<equiv> rd_object rd_mproviderSpec rd_providerStatus"

subsection \<open>Copying field by field\<close>

lemma go_try_pair:
  "go_try (go_try m fail g) fail k = go_try m fail (\<lambda>y. go_try (g y) fail k)"
  "go_try (ok x) fail k = k x"
  by (auto intro!: state.expand ext simp: run_go_try split: prod.splits outcome.splits)

lemma deep_copy_pair:
  assumes "deep_copy rd m" and "deep_copy rd' m'"
  shows "deep_copy (rd_pair rd rd') (\<lambda>p. go_try (m (fst p)) fail (\<lambda>y. go_try (m' (snd p)) fail (\<lambda>z. ok (y, z))))"
  unfolding deep_copy_def
proof (intro allI impI)
  fix h p v
  assume held: "holds (rd_pair rd rd') {..<heap_top h} h p v"
  obtain x y where p: "p = (x, y)" by fastforce
  obtain a b where v: "v = (a, b)" by fastforce
  from held p v have a: "holds rd {..<heap_top h} h x a" and b: "holds rd' {..<heap_top h} h y b" by simp_all
  show "succeeds (go_try (m (fst p)) fail (\<lambda>y. go_try (m' (snd p)) fail (\<lambda>z. ok (y, z)))) h
    (\<lambda>y h'. extends h h' \<and> holds (rd_pair rd rd') {heap_top h..<heap_top h'} h' y v)"
    unfolding p v fst_conv snd_conv
    by (intro copy_step [OF assms(1) a extends_refl] copy_step [OF assms(2) b] succeeds_ok)
      (auto intro: holds_new)
qed

lemma deep_copy_struct:
  assumes "deep_copy rd m" and "\<And>x y. own (put x y) = own x \<and> refs (put x y) = y"
  shows "deep_copy (rd_struct own refs rd) (\<lambda>x. go_try (m (refs x)) fail (\<lambda>y. ok (put x y)))"
  unfolding deep_copy_def
proof (intro allI impI)
  fix h x v
  assume held: "holds (rd_struct own refs rd) {..<heap_top h} h x v"
  obtain w u where v: "v = (w, u)" by fastforce
  from held v have w: "w = own x" and u: "holds rd {..<heap_top h} h (refs x) u" by simp_all
  show "succeeds (go_try (m (refs x)) fail (\<lambda>y. ok (put x y))) h
    (\<lambda>y h'. extends h h' \<and> holds (rd_struct own refs rd) {heap_top h..<heap_top h'} h' y v)"
    using w by (intro copy_step [OF assms(1) u extends_refl] succeeds_ok) (simp add: v assms(2))
qed

named_theorems copy_rules "deep copies"

lemma copy_values [copy_rules]:
  "deep_copy rd_plain DeepCopyInto_AdditionalUser"
  "deep_copy rd_plain DeepCopyInto_ConnectionStatus"
  "deep_copy rd_plain DeepCopyInto_DatabaseConnectionReference"
  "deep_copy rd_plain DeepCopyInto_DatabaseInfo"
  "deep_copy rd_plain DeepCopyInto_MongoDBAuth"
  by (rule deep_copy_same [OF deep_copy_plain],
      simp add: DeepCopyInto_AdditionalUser_def DeepCopyInto_ConnectionStatus_def DeepCopyInto_DatabaseInfo_def
        DeepCopyInto_MongoDBAuth_def DeepCopyInto_DatabaseConnectionReference_def)+

lemma copy_library_values:
  assumes "copies_values L"
  shows "deep_copy rd_plain (\<lambda>c. ok (Condition_DeepCopyInto L c))"
    and "deep_copy rd_plain (\<lambda>t. ok (Time_DeepCopy L t))"
  by (rule deep_copy_same [OF deep_copy_plain], use assms in \<open>simp add: copies_values_def\<close>)+

lemma copy_connection [copy_rules]: "deep_copy rd_connection DeepCopyInto_Connection"
  unfolding rd_connection_def
  by (rule deep_copy_same [OF deep_copy_struct [OF string_block.deep_copy_slice,
          where put = "\<lambda>x hosts. x\<lparr>cmReplicaHostnames := hosts\<rparr>"]])
    (simp_all add: DeepCopyInto_Connection_def)

lemma copy_mongoDBConnection [copy_rules]: "deep_copy rd_mongoDBConnection DeepCopyInto_MongoDBConnection"
  unfolding rd_mongoDBConnection_def
  by (rule deep_copy_same [OF deep_copy_struct [OF string_block.deep_copy_slice,
          where put = "\<lambda>x hosts. x\<lparr>mmReplicaHostnames := hosts\<rparr>"]])
    (simp_all add: DeepCopyInto_MongoDBConnection_def)

lemma copy_specs [copy_rules]:
  "deep_copy rd_rproviderSpec DeepCopyInto_RelationalDatabaseProviderSpec"
  "deep_copy rd_mproviderSpec DeepCopyInto_MongoDBProviderSpec"
  unfolding rd_rproviderSpec_def rd_mproviderSpec_def
  by (rule deep_copy_same [OF deep_copy_struct [OF connection_block.deep_copy_each [OF copy_connection],
          where put = "\<lambda>x conns. x\<lparr>rsConnections := conns\<rparr>"]],
      simp_all add: DeepCopyInto_RelationalDatabaseProviderSpec_def)
    (rule deep_copy_same [OF deep_copy_struct [OF mongoDBConnection_block.deep_copy_each [OF copy_mongoDBConnection],
          where put = "\<lambda>x conns. x\<lparr>msConnections := conns\<rparr>"]],
      simp_all add: DeepCopyInto_MongoDBProviderSpec_def)

lemma copy_requestSpec [copy_rules]:
  assumes "copies_values L"
  shows "deep_copy rd_requestSpec (DeepCopyInto_DatabaseRequestSpec L)"
proof -
  have time: "deep_copy (rd_pointer time_cell rd_plain) (copy_time L)"
    by (rule deep_copy_same [OF time_block.deep_copy_DeepCopy [OF copy_library_values(2) [OF assms]]])
      (simp add: copy_time_def)
  show ?thesis
    unfolding rd_requestSpec_def
    by (rule deep_copy_same [OF deep_copy_struct [OF deep_copy_pair [OF secretReference_block.deep_copy_pointer
            deep_copy_pair [OF additionalUser_block.deep_copy_slice
              deep_copy_pair [OF connectionReference_block.deep_copy_pointer time]]],
          where put = "\<lambda>x (seed, users, ref, forced). x\<lparr>smSeed := seed, smAdditionalUsers := users,
            smDatabaseConnectionReference := ref, smForcedReconcilation := forced\<rparr>"]])
      (auto simp: DeepCopyInto_DatabaseRequestSpec_def go_try_pair)
qed

lemma copy_requestStatus [copy_rules]:
  assumes "copies_values L"
  shows "deep_copy rd_requestStatus (DeepCopyInto_DatabaseRequestStatus L)"
  unfolding rd_requestStatus_def
  by (rule deep_copy_same [OF deep_copy_struct [OF deep_copy_pair [OF
          condition_block.deep_copy_each [OF copy_library_values(1) [OF assms]]
          deep_copy_pair [OF connectionReference_block.deep_copy_pointer databaseInfo_block.deep_copy_pointer]],
        where put = "\<lambda>x (conds, ref, info). x\<lparr>tmConditions := conds,
          tmObservedDatabaseConnectionReference := ref, tmDatabaseInfo := info\<rparr>"]])
    (auto simp: DeepCopyInto_DatabaseRequestStatus_def go_try_pair)

lemma copy_providerStatus [copy_rules]:
  assumes "copies_values L"
  shows "deep_copy rd_providerStatus (DeepCopyInto_RelationalDatabaseProviderStatus L)"
    and "deep_copy rd_providerStatus (DeepCopyInto_MongoDBProviderStatus L)"
  unfolding rd_providerStatus_def
  by (rule deep_copy_same [OF deep_copy_struct [OF deep_copy_pair [OF
          condition_block.deep_copy_each [OF copy_library_values(1) [OF assms]] connectionStatus_block.deep_copy_slice],
        where put = "\<lambda>x (conds, conns). x\<lparr>psConditions := conds, psConnectionStatus := conns\<rparr>"]],
      auto simp: DeepCopyInto_RelationalDatabaseProviderStatus_def DeepCopyInto_MongoDBProviderStatus_def go_try_pair)+

text \<open>An object, whatever the kind, and a list of them.\<close>

lemma copy_object:
  assumes "copies_values L" and "deep_copy rds ms" and "deep_copy rdt mt"
    and "\<And>x. into x = go_try (ms (omSpec x)) fail (\<lambda>spec. go_try (mt (omStatus x)) fail (\<lambda>status.
      ok (x\<lparr>omTypeMeta := omTypeMeta x, omObjectMeta := ObjectMeta_DeepCopyInto L (omObjectMeta x),
        omSpec := spec, omStatus := status\<rparr>)))"
  shows "deep_copy (rd_object rds rdt) into"
  unfolding rd_object_def
  by (rule deep_copy_same [OF deep_copy_struct [OF deep_copy_pair [OF assms(2,3)],
        where put = "\<lambda>x (spec, status). x\<lparr>omSpec := spec, omStatus := status\<rparr>"]])
    (use assms(1) in \<open>auto simp: assms(4) go_try_pair copies_values_def\<close>)

lemma copy_objects [copy_rules]:
  assumes "copies_values L"
  shows "deep_copy rd_request (DeepCopyInto_DatabaseRequest L)"
    and "deep_copy rd_rprovider (DeepCopyInto_RelationalDatabaseProvider L)"
    and "deep_copy rd_mprovider (DeepCopyInto_MongoDBProvider L)"
  by (rule copy_object [OF assms copy_requestSpec [OF assms] copy_requestStatus [OF assms]]
      copy_object [OF assms copy_specs(1) copy_providerStatus(1) [OF assms]]
      copy_object [OF assms copy_specs(2) copy_providerStatus(2) [OF assms]],
      simp add: DeepCopyInto_DatabaseRequest_def DeepCopyInto_RelationalDatabaseProvider_def
        DeepCopyInto_MongoDBProvider_def Let_def)+

lemma copy_list:
  assumes "copies_values L" and "deep_copy (rd_slice c rd) m"
    and "\<And>x. into x = go_try (m (liItems x)) fail (\<lambda>items.
      ok (x\<lparr>liTypeMeta := liTypeMeta x, liListMeta := ListMeta_DeepCopyInto L (liListMeta x), liItems := items\<rparr>))"
  shows "deep_copy (rd_objects c rd) into"
  unfolding rd_objects_def
  by (rule deep_copy_same [OF deep_copy_struct [OF assms(2), where put = "\<lambda>x items. x\<lparr>liItems := items\<rparr>"]])
    (use assms(1) in \<open>auto simp: assms(3) copies_values_def\<close>)

lemma copy_lists [copy_rules]:
  assumes "copies_values L"
  shows "deep_copy (rd_objects request_cell rd_request) (DeepCopyInto_DatabaseRequestList L)"
    and "deep_copy (rd_objects rprovider_cell rd_rprovider) (DeepCopyInto_RelationalDatabaseProviderList L)"
    and "deep_copy (rd_objects mprovider_cell rd_mprovider) (DeepCopyInto_MongoDBProviderList L)"
  by (rule copy_list [OF assms request_block.deep_copy_each [OF copy_objects(1) [OF assms]]]
      copy_list [OF assms rprovider_block.deep_copy_each [OF copy_objects(2) [OF assms]]]
      copy_list [OF assms mprovider_block.deep_copy_each [OF copy_objects(3) [OF assms]]],
      simp add: DeepCopyInto_DatabaseRequestList_def DeepCopyInto_RelationalDatabaseProviderList_def
        DeepCopyInto_MongoDBProviderList_def Let_def)+

subsection \<open>DeepCopy and DeepCopyObject\<close>

lemma copies_of_parts:
  assumes "copies_values L"
  shows "deep_copy (rd_pointer additionalUser_cell rd_plain) DeepCopy_AdditionalUser"
    and "deep_copy (rd_pointer connection_cell rd_connection) DeepCopy_Connection"
    and "deep_copy (rd_pointer connectionStatus_cell rd_plain) DeepCopy_ConnectionStatus"
    and "deep_copy (rd_pointer connectionReference_cell rd_plain) DeepCopy_DatabaseConnectionReference"
    and "deep_copy (rd_pointer databaseInfo_cell rd_plain) DeepCopy_DatabaseInfo"
    and "deep_copy (rd_pointer requestSpec_cell rd_requestSpec) (DeepCopy_DatabaseRequestSpec L)"
    and "deep_copy (rd_pointer requestStatus_cell rd_requestStatus) (DeepCopy_DatabaseRequestStatus L)"
    and "deep_copy (rd_pointer mongoDBAuth_cell rd_plain) DeepCopy_MongoDBAuth"
    and "deep_copy (rd_pointer mongoDBConnection_cell rd_mongoDBConnection) DeepCopy_MongoDBConnection"
    and "deep_copy (rd_pointer mproviderSpec_cell rd_mproviderSpec) DeepCopy_MongoDBProviderSpec"
    and "deep_copy (rd_pointer providerStatus_cell rd_providerStatus) (DeepCopy_MongoDBProviderStatus L)"
    and "deep_copy (rd_pointer rproviderSpec_cell rd_rproviderSpec) DeepCopy_RelationalDatabaseProviderSpec"
    and "deep_copy (rd_pointer providerStatus_cell rd_providerStatus) (DeepCopy_RelationalDatabaseProviderStatus L)"
  unfolding DeepCopy_AdditionalUser_def [abs_def] DeepCopy_Connection_def [abs_def] DeepCopy_ConnectionStatus_def [abs_def]
    DeepCopy_DatabaseConnectionReference_def [abs_def] DeepCopy_DatabaseInfo_def [abs_def]
    DeepCopy_DatabaseRequestSpec_def [abs_def] DeepCopy_DatabaseRequestStatus_def [abs_def] DeepCopy_MongoDBAuth_def [abs_def]
    DeepCopy_MongoDBConnection_def [abs_def] DeepCopy_MongoDBProviderSpec_def [abs_def]
    DeepCopy_MongoDBProviderStatus_def [abs_def] DeepCopy_RelationalDatabaseProviderSpec_def [abs_def]
    DeepCopy_RelationalDatabaseProviderStatus_def [abs_def]
  by (intro additionalUser_block.deep_copy_DeepCopy connection_block.deep_copy_DeepCopy
      connectionStatus_block.deep_copy_DeepCopy connectionReference_block.deep_copy_DeepCopy
      databaseInfo_block.deep_copy_DeepCopy requestSpec_block.deep_copy_DeepCopy requestStatus_block.deep_copy_DeepCopy
      mongoDBAuth_block.deep_copy_DeepCopy mongoDBConnection_block.deep_copy_DeepCopy
      mproviderSpec_block.deep_copy_DeepCopy providerStatus_block.deep_copy_DeepCopy
      rproviderSpec_block.deep_copy_DeepCopy copy_rules assms)+

text \<open>
  What a copy of an object has to be: a nil pointer gives a nil object; any other gives an object of the
  type, at an address allocated since, that stands for the same value.
\<close>

definition copies_object :: "'a cell \<Rightarrow> (heap \<Rightarrow> 'a \<Rightarrow> 'v option) \<Rightarrow> (pointer \<Rightarrow> runtime_object) \<Rightarrow>
    (pointer \<Rightarrow> (heap, runtime_object option) go) \<Rightarrow> bool" where
  "copies_object c rd typed m \<longleftrightarrow>
     (\<forall>h p v. holds (rd_pointer c rd) {..<heap_top h} h p v \<longrightarrow>
        succeeds (m p) h (\<lambda>r h'. extends h h' \<and>
          (case r of
             None \<Rightarrow> p = None
           | Some x \<Rightarrow> (\<exists>b. x = typed (Some b) \<and> heap_top h \<le> b \<and>
               holds (rd_pointer c rd) {heap_top h..<heap_top h'} h' (Some b) v))))"

lemma copy_as_object:
  assumes "block_cell c" and "deep_copy rd into" and "\<And>p. m p = as_object typed (DeepCopy_of c into p)"
  shows "copies_object c rd typed m"
  unfolding copies_object_def
proof (intro allI impI)
  fix h p v
  assume held: "holds (rd_pointer c rd) {..<heap_top h} h p v"
  show "succeeds (m p) h (\<lambda>r h'. extends h h' \<and>
      (case r of
         None \<Rightarrow> p = None
       | Some x \<Rightarrow> (\<exists>b. x = typed (Some b) \<and> heap_top h \<le> b \<and>
           holds (rd_pointer c rd) {heap_top h..<heap_top h'} h' (Some b) v)))"
    unfolding assms(3) as_object_def
  proof (intro copy_step [OF block_cell.deep_copy_DeepCopy [OF assms(1,2)] held extends_refl])
    fix q h'
    assume h': "extends h h'" and q: "holds (rd_pointer c rd) {heap_top h..<heap_top h'} h' q v"
    note nil = block_cell.holds_nil(1) [OF assms(1)]
    note at = block_cell.holds_pointer [OF assms(1)]
    show "succeeds (if q \<noteq> None then ok (Some (typed q)) else ok None) h' (\<lambda>r h'. extends h h' \<and>
      (case r of
         None \<Rightarrow> p = None
       | Some x \<Rightarrow> (\<exists>b. x = typed (Some b) \<and> heap_top h \<le> b \<and>
           holds (rd_pointer c rd) {heap_top h..<heap_top h'} h' (Some b) v)))"
    proof (cases q)
      case None
      with q have "v = None" by (simp add: nil)
      with held have "p = None" by (cases p) (auto simp: at)
      with None h' show ?thesis by (auto intro!: succeeds_ok)
    next
      case (Some b)
      with q have "heap_top h \<le> b" by (simp add: at)
      with Some q h' show ?thesis by (auto intro!: succeeds_ok)
    qed
  qed
qed


definition demo_copies :: copy_library where
  "demo_copies = \<lparr>ObjectMeta_DeepCopyInto = (\<lambda>m. m), ListMeta_DeepCopyInto = (\<lambda>m. m),
     Condition_DeepCopyInto = (\<lambda>c. c), Time_DeepCopy = (\<lambda>t. t)\<rparr>"

text \<open>A provider with one connection, whose replica hostnames are in a block of their own.\<close>

definition demo_heap :: heap where
  "demo_heap =
     \<lparr>blocks = [0 \<mapsto> Strings [''replica''],
        1 \<mapsto> Connections [(zero_of connection_cell)\<lparr>cmName := ''primary'', cmReplicaHostnames := Some (0, 1)\<rparr>],
        2 \<mapsto> RProviders [(zero_of rprovider_cell)\<lparr>omSpec := (zero_of rproviderSpec_cell)\<lparr>rsConnections := Some (1, 1)\<rparr>\<rparr>]],
      heap_top = 3\<rparr>"

lemma demo_heap_holds:
  "\<exists>v. holds (rd_pointer rprovider_cell rd_rprovider) {..<heap_top demo_heap} demo_heap (Some 2) (Some v)"
proof -
  have load: "load rprovider_cell demo_heap 2 =
      Some [(zero_of rprovider_cell)\<lparr>omSpec := (zero_of rproviderSpec_cell)\<lparr>rsConnections := Some (1, 1)\<rparr>\<rparr>]"
    "load connection_cell demo_heap 1 =
      Some [(zero_of connection_cell)\<lparr>cmName := ''primary'', cmReplicaHostnames := Some (0, 1)\<rparr>]"
    "load string_cell demo_heap 0 = Some [''replica'']"
    by (simp_all add: load_def demo_heap_def rprovider_cell_def connection_cell_def string_cell_def)
  let ?S = "{..<heap_top demo_heap}"
  let ?conn = "(zero_of connection_cell)\<lparr>cmName := ''primary'', cmReplicaHostnames := Some (0, 1)\<rparr>"
  have top: "0 \<in> ?S" "1 \<in> ?S" "2 \<in> ?S" by (simp_all add: demo_heap_def)
  have "holds rd_connection ?S demo_heap ?conn (?conn\<lparr>cmReplicaHostnames := None\<rparr>, Some [''replica''])"
    using load(3) top by (simp add: rd_connection_def string_block.holds_slice)
  then have "holds rd_rproviderSpec ?S demo_heap ((zero_of rproviderSpec_cell)\<lparr>rsConnections := Some (1, 1)\<rparr>)
      ((zero_of rproviderSpec_cell)\<lparr>rsConnections := None\<rparr>,
       Some [(?conn\<lparr>cmReplicaHostnames := None\<rparr>, Some [''replica''])])"
    using load(2) top by (simp add: rd_rproviderSpec_def connection_block.holds_slice)
  moreover have "holds rd_providerStatus ?S demo_heap (zero_of providerStatus_cell) (zero_of providerStatus_cell, None, None)"
    by (simp add: rd_providerStatus_def providerStatus_cell_def)
  ultimately have "holds rd_rprovider ?S demo_heap
      ((zero_of rprovider_cell)\<lparr>omSpec := (zero_of rproviderSpec_cell)\<lparr>rsConnections := Some (1, 1)\<rparr>\<rparr>)
      ((omTypeMeta (zero_of rprovider_cell), omObjectMeta (zero_of rprovider_cell)),
       ((zero_of rproviderSpec_cell)\<lparr>rsConnections := None\<rparr>,
        Some [(?conn\<lparr>cmReplicaHostnames := None\<rparr>, Some [''replica''])]),
       (zero_of providerStatus_cell, None, None))"
    by (simp add: rd_object_def rprovider_cell_def)
  with load(1) top show ?thesis
    unfolding rprovider_block.holds_pointer by blast
qed


end
