(* ===== verification/Spec2Isabelle.thy ===== *)
theory Spec2Isabelle
  imports ConnProps RequestProps GenerationProps MongoProps Locks Interleaving DeepCopyProps
begin

text \<open>
  A model of dbaas-controller, a Kubernetes operator that provisions databases, with the theorems that
  make it correct.

  The program. A user creates a DatabaseRequest; the operator finds the least loaded connection
  of a matching RelationalDatabaseProvider, creates a database and a user there, and leaves a service
  with the host and a secret with the credentials in the user's namespace. A request may instead
  bring a seed, a secret that describes an existing database to adopt. Deleting the request removes
  secret and service, and the database when that is asked for. Two further controllers probe the
  connections of the RelationalDatabaseProviders and of the MongoDBProviders and keep their
  status. The controllers talk to the Kubernetes API server and, through two database clients, to the MySQL,
  PostgreSQL and MongoDB servers; \<open>main\<close> builds them and hands them to the manager of
  controller-runtime, which calls \<open>Reconcile\<close> for every event, from several workers.

  How the code is modelled. A Go function that works on a state is a program of the state monad whose
  result is \<open>Ok\<close>, \<open>Err\<close> or \<open>Panic\<close> (\<open>Prelude\<close>); errors keep their text, their chain and the kind that
  the code inspects; Go strings are byte strings (\<open>GoStrings\<close>). The state of a reconciler (\<open>Kube\<close>) has the
  API server, the databases, the object the pointer refers to, and the metrics and events written so
  far. The API server, the database servers and the libraries are parameters: records of functions,
  with what the code relies on as the laws of a locale. Every locale is interpreted on an executable
  model, on which the witnesses evaluate the code.

  The parts, with the files they translate:
  \<^item> The custom resources, \<open>api/v1alpha1/*_types.go\<close>: \<open>ApiTypes\<close>, structs as records and the
    validation markers as predicates.
  \<^item> Their generated copies, \<open>zz_generated.deepcopy.go\<close>: \<open>GoHeap\<close> has a memory with pointers and slices and
    the structs as they lie in it, \<open>GoHeapFacts\<close> the locale \<open>block_cell\<close> and the copy patterns, \<open>DeepCopy\<close> the
    44 functions, \<open>DeepCopyProps\<close> that every one of them is a deep copy.
  \<^item> The SQL client, \<open>internal/database/database.go\<close> and \<open>mock.go\<close>: \<open>RelDBInterface\<close> has the interface and its
    contract, the locale \<open>credential_store\<close>; \<open>RelDB\<close> the implementation with its SQL text and
    its connection cache; \<open>RelDBFacts\<close> what needs no server; \<open>SqlServer\<close> the laws of a server, the locale
    \<open>sql_server\<close>, and that the client over it is a \<open>credential_store\<close>; \<open>MemSQL\<close> a server in
    memory; \<open>RelDBProps\<close> the properties.
  \<^item> The MongoDB client, \<open>internal/database/mongodb\<close>: \<open>MongoDB\<close>, the laws \<open>mongo_store\<close> in \<open>MongoFacts\<close>, the
    server \<open>MemMongo\<close>, the properties in \<open>MongoProps\<close>.
  \<^item> The request controller, \<open>databaserequest_controller.go\<close>: \<open>Conn\<close> has the connection struct, the data
    source names and the encoding of secrets (with the round trips in \<open>ConnProps\<close>), \<open>DbRequest\<close> the
    handlers and \<open>Reconcile\<close>, \<open>DbRequestFacts\<close>, \<open>FindProvider\<close> and \<open>Provisioning\<close> what its parts do, over the
    laws \<open>cluster_frame\<close>, \<open>fresh_cluster\<close> and \<open>provisioning\<close>; \<open>MemCluster\<close> is an API server in
    memory. The properties are in \<open>DbRequestProps\<close> (what is provided, deletion), \<open>RequestProps\<close> (the
    provider found, seeds, requests that are up to date), \<open>RequestErrors\<close> (the error paths) and
    \<open>GenerationProps\<close>, with \<open>StaleGeneration\<close> (the observed generation, over the laws
    \<open>request_store\<close>). \<open>Locks\<close> has the mutexes of its workers as a step relation.
  \<^item> The provider controllers, \<open>relationaldatabaseprovider_controller.go\<close> and
    \<open>mongodbprovider_controller.go\<close>: \<open>ProviderCheck\<close> has what they share, the loop that probes the
    connections, with the locale \<open>provider_check\<close>; \<open>RelProvider\<close> and \<open>MongoProvider\<close> have the
    handlers, with \<open>Facts\<close> and \<open>Props\<close> theories for each, over \<open>rdp_store\<close> and \<open>mdp_store\<close>.
  \<^item> The start of the program, \<open>cmd/main.go\<close>, and the set-up of the controllers: \<open>Wiring\<close> and
    \<open>WiringProps\<close>, the calls of \<open>main\<close> to the manager as a program over its answers.
  \<^item> All controllers together: \<open>SystemSteps\<close> and \<open>SystemProps\<close>, a transition system whose steps are the
    reconciliations of the controllers \<open>main\<close> builds, and changes of the cluster by others. \<open>Interleaving\<close>
    lets other workers use the databases between any two calls of a reconciliation: the client
    as it is then seen meets the same contract, so what was shown over the contract still holds.

  What the properties show. Credentials once handed out are permanent, in the client over any sequence of
  its methods and in the whole program over any sequence of reconciliations; a reconciliation without error
  provides access with the recorded credentials, adopts a seed, picks a connection of least load, and
  leaves an up-to-date request alone; the finalizer of a deleted request goes last, after the drop; a
  reconciled provider is ready, its gauge tells the outcome, and the next reconciliation changes nothing; no two
  workers reconcile one request at a time and none waits for ever; generated names keep their bounds and
  alphabet; data source names, seeds and secrets can be read back; every metric is written with labels
  that fit and registered once; copies share no memory. The error properties state, of the code as it is,
  where it cannot succeed: requests that are never up to date, deletions and MongoDB drops that never
  complete, types that are never provisioned, a MongoDB controller without a client, a gauge that is
  1 after a failed update.

  Bounds. Loops of the code are structural recursions over their lists, so every program terminates; the
  loads are 64-bit words compared as signed integers, ports are integers of 64 bits where they are
  parsed. The random generator is a source of indices below the bound it is asked for.

  Not modelled. The servers and the libraries are parameters, as said. Log output and contexts are left out.
  A pointer to a connection reference that is compared by address is compared by value; the branch
  only assigns the field again. The API server's laws exclude stale reads of secrets and services
  (\<open>fresh_cluster\<close>) where a property is about their contents; conditions carry no transition times. In
  \<open>SystemSteps\<close> a reconciliation is one step; \<open>Interleaving\<close> refines that for the calls to the databases, not for
  those to the API server. The unsynchronised
  connection cache is a finding, not a part of the model. Methods that nothing calls through their interface
  (\<open>GetConnection\<close> and \<open>GetClient\<close>) are not in the interface records. Flag parsing, log options, the
  scheme and its registration (\<open>groupversion_info.go\<close>, the \<open>init\<close> functions) and the helpers of the
  end-to-end tests are left out: they only call libraries.
\<close>

end
